(* ===== verification/Prelude.thy ===== *)
theory Prelude
  imports Main "HOL-Library.AList" "HOL-Library.Char_ord" "HOL-Library.List_Lexorder"
    "HOL-Library.Product_Lexorder" "HOL-Library.Sublist"
begin

text \<open>
  Shared base of the development: the error values of the Python code, slices of lists
  (\<open>xs[-n:]\<close>, \<open>xs[:-n]\<close>), the association lists that stand for Python dicts (insertion ordered,
  keys unique), and the generic lemmas the component theories use.
\<close>

named_theorems dict_simps \<open>lookup and update laws of insertion-ordered dicts\<close>
named_theorems slice_simps \<open>laws of the list slices xs[-n:] and xs[:n]\<close>
named_theorems bus_simps \<open>unfolding of the message bus operations\<close>
named_theorems store_simps \<open>unfolding of the SQLite store operations\<close>

section \<open>Errors\<close>

text \<open>The exceptions the modelled code raises or catches; a string is the message.\<close>

datatype exn =
    TypeError
  | AttributeError
  | ValueError string
  | KeyError string
  | FileNotFoundError
  | IntegrityError
  | NameError
  | RuntimeError string
  | ValidationError string
  | HTTPException nat string
  | TimeoutError string
  | WaitTimeoutError
  | UnknownValueError
  | RequestError string
  | OtherError string

type_synonym 'a outcome = "exn + 'a"

definition and_then :: "'a outcome \<Rightarrow> ('a \<Rightarrow> 'b outcome) \<Rightarrow> 'b outcome" where
  "and_then r f = (case r of Inl e \<Rightarrow> Inl e | Inr x \<Rightarrow> f x)"

lemma and_then_simps [simp]:
  "and_then (Inl e) f = Inl e" "and_then (Inr x) f = f x"
  by (simp_all add: and_then_def)

lemma and_then_Inr_iff [simp]:
  "and_then r f = Inr y \<longleftrightarrow> (\<exists>x. r = Inr x \<and> f x = Inr y)"
  by (cases r) simp_all

text \<open>Python's \<open>[f(x) for x in xs]\<close> where \<open>f\<close> may raise: the first error wins.\<close>

fun traverse :: "('a \<Rightarrow> 'b outcome) \<Rightarrow> 'a list \<Rightarrow> 'b list outcome" where
  "traverse f [] = Inr []"
| "traverse f (x # xs) = and_then (f x) (\<lambda>y. and_then (traverse f xs) (\<lambda>ys. Inr (y # ys)))"

text \<open>The elements of a list on which a predicate that may raise holds.\<close>

fun filter_out :: "('a \<Rightarrow> bool outcome) \<Rightarrow> 'a list \<Rightarrow> 'a list outcome" where
  "filter_out p [] = Inr []"
| "filter_out p (x # xs) = and_then (p x) (\<lambda>b. and_then (filter_out p xs) (\<lambda>ys. Inr (if b then x # ys else ys)))"

lemma filter_out_Inr:
  "filter_out p xs = Inr ys \<longleftrightarrow> (\<forall>x \<in> set xs. p x = Inr True \<or> p x = Inr False) \<and> ys = filter (\<lambda>x. p x = Inr True) xs"
  by (induction xs arbitrary: ys) (auto split: if_splits)

text \<open>
  An effectful call takes the state and returns its outcome with the state it leaves, also when it
  raises: what was written before an exception stays written.
\<close>

type_synonym ('s, 'a) act = "'s \<Rightarrow> 'a outcome \<times> 's"

definition act_return :: "'a \<Rightarrow> ('s, 'a) act" where
  "act_return x = (\<lambda>s. (Inr x, s))"

definition act_raise :: "exn \<Rightarrow> ('s, 'a) act" where
  "act_raise e = (\<lambda>s. (Inl e, s))"

definition act_bind :: "('s, 'a) act \<Rightarrow> ('a \<Rightarrow> ('s, 'b) act) \<Rightarrow> ('s, 'b) act" where
  "act_bind m f = (\<lambda>s. case m s of (Inl e, s') \<Rightarrow> (Inl e, s') | (Inr x, s') \<Rightarrow> f x s')"

definition act_of :: "'a outcome \<Rightarrow> ('s, 'a) act" where
  "act_of r = (\<lambda>s. (r, s))"

definition act_get :: "('s \<Rightarrow> 'a) \<Rightarrow> ('s, 'a) act" where
  "act_get f = (\<lambda>s. (Inr (f s), s))"

definition act_modify :: "('s \<Rightarrow> 's) \<Rightarrow> ('s, unit) act" where
  "act_modify f = (\<lambda>s. (Inr (), f s))"

text \<open>\<open>try: m except e: h\<close>\<close>

definition act_catch :: "('s, 'a) act \<Rightarrow> (exn \<Rightarrow> ('s, 'a) act) \<Rightarrow> ('s, 'a) act" where
  "act_catch m h = (\<lambda>s. case m s of (Inl e, s') \<Rightarrow> h e s' | (Inr x, s') \<Rightarrow> (Inr x, s'))"

fun act_iter :: "('a \<Rightarrow> ('s, unit) act) \<Rightarrow> 'a list \<Rightarrow> ('s, unit) act" where
  "act_iter f [] = act_return ()"
| "act_iter f (x # xs) = act_bind (f x) (\<lambda>_. act_iter f xs)"

lemma act_simps [simp]:
  "act_return x s = (Inr x, s)" "act_raise e s = (Inl e, s)" "act_of r s = (r, s)"
  "act_get f s = (Inr (f s), s)" "act_modify g s = (Inr (), g s)"
  by (simp_all add: act_return_def act_raise_def act_of_def act_get_def act_modify_def)

lemma act_bind_app: "act_bind m f s = (case m s of (Inl e, s') \<Rightarrow> (Inl e, s') | (Inr x, s') \<Rightarrow> f x s')"
  by (simp add: act_bind_def)

lemma act_bind_simps [simp]:
  "m s = (Inr x, s') \<Longrightarrow> act_bind m f s = f x s'"
  "m s = (Inl e, s') \<Longrightarrow> act_bind m f s = (Inl e, s')"
  by (simp_all add: act_bind_def)

lemma act_bind_Inr:
  "act_bind m f s = (Inr y, t) \<longleftrightarrow> (\<exists>x s'. m s = (Inr x, s') \<and> f x s' = (Inr y, t))"
  by (auto simp: act_bind_def split: prod.split sum.split)

lemma act_catch_simps [simp]:
  "m s = (Inr x, s') \<Longrightarrow> act_catch m h s = (Inr x, s')"
  "m s = (Inl e, s') \<Longrightarrow> act_catch m h s = h e s'"
  by (simp_all add: act_catch_def)

section \<open>Slices\<close>

text \<open>\<open>xs[-n:]\<close> for positive \<open>n\<close>, and \<open>xs[:-n]\<close>.\<close>

definition lastn :: "nat \<Rightarrow> 'a list \<Rightarrow> 'a list" where
  "lastn n xs = drop (length xs - n) xs"

definition butlastn :: "nat \<Rightarrow> 'a list \<Rightarrow> 'a list" where
  "butlastn n xs = take (length xs - n) xs"

lemma length_lastn [simp, slice_simps]: "length (lastn n xs) = min n (length xs)"
  by (simp add: lastn_def min_def)

lemma lastn_id [simp, slice_simps]: "length xs \<le> n \<Longrightarrow> lastn n xs = xs"
  by (simp add: lastn_def)

lemma butlastn_lastn [simp, slice_simps]: "butlastn n xs @ lastn n xs = xs"
  by (simp add: lastn_def butlastn_def)

lemma set_lastn_subset: "set (lastn n xs) \<subseteq> set xs"
  by (simp add: lastn_def set_drop_subset)

lemma lastn_snoc: "0 < n \<Longrightarrow> lastn n (xs @ [x]) = lastn (n - 1) xs @ [x]"
  by (cases n) (auto simp: lastn_def Suc_diff_le)

lemma last_lastn: "xs \<noteq> [] \<Longrightarrow> 0 < n \<Longrightarrow> last (lastn n xs) = last xs"
  by (simp add: lastn_def)

lemma lastn_Nil_iff [simp]: "lastn n xs = [] \<longleftrightarrow> n = 0 \<or> xs = []"
  by (metis length_0_conv length_lastn min_0R min_0L min_def)

section \<open>Dicts\<close>

type_synonym 'v dict = "(string \<times> 'v) list"

abbreviation dget :: "'v dict \<Rightarrow> string \<Rightarrow> 'v option" where
  "dget d k \<equiv> map_of d k"

abbreviation dset :: "string \<Rightarrow> 'v \<Rightarrow> 'v dict \<Rightarrow> 'v dict" where
  "dset \<equiv> AList.update"

text \<open>\<open>d.get(k, x)\<close>\<close>

definition dget_or :: "'v dict \<Rightarrow> string \<Rightarrow> 'v \<Rightarrow> 'v" where
  "dget_or d k x = (case map_of d k of None \<Rightarrow> x | Some v \<Rightarrow> v)"

text \<open>\<open>k in d\<close>\<close>

definition dhas :: "'v dict \<Rightarrow> string \<Rightarrow> bool" where
  "dhas d k = (map_of d k \<noteq> None)"

text \<open>\<open>d.update(e)\<close>: the keys of \<open>e\<close> in order; an existing key keeps its place.\<close>

fun dupdate :: "'v dict \<Rightarrow> 'v dict \<Rightarrow> 'v dict" where
  "dupdate d [] = d"
| "dupdate d ((k, v) # e) = dupdate (dset k v d) e"

text \<open>\<open>d.setdefault(k, x)\<close> (the new dict) and \<open>d.pop(k, None)\<close> (the new dict).\<close>

definition dsetdefault :: "string \<Rightarrow> 'v \<Rightarrow> 'v dict \<Rightarrow> 'v dict" where
  "dsetdefault k x d = (if dhas d k then d else dset k x d)"

definition ddel :: "string \<Rightarrow> 'v dict \<Rightarrow> 'v dict" where
  "ddel k d = filter (\<lambda>p. fst p \<noteq> k) d"

abbreviation dkeys :: "'v dict \<Rightarrow> string list" where
  "dkeys d \<equiv> map fst d"

lemma map_of_dset [simp, dict_simps]:
  "map_of (dset k v d) k' = (if k' = k then Some v else map_of d k')"
  by (simp add: AList.update_conv)

lemma dget_or_dset [simp, dict_simps]:
  "dget_or (dset k v d) k' x = (if k' = k then v else dget_or d k' x)"
  by (simp add: dget_or_def)

lemma dhas_dset [simp, dict_simps]: "dhas (dset k v d) k' \<longleftrightarrow> k' = k \<or> dhas d k'"
  by (simp add: dhas_def)

lemma map_of_ddel [simp, dict_simps]:
  "map_of (ddel k d) k' = (if k' = k then None else map_of d k')"
  by (induction d) (auto simp: ddel_def)

lemma distinct_dset [simp]: "distinct (dkeys d) \<Longrightarrow> distinct (dkeys (dset k v d))"
  by (rule AList.distinct_update)

lemma distinct_dupdate [simp]: "distinct (dkeys d) \<Longrightarrow> distinct (dkeys (dupdate d e))"
  by (induction d e rule: dupdate.induct) simp_all

lemma dset_same: "map_of d k = Some v \<Longrightarrow> dset k v d = d"
  by (rule AList.update_triv)

lemma dkeys_dset: "dkeys (dset k v d) = (if k \<in> set (dkeys d) then dkeys d else dkeys d @ [k])"
  by (rule AList.update_keys)

lemma dhas_iff: "dhas d k \<longleftrightarrow> k \<in> set (dkeys d)"
  by (simp add: dhas_def map_of_eq_None_iff)

lemma dset_append_notin:
  "k \<notin> set (dkeys d) \<Longrightarrow> dset k v (d @ e) = d @ dset k v e"
  by (induction d) auto

lemma dset_Nil_notin: "k \<notin> set (dkeys d) \<Longrightarrow> dset k v d = d @ [(k, v)]"
  using dset_append_notin [of k d v "[]"] by simp

text \<open>Updating a prefix of the keys of \<open>e\<close> with \<open>e\<close> itself gives \<open>e\<close> back.\<close>

lemma dupdate_append_fresh:
  assumes "distinct (dkeys (d @ e))"
  shows "dupdate d e = d @ e"
  using assms
  by (induction d e rule: dupdate.induct) (auto simp: dset_Nil_notin)

lemma dupdate_prefix_self:
  assumes "dkeys d = dkeys e1" "distinct (dkeys (c @ e1 @ e2))"
  shows "dupdate (c @ d) (e1 @ e2) = c @ e1 @ e2"
  using assms
proof (induction e1 arbitrary: c d)
  case Nil
  then show ?case by (simp add: dupdate_append_fresh)
next
  case (Cons p e1)
  obtain k v where p: "p = (k, v)" by (cases p)
  from Cons.prems p obtain w d' where d: "d = (k, w) # d'" and keys: "dkeys d' = dkeys e1"
    by (cases d) auto
  have "k \<notin> set (dkeys c)"
    using Cons.prems(2) p by auto
  then have "dset k v (c @ d) = (c @ [(k, v)]) @ d'"
    by (simp add: d dset_append_notin)
  moreover have "dupdate ((c @ [(k, v)]) @ d') (e1 @ e2) = (c @ [(k, v)]) @ e1 @ e2"
    by (rule Cons.IH) (use Cons.prems p keys in auto)
  ultimately show ?case by (simp add: p)
qed

lemma dupdate_self:
  assumes "dkeys e = dkeys d @ ks" "distinct (dkeys e)"
  shows "dupdate d e = e"
proof -
  let ?n = "length d"
  have "dkeys d = dkeys (take ?n e)"
    using assms(1) by (metis append_eq_conv_conj length_map take_map)
  moreover have "distinct (dkeys ([] @ take ?n e @ drop ?n e))"
    using assms(2) by simp
  ultimately have "dupdate ([] @ d) (take ?n e @ drop ?n e) = [] @ take ?n e @ drop ?n e"
    by (rule dupdate_prefix_self)
  then show ?thesis by simp
qed

lemma dkeys_dupdate_prefix: "\<exists>ks. dkeys (dupdate d e) = dkeys d @ ks"
proof (induction d e rule: dupdate.induct)
  case (2 d k v e)
  then show ?case
    by (metis append.assoc dkeys_dset dupdate.simps(2))
qed simp

section \<open>Generic list facts\<close>

text \<open>A stable sort by a key, Python's \<open>sorted(xs, key=f)\<close>, and its \<open>reverse=True\<close>.\<close>

abbreviation sort_by :: "('a \<Rightarrow> 'k::linorder) \<Rightarrow> 'a list \<Rightarrow> 'a list" where
  "sort_by f xs \<equiv> sort_key f xs"

definition sort_by_desc :: "('a \<Rightarrow> 'k::linorder) \<Rightarrow> 'a list \<Rightarrow> 'a list" where
  "sort_by_desc f xs = rev (sort_key f (rev xs))"

lemma set_sort_by_desc [simp]: "set (sort_by_desc f xs) = set xs"
  by (simp add: sort_by_desc_def)

lemma length_sort_by_desc [simp]: "length (sort_by_desc f xs) = length xs"
  by (simp add: sort_by_desc_def)

text \<open>Replacing the first element that satisfies a predicate.\<close>

fun update_first :: "('a \<Rightarrow> bool) \<Rightarrow> ('a \<Rightarrow> 'a) \<Rightarrow> 'a list \<Rightarrow> 'a list" where
  "update_first p f [] = []"
| "update_first p f (x # xs) = (if p x then f x # xs else x # update_first p f xs)"

lemma length_update_first [simp]: "length (update_first p f xs) = length xs"
  by (induction xs) auto

lemma map_update_first_inv:
  "(\<And>x. p x \<Longrightarrow> g (f x) = g x) \<Longrightarrow> map g (update_first p f xs) = map g xs"
  by (induction xs) auto

lemma find_update_first:
  "List.find p xs = Some x \<Longrightarrow> p (f x) \<Longrightarrow> List.find p (update_first p f xs) = Some (f x)"
  by (induction xs) (auto split: if_splits)

lemma update_first_none: "List.find p xs = None \<Longrightarrow> update_first p f xs = xs"
  by (induction xs) (auto split: if_splits)

lemma set_update_first: "set (update_first p f xs) \<subseteq> set xs \<union> f ` {x \<in> set xs. p x}"
  by (induction xs) auto

section \<open>What a call leaves alone, and what it returns\<close>

text \<open>A call keeps the component \<open>f\<close> of the state; it yields only values with \<open>P\<close>.\<close>

definition keeps :: "('s \<Rightarrow> 'b) \<Rightarrow> ('s, 'a) act \<Rightarrow> bool" where
  "keeps f m \<longleftrightarrow> (\<forall>s. f (snd (m s)) = f s)"

definition yields :: "('a \<Rightarrow> bool) \<Rightarrow> ('s, 'a) act \<Rightarrow> bool" where
  "yields P m \<longleftrightarrow> (\<forall>s x s'. m s = (Inr x, s') \<longrightarrow> P x)"

named_theorems frame_intros \<open>introduction rules for the components a call keeps\<close>
named_theorems yield_intros \<open>introduction rules for the values a call yields\<close>

lemma keepsD: "keeps f m \<Longrightarrow> m s = (r, s') \<Longrightarrow> f s' = f s"
  by (metis keeps_def snd_conv)

lemma keeps_base [frame_intros, simp]:
  "keeps f (act_return x)" "keeps f (act_raise e)" "keeps f (act_of r)" "keeps f (act_get g)"
  by (simp_all add: keeps_def)

lemma keeps_bind [frame_intros]: "keeps f m \<Longrightarrow> (\<And>x. keeps f (k x)) \<Longrightarrow> keeps f (act_bind m k)"
  by (auto simp: keeps_def act_bind_app split: prod.split sum.split) (metis snd_conv)+

lemma keeps_catch [frame_intros]: "keeps f m \<Longrightarrow> (\<And>e. keeps f (h e)) \<Longrightarrow> keeps f (act_catch m h)"
  by (auto simp: keeps_def act_catch_def split: prod.split sum.split) (metis snd_conv)+

lemma keeps_iter [frame_intros]: "(\<And>x. keeps f (k x)) \<Longrightarrow> keeps f (act_iter k xs)"
  by (induction xs) (auto intro: keeps_bind)

lemma keeps_modify: "(\<And>s. f (g s) = f s) \<Longrightarrow> keeps f (act_modify g)"
  by (simp add: keeps_def)

lemma yields_return [yield_intros, simp]: "P x \<Longrightarrow> yields P (act_return x)"
  by (simp add: yields_def)

lemma yields_raise [yield_intros, simp]: "yields P (act_raise e)"
  by (simp add: yields_def)

lemma yields_bind [yield_intros]: "(\<And>x. yields P (k x)) \<Longrightarrow> yields P (act_bind m k)"
  by (auto simp: yields_def act_bind_Inr)

lemma yieldsD: "yields P m \<Longrightarrow> m s = (Inr x, s') \<Longrightarrow> P x"
  by (auto simp: yields_def)

lemma yields_catch [yield_intros]:
  "yields P m \<Longrightarrow> (\<And>e. yields P (h e)) \<Longrightarrow> yields P (act_catch m h)"
  unfolding yields_def act_catch_def by (auto split: prod.splits sum.splits)

lemma keeps_snd: "keeps f m \<Longrightarrow> f (snd (m w)) = f w"
  by (simp add: keeps_def)

text \<open>A call preserves a predicate on the world, whether it returns or raises.\<close>

definition preserves :: "('s \<Rightarrow> bool) \<Rightarrow> ('s, 'a) act \<Rightarrow> bool" where
  "preserves I m \<longleftrightarrow> (\<forall>w. I w \<longrightarrow> I (snd (m w)))"

lemma preservesD: "preserves I m \<Longrightarrow> I w \<Longrightarrow> I (snd (m w))"
  by (simp add: preserves_def)

named_theorems preserve_intros \<open>introduction rules for predicates a call preserves\<close>

lemma preserves_base [preserve_intros]:
  "preserves I (act_return x)" "preserves I (act_raise e)" "preserves I (act_of r)" "preserves I (act_get g)"
  by (simp_all add: preserves_def)

lemma preserves_bind [preserve_intros]:
  "preserves I m \<Longrightarrow> (\<And>x. preserves I (k x)) \<Longrightarrow> preserves I (act_bind m k)"
  by (force simp: preserves_def act_bind_app split: prod.split sum.split)

lemma preserves_catch [preserve_intros]:
  "preserves I m \<Longrightarrow> (\<And>e. preserves I (h e)) \<Longrightarrow> preserves I (act_catch m h)"
  by (force simp: preserves_def act_catch_def split: prod.split sum.split)

lemma keeps_preserves: "keeps f m \<Longrightarrow> (\<And>w w'. f w = f w' \<Longrightarrow> I w = I w') \<Longrightarrow> preserves I m"
  unfolding keeps_def preserves_def by blast

lemma preserves_iter [preserve_intros]: "(\<And>x. x \<in> set xs \<Longrightarrow> preserves I (k x)) \<Longrightarrow> preserves I (act_iter k xs)"
  by (induction xs) (simp_all add: preserves_base preserves_bind)

lemma preserves_modify: "(\<And>s. I s \<Longrightarrow> I (g s)) \<Longrightarrow> preserves I (act_modify g)"
  by (simp add: preserves_def)

end
