(* ===== verification/PyStr.thy ===== *)
theory PyStr
  imports Prelude
begin

text \<open>
  The string methods of the Python standard library that the modelled code calls. A \<open>str\<close> is a
  list of characters, each a code point below 256, so \<open>len\<close> counts code points and
  \<open>lower\<close>, \<open>strip\<close> and \<open>isalnum\<close> are those of Python on that range (Latin-1: no lower-casing
  there leaves the range or changes the length). Comparison of strings is by code point.
\<close>

section \<open>Characters\<close>

definition code :: "char \<Rightarrow> nat" where
  "code c = of_char c"

definition is_space :: "char \<Rightarrow> bool" where
  "is_space c = (let n = code c in (9 \<le> n \<and> n \<le> 13) \<or> (28 \<le> n \<and> n \<le> 32) \<or> n = 133 \<or> n = 160)"

definition is_upper :: "char \<Rightarrow> bool" where
  "is_upper c = (let n = code c in (65 \<le> n \<and> n \<le> 90) \<or> (192 \<le> n \<and> n \<le> 222 \<and> n \<noteq> 215))"

definition lower_char :: "char \<Rightarrow> char" where
  "lower_char c = (if is_upper c then char_of (code c + 32) else c)"

definition is_digit :: "char \<Rightarrow> bool" where
  "is_digit c = (48 \<le> code c \<and> code c \<le> 57)"

definition is_ascii_alnum :: "char \<Rightarrow> bool" where
  "is_ascii_alnum c = (let n = code c in
     (48 \<le> n \<and> n \<le> 57) \<or> (65 \<le> n \<and> n \<le> 90) \<or> (97 \<le> n \<and> n \<le> 122))"

text \<open>\<open>str.isalnum\<close> on one character.\<close>

definition is_alnum :: "char \<Rightarrow> bool" where
  "is_alnum c = (let n = code c in
     is_ascii_alnum c \<or> n \<in> {170, 178, 179, 181, 185, 186, 188, 189, 190} \<or>
     (192 \<le> n \<and> n \<noteq> 215 \<and> n \<noteq> 247))"

definition digit_val :: "char \<Rightarrow> nat" where
  "digit_val c = code c - 48"

definition digit_char :: "nat \<Rightarrow> char" where
  "digit_char d = char_of (d + 48)"

lemma code_lt [simp]: "code c < 256"
  by (simp add: code_def of_char_def)

lemma code_char_of [simp]: "n < 256 \<Longrightarrow> code (char_of n) = n"
  by (simp add: code_def)

lemma is_upper_lower_char [simp]: "\<not> is_upper (lower_char c)"
proof (cases "is_upper c")
  case True
  then have "code c + 32 < 256"
    by (auto simp: is_upper_def Let_def)
  with True show ?thesis
    by (auto simp: lower_char_def is_upper_def Let_def)
qed (simp add: lower_char_def)

lemma lower_char_idem [simp]: "lower_char (lower_char c) = lower_char c"
  using is_upper_lower_char [of c] by (simp add: lower_char_def)

lemma is_space_lower_char [simp]: "is_space (lower_char c) = is_space c"
proof (cases "is_upper c")
  case True
  then have "code c + 32 < 256"
    by (auto simp: is_upper_def Let_def)
  with True show ?thesis
    by (auto simp: lower_char_def is_upper_def is_space_def Let_def)
qed (simp add: lower_char_def)

section \<open>lower, strip\<close>

definition lower :: "string \<Rightarrow> string" where
  "lower s = map lower_char s"

definition rstrip_by :: "(char \<Rightarrow> bool) \<Rightarrow> string \<Rightarrow> string" where
  "rstrip_by p s = rev (dropWhile p (rev s))"

definition strip_by :: "(char \<Rightarrow> bool) \<Rightarrow> string \<Rightarrow> string" where
  "strip_by p s = rstrip_by p (dropWhile p s)"

definition strip :: "string \<Rightarrow> string" where
  "strip s = strip_by is_space s"

lemma length_lower [simp]: "length (lower s) = length s"
  by (simp add: lower_def)

lemma lower_Nil [simp]: "lower [] = []"
  by (simp add: lower_def)

lemma lower_Nil_iff [simp]: "lower s = [] \<longleftrightarrow> s = []"
  by (simp add: lower_def)

lemma lower_append [simp]: "lower (s @ t) = lower s @ lower t"
  by (simp add: lower_def)

lemma lower_idem [simp]: "lower (lower s) = lower s"
  by (simp add: lower_def)

lemma rstrip_by_Nil [simp]: "rstrip_by p [] = []"
  by (simp add: rstrip_by_def)

lemma strip_by_Nil [simp]: "strip_by p [] = []"
  by (simp add: strip_by_def)

lemma strip_Nil [simp]: "strip [] = []"
  by (simp add: strip_def)

lemma rstrip_by_last: "rstrip_by p s \<noteq> [] \<Longrightarrow> \<not> p (last (rstrip_by p s))"
  unfolding rstrip_by_def
  by (metis hd_dropWhile last_rev rev.simps(1) rev_rev_ident)

lemma rstrip_by_fix: "s = [] \<or> \<not> p (last s) \<Longrightarrow> rstrip_by p s = s"
  unfolding rstrip_by_def by (cases s rule: rev_cases) auto

lemma rstrip_by_idem [simp]: "rstrip_by p (rstrip_by p s) = rstrip_by p s"
  by (rule rstrip_by_fix) (metis rstrip_by_last)

lemma rstrip_by_decomp: "\<exists>t. s = rstrip_by p s @ t \<and> list_all p t"
proof
  let ?t = "rev (takeWhile p (rev s))"
  have "rev s = takeWhile p (rev s) @ dropWhile p (rev s)" by simp
  then have "s = rev (dropWhile p (rev s)) @ ?t"
    by (metis rev_append rev_rev_ident)
  then show "s = rstrip_by p s @ ?t \<and> list_all p ?t"
    by (auto simp: rstrip_by_def list_all_iff dest: set_takeWhileD)
qed

lemma strip_by_hd_last:
  "strip_by p s = [] \<or> (\<not> p (hd (strip_by p s)) \<and> \<not> p (last (strip_by p s)))"
proof (cases "strip_by p s = []")
  case False
  let ?d = "dropWhile p s"
  obtain t where t: "?d = rstrip_by p ?d @ t" using rstrip_by_decomp by blast
  from False have ne: "rstrip_by p ?d \<noteq> []" by (simp add: strip_by_def)
  then have "hd ?d = hd (rstrip_by p ?d)" by (subst t) simp
  moreover have "?d \<noteq> []" using ne by (metis rstrip_by_Nil)
  ultimately show ?thesis
    using hd_dropWhile [of p s] rstrip_by_last [OF ne] by (simp add: strip_by_def)
qed simp

lemma strip_by_fix:
  assumes "s = [] \<or> (\<not> p (hd s) \<and> \<not> p (last s))"
  shows "strip_by p s = s"
proof (cases s)
  case (Cons a x)
  with assms have "dropWhile p s = s" by simp
  moreover from assms have "rstrip_by p s = s" by (intro rstrip_by_fix) blast
  ultimately show ?thesis by (simp add: strip_by_def)
qed simp

lemma strip_by_idem [simp]: "strip_by p (strip_by p s) = strip_by p s"
  by (rule strip_by_fix) (rule strip_by_hd_last)

lemma strip_idem [simp]: "strip (strip s) = strip s"
  by (simp add: strip_def)

lemma strip_hd: "strip s \<noteq> [] \<Longrightarrow> \<not> is_space (hd (strip s))"
  using strip_by_hd_last [of is_space s] by (auto simp: strip_def)

lemma strip_last: "strip s \<noteq> [] \<Longrightarrow> \<not> is_space (last (strip s))"
  using strip_by_hd_last [of is_space s] by (auto simp: strip_def)

lemma strip_fix: "s = [] \<or> (\<not> is_space (hd s) \<and> \<not> is_space (last s)) \<Longrightarrow> strip s = s"
  by (simp add: strip_def strip_by_fix)

lemma strip_by_map:
  "(\<And>c. p (f c) = p c) \<Longrightarrow> strip_by p (map f s) = map f (strip_by p s)"
  by (simp add: strip_by_def rstrip_by_def dropWhile_map rev_map comp_def)

lemma strip_lower: "strip (lower s) = lower (strip s)"
  by (simp add: strip_def lower_def strip_by_map)

text \<open>The same tests on the bits of a character, for evaluation.\<close>

lemma is_upper_bits [code]:
  "is_upper (Char b0 b1 b2 b3 b4 b5 b6 b7) \<longleftrightarrow> b6 \<and> \<not> b5 \<and>
     (if b7 then \<not> (b0 \<and> b1 \<and> b2 \<and> b4)
      else (b0 \<or> b1 \<or> b2 \<or> b3 \<or> b4) \<and> \<not> (b4 \<and> b3 \<and> (b2 \<or> b1 \<and> b0)))"
  by (cases b0; cases b1; cases b2; cases b3; cases b4; cases b5; cases b6; cases b7)
    (simp_all add: is_upper_def code_def of_char_def Let_def)

lemma is_space_bits [code]:
  "is_space (Char b0 b1 b2 b3 b4 b5 b6 b7) \<longleftrightarrow> \<not> b6 \<and>
     (if b7 then \<not> b4 \<and> \<not> b3 \<and> \<not> b1 \<and> (if b5 then \<not> b2 \<and> \<not> b0 else b2 \<and> b0)
      else if b5 then \<not> (b4 \<or> b3 \<or> b2 \<or> b1 \<or> b0)
      else b3 \<and> (if b4 then b2 else (if b2 then \<not> b1 else b1 \<or> b0)))"
  by (cases b0; cases b1; cases b2; cases b3; cases b4; cases b5; cases b6; cases b7)
    (simp_all add: is_space_def code_def of_char_def Let_def)

lemma lower_char_bits [code]:
  "lower_char (Char b0 b1 b2 b3 b4 b5 b6 b7) =
     (if is_upper (Char b0 b1 b2 b3 b4 b5 b6 b7) then Char b0 b1 b2 b3 b4 True b6 b7
      else Char b0 b1 b2 b3 b4 b5 b6 b7)"
  by (cases b0; cases b1; cases b2; cases b3; cases b4; cases b5; cases b6; cases b7)
    (simp_all add: lower_char_def is_upper_bits code_def of_char_def char_of_def bit_0)
section \<open>startswith, in, partition, split, replace, join\<close>

definition startswith :: "string \<Rightarrow> string \<Rightarrow> bool" where
  "startswith s p = (take (length p) s = p)"

definition endswith :: "string \<Rightarrow> string \<Rightarrow> bool" where
  "endswith s p = (length p \<le> length s \<and> drop (length s - length p) s = p)"

text \<open>\<open>p in s\<close>\<close>

fun contains :: "string \<Rightarrow> string \<Rightarrow> bool" where
  "contains p [] = (p = [])"
| "contains p (c # s) = (startswith (c # s) p \<or> contains p s)"

text \<open>\<open>s.partition(sep)\<close>: \<open>None\<close> when the separator does not occur.\<close>

fun partition_at :: "string \<Rightarrow> string \<Rightarrow> (string \<times> string) option" where
  "partition_at sep [] = (if sep = [] then Some ([], []) else None)"
| "partition_at sep (c # s) =
     (if startswith (c # s) sep then Some ([], drop (length sep) (c # s))
      else map_option (\<lambda>(a, b). (c # a, b)) (partition_at sep s))"

text \<open>\<open>s.rpartition(sep)\<close>: the last occurrence.\<close>

definition rpartition_at :: "string \<Rightarrow> string \<Rightarrow> (string \<times> string) option" where
  "rpartition_at sep s =
     map_option (\<lambda>(a, b). (rev b, rev a)) (partition_at (rev sep) (rev s))"

text \<open>\<open>s.split()\<close>: maximal runs of non-space characters.\<close>

fun split_ws_aux :: "string \<Rightarrow> string \<Rightarrow> string list" where
  "split_ws_aux w [] = (if w = [] then [] else [rev w])"
| "split_ws_aux w (c # s) =
     (if is_space c then (if w = [] then split_ws_aux [] s else rev w # split_ws_aux [] s)
      else split_ws_aux (c # w) s)"

definition split_ws :: "string \<Rightarrow> string list" where
  "split_ws s = split_ws_aux [] s"

text \<open>\<open>s.split(c)\<close> for a one-character separator.\<close>

fun split_char :: "char \<Rightarrow> string \<Rightarrow> string list" where
  "split_char c [] = [[]]"
| "split_char c (x # s) =
     (if x = c then [] # split_char c s
      else (case split_char c s of [] \<Rightarrow> [[x]] | w # ws \<Rightarrow> (x # w) # ws))"

text \<open>\<open>s.replace(old, new)\<close> for a non-empty \<open>old\<close>; the fuel is the length of the string.\<close>

fun replace_fuel :: "nat \<Rightarrow> string \<Rightarrow> string \<Rightarrow> string \<Rightarrow> string" where
  "replace_fuel 0 old new s = s"
| "replace_fuel (Suc n) old new [] = []"
| "replace_fuel (Suc n) old new (c # s) =
     (if startswith (c # s) old then new @ replace_fuel n old new (drop (length old) (c # s))
      else c # replace_fuel n old new s)"

definition replace :: "string \<Rightarrow> string \<Rightarrow> string \<Rightarrow> string" where
  "replace old new s = replace_fuel (length s) old new s"

text \<open>\<open>sep.join(xs)\<close>\<close>

fun join :: "string \<Rightarrow> string list \<Rightarrow> string" where
  "join sep [] = []"
| "join sep [x] = x"
| "join sep (x # y # xs) = x @ sep @ join sep (y # xs)"

lemma startswith_iff: "startswith s p \<longleftrightarrow> (\<exists>t. s = p @ t)"
  by (metis append_eq_conv_conj append_take_drop_id startswith_def)

lemma startswith_append [simp]: "startswith (p @ s) p"
  by (simp add: startswith_def)

lemma startswith_Nil [simp]: "startswith s []"
  by (simp add: startswith_def)

lemma endswith_iff: "endswith s p \<longleftrightarrow> (\<exists>t. s = t @ p)"
  by (auto simp: endswith_def) (metis append_take_drop_id)

lemma split_ws_aux_words:
  "w' \<in> set (split_ws_aux w s) \<Longrightarrow> w' \<noteq> []"
  by (induction s arbitrary: w) (auto split: if_splits)

lemma split_ws_nonempty: "w \<in> set (split_ws s) \<Longrightarrow> w \<noteq> []"
  unfolding split_ws_def by (rule split_ws_aux_words)

lemma split_ws_aux_no_space:
  "w' \<in> set (split_ws_aux w s) \<Longrightarrow> c \<in> set w' \<Longrightarrow> \<forall>d \<in> set w. \<not> is_space d \<Longrightarrow> \<not> is_space c"
  by (induction s arbitrary: w) (fastforce split: if_splits)+

lemma split_ws_no_space: "w \<in> set (split_ws s) \<Longrightarrow> c \<in> set w \<Longrightarrow> \<not> is_space c"
  using split_ws_aux_no_space [of w "[]" s c] by (simp add: split_ws_def)

lemma partition_at_Some:
  "partition_at sep s = Some (a, b) \<Longrightarrow> s = a @ sep @ b"
  by (induction sep s arbitrary: a b rule: partition_at.induct)
    (auto simp: startswith_def split: if_splits option.splits, metis append_take_drop_id)

section \<open>Decimal integers: str(int) and int(str)\<close>

function show_digits :: "int \<Rightarrow> string" where
  "show_digits n =
     (if n < 10 then [digit_char (nat n)] else show_digits (n div 10) @ [digit_char (nat (n mod 10))])"
  by pat_completeness auto
termination by (relation "measure nat") auto

declare show_digits.simps [simp del]

definition show_int :: "int \<Rightarrow> string" where
  "show_int i = (if i < 0 then ''-'' @ show_digits (- i) else show_digits i)"

definition show_nat :: "nat \<Rightarrow> string" where
  "show_nat n = show_int (int n)"

definition dec_value :: "string \<Rightarrow> int" where
  "dec_value s = foldl (\<lambda>n c. 10 * n + int (digit_val c)) 0 s"

text \<open>
  The digits of \<open>int(s)\<close>: at least one, single underscores allowed between digits.
\<close>

fun int_digits :: "string \<Rightarrow> string option" where
  "int_digits [] = None"
| "int_digits [c] = (if is_digit c then Some [c] else None)"
| "int_digits (c # d # s) =
     (if \<not> is_digit c then None
      else if code d = 95 then map_option ((#) c) (int_digits s)
      else map_option ((#) c) (int_digits (d # s)))"

definition int_of_str :: "string \<Rightarrow> int option" where
  "int_of_str s =
     (case strip s of
        [] \<Rightarrow> None
      | c # t \<Rightarrow>
          if code c = 45 then map_option (\<lambda>d. - dec_value d) (int_digits t)
          else if code c = 43 then map_option dec_value (int_digits t)
          else map_option dec_value (int_digits (c # t)))"

lemma is_digit_digit_char [simp]: "d < 10 \<Longrightarrow> is_digit (digit_char d)"
  by (simp add: is_digit_def digit_char_def)

lemma digit_val_digit_char [simp]: "d < 10 \<Longrightarrow> digit_val (digit_char d) = d"
  by (simp add: digit_val_def digit_char_def)

lemma is_digit_not_space: "is_digit c \<Longrightarrow> \<not> is_space c"
  by (auto simp: is_digit_def is_space_def Let_def)

lemma dec_value_snoc [simp]:
  "dec_value (s @ [c]) = 10 * dec_value s + int (digit_val c)"
  by (simp add: dec_value_def)

lemma dec_value_Nil [simp]: "dec_value [] = 0"
  by (simp add: dec_value_def)

lemma dec_value_single [simp]: "dec_value [c] = int (digit_val c)"
  by (simp add: dec_value_def)

lemma dec_value_show_digits [simp]: "0 \<le> n \<Longrightarrow> dec_value (show_digits n) = n"
proof (induction n rule: show_digits.induct)
  case (1 n)
  then show ?case
    by (subst show_digits.simps) (auto simp: nat_less_iff)
qed

lemma show_digits_digits: "list_all is_digit (show_digits n)"
proof (induction n rule: show_digits.induct)
  case (1 n)
  then show ?case
    by (subst show_digits.simps) (auto simp: nat_less_iff)
qed

lemma show_digits_nonempty [simp]: "show_digits n \<noteq> []"
  by (subst show_digits.simps) simp

lemma show_int_nonempty [simp]: "show_int i \<noteq> []"
  by (simp add: show_int_def)

lemma int_digits_all: "s \<noteq> [] \<Longrightarrow> list_all is_digit s \<Longrightarrow> int_digits s = Some s"
proof (induction s rule: int_digits.induct)
  case (3 c d s)
  then have "code d \<noteq> 95" by (auto simp: is_digit_def)
  with 3 show ?case by auto
qed auto

lemma digits_strip: "list_all is_digit s \<Longrightarrow> strip s = s"
  by (rule strip_fix) (cases s, auto simp: list_all_iff dest: is_digit_not_space)

text \<open>Round trip: \<open>int(str(i)) = i\<close>.\<close>

lemma int_of_str_show_int: "int_of_str (show_int i) = Some i"
proof -
  have digits: "int_digits (show_digits n) = Some (show_digits n)" for n
    by (simp add: int_digits_all show_digits_digits)
  have last_digit: "\<not> is_space (last (show_digits n))" for n
    using show_digits_digits [of n] by (auto simp: list_all_iff dest: is_digit_not_space)
  show ?thesis
  proof (cases "i < 0")
    case True
    have "strip (''-'' @ show_digits (- i)) = ''-'' @ show_digits (- i)"
      by (rule strip_fix) (use last_digit in \<open>simp add: is_space_def code_def\<close>)
    with True digits show ?thesis
      by (simp add: int_of_str_def show_int_def code_def)
  next
    case False
    obtain c t where ct: "show_digits i = c # t"
      using show_digits_nonempty [of i] by (cases "show_digits i") auto
    with show_digits_digits [of i] have "is_digit c" by simp
    then have "code c \<noteq> 45" "code c \<noteq> 43" by (auto simp: is_digit_def)
    moreover have "dec_value (c # t) = i"
      using dec_value_show_digits [of i] False ct by simp
    moreover have "strip (c # t) = c # t"
      using digits_strip [of "c # t"] show_digits_digits [of i] ct by simp
    ultimately show ?thesis
      using False digits [of i] ct by (simp add: int_of_str_def show_int_def)
  qed
qed

end
