(* ===== verification/PyValue.thy ===== *)
theory PyValue
  imports PyStr
begin

text \<open>
  The dynamically typed values the code passes around: what \<open>json.loads\<close> returns and what the
  request payloads hold. \<open>JDec m e\<close> is the float whose shortest decimal form is
  \<open>m * 10^-e\<close> with \<open>1 \<le> e\<close>, i.e. a float that \<open>repr\<close> prints without an exponent; the special
  floats and those printed with an exponent are outside the model. \<open>JObj\<close> is a dict in insertion
  order. The operations are the built-ins the code applies to such values: truth testing,
  \<open>str\<close>, \<open>repr\<close>, \<open>int\<close> and \<open>==\<close>.
\<close>

datatype json =
    JNull
  | JBool bool
  | JInt int
  | JDec int nat
  | JStr string
  | JArr "json list"
  | JObj "(string \<times> json) list"

type_synonym obj = "json dict"

section \<open>Type tests and truth\<close>

fun is_str :: "json \<Rightarrow> bool" where
  "is_str (JStr s) = True" | "is_str _ = False"

fun is_obj :: "json \<Rightarrow> bool" where
  "is_obj (JObj d) = True" | "is_obj _ = False"

fun is_arr :: "json \<Rightarrow> bool" where
  "is_arr (JArr xs) = True" | "is_arr _ = False"

text \<open>\<open>isinstance(x, int)\<close> holds of bools too; \<open>isinstance(x, (int, float))\<close> likewise.\<close>

fun is_int :: "json \<Rightarrow> bool" where
  "is_int (JInt i) = True" | "is_int (JBool b) = True" | "is_int _ = False"

fun is_num :: "json \<Rightarrow> bool" where
  "is_num (JDec m e) = True" | "is_num x = is_int x"

fun truthy :: "json \<Rightarrow> bool" where
  "truthy JNull = False"
| "truthy (JBool b) = b"
| "truthy (JInt i) = (i \<noteq> 0)"
| "truthy (JDec m e) = (m \<noteq> 0)"
| "truthy (JStr s) = (s \<noteq> [])"
| "truthy (JArr xs) = (xs \<noteq> [])"
| "truthy (JObj d) = (d \<noteq> [])"

text \<open>\<open>a or b\<close>\<close>

definition py_or :: "json \<Rightarrow> json \<Rightarrow> json" where
  "py_or a b = (if truthy a then a else b)"

text \<open>\<open>d.get(k)\<close>: None for a missing key.\<close>

abbreviation jget :: "obj \<Rightarrow> string \<Rightarrow> json" where
  "jget d k \<equiv> dget_or d k JNull"

section \<open>Printing: str and repr\<close>

definition hex_digit :: "nat \<Rightarrow> char" where
  "hex_digit n = (if n < 10 then digit_char n else char_of (n + 87))"

definition printable :: "char \<Rightarrow> bool" where
  "printable c = (let n = code c in 32 \<le> n \<and> \<not> (127 \<le> n \<and> n \<le> 160) \<and> n \<noteq> 173)"

definition repr_char :: "nat \<Rightarrow> char \<Rightarrow> string" where
  "repr_char q c =
     (let n = code c in
      if n = 92 then [c, c]
      else if n = q then [char_of (92::nat), c]
      else if n = 10 then [char_of (92::nat), CHR ''n'']
      else if n = 13 then [char_of (92::nat), CHR ''r'']
      else if n = 9 then [char_of (92::nat), CHR ''t'']
      else if printable c then [c]
      else [char_of (92::nat), CHR ''x'', hex_digit (n div 16), hex_digit (n mod 16)])"

definition repr_str :: "string \<Rightarrow> string" where
  "repr_str s =
     (let q = (if char_of (39::nat) \<in> set s \<and> char_of (34::nat) \<notin> set s then 34 else 39)
      in char_of q # concat (map (repr_char q) s) @ [char_of q])"

definition show_dec :: "int \<Rightarrow> nat \<Rightarrow> string" where
  "show_dec m e =
     (let ds = show_digits \<bar>m\<bar>;
          ds' = replicate (Suc e - length ds) (CHR ''0'') @ ds;
          k = length ds' - e
      in (if m < 0 then ''-'' else []) @ take k ds' @ ''.'' @ drop k ds')"

fun py_repr :: "json \<Rightarrow> string" where
  "py_repr JNull = ''None''"
| "py_repr (JBool b) = (if b then ''True'' else ''False'')"
| "py_repr (JInt i) = show_int i"
| "py_repr (JDec m e) = show_dec m e"
| "py_repr (JStr s) = repr_str s"
| "py_repr (JArr xs) = ''['' @ join '', '' (map py_repr xs) @ '']''"
| "py_repr (JObj d) =
     ''{'' @ join '', '' (map (\<lambda>p. repr_str (fst p) @ '': '' @ py_repr (snd p)) d) @ ''}''"

fun py_str :: "json \<Rightarrow> string" where
  "py_str (JStr s) = s"
| "py_str x = py_repr x"

text \<open>\<open>str(x).strip()\<close> and \<open>str(x).strip().lower()\<close>, the coercions used all over the code.\<close>

definition str_strip :: "json \<Rightarrow> string" where
  "str_strip x = strip (py_str x)"

definition str_strip_lower :: "json \<Rightarrow> string" where
  "str_strip_lower x = lower (strip (py_str x))"

section \<open>Numbers\<close>

text \<open>\<open>int(x)\<close>: truncation for floats; TypeError and ValueError as Python raises them.\<close>

fun py_int :: "json \<Rightarrow> int outcome" where
  "py_int (JBool b) = Inr (if b then 1 else 0)"
| "py_int (JInt i) = Inr i"
| "py_int (JDec m e) = Inr (sgn m * (\<bar>m\<bar> div 10 ^ e))"
| "py_int (JStr s) =
     (case int_of_str s of
        None \<Rightarrow> Inl (ValueError (''invalid literal for int() with base 10: '' @ repr_str s))
      | Some i \<Rightarrow> Inr i)"
| "py_int JNull = Inl TypeError"
| "py_int (JArr _) = Inl TypeError"
| "py_int (JObj _) = Inl TypeError"

text \<open>\<open>except (TypeError, ValueError)\<close> around \<open>int(x)\<close>.\<close>

definition int_or :: "json \<Rightarrow> int \<Rightarrow> int" where
  "int_or x d = (case py_int x of Inl _ \<Rightarrow> d | Inr i \<Rightarrow> i)"

text \<open>A number as numerator and decimal exponent, for comparisons across int and float.\<close>

fun num_parts :: "json \<Rightarrow> (int \<times> nat) option" where
  "num_parts (JBool b) = Some (if b then 1 else 0, 0)"
| "num_parts (JInt i) = Some (i, 0)"
| "num_parts (JDec m e) = Some (m, e)"
| "num_parts _ = None"

text \<open>\<open>a < b\<close> on numbers; comparing other types raises TypeError.\<close>

definition num_less :: "json \<Rightarrow> json \<Rightarrow> bool outcome" where
  "num_less a b =
     (case (num_parts a, num_parts b) of
        (Some (m, e), Some (n, f)) \<Rightarrow> Inr (m * 10 ^ f < n * 10 ^ e)
      | _ \<Rightarrow> Inl TypeError)"

section \<open>Equality\<close>

definition num_eq :: "json \<Rightarrow> json \<Rightarrow> bool" where
  "num_eq a b =
     (case (num_parts a, num_parts b) of
        (Some (m, e), Some (n, f)) \<Rightarrow> m * 10 ^ f = n * 10 ^ e
      | _ \<Rightarrow> False)"

text \<open>\<open>a == b\<close>: numbers by value (\<open>True == 1 == 1.0\<close>), dicts regardless of order.\<close>

function py_eq :: "json \<Rightarrow> json \<Rightarrow> bool" where
  "py_eq JNull b = (b = JNull)"
| "py_eq (JStr s) b = (b = JStr s)"
| "py_eq (JArr xs) b =
     (case b of
        JArr ys \<Rightarrow> length xs = length ys \<and> list_all (\<lambda>p. py_eq (fst p) (snd p)) (zip xs ys)
      | _ \<Rightarrow> False)"
| "py_eq (JObj d) b =
     (case b of
        JObj e \<Rightarrow> length d = length e \<and>
          list_all (\<lambda>p. case map_of e (fst p) of None \<Rightarrow> False | Some y \<Rightarrow> py_eq (snd p) y) d
      | _ \<Rightarrow> False)"
| "py_eq (JBool a) b = num_eq (JBool a) b"
| "py_eq (JInt i) b = num_eq (JInt i) b"
| "py_eq (JDec m e) b = num_eq (JDec m e) b"
  by pat_completeness auto
termination
proof (relation "measure (\<lambda>p. size (fst p))", goal_cases)
  case (2 xs b ys p)
  then have "fst p \<in> set xs" by (metis prod.collapse set_zip_leftD)
  then show ?case by (simp add: size_list_estimation less_Suc_eq_le size_list_estimation')
next
  case (3 d b e p y)
  have "size (snd p) < size_prod (\<lambda>x. 0) size p" by (cases p) simp
  with 3 have "size (snd p) < size_list (size_prod (\<lambda>x. 0) size) d"
    by (simp add: size_list_estimation)
  then show ?case by simp
qed simp

section \<open>Lemmas\<close>

lemma py_or_truthy [simp]: "truthy a \<Longrightarrow> py_or a b = a"
  by (simp add: py_or_def)

lemma py_str_py_or_fix: "s \<noteq> [] \<Longrightarrow> py_str (py_or (JStr s) x) = s"
  by (simp add: py_or_def)

lemma str_strip_JStr [simp]: "str_strip (JStr s) = strip s"
  by (simp add: str_strip_def)

lemma str_strip_lower_JStr [simp]: "str_strip_lower (JStr s) = lower (strip s)"
  by (simp add: str_strip_lower_def)

lemma strip_str_strip [simp]: "strip (str_strip x) = str_strip x"
  by (simp add: str_strip_def)

lemma strip_str_strip_lower [simp]: "strip (str_strip_lower x) = str_strip_lower x"
  by (simp add: str_strip_lower_def strip_lower)

lemma lower_str_strip_lower [simp]: "lower (str_strip_lower x) = str_strip_lower x"
  by (simp add: str_strip_lower_def)

lemma repr_str_nonempty [simp]: "repr_str s \<noteq> []"
  by (simp add: repr_str_def Let_def)

lemma show_dec_nonempty [simp]: "show_dec m e \<noteq> []"
  by (simp add: show_dec_def Let_def)

lemma py_repr_nonempty [simp]: "py_repr x \<noteq> []"
  by (cases x) auto

text \<open>Only the empty string prints as the empty string, and a truthy value never does.\<close>

lemma py_str_Nil_iff: "py_str x = [] \<longleftrightarrow> x = JStr []"
  by (cases x) (simp_all del: py_repr.simps)

lemma truthy_py_str [simp]: "truthy x \<Longrightarrow> py_str x \<noteq> []"
  by (auto simp: py_str_Nil_iff)

lemma num_less_int [simp]: "num_less (JInt a) (JInt b) = Inr (a < b)"
  by (simp add: num_less_def)

text \<open>\<open>str(x or default)\<close> with a non-empty default is a non-empty string, and a fixed point.\<close>

definition str_or :: "json \<Rightarrow> string \<Rightarrow> string" where
  "str_or x d = py_str (py_or x (JStr d))"

lemma str_or_nonempty [simp]: "d \<noteq> [] \<Longrightarrow> str_or x d \<noteq> []"
  by (simp add: str_or_def py_or_def)

lemma str_or_JStr [simp]: "str_or (JStr s) d = (if s = [] then d else s)"
  by (simp add: str_or_def py_or_def)

lemma str_or_idem [simp]: "str_or (JStr (str_or x d)) d = str_or x d"
  by (auto simp: str_or_def py_or_def)

lemma str_or_Nil_idem [simp]: "str_or (JStr (str_or x [])) [] = str_or x []"
  by (rule str_or_idem)

text \<open>\<open>len(x)\<close>, iterating over \<open>x\<close> as a list of dicts, and \<open>x in {...}\<close> for a set of strings.\<close>

fun py_len :: "json \<Rightarrow> nat outcome" where
  "py_len (JStr s) = Inr (length s)"
| "py_len (JArr xs) = Inr (length xs)"
| "py_len (JObj d) = Inr (length d)"
| "py_len _ = Inl TypeError"

fun as_obj :: "json \<Rightarrow> obj outcome" where
  "as_obj (JObj d) = Inr d"
| "as_obj _ = Inl AttributeError"

fun as_objs :: "json \<Rightarrow> obj list outcome" where
  "as_objs (JArr xs) = traverse as_obj xs"
| "as_objs (JStr []) = Inr []"
| "as_objs (JObj []) = Inr []"
| "as_objs (JStr _) = Inl AttributeError"
| "as_objs (JObj _) = Inl AttributeError"
| "as_objs _ = Inl TypeError"

fun in_str_set :: "string list \<Rightarrow> json \<Rightarrow> bool outcome" where
  "in_str_set ss (JStr s) = Inr (s \<in> set ss)"
| "in_str_set ss (JArr _) = Inl TypeError"
| "in_str_set ss (JObj _) = Inl TypeError"
| "in_str_set ss _ = Inr False"

lemma traverse_as_obj [simp]: "traverse as_obj (map JObj ds) = Inr ds"
  by (induction ds) simp_all

end
