(* ===== verification/PyJson.thy ===== *)
theory PyJson
  imports PyValue
begin

text \<open>
  \<open>json.loads\<close> on a string: a recursive-descent parser of JSON as Python's decoder reads it
  (later duplicate keys win, control characters inside strings are errors). Each parser returns
  the value and the unread rest. The fuel is the length of the text plus one; every recursive call
  has consumed at least one character, so running out of fuel does not happen on a parse that
  succeeds. Escapes above code point 255, and the non-JSON \<open>NaN\<close> and \<open>Infinity\<close>, are not read.
\<close>

definition skip_ws :: "string \<Rightarrow> string" where
  "skip_ws s = dropWhile (\<lambda>c. code c \<in> {32, 9, 10, 13}) s"

definition hex_val :: "char \<Rightarrow> nat option" where
  "hex_val c = (let n = code c in
     if 48 \<le> n \<and> n \<le> 57 then Some (n - 48)
     else if 97 \<le> n \<and> n \<le> 102 then Some (n - 87)
     else if 65 \<le> n \<and> n \<le> 70 then Some (n - 55) else None)"

text \<open>The character after a backslash, for the one-character escapes.\<close>

definition simple_escape :: "char \<Rightarrow> char option" where
  "simple_escape c = (let n = code c in
     if n = 34 \<or> n = 92 \<or> n = 47 then Some c
     else if n = 98 then Some (char_of (8::nat)) else if n = 102 then Some (char_of (12::nat))
     else if n = 110 then Some (char_of (10::nat)) else if n = 114 then Some (char_of (13::nat))
     else if n = 116 then Some (char_of (9::nat)) else None)"

text \<open>The body of a string, after the opening quote.\<close>

function parse_chars :: "string \<Rightarrow> (string \<times> string) option" where
  "parse_chars [] = None"
| "parse_chars (c # s) =
     (if code c = 34 then Some ([], s)
      else if code c = 92 then
        (case s of
           [] \<Rightarrow> None
         | e # t \<Rightarrow>
             if code e = 117 then
               (case t of
                  a # b # x # y # r \<Rightarrow>
                    (case (hex_val a, hex_val b, hex_val x, hex_val y) of
                       (Some 0, Some 0, Some u, Some v) \<Rightarrow>
                         map_option (\<lambda>(cs, q). (char_of (16 * u + v) # cs, q)) (parse_chars r)
                     | _ \<Rightarrow> None)
                | _ \<Rightarrow> None)
             else (case simple_escape e of
                     None \<Rightarrow> None
                   | Some k \<Rightarrow> map_option (\<lambda>(cs, q). (k # cs, q)) (parse_chars t)))
      else if code c < 32 then None
      else map_option (\<lambda>(cs, q). (c # cs, q)) (parse_chars s))"
  by pat_completeness auto
termination by (relation "measure length") auto

definition span_digits :: "string \<Rightarrow> string \<times> string" where
  "span_digits s = (takeWhile is_digit s, dropWhile is_digit s)"

text \<open>A float as the model keeps it: at least one fractional digit, no trailing zeros after it.\<close>

fun norm_dec :: "nat \<Rightarrow> int \<Rightarrow> nat \<Rightarrow> json" where
  "norm_dec 0 m e = JDec m e"
| "norm_dec (Suc k) m e =
     (if e = 0 then JDec (m * 10) 1
      else if 1 < e \<and> m mod 10 = 0 then norm_dec k (m div 10) (e - 1) else JDec m e)"

text \<open>\<open>-?(0|[1-9][0-9]*)(\.[0-9]+)?([eE][+-]?[0-9]+)?\<close>\<close>

definition parse_exponent :: "string \<Rightarrow> (int \<times> string) option" where
  "parse_exponent s =
     (case s of
        c # t \<Rightarrow>
          if code c = 101 \<or> code c = 69 then
            (let (neg, u) = (case t of
                   d # u \<Rightarrow> if code d = 45 then (True, u) else if code d = 43 then (False, u)
                            else (False, t)
                 | [] \<Rightarrow> (False, t));
                 (ds, r) = span_digits u
             in if ds = [] then None
                else Some (if neg then - dec_value ds else dec_value ds, r))
          else None
      | [] \<Rightarrow> None)"

definition parse_number :: "string \<Rightarrow> (json \<times> string) option" where
  "parse_number s =
     (let (neg, t) = (case s of c # t \<Rightarrow> if code c = 45 then (True, t) else (False, s)
                      | [] \<Rightarrow> (False, s));
          (ds0, r0) = span_digits t;
          (ds, r1) = (case ds0 of c # d # ds' \<Rightarrow>
                        if code c = 48 then ([c], drop 1 t) else (ds0, r0)
                      | _ \<Rightarrow> (ds0, r0));
          sg = (if neg then -1 else 1)
      in if ds = [] then None
         else
           (let (fs, r2) = (case r1 of
                  c # u \<Rightarrow> (if code c = 46 \<and> fst (span_digits u) \<noteq> [] then span_digits u
                            else ([], r1))
                | [] \<Rightarrow> ([], r1));
                m = sg * dec_value (ds @ fs)
            in (case parse_exponent r2 of
                  None \<Rightarrow>
                    if fs = [] then Some (JInt m, r2)
                    else Some (norm_dec (length fs) m (length fs), r2)
                | Some (x, r3) \<Rightarrow>
                    (if 0 \<le> x
                     then Some (norm_dec (Suc (length fs)) (m * 10 ^ nat x) (length fs), r3)
                     else Some (norm_dec (length fs + nat (- x)) m (length fs + nat (- x)), r3)))))"

definition parse_literal :: "string \<Rightarrow> (json \<times> string) option" where
  "parse_literal s =
     (if startswith s ''null'' then Some (JNull, drop 4 s)
      else if startswith s ''true'' then Some (JBool True, drop 4 s)
      else if startswith s ''false'' then Some (JBool False, drop 5 s)
      else None)"

fun parse_value :: "nat \<Rightarrow> string \<Rightarrow> (json \<times> string) option"
and parse_items :: "nat \<Rightarrow> string \<Rightarrow> (json list \<times> string) option"
and parse_pairs :: "nat \<Rightarrow> string \<Rightarrow> (obj \<times> string) option" where
  "parse_value 0 s = None"
| "parse_value (Suc n) s =
     (case s of
        [] \<Rightarrow> None
      | c # t \<Rightarrow>
          if code c = 34 then map_option (\<lambda>(cs, r). (JStr cs, r)) (parse_chars t)
          else if code c = 123 then
            (case skip_ws t of
               [] \<Rightarrow> None
             | d # u \<Rightarrow> if code d = 125 then Some (JObj [], u)
                        else map_option (\<lambda>(ps, r). (JObj (dupdate [] ps), r)) (parse_pairs n (d # u)))
          else if code c = 91 then
            (case skip_ws t of
               [] \<Rightarrow> None
             | d # u \<Rightarrow> if code d = 93 then Some (JArr [], u)
                        else map_option (\<lambda>(xs, r). (JArr xs, r)) (parse_items n (d # u)))
          else if code c = 45 \<or> is_digit c then parse_number s
          else parse_literal s)"
| "parse_items 0 s = None"
| "parse_items (Suc n) s =
     (case parse_value n (skip_ws s) of
        None \<Rightarrow> None
      | Some (x, r) \<Rightarrow>
          (case skip_ws r of
             [] \<Rightarrow> None
           | d # u \<Rightarrow>
               if code d = 93 then Some ([x], u)
               else if code d = 44 then map_option (\<lambda>(xs, q). (x # xs, q)) (parse_items n u)
               else None))"
| "parse_pairs 0 s = None"
| "parse_pairs (Suc n) s =
     (case skip_ws s of
        [] \<Rightarrow> None
      | c # t \<Rightarrow>
          if code c \<noteq> 34 then None
          else (case parse_chars t of
                  None \<Rightarrow> None
                | Some (k, r) \<Rightarrow>
                    (case skip_ws r of
                       [] \<Rightarrow> None
                     | d # u \<Rightarrow>
                         if code d \<noteq> 58 then None
                         else (case parse_value n (skip_ws u) of
                                 None \<Rightarrow> None
                               | Some (x, q) \<Rightarrow>
                                   (case skip_ws q of
                                      [] \<Rightarrow> None
                                    | e # w \<Rightarrow>
                                        if code e = 125 then Some ([(k, x)], w)
                                        else if code e = 44 then
                                          map_option (\<lambda>(ps, z). ((k, x) # ps, z)) (parse_pairs n w)
                                        else None)))))"

text \<open>\<open>json.loads\<close>: \<open>None\<close> is JSONDecodeError.\<close>

definition json_loads :: "string \<Rightarrow> json option" where
  "json_loads s =
     (case parse_value (Suc (2 * length s)) (skip_ws s) of
        None \<Rightarrow> None
      | Some (x, r) \<Rightarrow> if skip_ws r = [] then Some x else None)"

lemma json_loads_example:
  "json_loads ''{\"a\": [1, 2.50, true], \"b\": null}'' =
     Some (JObj [(''a'', JArr [JInt 1, JDec 25 1, JBool True]), (''b'', JNull)])"
  by code_simp

lemma json_loads_plain_text: "json_loads ''buy milk'' = None"
  by code_simp

end
