(* ===== verification/Validate_State.thy ===== *)
theory Validate_State
  imports PyJson
begin

text \<open>
  Model of \<open>Kingofyadav/validate_state.py\<close>: the default HI state and the normalisation that every
  load and save of \<open>state.json\<close> goes through. A normalised state always has the four sections, so
  it is a record; the sections themselves are dicts. Lemmas: what a normalised memory entry, task
  list and profile look like, and that normalisation maps each of them to itself.
\<close>

section \<open>Data\<close>

record hi_state =
  profile :: obj
  preferences :: obj
  memory :: "obj list"
  workflow :: obj

definition dump_state :: "hi_state \<Rightarrow> json" where
  "dump_state s = JObj
     [(''profile'', JObj (profile s)), (''preferences'', JObj (preferences s)),
      (''memory'', JArr (map JObj (memory s))), (''workflow'', JObj (workflow s))]"

definition default_relationship :: obj where
  "default_relationship =
     [(''jarvis_role'', JStr ''local execution, dashboard operations, automation, and private system control''),
      (''hi_layer_role'', JStr ''human identity layer for public profile, ventures, people, records, and decisions'')]"

definition default_ventures :: "json list" where
  "default_ventures =
     [JStr ''HI Life OS'', JStr ''kingofyadav.in Platform'', JStr ''Royal Heritage Resort'',
      JStr ''National Youth Force'', JStr ''Jhon Aamit LLP'']"

definition default_profile :: obj where
  "default_profile =
     [(''display_name'', JStr ''Amit Ku Yadav''),
      (''full_name'', JStr ''Amit Ku Yadav''),
      (''system_role'', JStr ''Founder, digital systems builder, and primary human operator''),
      (''owner_role'', JStr ''human owner and decision-maker behind HI Life OS and kingofyadav.in''),
      (''identity_summary'', JStr ''Amit Ku Yadav is a digital systems builder from Bhagalpur working across HI Life OS, public identity, business platforms, community coordination, and AI-assisted operations.''),
      (''relationship'', JObj default_relationship),
      (''name'', JStr ''Amit''),
      (''username'', JStr ''kingofyadav''),
      (''domain'', JStr ''Digital identity, business systems, AI workflows, and social impact''),
      (''website'', JStr ''https://kingofyadav.in''),
      (''brand'', JStr ''kingofyadav.in''),
      (''company'', JStr ''HI Life OS''),
      (''email'', JStr ''kingofyadav.in@gmail.com''),
      (''phone'', JStr ''+91 95235 28114''),
      (''location'', JStr ''Bhagalpur, Bihar, India''),
      (''language'', JStr ''en-IN''),
      (''auth_role'', JStr ''primary owner''),
      (''ventures'', JArr default_ventures)]"

definition default_preferences :: obj where
  "default_preferences =
     [(''response_style'', JStr ''structured''),
      (''local_execution'', JStr ''preserve Jarvis local execution''),
      (''hi_routing'', JStr ''route human-interface topics through Kingofyadav''),
      (''response_mode'', JStr ''adaptive''),
      (''verbosity'', JStr ''medium'')]"

definition default_workflow :: obj where
  "default_workflow =
     [(''current_focus'', JStr []), (''status'', JStr ''ready''),
      (''next_actions'', JArr []), (''tasks'', JArr [])]"

definition default_state :: hi_state where
  "default_state = \<lparr>profile = default_profile, preferences = default_preferences,
     memory = [], workflow = default_workflow\<rparr>"

definition profile_placeholders :: "string list" where
  "profile_placeholders = [[], ''?'', ''king yadav'', ''kingofyadav'']"

definition domain_placeholders :: "string list" where
  "domain_placeholders = [[], ''?'', ''ai systems'']"

definition legacy_ts :: string where
  "legacy_ts = ''2026-01-01T00:00:00+00:00''"

section \<open>Memory entries\<close>

definition clamp_importance :: "int \<Rightarrow> int" where
  "clamp_importance i = max 1 (min 5 i)"

definition extract_optional_fields :: "obj \<Rightarrow> obj" where
  "extract_optional_fields entry =
     (let created_at = str_strip (dget_or entry ''created_at'' (JStr []));
          tag = str_strip_lower (dget_or entry ''tag'' (JStr []));
          source = str_strip (dget_or entry ''source'' (JStr []));
          visibility = str_strip_lower (dget_or entry ''visibility'' (JStr []))
      in (if created_at \<noteq> [] then [(''created_at'', JStr created_at)] else [])
       @ (if tag \<noteq> [] then [(''tag'', JStr tag)] else [])
       @ (if source \<noteq> [] then [(''source'', JStr source)] else [])
       @ (if visibility \<in> {''private'', ''public''} then [(''visibility'', JStr visibility)] else [])
       @ (case py_int (dget_or entry ''importance'' (JStr [])) of
            Inl _ \<Rightarrow> [] | Inr i \<Rightarrow> [(''importance'', JInt (clamp_importance i))]))"

definition normalize_memory_obj :: "obj \<Rightarrow> obj option" where
  "normalize_memory_obj entry =
     (let extras = extract_optional_fields entry;
          entry_type = str_strip_lower (dget_or entry ''type'' (JStr []));
          text = str_strip (dget_or entry ''text'' (JStr []))
      in if entry_type = ''note'' then
           (if text = [] then None
            else Some ([(''type'', JStr ''note''), (''text'', JStr text)] @ extras))
         else if entry_type = ''event'' \<or> dhas entry ''event'' \<or> dhas entry ''command'' then
           (let event = str_strip (dget_or entry ''event'' (JStr []));
                command = str_strip (dget_or entry ''command'' (JStr []))
            in if event = [] \<and> command = [] then
                 (if text = [] then None
                  else Some ([(''type'', JStr ''event''), (''event'', JStr text),
                              (''command'', JStr command)] @ extras))
               else Some ([(''type'', JStr ''event''), (''event'', JStr event),
                           (''command'', JStr command)] @ extras))
         else if entry_type \<in> {''decision'', ''reminder'', ''insight''} then
           (if text = [] then None
            else Some ([(''type'', JStr entry_type), (''text'', JStr text)] @ extras))
         else if text \<noteq> [] then Some ([(''type'', JStr ''note''), (''text'', JStr text)] @ extras)
         else None)"

text \<open>A string entry that parses as a JSON object is that object; any other is a note.\<close>

fun normalize_memory_entry :: "json \<Rightarrow> obj option" where
  "normalize_memory_entry (JStr s) =
     (let text = strip s in
      if text = [] then None
      else (case json_loads text of
              Some (JObj d) \<Rightarrow> normalize_memory_obj d
            | _ \<Rightarrow> Some [(''type'', JStr ''note''), (''text'', JStr text)]))"
| "normalize_memory_entry (JObj d) = normalize_memory_obj d"
| "normalize_memory_entry _ = None"

definition backfill_created_at :: "obj \<Rightarrow> obj" where
  "backfill_created_at item =
     (if dhas item ''created_at'' then item else dset ''created_at'' (JStr legacy_ts) item)"

definition memory_marker :: "obj \<Rightarrow> string" where
  "memory_marker item =
     py_str (jget item ''type'') @ '':'' @
     py_str (py_or (dget_or item ''text'' (JStr [])) (py_or (dget_or item ''event'' (JStr [])) (JStr [])))"

fun dedup_memory :: "string list \<Rightarrow> json list \<Rightarrow> obj list" where
  "dedup_memory seen [] = []"
| "dedup_memory seen (entry # rest) =
     (case normalize_memory_entry entry of
        None \<Rightarrow> dedup_memory seen rest
      | Some item0 \<Rightarrow>
          (let item = backfill_created_at item0; marker = memory_marker item
           in if marker \<in> set seen then dedup_memory seen rest
              else item # dedup_memory (marker # seen) rest))"

definition normalize_memory :: "json \<Rightarrow> obj list" where
  "normalize_memory m = (case m of JArr xs \<Rightarrow> dedup_memory [] xs | _ \<Rightarrow> [])"

section \<open>Workflow tasks\<close>

definition task_statuses :: "string list" where
  "task_statuses = [''todo'', ''doing'', ''blocked'', ''done'', ''cancelled'']"

definition coerce_minutes :: "json \<Rightarrow> int" where
  "coerce_minutes v = (case py_int v of Inl _ \<Rightarrow> 0 | Inr i \<Rightarrow> max 0 i)"

definition clean_blockers :: "json \<Rightarrow> json list" where
  "clean_blockers v =
     (let xs = (case v of
          JStr s \<Rightarrow> (if strip s \<noteq> [] then [JStr s] else [])
        | JArr xs \<Rightarrow> xs
        | _ \<Rightarrow> [])
      in map (\<lambda>x. JStr (str_strip x)) (filter (\<lambda>x. str_strip x \<noteq> []) xs))"

definition normalize_workflow_task :: "json \<Rightarrow> obj option" where
  "normalize_workflow_task task =
     (case task of
        JObj t \<Rightarrow>
          (let title = str_strip (dget_or t ''title'' (JStr []));
               status0 = str_strip_lower (dget_or t ''status'' (JStr ''todo''));
               status = (if status0 \<in> set task_statuses then status0 else ''todo'');
               id0 = str_strip (dget_or t ''id'' (JStr []));
               task_id = (if id0 = [] then take 40 (replace '' '' ''-'' (lower title)) else id0)
           in if title = [] then None
              else Some
                [(''id'', JStr task_id),
                 (''title'', JStr title),
                 (''status'', JStr status),
                 (''due'', JStr (strip (str_or (dget_or t ''due'' (JStr [])) []))),
                 (''estimate_minutes'', JInt (coerce_minutes (dget_or t ''estimate_minutes'' (JInt 0)))),
                 (''blockers'', JArr (clean_blockers (dget_or t ''blockers'' (JArr [])))),
                 (''created_at'', JStr (str_or (dget_or t ''created_at'' (JStr [])) legacy_ts)),
                 (''updated_at'', JStr (str_or (py_or (dget_or t ''updated_at'' (JStr []))
                    (dget_or t ''created_at'' (JStr []))) legacy_ts))])
      | _ \<Rightarrow> None)"

definition task_key :: "obj \<Rightarrow> string" where
  "task_key t = py_str (jget t ''id'')"

fun dedup_tasks :: "string list \<Rightarrow> json list \<Rightarrow> obj list" where
  "dedup_tasks seen [] = []"
| "dedup_tasks seen (task # rest) =
     (case normalize_workflow_task task of
        None \<Rightarrow> dedup_tasks seen rest
      | Some item \<Rightarrow>
          if task_key item \<in> set seen then dedup_tasks seen rest
          else item # dedup_tasks (task_key item # seen) rest)"

definition normalize_workflow_tasks :: "json \<Rightarrow> json list" where
  "normalize_workflow_tasks tasks =
     (case tasks of JArr xs \<Rightarrow> map JObj (dedup_tasks [] xs) | _ \<Rightarrow> [])"

section \<open>The profile section\<close>

text \<open>\<open>state["profile"][k] = str(state["profile"].get(k, "") or DEFAULT_STATE["profile"][k])\<close>\<close>

definition fill_str :: "obj \<Rightarrow> obj \<Rightarrow> string \<Rightarrow> obj" where
  "fill_str defaults d k =
     dset k (JStr (str_or (dget_or d k (JStr [])) (py_str (jget defaults k)))) d"

definition required_profile_fields :: "string list" where
  "required_profile_fields = [''display_name'', ''system_role'', ''owner_role'',
     ''identity_summary'', ''name'', ''domain'', ''language'']"

definition optional_profile_fields :: "string list" where
  "optional_profile_fields = [''website'', ''email'', ''brand'', ''company'', ''phone'',
     ''location'', ''auth_role'', ''username'']"

text \<open>\<open>f in (data.get("profile") or {})\<close>\<close>

definition member_of :: "string \<Rightarrow> json \<Rightarrow> bool outcome" where
  "member_of f p =
     (case p of
        JObj d \<Rightarrow> Inr (dhas d f)
      | JStr s \<Rightarrow> Inr (contains f s)
      | JArr xs \<Rightarrow> Inr (JStr f \<in> set xs)
      | _ \<Rightarrow> Inl TypeError)"

definition fill_optional :: "json \<Rightarrow> string \<Rightarrow> obj \<Rightarrow> obj outcome" where
  "fill_optional p f d =
     and_then (member_of f p) (\<lambda>present.
       if present then
         (case p of
            JObj e \<Rightarrow> Inr (dset f (JStr (py_str (jget e f))) d)
          | _ \<Rightarrow> Inl TypeError)
       else Inr (fill_str default_profile d f))"

fun fill_optionals :: "json \<Rightarrow> string list \<Rightarrow> obj \<Rightarrow> obj outcome" where
  "fill_optionals p [] d = Inr d"
| "fill_optionals p (f # fs) d = and_then (fill_optional p f d) (fill_optionals p fs)"

text \<open>
  A placeholder display name resets every default field but the identity ones; the update of the
  relationship with itself in the source changes nothing and is left out.
\<close>

definition reset_display :: "obj \<Rightarrow> obj" where
  "reset_display d =
     (if str_strip_lower (dget_or d ''display_name'' (JStr [])) \<in> set profile_placeholders
      then dupdate d (filter (\<lambda>(k, v). k \<notin> {''relationship'', ''id'', ''created_at'', ''host'',
             ''fingerprint''}) default_profile)
      else d)"

definition reset_domain :: "obj \<Rightarrow> obj" where
  "reset_domain d =
     (if str_strip_lower (dget_or d ''domain'' (JStr [])) \<in> set domain_placeholders
      then dset ''domain'' (jget default_profile ''domain'') d else d)"

definition fill_ventures :: "obj \<Rightarrow> obj" where
  "fill_ventures d =
     (if is_arr (jget d ''ventures'') then d else dset ''ventures'' (JArr default_ventures) d)"

definition fill_relationship :: "obj \<Rightarrow> obj outcome" where
  "fill_relationship d =
     (case jget d ''relationship'' of
        JObj r \<Rightarrow> Inr (dset ''relationship''
          (JObj (fill_str default_relationship (fill_str default_relationship r ''jarvis_role'')
             ''hi_layer_role'')) d)
      | _ \<Rightarrow> Inl AttributeError)"

definition normalize_profile :: "json \<Rightarrow> obj outcome" where
  "normalize_profile p =
     (let d0 = (case p of JObj e \<Rightarrow> dupdate default_profile e | _ \<Rightarrow> default_profile);
          d1 = reset_domain (reset_display d0);
          d2 = foldl (fill_str default_profile) d1 required_profile_fields;
          p' = (if truthy p then p else JObj [])
      in and_then (fill_optionals p' optional_profile_fields d2)
           (\<lambda>d3. fill_relationship (fill_ventures d3)))"

definition normalize_preferences :: "json \<Rightarrow> obj" where
  "normalize_preferences p =
     foldl (fill_str default_preferences)
       (case p of JObj e \<Rightarrow> dupdate default_preferences e | _ \<Rightarrow> default_preferences)
       (dkeys default_preferences)"

definition normalize_workflow :: "json \<Rightarrow> obj" where
  "normalize_workflow w =
     (let d0 = (case w of JObj e \<Rightarrow> dupdate default_workflow e | _ \<Rightarrow> default_workflow);
          d1 = dset ''current_focus'' (JStr (str_or (dget_or d0 ''current_focus'' (JStr [])) [])) d0;
          d2 = dset ''status'' (JStr (str_or (dget_or d1 ''status'' (JStr [])) ''ready'')) d1;
          d3 = dset ''next_actions'' (case dget_or d2 ''next_actions'' (JArr []) of
                 JArr xs \<Rightarrow> JArr xs | _ \<Rightarrow> JArr []) d2
      in dset ''tasks'' (JArr (normalize_workflow_tasks (dget_or d3 ''tasks'' (JArr [])))) d3)"

section \<open>The whole state\<close>

definition normalize_state :: "json \<Rightarrow> hi_state outcome" where
  "normalize_state data =
     (case (if truthy data then data else JObj []) of
        JObj d \<Rightarrow>
          and_then (normalize_profile (dget_or d ''profile'' (JObj []))) (\<lambda>p.
            Inr \<lparr>profile = p,
                 preferences = normalize_preferences (dget_or d ''preferences'' (JObj [])),
                 memory = normalize_memory (dget_or d ''memory'' (JArr [])),
                 workflow = normalize_workflow (dget_or d ''workflow'' (JObj []))\<rparr>)
      | _ \<Rightarrow> Inl AttributeError)"

section \<open>Lemmas: memory entries\<close>

definition optional_keys :: "string list" where
  "optional_keys = [''created_at'', ''tag'', ''source'', ''visibility'', ''importance'']"

lemma clamp_importance_idem [simp]: "clamp_importance (clamp_importance i) = clamp_importance i"
  by (simp add: clamp_importance_def)

lemma clamp_importance_bounds: "1 \<le> clamp_importance i \<and> clamp_importance i \<le> 5"
  by (simp add: clamp_importance_def)

lemma int_of_str_Nil [simp]: "int_of_str [] = None"
  by (simp add: int_of_str_def)

lemma map_of_extract:
  "map_of (extract_optional_fields e) ''created_at'' =
     (let x = str_strip (dget_or e ''created_at'' (JStr [])) in if x = [] then None else Some (JStr x))"
  "map_of (extract_optional_fields e) ''tag'' =
     (let x = str_strip_lower (dget_or e ''tag'' (JStr [])) in if x = [] then None else Some (JStr x))"
  "map_of (extract_optional_fields e) ''source'' =
     (let x = str_strip (dget_or e ''source'' (JStr [])) in if x = [] then None else Some (JStr x))"
  "map_of (extract_optional_fields e) ''visibility'' =
     (let x = str_strip_lower (dget_or e ''visibility'' (JStr []))
      in if x \<in> {''private'', ''public''} then Some (JStr x) else None)"
  "map_of (extract_optional_fields e) ''importance'' =
     (case py_int (dget_or e ''importance'' (JStr [])) of
        Inl _ \<Rightarrow> None | Inr i \<Rightarrow> Some (JInt (clamp_importance i)))"
  by (simp_all add: extract_optional_fields_def Let_def map_add_def split: sum.splits)

lemma extract_keys: "k \<notin> set optional_keys \<Longrightarrow> map_of (extract_optional_fields e) k = None"
  by (auto simp: extract_optional_fields_def optional_keys_def Let_def map_add_def split: sum.splits)

lemma lower_strip_visibility [simp]:
  "lower (strip ''private'') = ''private''" "lower (strip ''public'') = ''public''"
  by code_simp+

lemma extract_idem_gen:
  assumes "\<And>k. k \<in> set optional_keys \<Longrightarrow> map_of d k = map_of (extract_optional_fields e) k"
  shows "extract_optional_fields d = extract_optional_fields e"
proof -
  let ?x = "extract_optional_fields e"
  have c: "str_strip (dget_or d ''created_at'' (JStr [])) = str_strip (dget_or e ''created_at'' (JStr []))"
    using assms [of "''created_at''"]
    by (simp add: optional_keys_def map_of_extract Let_def dget_or_def [of d] split: if_splits)
  have t: "str_strip_lower (dget_or d ''tag'' (JStr [])) = str_strip_lower (dget_or e ''tag'' (JStr []))"
    using assms [of "''tag''"]
    by (simp add: optional_keys_def map_of_extract Let_def dget_or_def [of d] split: if_splits)
  have s: "str_strip (dget_or d ''source'' (JStr [])) = str_strip (dget_or e ''source'' (JStr []))"
    using assms [of "''source''"]
    by (simp add: optional_keys_def map_of_extract Let_def dget_or_def [of d] split: if_splits)
  have v: "(str_strip_lower (dget_or d ''visibility'' (JStr [])) \<in> {''private'', ''public''}) =
      (str_strip_lower (dget_or e ''visibility'' (JStr [])) \<in> {''private'', ''public''})"
    "str_strip_lower (dget_or e ''visibility'' (JStr [])) \<in> {''private'', ''public''} \<Longrightarrow>
     str_strip_lower (dget_or d ''visibility'' (JStr [])) = str_strip_lower (dget_or e ''visibility'' (JStr []))"
    using assms [of "''visibility''"]
    by (auto simp: optional_keys_def map_of_extract Let_def dget_or_def [of d] simp del: str_strip_lower_JStr
        split: if_splits) (auto simp: str_strip_lower_def)
  have i: "(case py_int (dget_or d ''importance'' (JStr [])) of
        Inl _ \<Rightarrow> [] | Inr i \<Rightarrow> [(''importance'', JInt (clamp_importance i))]) =
      (case py_int (dget_or e ''importance'' (JStr [])) of
        Inl _ \<Rightarrow> [] | Inr i \<Rightarrow> [(''importance'', JInt (clamp_importance i))])"
    using assms [of "''importance''"]
    by (auto simp: optional_keys_def map_of_extract Let_def dget_or_def [of d] split: sum.splits)
  from c t s i v show ?thesis
    unfolding extract_optional_fields_def Let_def by simp
qed

text \<open>The two shapes a normalised entry has before its optional fields.\<close>

definition note_head :: "string \<Rightarrow> string \<Rightarrow> obj" where
  "note_head ty x = [(''type'', JStr ty), (''text'', JStr x)]"

definition event_head :: "string \<Rightarrow> string \<Rightarrow> obj" where
  "event_head ev c = [(''type'', JStr ''event''), (''event'', JStr ev), (''command'', JStr c)]"

definition memory_head :: "obj \<Rightarrow> bool" where
  "memory_head h \<longleftrightarrow>
     (\<exists>ty x. ty \<in> {''note'', ''decision'', ''reminder'', ''insight''} \<and> strip x = x \<and> x \<noteq> [] \<and> h = note_head ty x) \<or>
     (\<exists>ev c. strip ev = ev \<and> strip c = c \<and> (ev \<noteq> [] \<or> c \<noteq> []) \<and> h = event_head ev c)"

lemma memory_head_cases:
  assumes "memory_head h"
  obtains (text_entry) ty x where "ty \<in> {''note'', ''decision'', ''reminder'', ''insight''}" "strip x = x"
      "x \<noteq> []" "h = note_head ty x"
    | (event_entry) ev c where "strip ev = ev" "strip c = c" "ev \<noteq> [] \<or> c \<noteq> []" "h = event_head ev c"
  using assms unfolding memory_head_def by blast

lemma memory_head_note:
  "ty \<in> {''note'', ''decision'', ''reminder'', ''insight''} \<Longrightarrow> strip x = x \<Longrightarrow> x \<noteq> [] \<Longrightarrow> memory_head (note_head ty x)"
  unfolding memory_head_def by blast

lemma memory_head_event:
  "strip ev = ev \<Longrightarrow> strip c = c \<Longrightarrow> ev \<noteq> [] \<or> c \<noteq> [] \<Longrightarrow> memory_head (event_head ev c)"
  unfolding memory_head_def by blast

lemma normalize_memory_obj_shape:
  assumes "normalize_memory_obj e = Some it"
  obtains h where "memory_head h" "it = h @ extract_optional_fields e"
proof -
  have "\<exists>h. memory_head h \<and> it = h @ extract_optional_fields e"
    using assms
    by (auto simp: normalize_memory_obj_def Let_def note_head_def [symmetric] event_head_def [symmetric]
        intro!: memory_head_note memory_head_event split: if_splits)
  with that show thesis by blast
qed

lemma normalize_memory_obj_note:
  assumes "ty \<in> {''note'', ''decision'', ''reminder'', ''insight''}" "strip x = x" "x \<noteq> []"
    and "map_of d ''type'' = Some (JStr ty)" "map_of d ''text'' = Some (JStr x)"
    and "map_of d ''event'' = None" "map_of d ''command'' = None"
  shows "normalize_memory_obj d = Some (note_head ty x @ extract_optional_fields d)"
proof -
  have "lower (strip ty) = ty" using assms(1) by (elim insertE) (simp_all, code_simp+)
  with assms show ?thesis
    by (auto simp: normalize_memory_obj_def Let_def note_head_def dget_or_def dhas_def)
qed

lemma normalize_memory_obj_event:
  assumes "strip ev = ev" "strip c = c" "ev \<noteq> [] \<or> c \<noteq> []"
    and "map_of d ''type'' = Some (JStr ''event'')" "map_of d ''event'' = Some (JStr ev)"
    and "map_of d ''command'' = Some (JStr c)"
  shows "normalize_memory_obj d = Some (event_head ev c @ extract_optional_fields d)"
proof -
  have "lower (strip ''event'') = ''event''" by code_simp
  with assms show ?thesis
    by (auto simp: normalize_memory_obj_def Let_def event_head_def dget_or_def dhas_def)
qed

lemma memory_head_keys:
  "memory_head h \<Longrightarrow> k \<in> set optional_keys \<Longrightarrow> map_of h k = None"
  by (auto simp: memory_head_def note_head_def event_head_def optional_keys_def)

text \<open>An entry whose lookups are those of a normalised entry normalises to that entry.\<close>

lemma renormalize_obj:
  assumes "memory_head h" "map_of d = map_of (h @ extract_optional_fields e)"
  shows "normalize_memory_obj d = Some (h @ extract_optional_fields e)"
proof -
  have x: "extract_optional_fields d = extract_optional_fields e"
    using assms by (intro extract_idem_gen) (simp add: map_add_def memory_head_keys)
  have nk: "map_of (extract_optional_fields e) k = None"
    if "k \<in> {''type'', ''text'', ''event'', ''command''}" for k
    using that by (auto simp: optional_keys_def intro!: extract_keys)
  show ?thesis
    using assms(1)
  proof (cases rule: memory_head_cases)
    case (text_entry ty t)
    show ?thesis unfolding text_entry(4) x [symmetric]
      by (rule normalize_memory_obj_note [OF text_entry(1-3)])
        (simp_all add: assms(2) text_entry(4) note_head_def map_add_def nk)
  next
    case (event_entry ev c)
    show ?thesis unfolding event_entry(4) x [symmetric]
      by (rule normalize_memory_obj_event [OF event_entry(1-3)])
        (simp_all add: assms(2) event_entry(4) event_head_def map_add_def nk)
  qed
qed

text \<open>
  One pass over an entry: normalise, then backfill the timestamp. A second pass may move the
  backfilled key, and changes nothing else; from then on the entry is a fixed point.
\<close>

lemma legacy_ts_strip [simp]: "strip legacy_ts = legacy_ts" "legacy_ts \<noteq> []"
  by (simp add: legacy_ts_def, code_simp) (simp add: legacy_ts_def)

lemma extract_backfilled:
  assumes "map_of (extract_optional_fields e) ''created_at'' = None"
  shows "extract_optional_fields (dset ''created_at'' (JStr legacy_ts) e) =
           (''created_at'', JStr legacy_ts) # extract_optional_fields e"
  using assms by (auto simp: extract_optional_fields_def Let_def map_add_def split: if_splits)

lemma backfill_second_pass:
  assumes "normalize_memory_obj e = Some it"
  obtains it2 where "normalize_memory_obj (backfill_created_at it) = Some it2"
    "map_of it2 = map_of (backfill_created_at it)" "backfill_created_at it2 = it2"
    "normalize_memory_obj it2 = Some it2"
proof -
  obtain h where h: "memory_head h" and it: "it = h @ extract_optional_fields e"
    using normalize_memory_obj_shape [OF assms] .
  have hc: "map_of h ''created_at'' = None"
    using memory_head_keys [OF h] by (simp add: optional_keys_def)
  define e' where "e' = (if dhas it ''created_at'' then e else dset ''created_at'' (JStr legacy_ts) e)"
  define it2 where "it2 = h @ extract_optional_fields e'"
  have m: "map_of (backfill_created_at it) = map_of it2"
  proof (cases "dhas it ''created_at''")
    case True
    then show ?thesis by (simp add: backfill_created_at_def it2_def e'_def it)
  next
    case False
    then have n: "map_of (extract_optional_fields e) ''created_at'' = None"
      by (simp add: it dhas_def map_add_def split: option.splits)
    show ?thesis
      using False hc by (auto simp: backfill_created_at_def it2_def e'_def extract_backfilled [OF n]
        fun_eq_iff map_of_dset) (auto simp: it map_add_def split: option.splits)
  qed
  have b: "backfill_created_at it2 = it2"
  proof -
    have "dhas (backfill_created_at it) ''created_at''" by (simp add: backfill_created_at_def)
    then have "dhas it2 ''created_at''" using m by (simp add: dhas_def)
    then show ?thesis by (simp add: backfill_created_at_def)
  qed
  show thesis
    using that [of it2] m b renormalize_obj [OF h, of _ e'] by (simp add: it2_def)
qed

section \<open>Lemmas: the memory list\<close>

definition entry_pass :: "json \<Rightarrow> obj option" where
  "entry_pass e = map_option backfill_created_at (normalize_memory_entry e)"

lemma dedup_memory_Cons:
  "dedup_memory seen (e # es) =
     (case entry_pass e of
        None \<Rightarrow> dedup_memory seen es
      | Some i \<Rightarrow> if memory_marker i \<in> set seen then dedup_memory seen es
                  else i # dedup_memory (memory_marker i # seen) es)"
  by (simp add: entry_pass_def Let_def split: option.split)

definition normal_entry :: "obj \<Rightarrow> bool" where
  "normal_entry i \<longleftrightarrow> (\<exists>e it. normalize_memory_obj e = Some it \<and> i = backfill_created_at it)"

lemma normalize_plain_note:
  assumes "strip s \<noteq> []"
  shows "normalize_memory_obj [(''type'', JStr ''note''), (''text'', JStr (strip s))] =
           Some [(''type'', JStr ''note''), (''text'', JStr (strip s))]"
proof -
  have "extract_optional_fields [(''type'', JStr ''note''), (''text'', JStr (strip s))] = []"
    by (simp add: extract_optional_fields_def dget_or_def Let_def str_strip_lower_def str_strip_def)
  with normalize_memory_obj_note [of "''note''" "strip s" "[(''type'', JStr ''note''), (''text'', JStr (strip s))]"] assms
  show ?thesis by (simp add: note_head_def)
qed

lemma entry_pass_normal: "entry_pass e = Some i \<Longrightarrow> normal_entry i"
  unfolding normal_entry_def entry_pass_def
  by (cases e) (auto simp: Let_def split: if_splits option.splits json.splits dest!: normalize_plain_note)

lemma normal_entry_second:
  assumes "normal_entry i"
  obtains i2 where "entry_pass (JObj i) = Some i2" "map_of i2 = map_of i" "entry_pass (JObj i2) = Some i2"
proof -
  from assms obtain e it where e: "normalize_memory_obj e = Some it" and i: "i = backfill_created_at it"
    by (auto simp: normal_entry_def)
  from backfill_second_pass [OF e] obtain it2
    where "normalize_memory_obj (backfill_created_at it) = Some it2"
    "map_of it2 = map_of (backfill_created_at it)" "backfill_created_at it2 = it2"
    "normalize_memory_obj it2 = Some it2" .
  then show thesis using that [of it2] by (simp add: i entry_pass_def)
qed

lemma memory_marker_cong: "map_of a = map_of b \<Longrightarrow> memory_marker a = memory_marker b"
  by (simp add: memory_marker_def dget_or_def)

lemma dedup_memory_markers:
  "distinct (map memory_marker (dedup_memory seen es)) \<and>
   set (map memory_marker (dedup_memory seen es)) \<inter> set seen = {}"
proof (induction es arbitrary: seen)
  case (Cons e es)
  show ?case
  proof (cases "entry_pass e")
    case (Some i)
    with Cons [of seen] Cons [of "memory_marker i # seen"] show ?thesis
      by (auto simp only: dedup_memory_Cons option.case list.map list.set split: if_splits) auto
  qed (use Cons in \<open>simp only: dedup_memory_Cons option.case\<close>)
qed simp

lemma dedup_memory_normal: "i \<in> set (dedup_memory seen es) \<Longrightarrow> normal_entry i"
proof (induction es arbitrary: seen)
  case (Cons e es)
  then show ?case
    by (auto simp only: dedup_memory_Cons list.set split: option.splits if_splits dest: entry_pass_normal)
qed simp

text \<open>Entries with pairwise distinct markers are all kept, each replaced by its own pass.\<close>

lemma dedup_memory_map:
  assumes "\<And>i. i \<in> set xs \<Longrightarrow> entry_pass (JObj i) = Some (g i) \<and> memory_marker (g i) = memory_marker i"
    and "distinct (map memory_marker xs)" "set (map memory_marker xs) \<inter> set seen = {}"
  shows "dedup_memory seen (map JObj xs) = map g xs"
  using assms
proof (induction xs arbitrary: seen)
  case (Cons x xs)
  have "dedup_memory (memory_marker x # seen) (map JObj xs) = map g xs"
    using Cons.prems by (intro Cons.IH) auto
  with Cons.prems show ?case
    by (simp add: dedup_memory_Cons del: dedup_memory.simps)
qed simp

lemma normalize_memory_twice:
  assumes m1: "m1 = normalize_memory x" and m2: "m2 = normalize_memory (JArr (map JObj m1))"
  shows "list_all2 (\<lambda>a b. map_of a = map_of b) m2 m1"
    and "normalize_memory (JArr (map JObj m2)) = m2"
proof -
  have n: "\<And>i. i \<in> set m1 \<Longrightarrow> normal_entry i"
    and d: "distinct (map memory_marker m1)"
    using dedup_memory_markers dedup_memory_normal by (auto simp: m1 normalize_memory_def split: json.splits)
  define g where "g i = the (entry_pass (JObj i))" for i
  have g: "entry_pass (JObj i) = Some (g i) \<and> map_of (g i) = map_of i \<and> entry_pass (JObj (g i)) = Some (g i)"
    if "i \<in> set m1" for i
    by (rule normal_entry_second [OF n [OF that]]) (simp add: g_def)
  then have gm: "memory_marker (g i) = memory_marker i" if "i \<in> set m1" for i
    using that by (auto intro: memory_marker_cong)
  have m2': "m2 = map g m1"
    unfolding m2 normalize_memory_def json.case
    by (rule dedup_memory_map) (use g gm d in auto)
  show "list_all2 (\<lambda>a b. map_of a = map_of b) m2 m1"
    using g by (auto simp: m2' list_all2_conv_all_nth)
  have "dedup_memory [] (map JObj m2) = map (\<lambda>i. i) m2"
    by (rule dedup_memory_map) (use g gm d in \<open>auto simp: m2' cong: map_cong\<close>)
  then show "normalize_memory (JArr (map JObj m2)) = m2"
    by (simp add: normalize_memory_def)
qed

lemma normalize_memory_markers: "distinct (map memory_marker (normalize_memory x))"
  using dedup_memory_markers by (simp add: normalize_memory_def split: json.split)

lemma normalize_memory_normal: "i \<in> set (normalize_memory x) \<Longrightarrow> normal_entry i"
  using dedup_memory_normal by (auto simp: normalize_memory_def split: json.splits)

lemma normal_entry_importance:
  assumes "normal_entry i" "map_of i ''importance'' = Some v"
  shows "\<exists>n. v = JInt n \<and> 1 \<le> n \<and> n \<le> 5"
proof -
  from assms(1) obtain e it where "normalize_memory_obj e = Some it" and i: "i = backfill_created_at it"
    by (auto simp: normal_entry_def)
  then obtain h where h: "memory_head h" "it = h @ extract_optional_fields e"
    by (auto elim: normalize_memory_obj_shape)
  then have "map_of i ''importance'' = map_of (extract_optional_fields e) ''importance''"
    by (simp add: i backfill_created_at_def map_add_def memory_head_keys optional_keys_def)
  with assms(2) show ?thesis
    using clamp_importance_bounds by (auto simp: map_of_extract split: sum.splits)
qed
section \<open>Lemmas: workflow tasks\<close>

lemma clean_blockers_idem [simp]: "clean_blockers (JArr (clean_blockers v)) = clean_blockers v"
  by (auto simp: clean_blockers_def Let_def filter_map comp_def)

lemma coerce_minutes_idem [simp]: "coerce_minutes (JInt (coerce_minutes v)) = coerce_minutes v"
  by (auto simp: coerce_minutes_def split: sum.splits)

lemma coerce_minutes_nonneg: "0 \<le> coerce_minutes v"
  by (simp add: coerce_minutes_def split: sum.splits)

lemma is_space_dash [simp]: "\<not> is_space (CHR ''-'')"
  by code_simp

lemma replace_single: "replace [a] [b] s = map (\<lambda>c. if c = a then b else c) s"
  by (induction s) (auto simp: replace_def startswith_def)

text \<open>The identifier a task gets: its own, or one derived from the title.\<close>

definition task_id_of :: "string \<Rightarrow> string \<Rightarrow> string" where
  "task_id_of id0 title = (if id0 = [] then take 40 (replace '' '' ''-'' (lower title)) else id0)"

lemma task_id_nonblank:
  assumes "strip id0 = id0" "strip title = title" "title \<noteq> []"
  shows "strip (task_id_of id0 title) \<noteq> []"
proof (cases "id0 = []")
  case True
  from assms obtain c t where t: "title = c # t" and c: "\<not> is_space c"
    by (metis list.collapse strip_hd)
  then obtain d u where "task_id_of id0 title = d # u" and d: "\<not> is_space d"
    using True by (simp add: task_id_of_def lower_def replace_single)
  then show ?thesis
    by (auto simp: strip_def strip_by_def rstrip_by_def dropWhile_eq_Nil_conv)
qed (use assms in \<open>simp add: task_id_of_def\<close>)

definition task_record :: "string \<Rightarrow> string \<Rightarrow> string \<Rightarrow> string \<Rightarrow> int \<Rightarrow> json list \<Rightarrow> string \<Rightarrow> string \<Rightarrow> obj" where
  "task_record i title st due est bl ca ua =
     [(''id'', JStr i), (''title'', JStr title), (''status'', JStr st), (''due'', JStr due),
      (''estimate_minutes'', JInt est), (''blockers'', JArr bl),
      (''created_at'', JStr ca), (''updated_at'', JStr ua)]"

lemma task_statuses_clean: "st \<in> set task_statuses \<Longrightarrow> lower (strip st) = st"
  unfolding task_statuses_def by (simp, elim disjE; hypsubst; code_simp)

lemma normalize_workflow_task_shape:
  assumes "normalize_workflow_task v = Some it"
  obtains i title st due est bl ca ua
  where "it = task_record i title st due est bl ca ua" "strip i \<noteq> []" "strip title = title" "title \<noteq> []"
    "st \<in> set task_statuses" "strip due = due" "0 \<le> est" "coerce_minutes (JInt est) = est"
    "clean_blockers (JArr bl) = bl" "ca \<noteq> []" "ua \<noteq> []"
proof -
  from assms obtain t where v: "v = JObj t" by (auto simp: normalize_workflow_task_def split: json.splits)
  let ?title = "str_strip (dget_or t ''title'' (JStr []))"
  let ?id0 = "str_strip (dget_or t ''id'' (JStr []))"
  from assms have ne: "?title \<noteq> []" by (auto simp: normalize_workflow_task_def v Let_def)
  have "strip (task_id_of ?id0 ?title) \<noteq> []" by (rule task_id_nonblank) (simp_all add: ne)
  moreover have "''todo'' \<in> set task_statuses" by (simp add: task_statuses_def)
  ultimately show thesis
    using assms ne that unfolding v
    by (auto simp: normalize_workflow_task_def Let_def task_id_of_def [symmetric] coerce_minutes_nonneg
        task_record_def split: if_splits)
qed

lemma normalize_task_record:
  assumes "strip i \<noteq> []" "strip title = title" "title \<noteq> []" "st \<in> set task_statuses" "strip due = due"
    "coerce_minutes (JInt est) = est" "clean_blockers (JArr bl) = bl" "ca \<noteq> []" "ua \<noteq> []"
  shows "normalize_workflow_task (JObj (task_record i title st due est bl ca ua)) =
           Some (task_record (strip i) title st due est bl ca ua)"
  using assms
  by (simp add: normalize_workflow_task_def task_record_def Let_def dget_or_def task_statuses_clean
      str_or_def py_or_def)

lemma normalize_workflow_task_twice:
  assumes "normalize_workflow_task v = Some it"
  obtains it2 where "normalize_workflow_task (JObj it) = Some it2"
    "normalize_workflow_task (JObj it2) = Some it2"
proof -
  from normalize_workflow_task_shape [OF assms] obtain i title st due est bl ca ua
    where it: "it = task_record i title st due est bl ca ua" and o: "strip i \<noteq> []" "strip title = title"
      "title \<noteq> []" "st \<in> set task_statuses" "strip due = due" "coerce_minutes (JInt est) = est"
      "clean_blockers (JArr bl) = bl" "ca \<noteq> []" "ua \<noteq> []" by metis
  have "strip (strip i) \<noteq> []" using o(1) by simp
  from normalize_task_record [OF o] normalize_task_record [OF this o(2-)]
  show thesis by (intro that) (simp_all add: it)
qed

lemma dedup_tasks_keys:
  "distinct (map task_key (dedup_tasks seen es)) \<and> set (map task_key (dedup_tasks seen es)) \<inter> set seen = {}"
proof (induction es arbitrary: seen)
  case (Cons e es)
  show ?case
  proof (cases "normalize_workflow_task e")
    case (Some i)
    with Cons [of seen] Cons [of "task_key i # seen"] show ?thesis
      by (auto simp only: dedup_tasks.simps option.case list.map list.set split: if_splits) auto
  qed (use Cons in \<open>simp only: dedup_tasks.simps option.case\<close>)
qed simp

lemma dedup_tasks_from: "i \<in> set (dedup_tasks seen es) \<Longrightarrow> \<exists>e \<in> set es. normalize_workflow_task e = Some i"
proof (induction es arbitrary: seen)
  case (Cons e es)
  then show ?case
    by (fastforce simp only: dedup_tasks.simps list.set split: option.splits if_splits)
qed simp

lemma dedup_tasks_fixed:
  assumes "\<And>i. i \<in> set xs \<Longrightarrow> normalize_workflow_task (JObj i) = Some i"
    and "distinct (map task_key xs)" "set (map task_key xs) \<inter> set seen = {}"
  shows "dedup_tasks seen (map JObj xs) = xs"
  using assms
proof (induction xs arbitrary: seen)
  case (Cons x xs)
  have "dedup_tasks (task_key x # seen) (map JObj xs) = xs"
    using Cons.prems by (intro Cons.IH) auto
  with Cons.prems show ?case by simp
qed simp

lemma normalize_workflow_tasks_thrice:
  assumes "t1 = normalize_workflow_tasks x" "t2 = normalize_workflow_tasks (JArr t1)"
  shows "normalize_workflow_tasks (JArr t2) = t2"
proof -
  obtain es where t1: "t1 = map JObj (dedup_tasks [] es)"
    using assms(1) dedup_tasks.simps(1) [of "[]"]
    by (cases x) (auto simp: normalize_workflow_tasks_def intro: that [of "[]"])
  let ?d = "dedup_tasks [] t1"
  have "normalize_workflow_task (JObj i) = Some i" if "i \<in> set ?d" for i
  proof -
    from dedup_tasks_from [OF that] obtain j where j: "j \<in> set (dedup_tasks [] es)"
      and i: "normalize_workflow_task (JObj j) = Some i" by (auto simp: t1)
    from dedup_tasks_from [OF j] obtain e where "normalize_workflow_task e = Some j" by auto
    then show ?thesis using i by (metis normalize_workflow_task_twice option.inject)
  qed
  then have "dedup_tasks [] (map JObj ?d) = ?d"
    by (rule dedup_tasks_fixed) (use dedup_tasks_keys [of "[]" t1] in auto)
  then show ?thesis by (simp add: assms(2) normalize_workflow_tasks_def)
qed


lemma normalize_workflow_tasks_member:
  assumes "v \<in> set (normalize_workflow_tasks x)"
  obtains i title st due est bl ca ua
  where "v = JObj (task_record i title st due est bl ca ua)" "strip i \<noteq> []" "title \<noteq> []"
    "st \<in> set task_statuses" "0 \<le> est"
proof -
  from assms obtain es where "v \<in> JObj ` set (dedup_tasks [] es)"
    by (cases x) (simp_all add: normalize_workflow_tasks_def)
  then obtain it where v: "v = JObj it" and "it \<in> set (dedup_tasks [] es)" by blast
  then obtain e where e: "normalize_workflow_task e = Some it"
    using dedup_tasks_from by blast
  from normalize_workflow_task_shape [OF e] obtain i title st due est bl ca ua
    where "it = task_record i title st due est bl ca ua" "strip i \<noteq> []" "title \<noteq> []"
      "st \<in> set task_statuses" "0 \<le> est" .
  then show thesis using that v by simp
qed

section \<open>Lemmas: the string fields of a section\<close>

lemma py_str_JStr [simp]: "py_str (JStr s) = s"
  by simp

lemma dkeys_fill_str: "k \<in> set (dkeys d) \<Longrightarrow> dkeys (fill_str D d k) = dkeys d"
  by (simp add: fill_str_def dkeys_dset)

lemma map_of_fill_str:
  "map_of (fill_str D d f) k =
     (if k = f then Some (JStr (str_or (dget_or d f (JStr [])) (py_str (jget D f)))) else map_of d k)"
  by (simp add: fill_str_def)

lemma dkeys_foldl_fill: "set fs \<subseteq> set (dkeys d) \<Longrightarrow> dkeys (foldl (fill_str D) d fs) = dkeys d"
proof (induction fs arbitrary: d)
  case (Cons f fs)
  then have e: "dkeys (fill_str D d f) = dkeys d" by (simp add: dkeys_fill_str)
  then have "set fs \<subseteq> set (dkeys (fill_str D d f))"
    using Cons.prems by (simp only: e) simp
  from Cons.IH [OF this] e show ?case by simp
qed simp

lemma map_of_foldl_fill:
  "distinct fs \<Longrightarrow> map_of (foldl (fill_str D) d fs) k =
     (if k \<in> set fs then Some (JStr (str_or (dget_or d k (JStr [])) (py_str (jget D k)))) else map_of d k)"
proof (induction fs arbitrary: d)
  case (Cons f fs)
  from Cons.IH [of "fill_str D d f"] Cons.prems show ?case
    by (auto simp: map_of_fill_str dget_or_def)
qed simp

definition filled :: "obj \<Rightarrow> obj \<Rightarrow> string \<Rightarrow> bool" where
  "filled D d k \<longleftrightarrow> (\<exists>s. map_of d k = Some (JStr s) \<and> (s = [] \<longrightarrow> py_str (jget D k) = []))"

lemma fill_str_fix: "filled D d k \<Longrightarrow> fill_str D d k = d"
  by (auto simp: filled_def fill_str_def dget_or_def intro!: dset_same)

lemma foldl_fill_fix: "\<forall>k \<in> set fs. filled D d k \<Longrightarrow> foldl (fill_str D) d fs = d"
  by (induction fs) (simp_all add: fill_str_fix)

lemma foldl_fill_filled:
  "distinct fs \<Longrightarrow> k \<in> set fs \<Longrightarrow> filled D (foldl (fill_str D) d fs) k"
  by (auto simp: filled_def map_of_foldl_fill str_or_def py_or_def split: if_splits)

section \<open>Lemmas: preferences and workflow\<close>

text \<open>A section that starts with the keys of its defaults is unchanged by updating them with it.\<close>

definition extends_keys :: "obj \<Rightarrow> obj \<Rightarrow> bool" where
  "extends_keys D d \<longleftrightarrow> distinct (dkeys d) \<and> (\<exists>ks. dkeys d = dkeys D @ ks)"

lemma extends_keys_update: "distinct (dkeys D) \<Longrightarrow> extends_keys D (dupdate D e)"
  using dkeys_dupdate_prefix [of D e] by (simp add: extends_keys_def)

lemma extends_keys_refl: "distinct (dkeys D) \<Longrightarrow> extends_keys D D"
  by (simp add: extends_keys_def)

lemma extends_keys_self: "extends_keys D d \<Longrightarrow> dupdate D d = d"
  by (auto simp: extends_keys_def intro: dupdate_self)

lemma extends_keys_subset: "extends_keys D d \<Longrightarrow> set (dkeys D) \<subseteq> set (dkeys d)"
  unfolding extends_keys_def by (metis Un_upper1 set_append)

lemma extends_keys_mem: "extends_keys D d \<Longrightarrow> k \<in> set (dkeys D) \<Longrightarrow> k \<in> set (dkeys d)"
  using extends_keys_subset by blast

lemma extends_keys_cong: "dkeys d = dkeys e \<Longrightarrow> extends_keys D d = extends_keys D e"
  by (simp add: extends_keys_def)

lemma extends_keys_dset: "extends_keys D d \<Longrightarrow> k \<in> set (dkeys D) \<Longrightarrow> extends_keys D (dset k v d)"
  using extends_keys_mem [of D d k] by (simp add: extends_keys_def dkeys_dset)

lemma normalize_preferences_idem:
  "normalize_preferences (JObj (normalize_preferences p)) = normalize_preferences p"
proof -
  let ?D = default_preferences
  define d where "d = (case p of JObj e \<Rightarrow> dupdate ?D e | _ \<Rightarrow> ?D)"
  define q where "q = foldl (fill_str ?D) d (dkeys ?D)"
  have D: "distinct (dkeys ?D)" by (simp add: default_preferences_def)
  have d: "extends_keys ?D d"
    using D by (simp add: d_def extends_keys_update extends_keys_refl split: json.split)
  have "dkeys q = dkeys d"
    unfolding q_def by (rule dkeys_foldl_fill [OF extends_keys_subset [OF d]])
  then have q: "extends_keys ?D q" using d by (metis extends_keys_cong)
  have "foldl (fill_str ?D) q (dkeys ?D) = q"
    unfolding q_def by (intro foldl_fill_fix ballI foldl_fill_filled D)
  then have "normalize_preferences (JObj q) = q"
    by (simp only: normalize_preferences_def json.case extends_keys_self [OF q])
  moreover have "normalize_preferences p = q"
    by (simp only: normalize_preferences_def q_def d_def)
  ultimately show ?thesis by simp
qed

definition workflow_shape :: "obj \<Rightarrow> bool" where
  "workflow_shape w \<longleftrightarrow> extends_keys default_workflow w
     \<and> (\<exists>f. map_of w ''current_focus'' = Some (JStr f))
     \<and> (\<exists>s. map_of w ''status'' = Some (JStr s) \<and> s \<noteq> [])
     \<and> (\<exists>xs. map_of w ''next_actions'' = Some (JArr xs))
     \<and> (\<exists>xs. map_of w ''tasks'' = Some (JArr xs))"

lemma normalize_workflow_shape: "workflow_shape (normalize_workflow w)"
proof -
  have D: "distinct (dkeys default_workflow)" by (simp add: default_workflow_def)
  define d where "d = (case w of JObj e \<Rightarrow> dupdate default_workflow e | _ \<Rightarrow> default_workflow)"
  have d: "extends_keys default_workflow d"
    using D by (simp add: d_def extends_keys_update extends_keys_refl split: json.split)
  have k: "{''current_focus'', ''status'', ''next_actions'', ''tasks''} \<subseteq> set (dkeys default_workflow)"
    by (simp add: default_workflow_def)
  have "extends_keys default_workflow (normalize_workflow w)"
    using d k by (simp add: normalize_workflow_def Let_def d_def [symmetric] extends_keys_dset)
  then show ?thesis
    by (auto simp: workflow_shape_def normalize_workflow_def Let_def split: json.split)
qed

lemma normalize_workflow_fix:
  assumes "workflow_shape w"
  shows "normalize_workflow (JObj w) =
           dset ''tasks'' (JArr (normalize_workflow_tasks (jget w ''tasks''))) w"
proof -
  from assms obtain f st na ts where k: "extends_keys default_workflow w"
    and w: "map_of w ''current_focus'' = Some (JStr f)" "map_of w ''status'' = Some (JStr st)" "st \<noteq> []"
      "map_of w ''next_actions'' = Some (JArr na)" "map_of w ''tasks'' = Some (JArr ts)"
    by (auto simp: workflow_shape_def)
  show ?thesis
    by (simp add: normalize_workflow_def extends_keys_self [OF k] dget_or_def w dset_same)
qed

lemma workflow_tasks_of [simp]:
  "map_of (normalize_workflow w) ''tasks'' \<noteq> None"
  by (simp add: normalize_workflow_def Let_def)

lemma normalize_workflow_thrice:
  assumes "w1 = normalize_workflow x" "w2 = normalize_workflow (JObj w1)"
  shows "normalize_workflow (JObj w2) = w2"
proof -
  obtain y where t1: "map_of w1 ''tasks'' = Some (JArr (normalize_workflow_tasks y))"
    using assms(1) by (auto simp: normalize_workflow_def Let_def)
  have w2: "w2 = dset ''tasks'' (JArr (normalize_workflow_tasks (JArr (normalize_workflow_tasks y)))) w1"
    using normalize_workflow_fix [OF normalize_workflow_shape] t1 by (simp add: assms dget_or_def)
  have "workflow_shape w2" using normalize_workflow_shape by (simp add: assms(2))
  from normalize_workflow_fix [OF this] show ?thesis
    using normalize_workflow_tasks_thrice [OF refl refl, of y]
    by (simp add: w2 dget_or_def dset_same)
qed


section \<open>Lemmas: the profile\<close>

definition string_at :: "obj \<Rightarrow> string \<Rightarrow> bool" where
  "string_at d k \<longleftrightarrow> (\<exists>s. map_of d k = Some (JStr s))"

definition profile_shape :: "obj \<Rightarrow> bool" where
  "profile_shape p \<longleftrightarrow> extends_keys default_profile p
     \<and> str_strip_lower (jget p ''display_name'') \<notin> set profile_placeholders
     \<and> str_strip_lower (jget p ''domain'') \<notin> set domain_placeholders
     \<and> (\<forall>k \<in> set required_profile_fields. filled default_profile p k)
     \<and> (\<forall>k \<in> set optional_profile_fields. string_at p k)
     \<and> is_arr (jget p ''ventures'')
     \<and> (\<exists>r. map_of p ''relationship'' = Some (JObj r)
          \<and> filled default_relationship r ''jarvis_role'' \<and> filled default_relationship r ''hi_layer_role'')"

lemma profile_fields_known:
  "distinct (dkeys default_profile)"
  "set required_profile_fields \<subseteq> set (dkeys default_profile)"
  "set optional_profile_fields \<subseteq> set (dkeys default_profile)"
  "''ventures'' \<in> set (dkeys default_profile)" "''relationship'' \<in> set (dkeys default_profile)"
  "distinct required_profile_fields"
  by (simp_all add: default_profile_def required_profile_fields_def optional_profile_fields_def)

lemma fill_optionals_self:
  assumes "\<forall>k \<in> set fs. string_at p k"
  shows "fill_optionals (JObj p) fs p = Inr p"
  using assms
  by (induction fs)
    (auto simp: fill_optional_def member_of_def string_at_def dhas_def dget_or_def dset_same)

lemma fill_optional_result:
  assumes "fill_optional p f d = Inr d'"
  shows "string_at d' f \<and> (\<forall>k. k \<noteq> f \<longrightarrow> map_of d' k = map_of d k) \<and> (\<exists>s. d' = dset f (JStr s) d)"
  using assms
  by (auto simp: fill_optional_def fill_str_def string_at_def split: if_splits json.splits)

lemma fill_optionals_result:
  assumes "fill_optionals p fs d = Inr d'"
  shows "(\<forall>k \<in> set fs. string_at d' k) \<and> (\<forall>k. k \<notin> set fs \<longrightarrow> map_of d' k = map_of d k)
    \<and> (extends_keys D d \<longrightarrow> set fs \<subseteq> set (dkeys D) \<longrightarrow> extends_keys D d')"
  using assms
proof (induction fs arbitrary: d)
  case (Cons f fs)
  then obtain d1 where d1: "fill_optional p f d = Inr d1" and r: "fill_optionals p fs d1 = Inr d'"
    by auto
  from fill_optional_result [OF d1] Cons.IH [OF r] show ?case
    by (auto simp: string_at_def extends_keys_dset simp del: set_map)
qed simp

text \<open>The defaults a placeholder display name brings back.\<close>

definition reset_fields :: obj where
  "reset_fields = filter (\<lambda>(k, v). k \<notin> {''relationship'', ''id'', ''created_at'', ''host'', ''fingerprint''})
     default_profile"

lemma reset_display_alt:
  "reset_display d = (if str_strip_lower (dget_or d ''display_name'' (JStr [])) \<in> set profile_placeholders
     then dupdate d reset_fields else d)"
  by (simp only: reset_display_def reset_fields_def)

lemma reset_fields_facts:
  "set (dkeys reset_fields) \<subseteq> set (dkeys default_profile)"
  "map_of (rev reset_fields) ''display_name'' = Some (jget default_profile ''display_name'')"
  "map_of (rev reset_fields) ''relationship'' = None"
  by (auto simp: reset_fields_def) code_simp+

lemma extends_keys_dupdate:
  "extends_keys D d \<Longrightarrow> set (dkeys e) \<subseteq> set (dkeys D) \<Longrightarrow> extends_keys D (dupdate d e)"
  by (induction d e rule: dupdate.induct) (auto simp: extends_keys_dset simp del: set_map)

lemma reset_keys:
  assumes "extends_keys default_profile d"
  shows "extends_keys default_profile (reset_display d)" "extends_keys default_profile (reset_domain d)"
proof -
  show "extends_keys default_profile (reset_display d)"
    using assms extends_keys_dupdate [OF assms reset_fields_facts(1)]
    by (simp add: reset_display_alt)
  have "''domain'' \<in> set (dkeys default_profile)" by (simp add: default_profile_def)
  then show "extends_keys default_profile (reset_domain d)"
    using assms by (simp only: reset_domain_def extends_keys_dset split: if_split) simp
qed

lemma str_strip_lower_str_or:
  "y \<noteq> [] \<Longrightarrow> lower (strip (str_or x y)) = (if truthy x then str_strip_lower x else lower (strip y))"
  by (simp add: str_strip_lower_def str_strip_def str_or_def py_or_def)

lemma default_names [simp]:
  "str_strip_lower (jget default_profile ''display_name'') \<notin> set profile_placeholders"
  "str_strip_lower (jget default_profile ''domain'') \<notin> set domain_placeholders"
  "py_str (jget default_profile ''display_name'') \<noteq> []" "py_str (jget default_profile ''domain'') \<noteq> []"
  by code_simp+

lemma map_of_dupdate:
  "map_of (dupdate d e) k = (case map_of (rev e) k of None \<Rightarrow> map_of d k | Some v \<Rightarrow> Some v)"
  by (induction d e rule: dupdate.induct) (auto simp: map_add_def split: option.split)

lemma dget_or_present: "dhas d k \<Longrightarrow> dget_or d k (JStr []) = jget d k"
  by (auto simp: dget_or_def dhas_def)

lemma reset_names:
  assumes "extends_keys default_profile d"
  defines "r \<equiv> reset_domain (reset_display d)"
  shows "str_strip_lower (jget r ''display_name'') \<notin> set profile_placeholders"
    "str_strip_lower (jget r ''domain'') \<notin> set domain_placeholders"
proof -
  let ?e = "reset_display d"
  have e: "extends_keys default_profile ?e" by (rule reset_keys [OF assms(1)])
  have mem: "{''display_name'', ''domain''} \<subseteq> set (dkeys default_profile)"
    by (simp add: default_profile_def)
  have h: "dhas d ''display_name''" "dhas ?e ''domain''"
    unfolding dhas_iff using extends_keys_mem [OF assms(1)] extends_keys_mem [OF e] mem by blast+
  have "jget (dupdate d reset_fields) ''display_name'' = jget default_profile ''display_name''"
    by (simp add: dget_or_def [of "dupdate d reset_fields"] map_of_dupdate reset_fields_facts)
  then have "str_strip_lower (jget ?e ''display_name'') \<notin> set profile_placeholders"
    using dget_or_present [OF h(1)]
    by (simp add: reset_display_alt)
  then show "str_strip_lower (jget r ''display_name'') \<notin> set profile_placeholders"
    by (simp add: r_def reset_domain_def)
  show "str_strip_lower (jget r ''domain'') \<notin> set domain_placeholders"
    using dget_or_present [OF h(2)] by (simp add: r_def reset_domain_def)
qed

lemma fill_relationship_result:
  assumes "fill_relationship d = Inr p"
  shows "\<exists>r. p = dset ''relationship'' (JObj r) d \<and> filled default_relationship r ''jarvis_role''
    \<and> filled default_relationship r ''hi_layer_role''"
proof -
  let ?D = default_relationship
  from assms obtain r where "p = dset ''relationship'' (JObj (fill_str ?D (fill_str ?D r ''jarvis_role'')
      ''hi_layer_role'')) d"
    by (auto simp: fill_relationship_def split: json.splits)
  moreover have "filled ?D (foldl (fill_str ?D) r [''jarvis_role'', ''hi_layer_role'']) k"
    if "k \<in> set [''jarvis_role'', ''hi_layer_role'']" for k
    by (rule foldl_fill_filled [OF _ that]) simp
  then have "filled ?D (fill_str ?D (fill_str ?D r ''jarvis_role'') ''hi_layer_role'') k"
    if "k \<in> {''jarvis_role'', ''hi_layer_role''}" for k
    using that by simp
  ultimately show ?thesis by blast
qed
lemma fill_relationship_self:
  assumes "map_of p ''relationship'' = Some (JObj r)"
    "filled default_relationship r ''jarvis_role''" "filled default_relationship r ''hi_layer_role''"
  shows "fill_relationship p = Inr p"
  using assms by (simp add: fill_relationship_def dget_or_def fill_str_fix dset_same)

lemma fill_ventures_facts:
  "is_arr (jget (fill_ventures d) ''ventures'')"
  "k \<noteq> ''ventures'' \<Longrightarrow> map_of (fill_ventures d) k = map_of d k"
  "extends_keys default_profile d \<Longrightarrow> extends_keys default_profile (fill_ventures d)"
  using profile_fields_known(4) by (auto simp: fill_ventures_def extends_keys_dset simp del: set_map)

text \<open>Whatever the input, a normalised profile has the shape; the shape is a fixed point.\<close>

lemma normalize_profile_fix:
  assumes "profile_shape p"
  shows "normalize_profile (JObj p) = Inr p"
proof -
  have k: "extends_keys default_profile p" using assms by (simp add: profile_shape_def)
  have ne: "p \<noteq> []" using assms by (auto simp: profile_shape_def)
  have mem: "{''display_name'', ''domain''} \<subseteq> set (dkeys default_profile)"
    by (simp add: default_profile_def)
  then have h: "dhas p ''display_name''" "dhas p ''domain''"
    unfolding dhas_iff using extends_keys_mem [OF k] by blast+
  have "reset_domain (reset_display p) = p"
    using assms dget_or_present [OF h(1)] dget_or_present [OF h(2)]
    by (simp add: profile_shape_def reset_display_def reset_domain_def)
  moreover have "foldl (fill_str default_profile) p required_profile_fields = p"
    using assms by (intro foldl_fill_fix) (simp add: profile_shape_def)
  moreover have "fill_optionals (JObj p) optional_profile_fields p = Inr p"
    using assms by (intro fill_optionals_self) (simp add: profile_shape_def)
  moreover have "fill_relationship (fill_ventures p) = Inr p"
    using assms by (auto simp: profile_shape_def fill_ventures_def intro: fill_relationship_self)
  ultimately show ?thesis
    using ne by (simp add: normalize_profile_def Let_def extends_keys_self [OF k])
qed


lemma required_optional_disjoint [simp]:
  "k \<in> set required_profile_fields \<Longrightarrow> k \<notin> set optional_profile_fields"
  "''ventures'' \<notin> set optional_profile_fields" "''ventures'' \<notin> set required_profile_fields"
  "''relationship'' \<notin> set optional_profile_fields" "''relationship'' \<notin> set required_profile_fields"
  by (auto simp: required_profile_fields_def optional_profile_fields_def)

lemma filled_cong: "map_of d k = map_of e k \<Longrightarrow> filled D d k = filled D e k"
  by (simp add: filled_def)

lemma normalize_profile_shape:
  assumes "normalize_profile x = Inr p"
  shows "profile_shape p"
proof -
  let ?D = default_profile
  define d0 where "d0 = (case x of JObj e \<Rightarrow> dupdate ?D e | _ \<Rightarrow> ?D)"
  define d1 where "d1 = reset_domain (reset_display d0)"
  define d2 where "d2 = foldl (fill_str ?D) d1 required_profile_fields"
  obtain d3 y where d3: "fill_optionals y optional_profile_fields d2 = Inr d3"
    and p: "fill_relationship (fill_ventures d3) = Inr p"
    using assms by (auto simp: normalize_profile_def Let_def d0_def d1_def d2_def)
  from fill_relationship_result [OF p] obtain r where pr: "p = dset ''relationship'' (JObj r) (fill_ventures d3)"
    and r: "filled default_relationship r ''jarvis_role''" "filled default_relationship r ''hi_layer_role''"
    by blast
  note known = profile_fields_known
  have k0: "extends_keys ?D d0"
    using known(1) by (simp add: d0_def extends_keys_update extends_keys_refl split: json.split)
  have k1: "extends_keys ?D d1" unfolding d1_def by (intro reset_keys k0)
  have m1: "map_of d2 k = (if k \<in> set required_profile_fields
      then Some (JStr (str_or (dget_or d1 k (JStr [])) (py_str (jget ?D k)))) else map_of d1 k)" for k
    unfolding d2_def by (rule map_of_foldl_fill [OF known(6)])
  have "dkeys d2 = dkeys d1"
    unfolding d2_def using known(2) extends_keys_subset [OF k1] by (intro dkeys_foldl_fill) blast
  then have k2: "extends_keys ?D d2" using k1 by (metis extends_keys_cong)
  from fill_optionals_result [OF d3, of ?D] known(3) k2
  have k3: "extends_keys ?D d3" and s3: "\<forall>k \<in> set optional_profile_fields. string_at d3 k"
    and m3: "\<And>k. k \<notin> set optional_profile_fields \<Longrightarrow> map_of d3 k = map_of d2 k"
    by simp_all
  have mp: "map_of p k = map_of d2 k" if "k \<in> set required_profile_fields" for k
  proof -
    from that have "k \<noteq> ''relationship''" "k \<noteq> ''ventures''" by auto
    with that show ?thesis by (simp add: pr fill_ventures_facts m3)
  qed
  have names: "''display_name'' \<in> set required_profile_fields" "''domain'' \<in> set required_profile_fields"
    by (simp_all add: required_profile_fields_def)
  have h1: "dhas d1 ''display_name''" "dhas d1 ''domain''"
    unfolding dhas_iff using extends_keys_mem [OF k1] names known(2) by blast+
  have kept: "str_strip_lower (jget p k) \<notin> set bad"
    if "k \<in> set required_profile_fields" "dhas d1 k" "str_strip_lower (jget d1 k) \<notin> set bad"
      "str_strip_lower (jget ?D k) \<notin> set bad" "is_str (jget ?D k)" "py_str (jget ?D k) \<noteq> []" for k bad
    using that dget_or_present [OF that(2)]
    by (cases "jget ?D k") (auto simp: dget_or_def [of p] mp m1 str_strip_lower_str_or)
  have "is_str (jget ?D ''display_name'')" "is_str (jget ?D ''domain'')" by code_simp+
  then have n: "str_strip_lower (jget p ''display_name'') \<notin> set profile_placeholders"
    "str_strip_lower (jget p ''domain'') \<notin> set domain_placeholders"
    using reset_names [OF k0, folded d1_def] kept [OF names(1) h1(1)] kept [OF names(2) h1(2)] by simp_all
  have f: "\<forall>k \<in> set required_profile_fields. filled ?D p k"
    using foldl_fill_filled [OF known(6), of _ ?D d1] mp by (auto simp: d2_def cong: filled_cong)
  have s: "string_at p k" if "k \<in> set optional_profile_fields" for k
  proof -
    from that have "k \<noteq> ''relationship''" "k \<noteq> ''ventures''" by auto
    with that s3 show ?thesis by (simp add: pr string_at_def fill_ventures_facts)
  qed
  have v: "is_arr (jget p ''ventures'')"
    using fill_ventures_facts(1) by (simp add: pr)
  have "extends_keys ?D p" unfolding pr by (intro extends_keys_dset fill_ventures_facts k3 known)
  with n f s v r show ?thesis by (auto simp: profile_shape_def pr)
qed

section \<open>Lemmas: the whole state\<close>

text \<open>The states normalisation produces.\<close>

definition normalized :: "hi_state \<Rightarrow> bool" where
  "normalized s \<longleftrightarrow> profile_shape (profile s)
     \<and> (\<exists>p. preferences s = normalize_preferences p)
     \<and> (\<exists>m. memory s = normalize_memory m)
     \<and> (\<exists>w. workflow s = normalize_workflow w)"

lemma normalize_state_normalized: "normalize_state x = Inr s \<Longrightarrow> normalized s"
  by (auto simp: normalize_state_def normalized_def normalize_profile_shape split: json.splits if_splits)

lemma normalize_dump:
  assumes "normalized s"
  shows "normalize_state (dump_state s) =
     Inr \<lparr>profile = profile s, preferences = preferences s,
          memory = normalize_memory (JArr (map JObj (memory s))),
          workflow = normalize_workflow (JObj (workflow s))\<rparr>"
proof -
  from assms obtain p where "preferences s = normalize_preferences p" by (auto simp: normalized_def)
  then have "normalize_preferences (JObj (preferences s)) = preferences s"
    by (simp add: normalize_preferences_idem)
  moreover have "normalize_profile (JObj (profile s)) = Inr (profile s)"
    using assms by (intro normalize_profile_fix) (simp add: normalized_def)
  ultimately show ?thesis
    by (simp add: normalize_state_def dump_state_def dget_or_def)
qed

lemma normalize_state_settles:
  assumes "normalize_state x = Inr s1" "normalize_state (dump_state s1) = Inr s2"
  shows "normalize_state (dump_state s2) = Inr s2"
proof -
  have n1: "normalized s1" and n2: "normalized s2"
    using assms normalize_state_normalized by blast+
  from n1 obtain m w where m: "memory s1 = normalize_memory m" and w: "workflow s1 = normalize_workflow w"
    by (auto simp: normalized_def)
  from normalize_dump [OF n1] assms(2)
  have s2: "memory s2 = normalize_memory (JArr (map JObj (memory s1)))"
    "workflow s2 = normalize_workflow (JObj (workflow s1))" by auto
  have "normalize_memory (JArr (map JObj (memory s2))) = memory s2"
    by (rule normalize_memory_twice(2) [OF refl]) (simp add: s2 m)
  moreover have "normalize_workflow (JObj (workflow s2)) = workflow s2"
    by (rule normalize_workflow_thrice [OF refl]) (simp add: s2 w)
  ultimately show ?thesis
    by (simp add: normalize_dump [OF n2])
qed

lemma normalize_empty: "normalize_state (JObj []) = Inr default_state"
  by code_simp

lemma default_state_fixed: "normalize_state (dump_state default_state) = Inr default_state"
  by code_simp

lemma default_state_normalized: "normalized default_state"
  using normalize_empty by (rule normalize_state_normalized)

section \<open>The interface: what a state normaliser promises\<close>

locale normalizer =
  fixes norm :: "'raw \<Rightarrow> 's outcome"
    and dump :: "'s \<Rightarrow> 'raw"
    and wf :: "'s \<Rightarrow> bool"
  assumes norm_wf: "norm x = Inr s \<Longrightarrow> wf s"
    and norm_total: "wf s \<Longrightarrow> \<exists>t. norm (dump s) = Inr t"
    and norm_settles: "norm x = Inr s \<Longrightarrow> norm (dump s) = Inr t \<Longrightarrow> norm (dump t) = Inr t"
begin

text \<open>A state written back and read any number of times: only the first re-read can change it.\<close>

fun reread :: "nat \<Rightarrow> 's \<Rightarrow> 's outcome" where
  "reread 0 s = Inr s"
| "reread (Suc n) s = and_then (norm (dump s)) (reread n)"

lemma reread_fixed: "norm (dump s) = Inr s \<Longrightarrow> reread n s = Inr s"
  by (induction n) simp_all

lemma reread_stable:
  assumes "norm x = Inr s"
  shows "\<exists>t. wf t \<and> (\<forall>n. reread (Suc n) s = Inr t)"
proof -
  from norm_total [OF norm_wf [OF assms]] obtain t where t: "norm (dump s) = Inr t" by blast
  have "reread (Suc n) s = Inr t" for n
    using reread_fixed [OF norm_settles [OF assms t]] by (simp add: t)
  with norm_wf [OF t] show ?thesis by blast
qed

end

interpretation hi: normalizer normalize_state dump_state normalized
proof unfold_locales
  show "normalized s" if "normalize_state x = Inr s" for x s
    using that by (rule normalize_state_normalized)
  show "\<exists>t. normalize_state (dump_state s) = Inr t" if "normalized s" for s
    using normalize_dump [OF that] by blast
  show "normalize_state (dump_state t) = Inr t"
    if "normalize_state x = Inr s" "normalize_state (dump_state s) = Inr t" for x s t
    using that by (rule normalize_state_settles)
qed
end
