(* ===== verification/HI_State.thy ===== *)
theory HI_State
  imports Validate_State
begin

text \<open>
  Model of \<open>Kingofyadav/state_manager.py\<close>, \<open>profile.py\<close>, \<open>preferences.py\<close> and \<open>workflow.py\<close>, with
  the parts of \<open>shared/identity.py\<close> they call: loading, updating and saving \<open>state.json\<close>, and the
  operations that mutate the profile, preferences and workflow sections.

  The file is \<open>Missing\<close>, unreadable, or a JSON document; \<open>json.dump\<close> followed by \<open>json.load\<close> gives
  the same value. What an operation reads from its surroundings (a fresh identifier, the clock, the
  host and user name, SHA-256) is one record, read once per call.
\<close>

section \<open>The state file and its surroundings\<close>

datatype state_doc = Missing | Garbled | Doc json

record host_env =
  fresh_uuid :: string
  now_iso :: string
  hostname :: string
  sysuser :: string
  sha256_hex :: "string \<Rightarrow> string"

definition make_fingerprint :: "host_env \<Rightarrow> json list \<Rightarrow> string" where
  "make_fingerprint env parts = sha256_hex env (join '':'' (map py_str parts))"

definition generate_id :: "host_env \<Rightarrow> string \<Rightarrow> string" where
  "generate_id env p = p @ ''-'' @ fresh_uuid env"

section \<open>state_manager.py\<close>

definition set_if_empty :: "string \<Rightarrow> string \<Rightarrow> obj \<Rightarrow> obj" where
  "set_if_empty k v d = (if truthy (jget d k) then d else dset k (JStr v) d)"

definition ensure_profile_identity :: "host_env \<Rightarrow> obj \<Rightarrow> obj" where
  "ensure_profile_identity env p =
     (let p1 = set_if_empty ''id'' (generate_id env ''hi'') p;
          p2 = set_if_empty ''created_at'' (now_iso env) p1;
          p3 = set_if_empty ''host'' (hostname env) p2;
          p4 = set_if_empty ''username'' (sysuser env) p3
      in dset ''fingerprint'' (JStr (make_fingerprint env
           [jget p4 ''id'', dget_or p4 ''username'' (JStr []), dget_or p4 ''host'' (JStr [])])) p4)"

definition ensure_hi_identity :: "host_env \<Rightarrow> hi_state \<Rightarrow> hi_state" where
  "ensure_hi_identity env s = s\<lparr>profile := ensure_profile_identity env (profile s)\<rparr>"

text \<open>\<open>bool(raw.get("profile", {}).get("id"))\<close>\<close>

definition raw_has_id :: "json \<Rightarrow> bool outcome" where
  "raw_has_id raw =
     (case raw of
        JObj d \<Rightarrow> (case dget_or d ''profile'' (JObj []) of
                   JObj p \<Rightarrow> Inr (truthy (jget p ''id'')) | _ \<Rightarrow> Inl AttributeError)
      | _ \<Rightarrow> Inl AttributeError)"

text \<open>The temporary file replaces the target in one rename, so the target changes only at the end.\<close>

definition save_state :: "hi_state \<Rightarrow> (state_doc, unit) act" where
  "save_state s =
     act_bind (act_of (normalize_state (dump_state s)))
       (\<lambda>merged. act_modify (\<lambda>_. Doc (dump_state merged)))"

definition load_state :: "host_env \<Rightarrow> (state_doc, hi_state) act" where
  "load_state env =
     act_bind (act_get id) (\<lambda>doc.
     act_bind (act_of (case doc of
         Missing \<Rightarrow> Inr (False, default_state)
       | Garbled \<Rightarrow> Inl (ValueError [])
       | Doc raw \<Rightarrow> and_then (raw_has_id raw) (\<lambda>h. and_then (normalize_state raw) (\<lambda>s. Inr (h, s)))))
     (\<lambda>(had_id, s0).
        let s = ensure_hi_identity env s0
        in act_bind (if had_id then act_return () else save_state s) (\<lambda>_. act_return s)))"

definition update_state :: "host_env \<Rightarrow> (hi_state \<Rightarrow> hi_state outcome) \<Rightarrow> (state_doc, hi_state) act" where
  "update_state env mutator =
     act_bind (load_state env) (\<lambda>s.
     act_bind (act_of (mutator s)) (\<lambda>s'.
     act_bind (save_state s') (\<lambda>_.
     act_of (normalize_state (dump_state s')))))"

section \<open>profile.py\<close>

text \<open>\<open>raw_payload not in ("", None, {})\<close>\<close>

definition has_payload :: "json \<Rightarrow> bool" where
  "has_payload p \<longleftrightarrow> p \<notin> {JStr [], JNull, JObj []}"

definition payload_detail :: "json \<Rightarrow> string" where
  "payload_detail p = (if has_payload p then '' Request context: '' @ py_str p @ ''.'' else [])"

type_synonym reply = obj

definition reply_args :: "string \<Rightarrow> string \<Rightarrow> json" where
  "reply_args m v = JObj [(''module'', JStr m), (''view'', JStr v)]"

definition text_reply :: "string \<Rightarrow> json \<Rightarrow> reply" where
  "text_reply t args = [(''text'', JStr t), (''args'', args)]"

text \<open>\<open>d[k]\<close>\<close>

definition subscript :: "obj \<Rightarrow> string \<Rightarrow> json outcome" where
  "subscript d k = (case map_of d k of None \<Rightarrow> Inl (KeyError k) | Some v \<Rightarrow> Inr v)"

definition get_profile_summary :: "host_env \<Rightarrow> json \<Rightarrow> (state_doc, reply) act" where
  "get_profile_summary env raw =
     act_bind (load_state env) (\<lambda>s.
     act_bind (act_of (subscript (profile s) ''identity_summary'')) (\<lambda>v.
     act_return (text_reply (''HI profile summary: '' @ py_str v @ payload_detail raw)
       (reply_args ''profile'' ''summary''))))"

definition set_profile_field :: "host_env \<Rightarrow> string \<Rightarrow> string \<Rightarrow> (state_doc, obj) act" where
  "set_profile_field env field v =
     act_bind (update_state env (\<lambda>s. Inr (s\<lparr>profile := dset field (JStr v) (profile s)\<rparr>)))
       (\<lambda>s. act_return (profile s))"

definition get_hi_intro :: "host_env \<Rightarrow> json \<Rightarrow> (state_doc, reply) act" where
  "get_hi_intro env raw =
     act_bind (load_state env) (\<lambda>s.
     act_bind (act_of (subscript (profile s) ''display_name'')) (\<lambda>n.
     act_bind (act_of (subscript (profile s) ''owner_role'')) (\<lambda>r.
     act_return (text_reply (''HI intro: '' @ py_str n @ '' is the '' @ py_str r @ ''.'' @ payload_detail raw)
       (reply_args ''profile'' ''hi_intro'')))))"

definition get_relationship_summary :: "host_env \<Rightarrow> json \<Rightarrow> (state_doc, reply) act" where
  "get_relationship_summary env raw =
     act_bind (load_state env) (\<lambda>s.
     act_bind (act_of (case dget_or (profile s) ''relationship'' (JObj []) of
                         JObj r \<Rightarrow> Inr r | _ \<Rightarrow> Inl AttributeError)) (\<lambda>r.
     act_return (text_reply
       (''Relationship model: Jarvis handles '' @
        py_str (dget_or r ''jarvis_role'' (JStr ''local execution'')) @
        '', while Kingofyadav provides the '' @
        py_str (dget_or r ''hi_layer_role'' (JStr ''human interface layer'')) @ ''.'' @ payload_detail raw)
       (reply_args ''profile'' ''relationship''))))"

section \<open>preferences.py\<close>

definition set_preference :: "host_env \<Rightarrow> string \<Rightarrow> string \<Rightarrow> (state_doc, obj) act" where
  "set_preference env key v =
     act_bind (update_state env (\<lambda>s. Inr (s\<lparr>preferences := dset key (JStr v) (preferences s)\<rparr>)))
       (\<lambda>s. act_return (preferences s))"

definition get_preferences_summary :: "host_env \<Rightarrow> json \<Rightarrow> (state_doc, reply) act" where
  "get_preferences_summary env raw =
     act_bind (load_state env) (\<lambda>s.
       let p = preferences s in
       act_return (text_reply
         (''Preferences summary: response_style='' @
          py_str (dget_or p ''response_style'' (JStr ''structured'')) @ '', local_execution='' @
          py_str (dget_or p ''local_execution'' (JStr ''preserve Jarvis local execution'')) @
          '', hi_routing='' @
          py_str (dget_or p ''hi_routing'' (JStr ''route human-interface topics through Kingofyadav'')) @
          ''.'' @ payload_detail raw)
         (reply_args ''preferences'' ''summary'')))"


section \<open>workflow.py\<close>

definition task_id :: "host_env \<Rightarrow> string \<Rightarrow> string" where
  "task_id env title =
     (let t = lower (strip title);
          slug0 = take 32 (join ''-'' (split_ws t));
          slug = (if slug0 = [] then ''task'' else slug0)
      in slug @ ''-'' @ take 8 (sha256_hex env t))"

text \<open>
  The tasks after changing in place the first one with the identifier, or \<open>None\<close> when no task has
  it; an element that is not a dict has no \<open>get\<close>.
\<close>

fun change_task :: "string \<Rightarrow> (obj \<Rightarrow> obj) \<Rightarrow> json list \<Rightarrow> json list option outcome" where
  "change_task i f [] = Inr None"
| "change_task i f (JObj t # ts) =
     (if jget t ''id'' = JStr i then Inr (Some (JObj (f t) # ts))
      else and_then (change_task i f ts) (\<lambda>r. Inr (map_option ((#) (JObj t)) r)))"
| "change_task i f (_ # ts) = Inl AttributeError"

text \<open>\<open>state["workflow"].setdefault("tasks", [])\<close> as a list, and the workflow with the list put back.\<close>

definition workflow_tasks :: "hi_state \<Rightarrow> json list outcome" where
  "workflow_tasks s =
     (case dget_or (workflow s) ''tasks'' (JArr []) of JArr ts \<Rightarrow> Inr ts | _ \<Rightarrow> Inl AttributeError)"

definition with_tasks :: "json list \<Rightarrow> hi_state \<Rightarrow> hi_state" where
  "with_tasks ts s = s\<lparr>workflow := dset ''tasks'' (JArr ts) (workflow s)\<rparr>"

definition get_workflow :: "host_env \<Rightarrow> (state_doc, obj) act" where
  "get_workflow env = act_bind (load_state env) (\<lambda>s. act_return (workflow s))"

definition update_focus :: "host_env \<Rightarrow> string \<Rightarrow> (state_doc, obj) act" where
  "update_focus env task =
     act_bind (update_state env
       (\<lambda>s. Inr (s\<lparr>workflow := dset ''current_focus'' (JStr task) (workflow s)\<rparr>)))
       (\<lambda>s. act_return (workflow s))"

definition new_task :: "host_env \<Rightarrow> string \<Rightarrow> string \<Rightarrow> int \<Rightarrow> string \<Rightarrow> json list \<Rightarrow> obj" where
  "new_task env title due estimate status blockers =
     [(''id'', JStr (task_id env title)), (''title'', JStr title), (''status'', JStr status),
      (''due'', JStr (strip due)), (''estimate_minutes'', JInt (max 0 estimate)),
      (''blockers'', JArr blockers), (''created_at'', JStr (now_iso env)), (''updated_at'', JStr (now_iso env))]"

text \<open>Replacing a task by a new one with the same identifier keeps only its creation time.\<close>

definition replaced_task :: "host_env \<Rightarrow> obj \<Rightarrow> obj \<Rightarrow> obj" where
  "replaced_task env task old =
     dupdate old (dset ''created_at'' (dget_or old ''created_at'' (JStr (now_iso env))) task)"

definition add_task_mutator :: "host_env \<Rightarrow> obj \<Rightarrow> string \<Rightarrow> hi_state \<Rightarrow> hi_state outcome" where
  "add_task_mutator env task cleaned s =
     and_then (workflow_tasks s) (\<lambda>ts.
     and_then (change_task (task_id env cleaned) (replaced_task env task) ts) (\<lambda>r.
       let s1 = with_tasks (case r of Some ts' \<Rightarrow> ts' | None \<Rightarrow> ts @ [JObj task]) s
       in Inr (if truthy (jget (workflow s1) ''current_focus'') then s1
               else s1\<lparr>workflow := dset ''current_focus'' (JStr cleaned) (workflow s1)\<rparr>)))"

definition add_task ::
  "host_env \<Rightarrow> string \<Rightarrow> string \<Rightarrow> int \<Rightarrow> string \<Rightarrow> json list \<Rightarrow> (state_doc, obj) act" where
  "add_task env title due estimate status blockers =
     (let cleaned = strip title; st0 = lower (strip status);
          st = (if st0 \<in> set task_statuses then st0 else ''todo'')
      in if cleaned = [] then get_workflow env
         else act_bind (update_state env (add_task_mutator env (new_task env cleaned due estimate st blockers) cleaned))
                (\<lambda>s. act_return (workflow s)))"

text \<open>The three operations on one task change it in place if it is there and touch its timestamp.\<close>

definition touch :: "host_env \<Rightarrow> obj \<Rightarrow> obj" where
  "touch env t = dset ''updated_at'' (JStr (now_iso env)) t"

definition on_task :: "string \<Rightarrow> (obj \<Rightarrow> obj) \<Rightarrow> hi_state \<Rightarrow> hi_state outcome" where
  "on_task i f s =
     and_then (workflow_tasks s) (\<lambda>ts.
     and_then (change_task (strip i) f ts) (\<lambda>r.
       Inr (with_tasks (case r of Some ts' \<Rightarrow> ts' | None \<Rightarrow> ts) s)))"

definition update_task_status :: "host_env \<Rightarrow> string \<Rightarrow> string \<Rightarrow> (state_doc, obj) act" where
  "update_task_status env i status =
     (let st = lower (strip status)
      in if st \<notin> set task_statuses then get_workflow env
         else act_bind (update_state env (on_task i (\<lambda>t. touch env (dset ''status'' (JStr st) t))))
                (\<lambda>s. act_return (workflow s)))"

text \<open>
  \<open>blockers = task.setdefault("blockers", [])\<close>: loaded tasks always hold a list there.
\<close>

definition blocked_task :: "host_env \<Rightarrow> string \<Rightarrow> obj \<Rightarrow> obj" where
  "blocked_task env b t =
     (let bs = (case dget_or t ''blockers'' (JArr []) of JArr xs \<Rightarrow> xs | _ \<Rightarrow> []);
          bs' = (if JStr b \<in> set bs then bs else bs @ [JStr b])
      in touch env (dset ''status'' (JStr ''blocked'') (dset ''blockers'' (JArr bs') t)))"

definition add_task_blocker :: "host_env \<Rightarrow> string \<Rightarrow> string \<Rightarrow> (state_doc, obj) act" where
  "add_task_blocker env i blocker =
     (let b = strip blocker
      in if b = [] then get_workflow env
         else act_bind (update_state env (on_task i (blocked_task env b)))
                (\<lambda>s. act_return (workflow s)))"

definition update_task_due :: "host_env \<Rightarrow> string \<Rightarrow> string \<Rightarrow> (state_doc, obj) act" where
  "update_task_due env i due =
     act_bind (update_state env (on_task i (\<lambda>t. touch env (dset ''due'' (JStr (strip due)) t))))
       (\<lambda>s. act_return (workflow s))"

definition format_task :: "obj \<Rightarrow> string outcome" where
  "format_task t =
     (let due = (if truthy (jget t ''due'') then '' due='' @ py_str (jget t ''due'') else []);
          est = (if truthy (jget t ''estimate_minutes'')
                 then '' estimate='' @ py_str (jget t ''estimate_minutes'') @ ''m'' else []);
          bs = py_or (jget t ''blockers'') (JArr [])
      in and_then (if truthy bs then and_then (py_len bs) (\<lambda>n. Inr ('' blockers='' @ show_nat n)) else Inr [])
           (\<lambda>bt. Inr (''  '' @ py_str (jget t ''id'') @ '' ['' @ py_str (jget t ''status'') @ ''] '' @
              py_str (jget t ''title'') @ due @ est @ bt)))"

definition get_workflow_summary :: "host_env \<Rightarrow> json \<Rightarrow> (state_doc, reply) act" where
  "get_workflow_summary env raw =
     act_bind (get_workflow env) (\<lambda>w.
     act_bind (act_of (as_objs (dget_or w ''tasks'' (JArr [])))) (\<lambda>tasks.
     act_bind (act_of (filter_out (\<lambda>t. and_then (in_str_set [''done'', ''cancelled''] (jget t ''status''))
                                  (\<lambda>b. Inr (\<not> b))) tasks)) (\<lambda>open_tasks.
     act_bind (act_of (traverse format_task (take 8 open_tasks))) (\<lambda>lines.
       let blocked = filter (\<lambda>t. jget t ''status'' = JStr ''blocked'') tasks;
           task_lines = join [CHR 10] lines;
           section = (if task_lines \<noteq> [] then [CHR 10] @ ''Open tasks:'' @ [CHR 10] @ task_lines
                      else [CHR 10] @ ''Open tasks: none'')
       in act_return (text_reply
            (''Workflow summary: status='' @ py_str (dget_or w ''status'' (JStr ''ready'')) @
             '', current_focus='' @ py_str (py_or (dget_or w ''current_focus'' (JStr [])) (JStr ''none'')) @
             '', tasks='' @ show_nat (length tasks) @ '', open='' @ show_nat (length open_tasks) @
             '', blocked='' @ show_nat (length blocked) @ ''.'' @ section @ payload_detail raw)
            (reply_args ''workflow'' ''summary''))))))"

section \<open>Lemmas: settled states\<close>

text \<open>A state that reading back leaves as it is; every field of it is a fixed point.\<close>

definition settled :: "hi_state \<Rightarrow> bool" where
  "settled s \<longleftrightarrow> normalize_state (dump_state s) = Inr s"

definition one_pass_entry :: "json \<Rightarrow> bool" where
  "one_pass_entry e \<longleftrightarrow> (\<forall>j. entry_pass e = Some j \<longrightarrow> entry_pass (JObj j) = Some j)"

definition one_pass_task :: "json \<Rightarrow> bool" where
  "one_pass_task v \<longleftrightarrow> (\<forall>j. normalize_workflow_task v = Some j \<longrightarrow> normalize_workflow_task (JObj j) = Some j)"

lemma settled_normalized: "settled s \<Longrightarrow> normalized s"
  unfolding settled_def by (rule normalize_state_normalized)

lemma dedup_memory_length: "length (dedup_memory seen es) \<le> length es"
proof (induction es arbitrary: seen)
  case (Cons e es)
  from Cons [of seen] show ?case
    by (auto simp: dedup_memory_Cons le_SucI Cons split: option.split simp del: dedup_memory.simps)
qed simp

lemma dedup_memory_full:
  "length (dedup_memory seen es) = length es \<Longrightarrow> map entry_pass es = map Some (dedup_memory seen es)"
proof (induction es arbitrary: seen)
  case (Cons e es)
  from dedup_memory_length [of seen es] Cons show ?case
    by (auto simp: dedup_memory_Cons split: option.splits if_splits simp del: dedup_memory.simps)
qed simp

lemma dedup_memory_passes: "i \<in> set (dedup_memory seen es) \<Longrightarrow> \<exists>e \<in> set es. entry_pass e = Some i"
proof (induction es arbitrary: seen)
  case (Cons e es)
  then show ?case
    by (fastforce simp only: dedup_memory_Cons list.set split: option.splits if_splits)
qed simp

lemma dedup_tasks_length: "length (dedup_tasks seen es) \<le> length es"
proof (induction es arbitrary: seen)
  case (Cons e es)
  from Cons [of seen] show ?case by (auto simp: le_SucI Cons split: option.split)
qed simp

lemma dedup_tasks_full:
  "length (dedup_tasks seen es) = length es \<Longrightarrow>
   map normalize_workflow_task es = map Some (dedup_tasks seen es)"
proof (induction es arbitrary: seen)
  case (Cons e es)
  from dedup_tasks_length [of seen es] Cons show ?case
    by (auto split: option.splits if_splits)
qed simp

lemma settled_memory:
  assumes "normalize_memory (JArr (map JObj m)) = m"
  shows "\<forall>i \<in> set m. entry_pass (JObj i) = Some i" "distinct (map memory_marker m)"
proof -
  have "map entry_pass (map JObj m) = map Some (dedup_memory [] (map JObj m))"
    by (rule dedup_memory_full) (use assms in \<open>simp add: normalize_memory_def\<close>)
  then show "\<forall>i \<in> set m. entry_pass (JObj i) = Some i"
    using assms by (simp add: normalize_memory_def)
  show "distinct (map memory_marker m)"
    using normalize_memory_markers [of "JArr (map JObj m)"] assms by simp
qed

lemma memory_once:
  assumes "\<forall>e \<in> set es. one_pass_entry e" "m = normalize_memory (JArr es)"
  shows "normalize_memory (JArr (map JObj m)) = m"
proof -
  have m: "m = dedup_memory [] es" by (simp add: assms(2) normalize_memory_def)
  have "entry_pass (JObj i) = Some i" if "i \<in> set m" for i
    using dedup_memory_passes [of i "[]" es] that assms(1) by (auto simp: m one_pass_entry_def)
  then have "dedup_memory [] (map JObj m) = map (\<lambda>i. i) m"
    using dedup_memory_markers [of "[]" es] by (intro dedup_memory_map) (simp_all add: m)
  then show ?thesis by (simp add: normalize_memory_def)
qed

lemma tasks_once:
  assumes "\<forall>v \<in> set ts. one_pass_task v" "t = normalize_workflow_tasks (JArr ts)"
  shows "normalize_workflow_tasks (JArr t) = t"
proof -
  let ?d = "dedup_tasks [] ts"
  have "dedup_tasks [] (map JObj ?d) = ?d"
  proof (rule dedup_tasks_fixed)
    show "normalize_workflow_task (JObj i) = Some i" if "i \<in> set ?d" for i
      using dedup_tasks_from [OF that] assms(1) by (auto simp: one_pass_task_def)
  qed (use dedup_tasks_keys [of "[]" ts] in auto)
  then show ?thesis by (simp add: assms(2) normalize_workflow_tasks_def)
qed

lemma tasks_fixed:
  assumes "\<forall>i \<in> set ds. normalize_workflow_task (JObj i) = Some i" "distinct (map task_key ds)"
  shows "normalize_workflow_tasks (JArr (map JObj ds)) = map JObj ds"
  using dedup_tasks_fixed [of ds "[]"] assms by (simp add: normalize_workflow_tasks_def)

text \<open>One pass settles a state whose entries and tasks settle in one pass.\<close>

lemma settles_once:
  assumes t: "normalize_state (dump_state s) = Inr t"
    and m: "\<forall>e \<in> set (memory s). one_pass_entry (JObj e)"
    and d: "distinct (dkeys (workflow s))"
    and w: "\<And>ts. map_of (workflow s) ''tasks'' = Some (JArr ts) \<Longrightarrow> \<forall>v \<in> set ts. one_pass_task v"
  shows "settled t"
proof -
  have n: "normalized t" using t by (rule normalize_state_normalized)
  have mt: "memory t = normalize_memory (JArr (map JObj (memory s)))"
    and wt: "workflow t = normalize_workflow (JObj (workflow s))"
    using t by (auto simp: normalize_state_def dump_state_def dget_or_def)
  have "normalize_memory (JArr (map JObj (memory t))) = memory t"
    by (rule memory_once [OF _ mt]) (use m in auto)
  moreover have "normalize_workflow (JObj (workflow t)) = workflow t"
  proof -
    have "map_of (rev (workflow s)) ''tasks'' = map_of (workflow s) ''tasks''"
      using map_of_inject_set [of "rev (workflow s)" "workflow s"] d by (simp add: rev_map [symmetric])
    then have x: "map_of (dupdate default_workflow (workflow s)) ''tasks'' =
       (case map_of (workflow s) ''tasks'' of None \<Rightarrow> Some (JArr []) | Some v \<Rightarrow> Some v)"
      by (simp add: map_of_dupdate default_workflow_def split: option.split)
    obtain y where y: "map_of (workflow t) ''tasks'' = Some (JArr (normalize_workflow_tasks y))"
      and yy: "dget_or (dupdate default_workflow (workflow s)) ''tasks'' (JArr []) = y"
      by (simp add: wt normalize_workflow_def Let_def)
    have "normalize_workflow_tasks (JArr (normalize_workflow_tasks y)) = normalize_workflow_tasks y"
    proof (cases y)
      case (JArr ts)
      with yy x w have "\<forall>v \<in> set ts. one_pass_task v"
        by (auto simp: dget_or_def split: option.splits)
      then show ?thesis using JArr tasks_once by blast
    qed (simp_all add: normalize_workflow_tasks_def)
    with y show ?thesis
      using normalize_workflow_fix [OF normalize_workflow_shape, of "JObj (workflow s)"]
      by (simp add: wt [symmetric] dget_or_def dset_same)
  qed
  ultimately show ?thesis by (simp add: settled_def normalize_dump [OF n])
qed

lemma settled_facts:
  assumes "settled s"
  shows "profile_shape (profile s)" "workflow_shape (workflow s)"
    "normalize_memory (JArr (map JObj (memory s))) = memory s"
    "normalize_workflow (JObj (workflow s)) = workflow s"
    "normalize_preferences (JObj (preferences s)) = preferences s"
proof -
  from settled_normalized [OF assms] have n: "normalized s" .
  then show "profile_shape (profile s)" "workflow_shape (workflow s)"
    using normalize_workflow_shape by (auto simp: normalized_def)
  from n show "normalize_preferences (JObj (preferences s)) = preferences s"
    using normalize_preferences_idem by (auto simp: normalized_def)
  from normalize_dump [OF n] assms
  show "normalize_memory (JArr (map JObj (memory s))) = memory s"
    "normalize_workflow (JObj (workflow s)) = workflow s"
    by (simp_all add: settled_def)
      (metis hi_state.ext_inject hi_state.surjective)+
qed

lemma settledI:
  assumes "profile_shape (profile s)" "normalize_preferences (JObj (preferences s)) = preferences s"
    "normalize_memory (JArr (map JObj (memory s))) = memory s"
    "normalize_workflow (JObj (workflow s)) = workflow s"
  shows "settled s"
  using assms by (simp add: settled_def normalize_state_def dump_state_def dget_or_def normalize_profile_fix)


section \<open>Lemmas: identity and loading\<close>

lemma extends_keys_dset_any: "extends_keys D d \<Longrightarrow> extends_keys D (dset k v d)"
proof (cases "k \<in> set (dkeys d)")
  case True
  then show "extends_keys D d \<Longrightarrow> ?thesis" by (simp add: extends_keys_def dkeys_dset)
next
  case False
  then show "extends_keys D d \<Longrightarrow> ?thesis" by (auto simp add: extends_keys_def dkeys_dset)
qed

definition free_fields :: "string list" where
  "free_fields = [''id'', ''created_at'', ''host'', ''username'', ''fingerprint'']"

lemma profile_shape_dset:
  assumes "profile_shape p" "k \<in> set free_fields"
  shows "profile_shape (dset k (JStr v) p)"
proof -
  have k: "k \<notin> set required_profile_fields" "k \<noteq> ''ventures''" "k \<noteq> ''relationship''"
    "k \<noteq> ''display_name''" "k \<noteq> ''domain''"
    using assms(2) by (auto simp: free_fields_def required_profile_fields_def)
  have "filled default_profile (dset k (JStr v) p) f" if "f \<in> set required_profile_fields" for f
    using that assms(1) k(1) by (auto simp: profile_shape_def filled_def)
  with assms(1) k show ?thesis
    by (auto simp: profile_shape_def extends_keys_dset_any string_at_def dget_or_def)
qed

lemma profile_shape_set_if_empty:
  "profile_shape p \<Longrightarrow> k \<in> set free_fields \<Longrightarrow> profile_shape (set_if_empty k v p)"
  by (simp add: set_if_empty_def profile_shape_dset)

lemma profile_shape_identity: "profile_shape p \<Longrightarrow> profile_shape (ensure_profile_identity env p)"
  by (simp add: ensure_profile_identity_def Let_def profile_shape_dset profile_shape_set_if_empty free_fields_def)

lemma settled_identity: "settled s \<Longrightarrow> settled (ensure_hi_identity env s)"
  using settled_facts [of s]
  by (intro settledI) (simp_all add: ensure_hi_identity_def profile_shape_identity)

lemma jget_set_if_empty:
  "jget (set_if_empty k v p) k' =
     (if k' = k \<and> \<not> truthy (jget p k) then JStr v else jget p k')"
  by (simp add: set_if_empty_def)

lemma identity_id:
  "jget (ensure_profile_identity env p) ''id'' =
     (if truthy (jget p ''id'') then jget p ''id'' else JStr (generate_id env ''hi''))"
  by (simp add: ensure_profile_identity_def Let_def jget_set_if_empty)

lemma generate_id_truthy [simp]: "truthy (JStr (generate_id env p))"
  by (simp add: generate_id_def)

lemma identity_truthy: "truthy (jget (ensure_profile_identity env p) ''id'')"
  using generate_id_truthy by (simp add: identity_id)

text \<open>The files every operation below is run on: a settled state that has its identifier.\<close>

definition hi_ready :: "hi_state \<Rightarrow> bool" where
  "hi_ready s \<longleftrightarrow> settled s \<and> truthy (jget (profile s) ''id'')"

lemma load_ready:
  assumes "hi_ready s"
  shows "load_state env (Doc (dump_state s)) = (Inr (ensure_hi_identity env s), Doc (dump_state s))"
  using assms
  by (simp add: load_state_def act_bind_app raw_has_id_def dump_state_def dget_or_def hi_ready_def
      settled_def Let_def)

lemma ready_identity: "hi_ready s \<Longrightarrow> hi_ready (ensure_hi_identity env s)"
  by (simp add: hi_ready_def settled_identity) (simp add: ensure_hi_identity_def identity_truthy)

lemma update_ready:
  assumes "hi_ready s" "f (ensure_hi_identity env s) = Inr s'" "normalize_state (dump_state s') = Inr t"
  shows "update_state env f (Doc (dump_state s)) = (Inr t, Doc (dump_state t))"
  using assms by (simp add: update_state_def act_bind_app load_ready save_state_def)

text \<open>A mutator whose result is settled already: the file holds exactly that result.\<close>

lemma update_settled:
  assumes "hi_ready s" "f (ensure_hi_identity env s) = Inr s'" "settled s'"
  shows "update_state env f (Doc (dump_state s)) = (Inr s', Doc (dump_state s'))"
  using update_ready [where f = f, OF assms(1,2)] assms(3) by (simp add: settled_def)

text \<open>A fresh installation.\<close>

lemma load_missing:
  "load_state env Missing =
     (Inr (ensure_hi_identity env default_state), Doc (dump_state (ensure_hi_identity env default_state)))"
  and fresh_ready: "hi_ready (ensure_hi_identity env default_state)"
proof -
  have s: "settled default_state" using default_state_fixed by (simp add: settled_def)
  then have "settled (ensure_hi_identity env default_state)" by (rule settled_identity)
  then show "load_state env Missing =
     (Inr (ensure_hi_identity env default_state), Doc (dump_state (ensure_hi_identity env default_state)))"
    "hi_ready (ensure_hi_identity env default_state)"
    by (simp_all add: load_state_def act_bind_app save_state_def settled_def hi_ready_def Let_def)
      (simp add: ensure_hi_identity_def identity_truthy)
qed

section \<open>Lemmas: settled tasks\<close>

definition task_ok :: "obj \<Rightarrow> bool" where
  "task_ok t \<longleftrightarrow> normalize_workflow_task (JObj t) = Some t"

lemma task_ok_shape:
  assumes "task_ok t"
  obtains i title st due est bl ca ua
  where "t = task_record i title st due est bl ca ua" "strip i = i" "i \<noteq> []" "strip title = title"
    "title \<noteq> []" "st \<in> set task_statuses" "strip due = due" "coerce_minutes (JInt est) = est"
    "clean_blockers (JArr bl) = bl" "ca \<noteq> []" "ua \<noteq> []"
proof -
  from assms normalize_workflow_task_shape [of "JObj t" t] obtain i title st due est bl ca ua
    where t: "t = task_record i title st due est bl ca ua" and o: "strip i \<noteq> []" "strip title = title"
      "title \<noteq> []" "st \<in> set task_statuses" "strip due = due" "coerce_minutes (JInt est) = est"
      "clean_blockers (JArr bl) = bl" "ca \<noteq> []" "ua \<noteq> []" unfolding task_ok_def by metis
  from normalize_task_record [OF o] assms have i: "strip i = i"
    by (simp add: t task_ok_def) (simp add: task_record_def)
  then have "i \<noteq> []" using o(1) by auto
  then show thesis using that t i o by blast
qed

lemma task_ok_record:
  assumes "strip i = i" "i \<noteq> []" "strip title = title" "title \<noteq> []" "st \<in> set task_statuses"
    "strip due = due" "coerce_minutes (JInt est) = est" "clean_blockers (JArr bl) = bl" "ca \<noteq> []" "ua \<noteq> []"
  shows "task_ok (task_record i title st due est bl ca ua)"
  using normalize_task_record [of i title st due est bl ca ua] assms by (simp add: task_ok_def)

lemma task_record_dset:
  "dset ''status'' (JStr st') (task_record i title st due est bl ca ua) = task_record i title st' due est bl ca ua"
  "dset ''due'' (JStr due') (task_record i title st due est bl ca ua) = task_record i title st due' est bl ca ua"
  "dset ''blockers'' (JArr bl') (task_record i title st due est bl ca ua) = task_record i title st due est bl' ca ua"
  "dset ''updated_at'' (JStr ua') (task_record i title st due est bl ca ua) = task_record i title st due est bl ca ua'"
  "dset ''created_at'' (JStr ca') (task_record i title st due est bl ca ua) = task_record i title st due est bl ca' ua"
  by (simp_all add: task_record_def)

lemma task_record_get:
  "map_of (task_record i title st due est bl ca ua) ''id'' = Some (JStr i)"
  "map_of (task_record i title st due est bl ca ua) ''blockers'' = Some (JArr bl)"
  "map_of (task_record i title st due est bl ca ua) ''created_at'' = Some (JStr ca)"
  "task_key (task_record i title st due est bl ca ua) = i"
  by (simp_all add: task_record_def task_key_def dget_or_def)

lemma settled_tasks:
  assumes "settled s"
  obtains ds where "map_of (workflow s) ''tasks'' = Some (JArr (map JObj ds))"
    "\<forall>t \<in> set ds. task_ok t" "distinct (map task_key ds)"
proof -
  note f = settled_facts [OF assms]
  from f(2) obtain ts where ts: "map_of (workflow s) ''tasks'' = Some (JArr ts)"
    by (auto simp: workflow_shape_def)
  then have e: "normalize_workflow_tasks (JArr ts) = ts"
    using normalize_workflow_fix [OF f(2)] f(4) by (simp add: dget_or_def) (metis map_of_dset json.inject(5) option.inject)
  define ds where "ds = dedup_tasks [] ts"
  from e have d: "ts = map JObj ds" by (simp add: normalize_workflow_tasks_def ds_def)
  have "map normalize_workflow_task ts = map Some ds"
    unfolding ds_def by (rule dedup_tasks_full) (metis d ds_def length_map)
  then have "\<forall>t \<in> set ds. task_ok t" by (simp add: d task_ok_def)
  moreover have "distinct (map task_key ds)" using dedup_tasks_keys [of "[]" ts] by (simp add: ds_def)
  ultimately show thesis using that ts d by blast
qed

lemma settled_with_tasks:
  assumes "settled s" "\<forall>t \<in> set ds. task_ok t" "distinct (map task_key ds)"
  shows "settled (with_tasks (map JObj ds) s)"
proof (rule settledI)
  note f = settled_facts [OF assms(1)]
  show "normalize_workflow (JObj (workflow (with_tasks (map JObj ds) s))) = workflow (with_tasks (map JObj ds) s)"
  proof -
    let ?w = "dset ''tasks'' (JArr (map JObj ds)) (workflow s)"
    have sh: "workflow_shape (dset ''tasks'' (JArr (map JObj ds)) (workflow s))"
      using f(2) unfolding workflow_shape_def
      by (elim conjE exE, intro conjI) (simp_all add: extends_keys_dset_any)
    have "normalize_workflow_tasks (JArr (map JObj ds)) = map JObj ds"
      by (rule tasks_fixed) (use assms(2,3) in \<open>simp_all add: task_ok_def\<close>)
    then have "dset ''tasks'' (JArr (normalize_workflow_tasks (jget ?w ''tasks''))) ?w = ?w"
      by (intro dset_same) (simp add: dget_or_def)
    with normalize_workflow_fix [OF sh] show ?thesis
      by (simp add: with_tasks_def)
  qed
qed (use settled_facts [OF assms(1)] in \<open>simp_all add: with_tasks_def\<close>)


lemma settled_focus:
  assumes "settled s"
  shows "settled (s\<lparr>workflow := dset ''current_focus'' (JStr t) (workflow s)\<rparr>)"
proof (rule settledI)
  note f = settled_facts [OF assms]
  let ?w = "dset ''current_focus'' (JStr t) (workflow s)"
  have sh: "workflow_shape ?w"
    using f(2) unfolding workflow_shape_def
    by (elim conjE exE, intro conjI) (simp_all add: extends_keys_dset_any)
  from settled_tasks [OF assms] obtain ds where ds: "map_of (workflow s) ''tasks'' = Some (JArr (map JObj ds))"
    "\<forall>t \<in> set ds. task_ok t" "distinct (map task_key ds)" .
  have "normalize_workflow_tasks (JArr (map JObj ds)) = map JObj ds"
    by (rule tasks_fixed) (use ds(2,3) in \<open>simp_all add: task_ok_def\<close>)
  then have "dset ''tasks'' (JArr (normalize_workflow_tasks (jget ?w ''tasks''))) ?w = ?w"
    by (intro dset_same) (simp add: dget_or_def ds(1))
  with normalize_workflow_fix [OF sh]
  show "normalize_workflow (JObj (workflow (s\<lparr>workflow := ?w\<rparr>))) = workflow (s\<lparr>workflow := ?w\<rparr>)"
    by simp
qed (use settled_facts [OF assms] in simp_all)

section \<open>Lemmas: the operations on tasks\<close>

abbreviation has_id :: "string \<Rightarrow> obj \<Rightarrow> bool" where
  "has_id i t \<equiv> jget t ''id'' = JStr i"

lemma change_task_objs:
  "change_task i f (map JObj ds) =
     Inr (if \<exists>t \<in> set ds. has_id i t then Some (map JObj (update_first (has_id i) f ds)) else None)"
  by (induction ds) auto

definition tasks_of :: "hi_state \<Rightarrow> obj list" where
  "tasks_of s = (case jget (workflow s) ''tasks'' of
     JArr ts \<Rightarrow> map (\<lambda>v. case v of JObj d \<Rightarrow> d | _ \<Rightarrow> []) ts | _ \<Rightarrow> [])"

lemma settled_tasks_of:
  assumes "settled s"
  shows "map_of (workflow s) ''tasks'' = Some (JArr (map JObj (tasks_of s)))"
    "\<forall>t \<in> set (tasks_of s). task_ok t" "distinct (map task_key (tasks_of s))"
proof -
  from settled_tasks [OF assms] obtain ds where ds: "map_of (workflow s) ''tasks'' = Some (JArr (map JObj ds))"
    "\<forall>t \<in> set ds. task_ok t" "distinct (map task_key ds)" .
  then have "tasks_of s = ds" by (simp add: tasks_of_def dget_or_def comp_def)
  with ds show "map_of (workflow s) ''tasks'' = Some (JArr (map JObj (tasks_of s)))"
    "\<forall>t \<in> set (tasks_of s). task_ok t" "distinct (map task_key (tasks_of s))" by simp_all
qed

lemma tasks_of_with_tasks [simp]: "tasks_of (with_tasks (map JObj ds) s) = ds"
  by (simp add: tasks_of_def with_tasks_def comp_def)

lemma tasks_of_identity [simp]: "tasks_of (ensure_hi_identity env s) = tasks_of s"
  by (simp add: tasks_of_def ensure_hi_identity_def)

lemma with_tasks_profile [simp]: "profile (with_tasks ts s) = profile s"
  by (simp add: with_tasks_def)

lemma settled_workflow_tasks:
  "settled s \<Longrightarrow> workflow_tasks s = Inr (map JObj (tasks_of s))"
  using settled_tasks_of(1) by (simp add: workflow_tasks_def dget_or_def)

lemma on_task_settled:
  assumes "settled s"
  shows "on_task i f s = Inr (with_tasks (map JObj (update_first (has_id (strip i)) f (tasks_of s))) s)"
proof -
  have "update_first (has_id (strip i)) f (tasks_of s) = tasks_of s"
    if "\<not> (\<exists>t \<in> set (tasks_of s). has_id (strip i) t)"
    using that by (intro update_first_none) (auto simp: find_None_iff)
  then show ?thesis
    by (simp add: on_task_def settled_workflow_tasks [OF assms] change_task_objs) 
qed

text \<open>
  A change that keeps a task well formed and its identifier: the file afterwards holds the old
  state with that one task changed, and is again settled.
\<close>

lemma task_update:
  assumes s: "hi_ready s" and f: "\<And>t. task_ok t \<Longrightarrow> task_ok (f t) \<and> task_key (f t) = task_key t"
    and s': "s' = with_tasks (map JObj (update_first (has_id (strip i)) f (tasks_of s))) (ensure_hi_identity env s)"
  shows "update_state env (on_task i f) (Doc (dump_state s)) = (Inr s', Doc (dump_state s'))" "hi_ready s'"
proof -
  let ?e = "ensure_hi_identity env s"
  have e: "hi_ready ?e" using s by (rule ready_identity)
  then have se: "settled ?e" by (simp add: hi_ready_def)
  let ?us = "update_first (has_id (strip i)) f (tasks_of s)"
  have "\<forall>t \<in> set ?us. task_ok t"
    using settled_tasks_of(2) [OF se] set_update_first [of "has_id (strip i)" f "tasks_of s"] f by auto
  moreover have "map task_key (update_first p f ds) = map task_key ds" if "\<forall>t \<in> set ds. task_ok t" for p ds
    using that f by (induction ds) auto
  then have "map task_key ?us = map task_key (tasks_of s)" using settled_tasks_of(2) [OF se] by simp
  ultimately have "settled s'"
    unfolding s' using settled_tasks_of(3) [OF se] by (intro settled_with_tasks [OF se]) simp_all
  then show "update_state env (on_task i f) (Doc (dump_state s)) = (Inr s', Doc (dump_state s'))"
    by (intro update_settled [OF s]) (simp_all add: on_task_settled [OF se] s')
  show "hi_ready s'"
    using \<open>settled s'\<close> e by (simp add: hi_ready_def s')
qed

lemma task_ok_key: "task_ok t \<Longrightarrow> has_id i t \<longleftrightarrow> task_key t = i"
  by (elim task_ok_shape) (simp add: task_record_get dget_or_def task_key_def)

lemma touch_record: "touch env (task_record i title st due est bl ca ua) =
   task_record i title st due est bl ca (now_iso env)"
  by (simp add: touch_def task_record_dset)

lemma status_change_ok:
  assumes "task_ok t" "st' \<in> set task_statuses" "now_iso env \<noteq> []"
  shows "task_ok (touch env (dset ''status'' (JStr st') t)) \<and>
    task_key (touch env (dset ''status'' (JStr st') t)) = task_key t"
  using assms(1)
  by (elim task_ok_shape) (use assms(2,3) in \<open>simp add: task_record_dset touch_record task_ok_record task_record_get\<close>)

lemma due_change_ok:
  assumes "task_ok t" "now_iso env \<noteq> []"
  shows "task_ok (touch env (dset ''due'' (JStr (strip d)) t)) \<and>
    task_key (touch env (dset ''due'' (JStr (strip d)) t)) = task_key t"
  using assms(1)
  by (elim task_ok_shape) (use assms(2) in \<open>simp add: task_record_dset touch_record task_ok_record task_record_get\<close>)

lemma clean_blockers_snoc:
  "clean_blockers (JArr bs) = bs \<Longrightarrow> strip b = b \<Longrightarrow> b \<noteq> [] \<Longrightarrow>
   clean_blockers (JArr (bs @ [JStr b])) = bs @ [JStr b]"
  by (simp add: clean_blockers_def Let_def)

lemma blocker_change_ok:
  assumes "task_ok t" "strip b = b" "b \<noteq> []" "now_iso env \<noteq> []"
  shows "task_ok (blocked_task env b t) \<and> task_key (blocked_task env b t) = task_key t"
proof -
  have "''blocked'' \<in> set task_statuses" by (simp add: task_statuses_def)
  then show ?thesis
    using assms(1)
    by (elim task_ok_shape) (use assms(2-) in \<open>simp add: blocked_task_def Let_def dget_or_def task_record_get
      task_record_dset touch_record task_ok_record clean_blockers_snoc\<close>)
qed

text \<open>A digest that holds no white space, as a hexadecimal one never does.\<close>

definition plain_digest :: "host_env \<Rightarrow> bool" where
  "plain_digest env \<longleftrightarrow> (\<forall>x. \<forall>c \<in> set (sha256_hex env x). \<not> is_space c)"

lemma join_dash_no_space:
  "\<forall>w \<in> set ws. \<forall>c \<in> set w. \<not> is_space c \<Longrightarrow> c \<in> set (join ''-'' ws) \<Longrightarrow> \<not> is_space c"
  by (induction "''-''" ws rule: join.induct) auto

lemma no_space_strip: "\<forall>c \<in> set s. \<not> is_space c \<Longrightarrow> strip s = s"
  by (rule strip_fix) (cases s; auto)

lemma task_id_plain:
  assumes "plain_digest env"
  shows "strip (task_id env title) = task_id env title" "task_id env title \<noteq> []"
proof -
  have slug: "\<forall>c \<in> set (take 32 (join ''-'' (split_ws t))). \<not> is_space c" for t
    using join_dash_no_space split_ws_no_space by (meson in_set_takeD)
  have task: "\<forall>c \<in> set ''task''. \<not> is_space c" by code_simp
  have "\<forall>c \<in> set (task_id env title). \<not> is_space c"
    using slug task assms
    by (auto simp: task_id_def Let_def plain_digest_def dest: in_set_takeD)
  then show "strip (task_id env title) = task_id env title" by (rule no_space_strip)
  show "task_id env title \<noteq> []" by (simp add: task_id_def Let_def)
qed

lemma new_task_record:
  "new_task env title due est st bl =
     task_record (task_id env title) title st (strip due) (max 0 est) bl (now_iso env) (now_iso env)"
  by (simp add: new_task_def task_record_def)

lemma new_task_ok:
  assumes "plain_digest env" "strip title = title" "title \<noteq> []" "st \<in> set task_statuses"
    "clean_blockers (JArr bl) = bl" "now_iso env \<noteq> []"
  shows "task_ok (new_task env title due est st bl)"
  unfolding new_task_record
  by (rule task_ok_record) (use assms task_id_plain in \<open>simp_all add: coerce_minutes_def\<close>)

lemma replaced_task_record:
  "replaced_task env (task_record i title st due est bl ca ua) (task_record i' title' st' due' est' bl' ca' ua') =
     task_record i title st due est bl ca' ua"
  by (simp add: replaced_task_def dget_or_def task_record_get task_record_dset) (simp add: task_record_def)

section \<open>Lemmas: what normalisation keeps of a profile\<close>

text \<open>A document as \<open>json.load\<close> returns it: no object has a key twice.\<close>

fun keys_distinct :: "json \<Rightarrow> bool" where
  "keys_distinct (JArr xs) = (\<forall>x \<in> set xs. keys_distinct x)"
| "keys_distinct (JObj d) = (distinct (dkeys d) \<and> (\<forall>p \<in> set d. keys_distinct (snd p)))"
| "keys_distinct _ = True"

lemma known_domain: "''domain'' \<in> set (dkeys default_profile)"
  by (simp add: default_profile_def)

lemma normalize_profile_keeps:
  assumes "normalize_profile (JObj e) = Inr p" "distinct (dkeys e)" "map_of e k = Some v"
    "k \<notin> set (dkeys default_profile)"
  shows "map_of p k = Some v"
proof -
  let ?D = default_profile
  have k: "k \<notin> set required_profile_fields" "k \<notin> set optional_profile_fields" "k \<noteq> ''ventures''"
    "k \<noteq> ''relationship''" "k \<noteq> ''domain''"
    using assms(4) profile_fields_known(2-5) known_domain by blast+
  have "map_of (rev e) k = Some v"
    using map_of_inject_set [of "rev e" e] assms(2,3) by (simp add: rev_map [symmetric])
  then have d0: "map_of (dupdate ?D e) k = Some v" by (simp add: map_of_dupdate)
  have "map_of (rev reset_fields) k = None"
    using assms(4) reset_fields_facts(1) by (auto simp: map_of_eq_None_iff)
  with d0 have d1: "map_of (reset_domain (reset_display (dupdate ?D e))) k = Some v"
    using k(5) by (simp add: reset_domain_def reset_display_alt map_of_dupdate)
  obtain d3 y where d3: "fill_optionals y optional_profile_fields
      (foldl (fill_str ?D) (reset_domain (reset_display (dupdate ?D e))) required_profile_fields) = Inr d3"
    and p: "fill_relationship (fill_ventures d3) = Inr p"
    using assms(1) by (auto simp: normalize_profile_def Let_def)
  from fill_optionals_result [OF d3, of ?D] k(2)
  have "map_of d3 k = Some v"
    using d1 k(1) by (simp add: map_of_foldl_fill [OF profile_fields_known(6)])
  then show ?thesis
    using fill_relationship_result [OF p] k by (auto simp: fill_ventures_facts)
qed

lemma raw_id_kept:
  assumes "keys_distinct raw" "raw_has_id raw = Inr True" "normalize_state raw = Inr s"
  shows "truthy (jget (profile s) ''id'')"
proof -
  from assms(2) obtain d where raw: "raw = JObj d"
    by (cases raw) (simp_all add: raw_has_id_def)
  from assms(2) obtain e where e: "dget_or d ''profile'' (JObj []) = JObj e" and t: "truthy (jget e ''id'')"
    by (auto simp: raw raw_has_id_def split: json.splits)
  from t obtain v where v: "map_of e ''id'' = Some v" "truthy v" by (auto simp: dget_or_def split: option.splits)
  then have m: "map_of d ''profile'' = Some (JObj e)"
    using e by (auto simp: dget_or_def split: option.splits)
  then have "(''profile'', JObj e) \<in> set d" by (rule map_of_SomeD)
  then have "distinct (dkeys e)" using assms(1) by (force simp: raw)
  moreover have "normalize_profile (JObj e) = Inr (profile s)"
    using assms(3) e m by (auto simp: raw normalize_state_def split: if_splits)
  moreover have "''id'' \<notin> set (dkeys default_profile)" by (simp add: default_profile_def)
  ultimately have "map_of (profile s) ''id'' = Some v"
    using normalize_profile_keeps v(1) by blast
  with v(2) show ?thesis by (simp add: dget_or_def)
qed

lemma load_cases:
  assumes "load_state env f = (Inr s, f')"
  obtains (kept) raw s0 where "f = Doc raw" "raw_has_id raw = Inr True" "normalize_state raw = Inr s0"
      "s = ensure_hi_identity env s0" "f' = f"
    | (fresh) s0 t where "normalized s0" "s = ensure_hi_identity env s0"
      "normalize_state (dump_state s) = Inr t" "f' = Doc (dump_state t)"
proof -
  obtain h s0 where h: "(case f of Missing \<Rightarrow> Inr (False, default_state) | Garbled \<Rightarrow> Inl (ValueError [])
      | Doc raw \<Rightarrow> and_then (raw_has_id raw) (\<lambda>h. and_then (normalize_state raw) (\<lambda>s. Inr (h, s)))) = Inr (h, s0)"
    and s: "s = ensure_hi_identity env s0"
    and f': "if h then f' = f else (\<exists>t. normalize_state (dump_state s) = Inr t \<and> f' = Doc (dump_state t))"
    using assms
    by (auto simp: load_state_def act_bind_app save_state_def Let_def split: sum.splits if_splits)
  show thesis
  proof (cases h)
    case True
    with h obtain raw where "f = Doc raw" "raw_has_id raw = Inr True" "normalize_state raw = Inr s0"
      by (cases f) auto
    with True s f' show thesis by (intro kept) auto
  next
    case False
    from h have "normalized s0"
      using normalize_state_normalized default_state_normalized by (cases f) auto
    with False s f' show thesis using fresh by auto
  qed
qed

lemma normalized_identity: "normalized s \<Longrightarrow> normalized (ensure_hi_identity env s)"
  by (simp add: normalized_def ensure_hi_identity_def profile_shape_identity)

section \<open>Properties: normalisation and the state file\<close>

text \<open>C15: a normalised state, written out and read back, is accepted, and from the second reading on
  nothing changes any more: \<open>normalize_state\<close> never rejects its own output and settles after one
  re-reading.\<close>

theorem normalize_state_stabilises:
  assumes "normalize_state raw = Inr s"
  shows "\<exists>t. normalize_state (dump_state s) = Inr t \<and> normalize_state (dump_state t) = Inr t"
  using hi.norm_total [OF hi.norm_wf [OF assms]] hi.norm_settles [OF assms] by blast

definition raw_example :: json where
  "raw_example = JObj
     [(''profile'', JObj [(''display_name'', JStr '' King Yadav ''), (''id'', JStr ''hi-1'')]),
      (''memory'', JArr [JStr ''  buy milk '', JObj [(''text'', JStr ''x''), (''importance'', JInt 9)]]),
      (''workflow'', JObj [(''tasks'', JArr [JObj [(''title'', JStr ''Fix it''), (''status'', JStr ''nope'')]])])]"

lemma raw_example_ok: "\<exists>s. normalize_state raw_example = Inr s"
proof -
  have "\<not> isl (normalize_state raw_example)" by code_simp
  then show ?thesis by (cases "normalize_state raw_example") simp_all
qed

theorem normalize_state_stabilises_witness:
  "\<exists>s t. normalize_state raw_example = Inr s \<and> normalize_state (dump_state s) = Inr t
     \<and> normalize_state (dump_state t) = Inr t"
proof -
  obtain s where s: "normalize_state raw_example = Inr s" using raw_example_ok by blast
  with normalize_state_stabilises [OF s] show ?thesis by blast
qed

text \<open>C18: whatever was in the file, the normalised memory has no two entries with the same type and
  text, every entry has a creation time, and an importance is between 1 and 5.\<close>

theorem normalized_memory_valid:
  assumes "normalize_state raw = Inr s"
  shows "distinct (map memory_marker (memory s)) \<and>
    (\<forall>i \<in> set (memory s). dhas i ''created_at'' \<and>
       (\<forall>v. map_of i ''importance'' = Some v \<longrightarrow> (\<exists>n. v = JInt n \<and> 1 \<le> n \<and> n \<le> 5)))"
proof -
  from normalize_state_normalized [OF assms] obtain m where m: "memory s = normalize_memory m"
    by (auto simp: normalized_def)
  have "dhas i ''created_at''" if "normal_entry i" for i
    using that by (auto simp: normal_entry_def backfill_created_at_def)
  then show ?thesis
    using normalize_memory_markers normalize_memory_normal normal_entry_importance by (simp add: m) blast
qed

theorem normalized_memory_valid_witness:
  "\<exists>s. normalize_state raw_example = Inr s \<and> distinct (map memory_marker (memory s))"
proof -
  obtain s where s: "normalize_state raw_example = Inr s" using raw_example_ok by blast
  with normalized_memory_valid [OF s] show ?thesis by blast
qed

text \<open>Every task of a normalised state has an identifier no other task has, a title, one of the
  five statuses and an estimate of at least zero minutes.\<close>

theorem normalized_tasks_valid:
  assumes "normalize_state raw = Inr s"
  shows "\<exists>ds. map_of (workflow s) ''tasks'' = Some (JArr (map JObj ds)) \<and> distinct (map task_key ds) \<and>
    (\<forall>t \<in> set ds. task_key t \<noteq> [] \<and> truthy (jget t ''title'') \<and>
       (\<exists>st \<in> set task_statuses. jget t ''status'' = JStr st) \<and>
       (\<exists>n \<ge> 0. jget t ''estimate_minutes'' = JInt n))"
proof -
  from normalize_state_normalized [OF assms] obtain w where w: "workflow s = normalize_workflow w"
    by (auto simp: normalized_def)
  obtain y where y: "map_of (workflow s) ''tasks'' = Some (JArr (normalize_workflow_tasks y))"
    by (simp add: w normalize_workflow_def Let_def)
  obtain es where es: "normalize_workflow_tasks y = map JObj (dedup_tasks [] es)"
    using dedup_tasks.simps(1) [of "[]"] by (cases y) (auto simp: normalize_workflow_tasks_def simp del: dedup_tasks.simps)
  have "task_key t \<noteq> [] \<and> truthy (jget t ''title'') \<and> (\<exists>st \<in> set task_statuses. jget t ''status'' = JStr st) \<and>
     (\<exists>n \<ge> 0. jget t ''estimate_minutes'' = JInt n)" if "t \<in> set (dedup_tasks [] es)" for t
  proof -
    from that have "JObj t \<in> set (normalize_workflow_tasks y)" by (simp add: es)
    then obtain i title st due est bl ca ua where "JObj t = JObj (task_record i title st due est bl ca ua)"
      "strip i \<noteq> []" "title \<noteq> []" "st \<in> set task_statuses" "0 \<le> est"
      by (rule normalize_workflow_tasks_member)
    then show ?thesis by (auto simp: task_record_def task_key_def dget_or_def)
  qed
  with y es show ?thesis using dedup_tasks_keys [of "[]" es] by auto
qed

theorem normalized_tasks_valid_witness:
  "\<exists>s ds. normalize_state raw_example = Inr s \<and> map_of (workflow s) ''tasks'' = Some (JArr (map JObj ds))
     \<and> distinct (map task_key ds)"
proof -
  obtain s where s: "normalize_state raw_example = Inr s" using raw_example_ok by blast
  with normalized_tasks_valid [OF s] show ?thesis by blast
qed

text \<open>C17: the identifier of the human identity is generated once: whatever the file held, the state of
  a second load, on any host and at any time, has the identifier of the first, and the second load
  does not write the file.\<close>

theorem identity_generated_once:
  assumes "load_state env1 f = (Inr s1, f1)" "load_state env2 f1 = (Inr s2, f2)"
    and "\<And>raw. f = Doc raw \<Longrightarrow> keys_distinct raw"
  shows "jget (profile s2) ''id'' = jget (profile s1) ''id'' \<and> truthy (jget (profile s1) ''id'') \<and> f2 = f1"
  using assms(1)
proof (cases rule: load_cases)
  case (kept raw s0)
  with assms(3) have t: "truthy (jget (profile s0) ''id'')" by (auto intro: raw_id_kept)
  with kept assms(2) show ?thesis
    by (auto simp: load_state_def act_bind_app Let_def ensure_hi_identity_def identity_id)
next
  case (fresh s0 t)
  have n: "normalized s1" using fresh(1,2) normalized_identity by simp
  from fresh(3) normalize_dump [OF n] have p: "profile t = profile s1" by auto
  have i: "truthy (jget (profile s1) ''id'')" by (simp add: fresh(2) ensure_hi_identity_def identity_truthy)
  have nt: "normalized t" using fresh(3) by (rule normalize_state_normalized)
  have "raw_has_id (dump_state t) = Inr True"
    using i p by (simp add: raw_has_id_def dump_state_def dget_or_def)
  with assms(2) fresh(4) normalize_dump [OF nt] p i show ?thesis
    by (auto simp: load_state_def act_bind_app Let_def ensure_hi_identity_def identity_id)
qed

definition demo_env :: host_env where
  "demo_env = \<lparr>fresh_uuid = ''3f1a'', now_iso = ''2026-05-01T10:00:00+00:00'', hostname = ''box'',
     sysuser = ''amit'', sha256_hex = (\<lambda>_. ''0123456789abcdef'')\<rparr>"

theorem identity_generated_once_witness:
  "\<exists>s1 f1 s2 f2. load_state demo_env Missing = (Inr s1, f1) \<and>
     load_state (demo_env\<lparr>fresh_uuid := ''77''\<rparr>) f1 = (Inr s2, f2) \<and> jget (profile s2) ''id'' = jget (profile s1) ''id''"
  using identity_generated_once [OF load_missing load_ready [OF fresh_ready]] load_missing load_ready [OF fresh_ready]
  by auto

text \<open>Changing the status of a task on a settled state file never fails, changes the status and
  the update time of the one task with that identifier and nothing else, and leaves a settled file
  that holds exactly the returned state.\<close>

theorem update_task_status_effect:
  assumes s: "hi_ready s" and st: "lower (strip status) \<in> set task_statuses" and "now_iso env \<noteq> []"
  shows "\<exists>s'. update_task_status env i status (Doc (dump_state s)) = (Inr (workflow s'), Doc (dump_state s'))
    \<and> hi_ready s'
    \<and> tasks_of s' = update_first (has_id (strip i))
        (\<lambda>t. dset ''updated_at'' (JStr (now_iso env)) (dset ''status'' (JStr (lower (strip status))) t)) (tasks_of s)
    \<and> s' = with_tasks (map JObj (tasks_of s')) (ensure_hi_identity env s)"
proof -
  let ?f = "\<lambda>t. touch env (dset ''status'' (JStr (lower (strip status))) t)"
  let ?s = "with_tasks (map JObj (update_first (has_id (strip i)) ?f (tasks_of s))) (ensure_hi_identity env s)"
  have "task_ok (?f t) \<and> task_key (?f t) = task_key t" if "task_ok t" for t
    using status_change_ok [OF that st assms(3)] .
  from task_update [where f = ?f, where env = env and i = i, OF s this refl] st
  show ?thesis by (intro exI [of _ ?s]) (simp add: update_task_status_def act_bind_app touch_def)
qed

definition demo_task :: obj where
  "demo_task = task_record ''fix-1'' ''Fix it'' ''todo'' [] 0 [] ''2026-04-01'' ''2026-04-01''"

definition demo_state :: hi_state where
  "demo_state = with_tasks [JObj demo_task] (ensure_hi_identity demo_env default_state)"

lemma demo_facts [simp]:
  "hi_ready demo_state" "now_iso demo_env \<noteq> []" "plain_digest demo_env" "tasks_of demo_state = [demo_task]"
proof -
  have "strip ''fix-1'' = ''fix-1''" "strip ''Fix it'' = ''Fix it''" by code_simp+
  then have "task_ok demo_task" unfolding demo_task_def
    by (intro task_ok_record) (simp_all add: task_statuses_def coerce_minutes_def clean_blockers_def)
  then have "settled (with_tasks (map JObj [demo_task]) (ensure_hi_identity demo_env default_state))"
    using fresh_ready by (intro settled_with_tasks) (simp_all add: hi_ready_def)
  then show "hi_ready demo_state"
    using fresh_ready [of demo_env] by (simp add: hi_ready_def demo_state_def)
  show "now_iso demo_env \<noteq> []" by (simp add: demo_env_def)
  have "\<forall>c \<in> set ''0123456789abcdef''. \<not> is_space c" by code_simp
  then show "plain_digest demo_env" by (simp add: plain_digest_def demo_env_def)
  show "tasks_of demo_state = [demo_task]"
    using tasks_of_with_tasks [of "[demo_task]"] by (simp add: demo_state_def)
qed

theorem update_task_status_effect_witness:
  "\<exists>s'. update_task_status demo_env '' fix-1 '' ''DONE'' (Doc (dump_state demo_state)) =
     (Inr (workflow s'), Doc (dump_state s')) \<and> hi_ready s' \<and>
     map (\<lambda>t. jget t ''status'') (tasks_of s') = [JStr ''done'']"
proof -
  have st: "lower (strip ''DONE'') = ''done''" "strip '' fix-1 '' = ''fix-1''" by code_simp+
  then have "lower (strip ''DONE'') \<in> set task_statuses" by (simp add: task_statuses_def)
  from update_task_status_effect [OF demo_facts(1) this demo_facts(2), of "'' fix-1 ''"] st
  show ?thesis by (auto simp: demo_task_def task_record_def dget_or_def)
qed

lemma replaced_ok:
  assumes "task_ok old" "task_ok task"
  shows "task_ok (replaced_task env task old) \<and> task_key (replaced_task env task old) = task_key task"
proof -
  from assms(1) obtain i' title' st' due' est' bl' ca' ua'
    where old: "old = task_record i' title' st' due' est' bl' ca' ua'" "ca' \<noteq> []"
    by (rule task_ok_shape)
  show ?thesis using assms(2)
    by (rule task_ok_shape) (simp add: old replaced_task_record task_ok_record task_record_get)
qed

lemma tasks_of_focus: "tasks_of (s\<lparr>workflow := dset ''current_focus'' v (workflow s)\<rparr>) = tasks_of s"
  by (simp add: tasks_of_def)

text \<open>Adding a task with a non-blank title to a settled state file never fails; it puts the task
  in place of the one with the same identifier, keeping that one's creation time, or else at the end,
  leaves every other task as it is, and the file is settled again.\<close>

theorem add_task_effect:
  fixes env :: host_env and title due status :: string and est :: int
  assumes s: "hi_ready s" and "strip title \<noteq> []" and "now_iso env \<noteq> []" and "plain_digest env"
    and bl: "clean_blockers (JArr bl) = bl"
  defines "st \<equiv> (if lower (strip status) \<in> set task_statuses then lower (strip status) else ''todo'')"
  defines "task \<equiv> new_task env (strip title) due est st bl"
  shows "\<exists>s'. add_task env title due est status bl (Doc (dump_state s)) = (Inr (workflow s'), Doc (dump_state s'))
    \<and> hi_ready s'
    \<and> tasks_of s' =
        (if \<exists>t \<in> set (tasks_of s). has_id (task_id env (strip title)) t
         then update_first (has_id (task_id env (strip title))) (replaced_task env task) (tasks_of s)
         else tasks_of s @ [task])"
proof -
  let ?e = "ensure_hi_identity env s" and ?i = "task_id env (strip title)"
  have e: "hi_ready ?e" using s by (rule ready_identity)
  then have se: "settled ?e" by (simp add: hi_ready_def)
  note old = settled_tasks_of [OF se, simplified tasks_of_identity]
  have "''todo'' \<in> set task_statuses" by (simp add: task_statuses_def)
  then have st: "st \<in> set task_statuses" by (simp add: st_def)
  have ok: "task_ok task"
    unfolding task_def using assms(2-4) bl st by (intro new_task_ok) simp_all
  have key: "task_key task = ?i" by (simp add: task_def new_task_record task_record_get)
  have rep: "task_ok (replaced_task env task t) \<and> task_key (replaced_task env task t) = ?i" if t: "task_ok t" for t
    using replaced_ok [OF t ok] key by simp
  let ?ds = "if \<exists>t \<in> set (tasks_of s). has_id ?i t
     then update_first (has_id ?i) (replaced_task env task) (tasks_of s) else tasks_of s @ [task]"
  let ?s1 = "with_tasks (map JObj ?ds) ?e"
  let ?s2 = "if truthy (jget (workflow ?s1) ''current_focus'') then ?s1
     else ?s1\<lparr>workflow := dset ''current_focus'' (JStr (strip title)) (workflow ?s1)\<rparr>"
  have ds_ok: "\<forall>t \<in> set ?ds. task_ok t"
    using old(2) ok rep set_update_first [of "has_id ?i" "replaced_task env task" "tasks_of s"] by auto
  have keys: "map task_key (update_first (has_id ?i) (replaced_task env task) ds) = map task_key ds"
    if "\<forall>t \<in> set ds. task_ok t" for ds
    using that rep task_ok_key by (induction ds) auto
  have "distinct (map task_key ?ds)"
    using old(2,3) keys key task_ok_key by auto
  then have s1: "settled ?s1" by (intro settled_with_tasks [OF se ds_ok])
  then have s2: "settled ?s2" using settled_focus by simp
  have "add_task_mutator env task (strip title) ?e = Inr ?s2"
    by (simp add: add_task_mutator_def settled_workflow_tasks [OF se] change_task_objs Let_def)
  from update_settled [where f = "add_task_mutator env task (strip title)", OF s this s2]
  have "add_task env title due est status bl (Doc (dump_state s)) = (Inr (workflow ?s2), Doc (dump_state ?s2))"
    using assms(2) by (simp add: add_task_def Let_def act_bind_app st_def task_def)
  moreover have "profile ?s2 = profile ?e" by simp
  then have "hi_ready ?s2" using s2 e by (simp only: hi_ready_def)
  moreover have "tasks_of ?s2 = ?ds"
    by (cases "truthy (jget (workflow ?s1) ''current_focus'')")
      (simp_all only: if_True if_False tasks_of_focus tasks_of_with_tasks)
  ultimately show ?thesis by blast
qed


theorem add_task_effect_witness:
  "\<exists>s'. add_task demo_env '' Ship it '' [] 30 ''todo'' [] (Doc (dump_state demo_state)) =
     (Inr (workflow s'), Doc (dump_state s')) \<and> hi_ready s' \<and>
     tasks_of s' = [demo_task, new_task demo_env ''Ship it'' [] 30 ''todo'' []]"
proof -
  have st: "strip '' Ship it '' = ''Ship it''" "lower (strip ''todo'') = ''todo''"
    "task_id demo_env ''Ship it'' \<noteq> ''fix-1''" "clean_blockers (JArr []) = []"
    "''todo'' \<in> set task_statuses" by code_simp+
  then have "strip '' Ship it '' \<noteq> []" by simp
  from add_task_effect [OF demo_facts(1) this demo_facts(2,3) st(4), where due = "[]" and est = 30 and status = "''todo''"] st
  show ?thesis by (auto simp: demo_task_def task_record_def dget_or_def)
qed

text \<open>Adding a blocker to a task of a settled state file never fails; the blocker is then in the
  task's list exactly once more than before only if it was not there, the task is blocked, the other
  tasks are unchanged and the file is settled.\<close>

theorem add_task_blocker_effect:
  assumes s: "hi_ready s" and b: "strip blocker \<noteq> []" and n: "now_iso env \<noteq> []"
  shows "\<exists>s'. add_task_blocker env i blocker (Doc (dump_state s)) = (Inr (workflow s'), Doc (dump_state s'))
    \<and> hi_ready s'
    \<and> tasks_of s' = update_first (has_id (strip i)) (blocked_task env (strip blocker)) (tasks_of s)
    \<and> (\<forall>t \<in> set (tasks_of s'). has_id (strip i) t \<longrightarrow> jget t ''status'' = JStr ''blocked''
         \<and> (\<exists>bs. jget t ''blockers'' = JArr bs \<and> JStr (strip blocker) \<in> set bs))"
proof -
  let ?f = "blocked_task env (strip blocker)"
  let ?us = "update_first (has_id (strip i)) ?f (tasks_of s)"
  let ?s = "with_tasks (map JObj ?us) (ensure_hi_identity env s)"
  have f: "task_ok (?f t) \<and> task_key (?f t) = task_key t" if "task_ok t" for t
    using blocker_change_ok [OF that] b n by simp
  have se: "settled s" using s by (simp add: hi_ready_def)
  note old = settled_tasks_of [OF se]
  have eff: "jget (?f t) ''status'' = JStr ''blocked'' \<and>
      (\<exists>bs. jget (?f t) ''blockers'' = JArr bs \<and> JStr (strip blocker) \<in> set bs)" for t
    by (auto simp: blocked_task_def touch_def Let_def split: json.split)
  have "jget t ''status'' = JStr ''blocked'' \<and> (\<exists>bs. jget t ''blockers'' = JArr bs \<and> JStr (strip blocker) \<in> set bs)"
    if "t \<in> set (update_first (has_id k) ?f ds)" "has_id k t" "distinct (map task_key ds)" "\<forall>t \<in> set ds. task_ok t" for t k ds
    using that
  proof (induction ds)
    case (Cons x ds)
    show ?case
    proof (cases "has_id k x")
      case True
      then have "t = ?f x"
        using Cons.prems task_ok_key [of t k] task_ok_key [of x k] imageI [of t "set ds" task_key] by auto
      with eff show ?thesis by simp
    qed (use Cons in auto)
  qed simp
  with old have "\<forall>t \<in> set ?us. has_id (strip i) t \<longrightarrow> jget t ''status'' = JStr ''blocked''
      \<and> (\<exists>bs. jget t ''blockers'' = JArr bs \<and> JStr (strip blocker) \<in> set bs)" by blast
  with task_update [where f = ?f and env = env and i = i, OF s f refl] b
  show ?thesis by (intro exI [of _ ?s]) (simp add: add_task_blocker_def act_bind_app Let_def)
qed

theorem add_task_blocker_effect_witness:
  "\<exists>s'. add_task_blocker demo_env ''fix-1'' '' parts '' (Doc (dump_state demo_state)) =
     (Inr (workflow s'), Doc (dump_state s')) \<and> hi_ready s'"
proof -
  have b: "strip '' parts '' \<noteq> []" by code_simp
  show ?thesis using add_task_blocker_effect [OF demo_facts(1) b demo_facts(2), of "''fix-1''"] by blast
qed

section \<open>Properties: profile fields\<close>

lemma profile_shape_dset_str:
  assumes "profile_shape p" "v \<noteq> []" "k \<noteq> ''relationship''" "k \<noteq> ''ventures''"
    and "k = ''display_name'' \<Longrightarrow> lower (strip v) \<notin> set profile_placeholders"
    and "k = ''domain'' \<Longrightarrow> lower (strip v) \<notin> set domain_placeholders"
  shows "profile_shape (dset k (JStr v) p)"
proof -
  have "filled default_profile (dset k (JStr v) p) f" if "f \<in> set required_profile_fields" for f
    using that assms(1,2) by (auto simp: profile_shape_def filled_def)
  with assms show ?thesis
    by (auto simp: profile_shape_def extends_keys_dset_any string_at_def dget_or_def)
qed

text \<open>Setting a profile field to a non-empty value that is no placeholder, on a settled state file:
  it never fails, the returned profile is the loaded one with that field set, and the file holds
  exactly it and is settled, so the value survives every later load.\<close>

theorem set_profile_field_effect:
  assumes s: "hi_ready s" and "v \<noteq> []" and "k \<notin> {''relationship'', ''ventures''}"
    and "k = ''display_name'' \<Longrightarrow> lower (strip v) \<notin> set profile_placeholders"
    and "k = ''domain'' \<Longrightarrow> lower (strip v) \<notin> set domain_placeholders"
  shows "\<exists>s'. set_profile_field env k v (Doc (dump_state s)) = (Inr (profile s'), Doc (dump_state s'))
    \<and> profile s' = dset k (JStr v) (ensure_profile_identity env (profile s)) \<and> hi_ready s'"
proof -
  let ?e = "ensure_hi_identity env s"
  let ?s = "?e\<lparr>profile := dset k (JStr v) (profile ?e)\<rparr>"
  have e: "hi_ready ?e" using s by (rule ready_identity)
  then have "settled ?e" by (simp add: hi_ready_def)
  note f = settled_facts [OF this]
  have "profile_shape (dset k (JStr v) (profile ?e))"
    using assms by (intro profile_shape_dset_str [OF f(1)]) auto
  then have "settled ?s" using f by (intro settledI) simp_all
  from update_settled [where f = "\<lambda>s. Inr (s\<lparr>profile := dset k (JStr v) (profile s)\<rparr>)" and env = env, OF s refl this]
  have "set_profile_field env k v (Doc (dump_state s)) = (Inr (profile ?s), Doc (dump_state ?s))"
    by (simp add: set_profile_field_def act_bind_app)
  moreover have "hi_ready ?s"
    using \<open>settled ?s\<close> e assms(2) by (simp add: hi_ready_def)
  ultimately show ?thesis by (intro exI [of _ ?s]) (simp add: ensure_hi_identity_def)
qed

theorem set_profile_field_effect_witness:
  "\<exists>s'. set_profile_field demo_env ''location'' ''Patna'' (Doc (dump_state demo_state)) =
     (Inr (profile s'), Doc (dump_state s')) \<and> jget (profile s') ''location'' = JStr ''Patna'' \<and> hi_ready s'"
  using set_profile_field_effect [OF demo_facts(1), of "''Patna''" "''location''" demo_env] by force

text \<open>A field whose string no profile can hold makes the save raise, and the file keeps its content.\<close>

lemma normalize_profile_bad_relationship:
  assumes "profile_shape p"
  shows "normalize_profile (JObj (dset ''relationship'' (JStr v) p)) = Inl AttributeError"
proof -
  let ?q = "dset ''relationship'' (JStr v) p"
  have k: "extends_keys default_profile ?q"
    using assms by (simp add: profile_shape_def extends_keys_dset_any)
  have h: "dhas p ''display_name''" "dhas p ''domain''"
    unfolding dhas_iff using extends_keys_mem [of default_profile p] assms known_domain
    by (auto simp: profile_shape_def default_profile_def simp del: set_map)
  have "reset_domain (reset_display ?q) = ?q"
    using assms dget_or_present [OF h(1)] dget_or_present [OF h(2)]
    by (simp add: profile_shape_def reset_display_def reset_domain_def)
  moreover have "filled default_profile ?q f" if "f \<in> set required_profile_fields" for f
  proof -
    from that have "f \<noteq> ''relationship''" by auto
    with that assms show ?thesis by (simp add: profile_shape_def filled_def)
  qed
  then have "foldl (fill_str default_profile) ?q required_profile_fields = ?q"
    by (intro foldl_fill_fix) simp
  moreover have "string_at ?q f" if "f \<in> set optional_profile_fields" for f
    using that assms by (auto simp: profile_shape_def string_at_def)
  then have "fill_optionals (JObj ?q) optional_profile_fields ?q = Inr ?q"
    by (intro fill_optionals_self) simp
  moreover have "fill_relationship (fill_ventures ?q) = Inl AttributeError"
    using assms by (simp add: profile_shape_def fill_ventures_def fill_relationship_def)
  moreover have "?q \<noteq> []" by (metis dhas_dset dhas_def map_of.simps(1))
  ultimately show ?thesis
    by (simp add: normalize_profile_def Let_def extends_keys_self [OF k])
qed

lemma set_relationship_raises:
  assumes "hi_ready s"
  shows "set_profile_field env ''relationship'' v (Doc (dump_state s)) = (Inl AttributeError, Doc (dump_state s))"
proof -
  have "profile_shape (profile (ensure_hi_identity env s))"
    using ready_identity [OF assms] settled_facts(1) by (auto simp: hi_ready_def)
  from normalize_profile_bad_relationship [OF this]
  have "normalize_state (dump_state ((ensure_hi_identity env s)\<lparr>profile :=
      dset ''relationship'' (JStr v) (profile (ensure_hi_identity env s))\<rparr>)) = Inl AttributeError"
    by (simp add: normalize_state_def dump_state_def dget_or_def)
  then show ?thesis
    by (simp add: set_profile_field_def update_state_def act_bind_app load_ready [OF assms] save_state_def)
qed

text \<open>The host name is not generated once: for a file whose profile has an identifier and no host,
  two loads on two hosts give two host names, since such a load does not write the file.\<close>

theorem host_regenerated:
  "\<exists>raw s1 s2. keys_distinct raw \<and> load_state demo_env (Doc raw) = (Inr s1, Doc raw) \<and>
     load_state (demo_env\<lparr>hostname := ''other''\<rparr>) (Doc raw) = (Inr s2, Doc raw) \<and>
     jget (profile s1) ''host'' = JStr ''box'' \<and> jget (profile s2) ''host'' = JStr ''other''"
proof -
  let ?raw = "JObj [(''profile'', JObj [(''id'', JStr ''hi-1'')])]"
  have "case normalize_state ?raw of Inl _ \<Rightarrow> False
      | Inr s \<Rightarrow> jget (profile s) ''host'' = JNull" by code_simp
  then obtain s where s: "normalize_state ?raw = Inr s" "jget (profile s) ''host'' = JNull"
    by (auto split: sum.splits)
  have l: "load_state env (Doc ?raw) = (Inr (ensure_hi_identity env s), Doc ?raw)" for env
    using s(1) by (simp add: load_state_def act_bind_app raw_has_id_def dget_or_def Let_def)
  have h: "jget (profile (ensure_hi_identity env s)) ''host'' = JStr (hostname env)" for env
    using s(2) by (simp add: ensure_hi_identity_def ensure_profile_identity_def Let_def jget_set_if_empty)
  have "keys_distinct ?raw" by simp
  with l [of demo_env] l [of "demo_env\<lparr>hostname := ''other''\<rparr>"] h [of demo_env]
    h [of "demo_env\<lparr>hostname := ''other''\<rparr>"] show ?thesis
    by (intro exI [of _ ?raw] exI conjI) (assumption | simp add: demo_env_def)+
qed
end
