(* ===== verification/Clock.thy ===== *)
theory Clock
  imports PyStr "HOL-Library.Monad_Syntax"
begin

text \<open>
  \<open>datetime.fromisoformat\<close> on the extended calendar form
  \<open>YYYY-MM-DD[?HH[:MM[:SS[.f+]]]][Z|+HH:MM[:SS]]\<close>, the only one the code writes
  (\<open>isoformat()\<close>) or receives; the basic and week forms are not read. A result is the instant in
  microseconds since 1970 and whether the value is timezone-aware; Python refuses to subtract or
  compare an aware and a naive value (TypeError), which the callers rely on or trip over. Wall
  clock readings are microseconds too.
\<close>

record stamp =
  micros :: int
  aware :: bool

definition leap :: "int \<Rightarrow> bool" where
  "leap y = ((y mod 4 = 0 \<and> y mod 100 \<noteq> 0) \<or> y mod 400 = 0)"

definition days_in_month :: "int \<Rightarrow> int \<Rightarrow> int" where
  "days_in_month y m = (if m = 2 then (if leap y then 29 else 28)
     else if m \<in> {4, 6, 9, 11} then 30 else 31)"

definition days_from_civil :: "int \<Rightarrow> int \<Rightarrow> int \<Rightarrow> int" where
  "days_from_civil y m d =
     (let y' = (if m \<le> 2 then y - 1 else y);
          era = y' div 400;
          yoe = y' mod 400;
          doy = (153 * ((m + 9) mod 12) + 2) div 5 + d - 1;
          doe = yoe * 365 + yoe div 4 - yoe div 100 + doy
      in era * 146097 + doe - 719468)"

text \<open>Exactly \<open>n\<close> digits.\<close>

definition take_num :: "nat \<Rightarrow> string \<Rightarrow> (int \<times> string) option" where
  "take_num n s =
     (if n \<le> length s \<and> list_all is_digit (take n s)
      then Some (dec_value (take n s), drop n s) else None)"

definition eat :: "nat \<Rightarrow> string \<Rightarrow> string option" where
  "eat k s = (case s of c # t \<Rightarrow> if code c = k then Some t else None | [] \<Rightarrow> None)"

definition parse_date :: "string \<Rightarrow> (int \<times> string) option" where
  "parse_date s = do {
     (y, s1) \<leftarrow> take_num 4 s;
     s2 \<leftarrow> eat 45 s1;
     (m, s3) \<leftarrow> take_num 2 s2;
     s4 \<leftarrow> eat 45 s3;
     (d, s5) \<leftarrow> take_num 2 s4;
     (if 1 \<le> y \<and> 1 \<le> m \<and> m \<le> 12 \<and> 1 \<le> d \<and> d \<le> days_in_month y m
      then Some (days_from_civil y m d, s5) else None)}"

text \<open>The fraction, truncated to microseconds.\<close>

definition parse_fraction :: "string \<Rightarrow> (int \<times> string) option" where
  "parse_fraction s =
     (case s of
        c # t \<Rightarrow>
          if code c = 46 \<or> code c = 44 then
            (let ds = takeWhile is_digit t in
             if ds = [] then None
             else Some (dec_value (take 6 (ds @ replicate 6 (CHR ''0''))), dropWhile is_digit t))
          else Some (0, s)
      | [] \<Rightarrow> Some (0, s))"

definition opt_colon_num :: "string \<Rightarrow> (int \<times> bool \<times> string) option" where
  "opt_colon_num s =
     (case eat 58 s of
        None \<Rightarrow> Some (0, False, s)
      | Some t \<Rightarrow> do { (n, r) \<leftarrow> take_num 2 t; Some (n, True, r) })"

definition parse_hms :: "string \<Rightarrow> (int \<times> string) option" where
  "parse_hms s = do {
     (h, s1) \<leftarrow> take_num 2 s;
     (m, has_m, s2) \<leftarrow> opt_colon_num s1;
     (sec, has_s, s3) \<leftarrow> (if has_m then opt_colon_num s2 else Some (0, False, s2));
     (f, s4) \<leftarrow> (if has_s then parse_fraction s3 else Some (0, s3));
     (if h < 24 \<and> m < 60 \<and> sec < 60
      then Some (((h * 60 + m) * 60 + sec) * 1000000 + f, s4) else None)}"

definition parse_zone :: "string \<Rightarrow> (int \<times> bool) option" where
  "parse_zone s =
     (case s of
        [] \<Rightarrow> Some (0, False)
      | c # t \<Rightarrow>
          if code c = 90 then (if t = [] then Some (0, True) else None)
          else if code c = 43 \<or> code c = 45 then
            do { (off, r) \<leftarrow> parse_hms t;
                 (if r = [] then Some (if code c = 43 then off else - off, True) else None) }
          else None)"

definition fromisoformat :: "string \<Rightarrow> stamp option" where
  "fromisoformat s = do {
     (day, s1) \<leftarrow> parse_date s;
     (case s1 of
        [] \<Rightarrow> Some \<lparr>micros = day * 86400000000, aware = False\<rparr>
      | _ # t \<Rightarrow> do {
          (us, s2) \<leftarrow> parse_hms t;
          (off, aw) \<leftarrow> parse_zone s2;
          Some \<lparr>micros = day * 86400000000 + us - off, aware = aw\<rparr> })}"

text \<open>The clean-up \<open>ts.rstrip("Z").replace("Z", "+00:00")\<close> that several callers apply first.\<close>

definition strip_zulu :: "string \<Rightarrow> string" where
  "strip_zulu s = replace ''Z'' ''+00:00'' (rstrip_by (\<lambda>c. c = CHR ''Z'') s)"

text \<open>\<open>(now - t).total_seconds()\<close> is \<open>now - t\<close> in microseconds; \<open>.days\<close> floors it to days.\<close>

definition age_days :: "int \<Rightarrow> stamp \<Rightarrow> int" where
  "age_days now t = (now - micros t) div 86400000000"

lemma fromisoformat_epoch: "fromisoformat ''1970-01-01T00:00:00+00:00'' = Some \<lparr>micros = 0, aware = True\<rparr>"
  by code_simp

lemma fromisoformat_offset:
  "fromisoformat ''2026-01-01T05:30:00.250000+05:30'' =
     Some \<lparr>micros = 1767225600250000, aware = True\<rparr>"
  by code_simp

text \<open>
  The clean-up drops the zone instead of converting it: a \<open>Z\<close> time becomes a naive one.
\<close>

lemma strip_zulu_naive:
  "map_option aware (fromisoformat (strip_zulu ''2026-01-01T00:00:00Z'')) = Some False"
  by code_simp

end
