(* ===== verification/Memory_Store.thy ===== *)
theory Memory_Store
  imports Complex_Main HI_State Clock
begin

text \<open>
  Model of \<open>Kingofyadav/memory_store.py\<close>: the SQLite store of memories and of the connections
  between them. A table is the list of its rows in insertion order, the order a scan returns them;
  rows that tie under an \<open>ORDER BY\<close> keep that order. Token vectors and scores are real numbers
  (rounding of floats is not modelled). Every operation is a function on the database, which the
  code commits before it returns.
\<close>

section \<open>Tables\<close>

record mem_row =
  row_id :: string
  row_type :: string
  row_text :: string
  row_event :: string
  row_command :: string
  row_tag :: string
  row_source :: string
  row_visibility :: string
  row_importance :: int
  row_created :: string
  row_search :: string
  row_vector :: "(string \<times> real) list"

record conn_row =
  c_source :: string
  c_target :: string
  c_relation :: string
  c_score :: real
  c_updated :: string

record memdb =
  memories :: "mem_row list"
  conns :: "conn_row list"

record mem_env = host_env +
  now_us :: int
  now_compact :: string
  local_offset :: int

definition find_row :: "string \<Rightarrow> memdb \<Rightarrow> mem_row option" where
  "find_row i db = List.find (\<lambda>r. row_id r = i) (memories db)"

section \<open>Tokens and vectors\<close>

definition stopwords :: "string list" where
  "stopwords = [''a'', ''an'', ''and'', ''are'', ''as'', ''at'', ''be'', ''for'', ''from'', ''has'', ''have'',
     ''i'', ''in'', ''is'', ''it'', ''me'', ''my'', ''of'', ''on'', ''or'', ''that'', ''the'',
     ''this'', ''to'', ''was'', ''were'', ''what'', ''when'', ''with'', ''you'']"

definition token_char :: "char \<Rightarrow> bool" where
  "token_char c \<longleftrightarrow> is_ascii_alnum c \<or> c = CHR ''_'' \<or> c = CHR ''-''"

text \<open>The matches of \<open>[a-z0-9][a-z0-9_\-]{1,}\<close>, leftmost and greedy.\<close>

function raw_tokens :: "string \<Rightarrow> string list" where
  "raw_tokens [] = []"
| "raw_tokens (c # s) =
     (let run = takeWhile token_char s
      in if is_ascii_alnum c \<and> run \<noteq> [] then (c # run) # raw_tokens (dropWhile token_char s)
         else raw_tokens s)"
  by pat_completeness auto
termination
  by (relation "measure length") (auto simp: less_Suc_eq_le length_dropWhile_le)

fun strip_suffix :: "string list \<Rightarrow> string \<Rightarrow> string" where
  "strip_suffix [] t = t"
| "strip_suffix (x # xs) t =
     (if length x + 3 < length t \<and> endswith t x
      then (if x = ''ies'' then butlastn 3 t @ ''y'' else butlastn (length x) t)
      else strip_suffix xs t)"

definition stem :: "string \<Rightarrow> string" where
  "stem t = strip_suffix [''ing'', ''ers'', ''ies'', ''ed'', ''es'', ''s'']
     (strip_by (\<lambda>c. c = CHR ''-'' \<or> c = CHR ''_'') (lower t))"

definition tokenize :: "string \<Rightarrow> string list" where
  "tokenize text = map stem (filter (\<lambda>m. lower m \<notin> set stopwords) (raw_tokens (lower text)))"

fun count_tokens :: "(string \<times> real) list \<Rightarrow> string list \<Rightarrow> (string \<times> real) list" where
  "count_tokens counts [] = counts"
| "count_tokens counts (t # ts) = count_tokens (dset t (dget_or counts t 0 + 1) counts) ts"

definition token_vector :: "string \<Rightarrow> (string \<times> real) list" where
  "token_vector text =
     (let counts = count_tokens [] (tokenize text);
          n0 = sqrt (\<Sum>p\<leftarrow>counts. snd p * snd p);
          n = (if n0 = 0 then 1 else n0)
      in map (\<lambda>p. (fst p, snd p / n)) counts)"

definition cosine :: "(string \<times> real) list \<Rightarrow> (string \<times> real) list \<Rightarrow> real" where
  "cosine a b =
     (if a = [] \<or> b = [] then 0
      else (let (small, large) = (if length a \<le> length b then (a, b) else (b, a))
            in (\<Sum>p\<leftarrow>small. snd p * dget_or large (fst p) 0)))"

section \<open>Entries\<close>

definition primary_text :: "obj \<Rightarrow> string" where
  "primary_text e =
     str_strip (py_or (jget e ''text'') (py_or (jget e ''event'') (py_or (jget e ''command'') (JStr []))))"

definition search_text :: "obj \<Rightarrow> string" where
  "search_text e = strip (join '' '' (filter (\<lambda>p. p \<noteq> [])
     (map (\<lambda>k. py_str (dget_or e k (JStr [])))
        [''type'', ''text'', ''event'', ''command'', ''tag'', ''source''])))"

definition memory_id :: "'a host_env_scheme \<Rightarrow> obj \<Rightarrow> string" where
  "memory_id env e =
     take 16 (sha256_hex env (join ''|''
       [py_str (dget_or e ''created_at'' (JStr [])), py_str (dget_or e ''type'' (JStr [])), primary_text e]))"

definition meta_importance :: "obj \<Rightarrow> int" where
  "meta_importance e =
     (case py_int (dget_or e ''importance'' (JInt 3)) of Inl _ \<Rightarrow> 3 | Inr i \<Rightarrow> max 1 (min 5 i))"

definition meta_visibility :: "obj \<Rightarrow> string" where
  "meta_visibility e =
     (let v = str_strip_lower (dget_or e ''visibility'' (JStr ''private''))
      in if v \<in> {''private'', ''public''} then v else ''private'')"

definition meta_source :: "obj \<Rightarrow> string" where
  "meta_source e =
     (let s = strip (str_or (dget_or e ''source'' (JStr ''user'')) ''user'')
      in if s = [] then ''user'' else s)"

text \<open>\<open>str(entry.get("id") or memory_id(entry))\<close>\<close>

definition entry_id :: "'a host_env_scheme \<Rightarrow> obj \<Rightarrow> string" where
  "entry_id env e = str_or (jget e ''id'') (memory_id env e)"

definition entry_row :: "'a host_env_scheme \<Rightarrow> obj \<Rightarrow> mem_row" where
  "entry_row env e = \<lparr>
     row_id = entry_id env e,
     row_type = str_or (dget_or e ''type'' (JStr ''note'')) ''note'',
     row_text = str_or (dget_or e ''text'' (JStr [])) [],
     row_event = str_or (dget_or e ''event'' (JStr [])) [],
     row_command = str_or (dget_or e ''command'' (JStr [])) [],
     row_tag = str_or (dget_or e ''tag'' (JStr [])) [],
     row_source = meta_source e,
     row_visibility = meta_visibility e,
     row_importance = meta_importance e,
     row_created = py_str (dget_or e ''created_at'' (JStr [])),
     row_search = search_text e,
     row_vector = sort_by fst (token_vector (search_text e))\<rparr>"

definition row_to_memory :: "mem_row \<Rightarrow> obj" where
  "row_to_memory r =
     [(''id'', JStr (row_id r)), (''type'', JStr (row_type r)), (''text'', JStr (row_text r)),
      (''event'', JStr (row_event r)), (''command'', JStr (row_command r)), (''tag'', JStr (row_tag r)),
      (''source'', JStr (row_source r)), (''visibility'', JStr (row_visibility r)),
      (''importance'', JInt (row_importance r)), (''created_at'', JStr (row_created r))]"

section \<open>Connections\<close>

definition same_conn :: "string \<Rightarrow> string \<Rightarrow> string \<Rightarrow> conn_row \<Rightarrow> bool" where
  "same_conn s t r c \<longleftrightarrow> c_source c = s \<and> c_target c = t \<and> c_relation c = r"

text \<open>\<open>INSERT OR REPLACE\<close> and \<open>INSERT OR IGNORE\<close> on the primary key (source, target, relation).\<close>

definition conn_replace :: "conn_row \<Rightarrow> conn_row list \<Rightarrow> conn_row list" where
  "conn_replace c cs = filter (\<lambda>d. \<not> same_conn (c_source c) (c_target c) (c_relation c) d) cs @ [c]"

definition conn_ignore :: "conn_row \<Rightarrow> conn_row list \<Rightarrow> conn_row list" where
  "conn_ignore c cs =
     (if \<exists>d \<in> set cs. same_conn (c_source c) (c_target c) (c_relation c) d then cs else cs @ [c])"

definition similarity :: "mem_row \<Rightarrow> mem_row \<Rightarrow> real" where
  "similarity src r = cosine (row_vector src) (row_vector r)
     + (if row_tag src \<noteq> [] \<and> row_tag src = row_tag r then 15/100 else 0)"

definition neighbours :: "mem_row \<Rightarrow> mem_row list \<Rightarrow> (real \<times> string) list" where
  "neighbours src rows = sort_by_desc (\<lambda>x. x)
     (map (\<lambda>r. (similarity src r, row_id r))
        (filter (\<lambda>r. row_id r \<noteq> row_id src \<and> 0 < similarity src r) rows))"

fun link_neighbours :: "string \<Rightarrow> string \<Rightarrow> (real \<times> string) list \<Rightarrow> conn_row list \<Rightarrow> conn_row list" where
  "link_neighbours now i [] cs = cs"
| "link_neighbours now i ((score, t) # ns) cs =
     link_neighbours now i ns
       (conn_ignore \<lparr>c_source = t, c_target = i, c_relation = ''related'', c_score = score, c_updated = now\<rparr>
         (conn_replace \<lparr>c_source = i, c_target = t, c_relation = ''related'', c_score = score, c_updated = now\<rparr> cs))"

definition refresh_connections :: "'a host_env_scheme \<Rightarrow> string \<Rightarrow> memdb \<Rightarrow> memdb" where
  "refresh_connections env i db =
     (case find_row i db of
        None \<Rightarrow> db
      | Some src \<Rightarrow>
          db\<lparr>conns := link_neighbours (now_iso env) i (take 5 (neighbours src (memories db)))
               (filter (\<lambda>c. \<not> (c_source c = i \<and> c_relation c = ''related'')) (conns db))\<rparr>)"

section \<open>Inserting\<close>

definition find_duplicate :: "obj \<Rightarrow> memdb \<Rightarrow> string option" where
  "find_duplicate e db =
     (let st = search_text e; v = token_vector st; i = str_or (jget e ''id'') []
      in if strip st = [] then None
         else map_option row_id (List.find
           (\<lambda>r. \<not> (i \<noteq> [] \<and> row_id r = i) \<and> 88/100 \<le> cosine v (row_vector r)) (memories db)))"

text \<open>\<open>INSERT ... ON CONFLICT(id) DO UPDATE\<close>: an existing row is updated where it is.\<close>

definition put_row :: "mem_row \<Rightarrow> mem_row list \<Rightarrow> mem_row list" where
  "put_row r rows =
     (if \<exists>x \<in> set rows. row_id x = row_id r then update_first (\<lambda>x. row_id x = row_id r) (\<lambda>_. r) rows
      else rows @ [r])"

definition upsert_memory :: "'a host_env_scheme \<Rightarrow> bool \<Rightarrow> obj \<Rightarrow> memdb \<Rightarrow> string \<times> memdb" where
  "upsert_memory env check_duplicate e db =
     (let i = entry_id env e;
          insert_it = (i, refresh_connections env i (db\<lparr>memories := put_row (entry_row env e) (memories db)\<rparr>))
      in if check_duplicate then
           (case find_duplicate e db of
              Some d \<Rightarrow> if d \<noteq> [] then (d, db) else insert_it
            | None \<Rightarrow> insert_it)
         else insert_it)"

fun sync_from_state :: "'a host_env_scheme \<Rightarrow> obj list \<Rightarrow> memdb \<Rightarrow> nat \<times> memdb" where
  "sync_from_state env [] db = (0, db)"
| "sync_from_state env (e # es) db =
     (if primary_text e \<noteq> [] then
        (let (n, db') = sync_from_state env es (snd (upsert_memory env False e db)) in (Suc n, db'))
      else sync_from_state env es db)"

section \<open>Reading\<close>

definition clamp :: "int \<Rightarrow> int \<Rightarrow> int \<Rightarrow> int" where
  "clamp lo hi x = max lo (min hi x)"

text \<open>A truthy \<open>visibility\<close> restricts the rows.\<close>

definition visible_rows :: "string option \<Rightarrow> mem_row list \<Rightarrow> mem_row list" where
  "visible_rows v rows =
     (case v of None \<Rightarrow> rows
      | Some x \<Rightarrow> if x = [] then rows else filter (\<lambda>r. row_visibility r = x) rows)"

definition list_memories :: "int \<Rightarrow> string option \<Rightarrow> memdb \<Rightarrow> mem_row list" where
  "list_memories limit v db =
     take (nat (clamp 1 200 limit)) (sort_by_desc row_created (visible_rows v (memories db)))"

text \<open>
  The recency boost of a search; a creation time that does not parse gives none, and a naive one is
  read in the local zone.
\<close>

definition recency_boost :: "'a mem_env_scheme \<Rightarrow> string \<Rightarrow> real" where
  "recency_boost env created =
     (case fromisoformat (strip_zulu created) of
        None \<Rightarrow> 0
      | Some t \<Rightarrow>
          let us = (if aware t then micros t else micros t - local_offset env);
              days = real_of_int (now_us env - us) / 86400000000
          in max 0 (1/10 * (1 - days / 30)))"

definition search_score :: "'a mem_env_scheme \<Rightarrow> string \<Rightarrow> mem_row \<Rightarrow> real" where
  "search_score env query r =
     (let q = lower query; t = lower (row_search r)
      in cosine (token_vector query) (row_vector r)
         + (if contains q t then 45/100 else 0)
         + (\<Sum>tok\<leftarrow>tokenize q. if contains tok t then 8/100 else 0)
         + (if row_tag r \<noteq> [] \<and> contains (lower (row_tag r)) q then 25/100 else 0)
         + 4/100 * real_of_int (row_importance r)
         + recency_boost env (row_created r)
         + (if row_visibility r = ''public'' then 5/100 else 0))"

definition search_memories :: "'a mem_env_scheme \<Rightarrow> string \<Rightarrow> int \<Rightarrow> memdb \<Rightarrow> (real \<times> mem_row) list" where
  "search_memories env query limit db =
     (let q = strip query;
          scored = map (\<lambda>r. (search_score env q r, r)) (memories db)
      in if q = [] then []
         else take (nat (clamp 1 25 limit))
                (sort_by_desc (\<lambda>p. (fst p, row_created (snd p))) (filter (\<lambda>p. 0 < fst p) scored)))"

definition add_typed_connection :: "'a host_env_scheme \<Rightarrow> string \<Rightarrow> string \<Rightarrow> string \<Rightarrow> real \<Rightarrow> memdb \<Rightarrow> bool \<times> memdb" where
  "add_typed_connection env s t relation score db =
     (let rel0 = lower (strip relation); rel = (if rel0 = [] then ''related'' else rel0);
          sc = max 0 (min 1 score);
          found = filter (\<lambda>r. row_id r = s \<or> row_id r = t) (memories db)
      in if length found < 2 then (False, db)
         else (True, db\<lparr>conns := conn_replace \<lparr>c_source = s, c_target = t, c_relation = rel,
                 c_score = sc, c_updated = now_iso env\<rparr> (conns db)\<rparr>))"

definition related_memories :: "string \<Rightarrow> int \<Rightarrow> memdb \<Rightarrow> (mem_row \<times> real \<times> string) list" where
  "related_memories i limit db =
     take (nat (clamp 1 25 limit))
       (sort_by_desc (\<lambda>p. fst (snd p))
         (concat (map (\<lambda>c. if c_source c = i then
               (case find_row (c_target c) db of
                  None \<Rightarrow> [] | Some r \<Rightarrow> [(r, c_score c, c_relation c)]) else []) (conns db))))"

section \<open>The knowledge graph\<close>

definition out_conns :: "string option \<Rightarrow> string \<Rightarrow> memdb \<Rightarrow> conn_row list" where
  "out_conns rel i db =
     take 10 (sort_by_desc c_score
       (filter (\<lambda>c. c_source c = i \<and> (case rel of None \<Rightarrow> True | Some x \<Rightarrow> x = [] \<or> c_relation c = x))
          (conns db)))"

text \<open>
  The breadth-first loop: the rows found so far, the edges, the identifiers already taken from the
  queue, and the queue of identifiers with their depth.
\<close>

function graph_loop ::
  "memdb \<Rightarrow> string option \<Rightarrow> nat \<Rightarrow> nat \<Rightarrow> mem_row list \<Rightarrow> conn_row list \<Rightarrow> string list \<Rightarrow>
   (string \<times> nat) list \<Rightarrow> mem_row list \<times> conn_row list" where
  "graph_loop db rel depth limit nodes edges visited [] = (nodes, edges)"
| "graph_loop db rel depth limit nodes edges visited ((i, d) # queue) =
     (if limit \<le> length nodes then (nodes, edges)
      else if i \<in> set visited then graph_loop db rel depth limit nodes edges visited queue
      else (case find_row i db of
              None \<Rightarrow> graph_loop db rel depth limit nodes edges (i # visited) queue
            | Some r \<Rightarrow>
                if depth \<le> d then graph_loop db rel depth limit (nodes @ [r]) edges (i # visited) queue
                else graph_loop db rel depth limit (nodes @ [r]) (edges @ out_conns rel i db) (i # visited)
                       (queue @ map (\<lambda>c. (c_target c, Suc d))
                         (filter (\<lambda>c. c_target c \<notin> set (i # visited)) (out_conns rel i db)))))"
  by pat_completeness auto

definition unvisited :: "memdb \<Rightarrow> string list \<Rightarrow> nat" where
  "unvisited db visited = card (row_id ` set (memories db) - set visited)"

lemma find_row_Some: "find_row i db = Some r \<Longrightarrow> r \<in> set (memories db) \<and> row_id r = i"
  by (auto simp: find_row_def find_Some_iff)

lemma find_row_None: "find_row i db = None \<longleftrightarrow> i \<notin> row_id ` set (memories db)"
  by (auto simp: find_row_def find_None_iff)

lemma unvisited_none: "find_row i db = None \<Longrightarrow> unvisited db (i # visited) = unvisited db visited"
  unfolding unvisited_def by (rule arg_cong [where f = card]) (auto simp: find_row_None)

lemma unvisited_some:
  assumes "find_row i db = Some r" "i \<notin> set visited"
  shows "unvisited db (i # visited) < unvisited db visited"
proof -
  let ?A = "row_id ` set (memories db) - set visited"
  have "i \<in> ?A" using find_row_Some [OF assms(1)] assms(2) by auto
  then have "card (?A - {i}) < card ?A" by (intro card_Diff1_less) auto
  moreover have "row_id ` set (memories db) - set (i # visited) = ?A - {i}" by auto
  ultimately show ?thesis by (simp only: unvisited_def)
qed

termination graph_loop
  by (relation "measures [\<lambda>(db, rel, depth, limit, nodes, edges, visited, queue). unvisited db visited,
      \<lambda>(db, rel, depth, limit, nodes, edges, visited, queue). length queue]")
    (auto simp: unvisited_none unvisited_some)

record graph =
  g_root :: string
  g_nodes :: "mem_row list"
  g_edges :: "conn_row list"
  g_depth :: int

definition knowledge_graph_query :: "string \<Rightarrow> int \<Rightarrow> int \<Rightarrow> string option \<Rightarrow> memdb \<Rightarrow> graph" where
  "knowledge_graph_query start depth limit rel db =
     (let d = clamp 1 4 depth; l = clamp 1 100 limit;
          (ns, es) = graph_loop db rel (nat d) (nat l) [] [] [] [(start, 0)]
      in \<lparr>g_root = start, g_nodes = ns, g_edges = es, g_depth = d\<rparr>)"

section \<open>Deleting, retention, import\<close>

definition delete_memory :: "string \<Rightarrow> memdb \<Rightarrow> bool \<times> memdb" where
  "delete_memory i db =
     (\<exists>r \<in> set (memories db). row_id r = i,
      db\<lparr>conns := filter (\<lambda>c. \<not> (c_source c = i \<or> c_target c = i)) (conns db),
         memories := filter (\<lambda>r. row_id r \<noteq> i) (memories db)\<rparr>)"

definition set_visibility :: "string \<Rightarrow> string \<Rightarrow> memdb \<Rightarrow> bool \<times> memdb" where
  "set_visibility i visibility db =
     (let v = lower (strip visibility)
      in if v \<notin> {''private'', ''public''} then (False, db)
         else (\<exists>r \<in> set (memories db). row_id r = i,
               db\<lparr>memories := map (\<lambda>r. if row_id r = i then r\<lparr>row_visibility := v\<rparr> else r) (memories db)\<rparr>))"

text \<open>Maximal age in days per importance; zero never expires.\<close>

definition retention_days :: "int \<Rightarrow> int" where
  "retention_days i = (if i = 1 then 30 else if i = 2 then 60 else if i = 3 then 180
     else if i = 4 \<or> i = 5 then 0 else 180)"

text \<open>
  A creation time that does not parse is skipped; subtracting a naive one from the aware clock
  raises TypeError, outside the \<open>try\<close>.
\<close>

definition row_expired :: "'a mem_env_scheme \<Rightarrow> mem_row \<Rightarrow> bool outcome" where
  "row_expired env r =
     (let m = retention_days (row_importance r)
      in if m = 0 then Inr False
         else (case fromisoformat (strip_zulu (row_created r)) of
                 None \<Rightarrow> Inr False
               | Some t \<Rightarrow> if aware t then Inr (m < age_days (now_us env) t) else Inl TypeError))"

text \<open>The store and the archive directory beside it: file name to the entries written there.\<close>

record mem_store =
  store :: memdb
  archives :: "obj list dict"

record retention_stats =
  rs_checked :: nat
  rs_total :: nat
  rs_expired :: nat
  rs_archived :: nat
  rs_dry_run :: bool

definition apply_retention_policy :: "'a mem_env_scheme \<Rightarrow> bool \<Rightarrow> ('b mem_store_scheme, retention_stats) act" where
  "apply_retention_policy env dry_run =
     act_bind (act_get (\<lambda>w. memories (store w))) (\<lambda>rows.
     act_bind (act_of (filter_out (row_expired env) rows)) (\<lambda>expired.
       let write = (\<not> dry_run \<and> expired \<noteq> []) in
       act_bind (act_modify (\<lambda>w.
         if write then
           w\<lparr>archives := dset (''retention_'' @ now_compact env @ ''.jsonl'') (map row_to_memory expired) (archives w),
             store := fold (\<lambda>i d. snd (delete_memory i d)) (map row_id expired) (store w)\<rparr>
         else w)) (\<lambda>_.
       act_return \<lparr>rs_checked = length expired, rs_total = length rows, rs_expired = length expired,
         rs_archived = (if dry_run then 0 else length expired), rs_dry_run = dry_run\<rparr>)))"

definition export_memories :: "int \<Rightarrow> string option \<Rightarrow> memdb \<Rightarrow> mem_row list" where
  "export_memories limit v d = list_memories limit v d"

definition lift_db :: "(memdb \<Rightarrow> 'a \<times> memdb) \<Rightarrow> ('b mem_store_scheme, 'a) act" where
  "lift_db f = (\<lambda>w. let (x, d) = f (store w) in (Inr x, w\<lparr>store := d\<rparr>))"

fun import_memories ::
  "'a host_env_scheme \<Rightarrow> bool \<Rightarrow> json list \<Rightarrow> nat \<Rightarrow> nat \<Rightarrow> ('b mem_store_scheme, nat \<times> nat) act" where
  "import_memories env dup [] imported skipped = act_return (imported, skipped)"
| "import_memories env dup (e # es) imported skipped =
     act_bind (act_of (as_obj e)) (\<lambda>d.
       if primary_text d = [] then import_memories env dup es imported (Suc skipped)
       else act_bind (lift_db (upsert_memory env dup d)) (\<lambda>i.
         if dup \<and> i \<noteq> entry_id env d then import_memories env dup es imported (Suc skipped)
         else import_memories env dup es (Suc imported) skipped))"

text \<open>\<open>SELECT k, COUNT(*) ... GROUP BY k ORDER BY cnt DESC\<close>\<close>

definition group_counts :: "string list \<Rightarrow> (string \<times> nat) list" where
  "group_counts ks = sort_by_desc snd (map (\<lambda>k. (k, count_list ks k)) (sort (remdups ks)))"

record graph_stats =
  gs_memories :: nat
  gs_connections :: nat
  gs_relations :: "(string \<times> nat) list"
  gs_top :: "(string \<times> nat) list"

definition get_graph_stats :: "memdb \<Rightarrow> graph_stats" where
  "get_graph_stats d = \<lparr>gs_memories = length (memories d), gs_connections = length (conns d),
     gs_relations = group_counts (map c_relation (conns d)),
     gs_top = take 5 (group_counts (map c_source (conns d)))\<rparr>"

section \<open>The invariant of the store\<close>

text \<open>
  Identifiers and connection keys are unique (the primary keys), every connection joins two
  different stored memories, importances and visibilities are in range.
\<close>

definition conn_key :: "conn_row \<Rightarrow> string \<times> string \<times> string" where
  "conn_key c = (c_source c, c_target c, c_relation c)"

definition conn_ok :: "string set \<Rightarrow> conn_row \<Rightarrow> bool" where
  "conn_ok ids c \<longleftrightarrow> c_source c \<in> ids \<and> c_target c \<in> ids \<and> c_source c \<noteq> c_target c"

definition row_ok :: "mem_row \<Rightarrow> bool" where
  "row_ok r \<longleftrightarrow> 1 \<le> row_importance r \<and> row_importance r \<le> 5 \<and> row_visibility r \<in> {''private'', ''public''}
     \<and> row_vector r = sort_by fst (token_vector (row_search r))"

abbreviation row_ids :: "memdb \<Rightarrow> string set" where
  "row_ids d \<equiv> row_id ` set (memories d)"

definition memdb_ok :: "memdb \<Rightarrow> bool" where
  "memdb_ok d \<longleftrightarrow> distinct (map row_id (memories d)) \<and> distinct (map conn_key (conns d))
     \<and> (\<forall>r \<in> set (memories d). row_ok r) \<and> (\<forall>c \<in> set (conns d). conn_ok (row_ids d) c)"

lemma same_conn_key: "same_conn s t r c \<longleftrightarrow> conn_key c = (s, t, r)"
  by (auto simp: same_conn_def conn_key_def)

lemma conn_replace_keys:
  assumes "distinct (map conn_key cs)"
  shows "distinct (map conn_key (conn_replace c cs))"
    "set (conn_replace c cs) \<subseteq> insert c (set cs)"
  using assms by (auto simp: conn_replace_def same_conn_key distinct_map inj_on_def) (auto simp: conn_key_def)

lemma conn_ignore_keys:
  assumes "distinct (map conn_key cs)"
  shows "distinct (map conn_key (conn_ignore c cs))"
    "set (conn_ignore c cs) \<subseteq> insert c (set cs)"
  using assms by (auto simp: conn_ignore_def same_conn_key conn_key_def)

lemma link_neighbours_ok:
  assumes "distinct (map conn_key cs)" "\<forall>c \<in> set cs. conn_ok ids c" "i \<in> ids"
    "\<forall>n \<in> set ns. snd n \<in> ids \<and> snd n \<noteq> i"
  shows "distinct (map conn_key (link_neighbours now i ns cs)) \<and>
    (\<forall>c \<in> set (link_neighbours now i ns cs). conn_ok ids c)"
  using assms
proof (induction ns arbitrary: cs)
  case (Cons n ns)
  obtain score t where n: "n = (score, t)" by (cases n)
  let ?a = "\<lparr>c_source = i, c_target = t, c_relation = ''related'', c_score = score, c_updated = now\<rparr>"
  let ?b = "\<lparr>c_source = t, c_target = i, c_relation = ''related'', c_score = score, c_updated = now\<rparr>"
  let ?cs = "conn_ignore ?b (conn_replace ?a cs)"
  have "set ?cs \<subseteq> insert ?b (insert ?a (set cs))"
    using conn_replace_keys [OF Cons.prems(1), of ?a] conn_ignore_keys(2) by blast
  moreover have "conn_ok ids ?a" "conn_ok ids ?b" using Cons.prems(3,4) by (auto simp: conn_ok_def n)
  ultimately have "\<forall>c \<in> set ?cs. conn_ok ids c" using Cons.prems(2) by blast
  moreover have "distinct (map conn_key ?cs)"
    using conn_replace_keys [OF Cons.prems(1), of ?a] conn_ignore_keys(1) by blast
  ultimately show ?case using Cons.IH [of ?cs] Cons.prems(3,4) by (simp add: n)
qed simp

lemma refresh_memories [simp]: "memories (refresh_connections env i d) = memories d"
  by (simp add: refresh_connections_def split: option.split)

lemma find_row_refresh [simp]: "find_row j (refresh_connections env i d) = find_row j d"
  by (simp add: find_row_def)

lemma refresh_ok: "memdb_ok d \<Longrightarrow> memdb_ok (refresh_connections env i d)"
proof (cases "find_row i d")
  case (Some src)
  assume ok: "memdb_ok d"
  let ?cs = "filter (\<lambda>c. \<not> (c_source c = i \<and> c_relation c = ''related'')) (conns d)"
  let ?ns = "take 5 (neighbours src (memories d))"
  have ns: "\<forall>n \<in> set ?ns. snd n \<in> row_ids d \<and> snd n \<noteq> i"
    using find_row_Some [OF Some] by (auto simp: neighbours_def dest!: in_set_takeD)
  have "distinct (map conn_key ?cs)" "\<forall>c \<in> set ?cs. conn_ok (row_ids d) c"
    using ok by (auto simp: memdb_ok_def distinct_map_filter)
  from link_neighbours_ok [OF this _ ns, of "now_iso env"] find_row_Some [OF Some]
  show ?thesis using ok by (auto simp: memdb_ok_def refresh_connections_def Some)
qed (simp add: refresh_connections_def)

lemma put_row_ids:
  "distinct (map row_id rows) \<Longrightarrow> distinct (map row_id (put_row r rows)) \<and>
   row_id ` set (put_row r rows) = insert (row_id r) (row_id ` set rows) \<and>
   set (put_row r rows) \<subseteq> insert r (set rows) \<and> r \<in> set (put_row r rows)"
proof (induction rows)
  case (Cons x rows)
  then show ?case by (auto simp: put_row_def split: if_splits)
qed (simp add: put_row_def)

lemma entry_row_ok: "row_ok (entry_row env e)"
  by (auto simp: row_ok_def entry_row_def meta_importance_def meta_visibility_def Let_def split: sum.split)

lemma put_row_ok:
  assumes "memdb_ok d" "row_ok r"
  shows "memdb_ok (d\<lparr>memories := put_row r (memories d)\<rparr>)"
  using assms put_row_ids [of "memories d" r]
  by (auto simp: memdb_ok_def conn_ok_def)

lemma upsert_ok: "memdb_ok d \<Longrightarrow> memdb_ok (snd (upsert_memory env dup e d))"
  by (auto simp: upsert_memory_def Let_def put_row_ok refresh_ok entry_row_ok split: option.split)

lemma sync_ok: "memdb_ok d \<Longrightarrow> memdb_ok (snd (sync_from_state env es d))"
proof (induction es arbitrary: d)
  case (Cons e es)
  from Cons.IH [OF upsert_ok [OF Cons.prems], of env False e] Cons show ?case
    by (auto split: prod.split)
qed simp

lemma delete_ok: "memdb_ok d \<Longrightarrow> memdb_ok (snd (delete_memory i d))"
  by (auto simp: memdb_ok_def delete_memory_def conn_ok_def distinct_map_filter)

lemma memdb_ok_rows:
  assumes "memdb_ok d" "map row_id rows = map row_id (memories d)" "\<forall>r \<in> set rows. row_ok r"
  shows "memdb_ok (d\<lparr>memories := rows\<rparr>)"
proof -
  have "row_id ` set rows = row_ids d" using assms(2) by (metis list.set_map)
  with assms show ?thesis by (simp add: memdb_ok_def)
qed

lemma set_visibility_ok:
  assumes "memdb_ok d"
  shows "memdb_ok (snd (set_visibility i v d))"
proof (cases "lower (strip v) \<in> {''private'', ''public''}")
  case True
  let ?rows = "map (\<lambda>r. if row_id r = i then r\<lparr>row_visibility := lower (strip v)\<rparr> else r) (memories d)"
  have "\<forall>r \<in> set ?rows. row_ok r" using assms True by (auto simp: memdb_ok_def row_ok_def)
  then have "memdb_ok (d\<lparr>memories := ?rows\<rparr>)" by (intro memdb_ok_rows [OF assms]) simp_all
  with True show ?thesis by (auto simp: set_visibility_def Let_def)
qed (use assms in \<open>simp add: set_visibility_def Let_def\<close>)

lemma two_found:
  assumes "distinct (map row_id rows)" "2 \<le> length (filter (\<lambda>r. row_id r = s \<or> row_id r = t) rows)"
  shows "s \<in> row_id ` set rows \<and> t \<in> row_id ` set rows \<and> s \<noteq> t"
proof -
  let ?f = "filter (\<lambda>r. row_id r = s \<or> row_id r = t) rows"
  have d: "distinct (map row_id ?f)" using assms(1) by (rule distinct_map_filter)
  have sub: "set (map row_id ?f) \<subseteq> {s, t}" by auto
  define X where "X = set (map row_id ?f)"
  have X: "X \<subseteq> {s, t}" unfolding X_def by (rule sub)
  have "card X = length (map row_id ?f)" unfolding X_def using d by (rule distinct_card)
  then have c: "2 \<le> card X" using assms(2) by (simp only: length_map)
  have "card X \<le> card {s, t}" using X by (intro card_mono) simp_all
  with c have st: "s \<noteq> t" by auto
  then have "card {s, t} \<le> card X" using c by simp
  then have "X = {s, t}" using X by (intro card_seteq) simp_all
  moreover have "X \<subseteq> row_id ` set rows" by (auto simp: X_def)
  ultimately show ?thesis using st by blast
qed

lemma typed_connection_ok: "memdb_ok d \<Longrightarrow> memdb_ok (snd (add_typed_connection env s t rel sc d))"
proof -
  assume ok: "memdb_ok d"
  then have d: "distinct (map conn_key (conns d))" and ids: "distinct (map row_id (memories d))"
    by (auto simp: memdb_ok_def)
  show ?thesis
  proof (cases "length (filter (\<lambda>r. row_id r = s \<or> row_id r = t) (memories d)) < 2")
    case False
    then have st: "s \<in> row_ids d \<and> t \<in> row_ids d \<and> s \<noteq> t" by (intro two_found ids) simp
    show ?thesis using False ok st conn_replace_keys [OF d]
      by (fastforce simp: memdb_ok_def add_typed_connection_def Let_def conn_ok_def)
  qed (use ok in \<open>simp add: add_typed_connection_def\<close>)
qed


lemma import_ok:
  assumes "memdb_ok (store w)" "import_memories env dup es a b w = (r, w')"
  shows "memdb_ok (store w')"
  using assms
proof (induction es arbitrary: a b w)
  case (Cons e es)
  show ?case
  proof (cases "as_obj e")
    case (Inr x)
    let ?u = "upsert_memory env dup x (store w)"
    have "memdb_ok (store (w\<lparr>store := snd ?u\<rparr>))" using Cons.prems(1) upsert_ok by simp
    from Cons.IH [OF this] Cons.IH [OF Cons.prems(1)] Cons.prems(2) Inr show ?thesis
      by (auto simp: act_bind_app lift_db_def Let_def split: if_splits prod.splits)
  qed (use Cons.prems in \<open>auto simp: act_bind_app\<close>)
qed simp

lemma fold_delete_ok: "memdb_ok d \<Longrightarrow> memdb_ok (fold (\<lambda>i d. snd (delete_memory i d)) is d)"
  by (induction "is" arbitrary: d) (simp_all add: delete_ok)

lemma retention_ok:
  assumes "memdb_ok (store w)" "apply_retention_policy env dry w = (r, w')"
  shows "memdb_ok (store w')"
  using assms
  by (auto simp: apply_retention_policy_def act_bind_app Let_def fold_delete_ok split: sum.splits if_splits)

section \<open>Looking rows up\<close>

lemma find_row_iff:
  assumes "distinct (map row_id (memories d))"
  shows "find_row i d = Some r \<longleftrightarrow> r \<in> set (memories d) \<and> row_id r = i"
proof
  assume "r \<in> set (memories d) \<and> row_id r = i"
  moreover from this obtain q where q: "find_row i d = Some q"
    using find_row_None [of i d] by (cases "find_row i d") auto
  ultimately show "find_row i d = Some r"
    using find_row_Some [OF q] assms by (auto simp: distinct_map inj_on_def)
qed (rule find_row_Some)

lemma put_row_set:
  "distinct (map row_id rows) \<Longrightarrow>
   set (put_row r rows) = insert r {x \<in> set rows. row_id x \<noteq> row_id r}"
proof (induction rows)
  case (Cons x rows)
  then show ?case by (fastforce simp: put_row_def image_iff split: if_splits)
qed (simp add: put_row_def)

lemma find_row_put:
  assumes "distinct (map row_id (memories d))"
  shows "find_row i (d\<lparr>memories := put_row r (memories d)\<rparr>) = (if i = row_id r then Some r else find_row i d)"
proof -
  let ?d = "d\<lparr>memories := put_row r (memories d)\<rparr>"
  have dd: "distinct (map row_id (memories ?d))" using put_row_ids [OF assms, of r] by simp
  show ?thesis
  proof (cases "i = row_id r")
    case True
    then show ?thesis by (simp add: find_row_iff [OF dd] put_row_set [OF assms])
  next
    case False
    then have "find_row i ?d = Some x \<longleftrightarrow> find_row i d = Some x" for x
      by (auto simp: find_row_iff [OF dd] find_row_iff [OF assms] put_row_set [OF assms])
    with False show ?thesis by (metis option.exhaust)
  qed
qed

lemma find_row_delete:
  "find_row j (snd (delete_memory i d)) = (if j = i then None else find_row j d)"
proof -
  have "List.find (\<lambda>r. row_id r = j) (filter (\<lambda>r. row_id r \<noteq> i) rows) =
    (if j = i then None else List.find (\<lambda>r. row_id r = j) rows)" for rows :: "mem_row list"
    by (induction rows) auto
  then show ?thesis by (simp add: delete_memory_def find_row_def)
qed

lemma entry_row_id [simp]: "row_id (entry_row env e) = entry_id env e"
  by (simp add: entry_row_def)

lemma find_row_upsert:
  assumes "memdb_ok d"
  shows "find_row i (snd (upsert_memory env False e d)) =
    (if i = entry_id env e then Some (entry_row env e) else find_row i d)"
  using assms by (simp add: upsert_memory_def Let_def find_row_put memdb_ok_def)

lemma find_row_visibility:
  "find_row i (snd (set_visibility j v d)) =
    (if i = j \<and> lower (strip v) \<in> {''private'', ''public''}
     then map_option (\<lambda>r. r\<lparr>row_visibility := lower (strip v)\<rparr>) (find_row i d) else find_row i d)"
proof -
  have "List.find (\<lambda>r. row_id r = i) (map (\<lambda>r. if row_id r = j then r\<lparr>row_visibility := w\<rparr> else r) rows) =
    (if i = j then map_option (\<lambda>r. r\<lparr>row_visibility := w\<rparr>) (List.find (\<lambda>r. row_id r = i) rows)
     else List.find (\<lambda>r. row_id r = i) rows)" for w and rows :: "mem_row list"
    by (induction rows) auto
  then show ?thesis unfolding set_visibility_def find_row_def Let_def
    by (cases "lower (strip v) \<in> {''private'', ''public''}") simp_all
qed

section \<open>Cosine similarity\<close>

lemma dkeys_count: "distinct (dkeys cs) \<Longrightarrow> distinct (dkeys (count_tokens cs ts))"
  by (induction ts arbitrary: cs) simp_all

lemma dset_pos: "0 < y \<Longrightarrow> \<forall>p \<in> set cs. 0 < snd p \<Longrightarrow> \<forall>p \<in> set (dset t y cs). 0 < (snd p :: real)"
  by (induction cs) auto

lemma count_tokens_pos:
  "\<forall>p \<in> set cs. 0 < snd p \<Longrightarrow> distinct (dkeys cs) \<Longrightarrow> \<forall>p \<in> set (count_tokens cs ts). 0 < (snd p :: real)"
proof (induction ts arbitrary: cs)
  case (Cons t ts)
  have "0 \<le> dget_or cs t 0"
    using Cons.prems by (auto simp: dget_or_def split: option.split dest!: map_of_SomeD intro: less_imp_le)
  then have "\<forall>p \<in> set (dset t (dget_or cs t 0 + 1) cs). 0 < snd p"
    using Cons.prems(1) by (intro dset_pos) simp_all
  then show ?case using Cons by simp
qed simp

lemma count_tokens_Nil: "count_tokens cs ts = [] \<longleftrightarrow> cs = [] \<and> ts = []"
proof (induction ts arbitrary: cs)
  case (Cons t ts)
  have "dset t x cs \<noteq> []" for x by (cases cs) auto
  with Cons show ?case by simp
qed simp

lemma distinct_token_vector: "distinct (dkeys (token_vector t))"
proof -
  have "dkeys (token_vector t) = dkeys (count_tokens [] (tokenize t))"
    by (simp add: token_vector_def Let_def)
  then show ?thesis by (simp add: dkeys_count)
qed

lemma token_vector_norm:
  assumes "tokenize t \<noteq> []"
  shows "(\<Sum>p\<leftarrow>token_vector t. snd p * snd p) = 1"
proof -
  define cs where "cs = count_tokens [] (tokenize t)"
  define q where "q = (\<Sum>p\<leftarrow>cs. snd p * snd p)"
  have ne: "cs \<noteq> []" using assms by (simp add: cs_def count_tokens_Nil)
  have pos: "\<forall>p \<in> set cs. 0 < snd p" unfolding cs_def by (rule count_tokens_pos) simp_all
  have "0 < q"
    unfolding q_def using ne pos
  proof (induction cs)
    case (Cons p ps)
    have "0 \<le> (\<Sum>p\<leftarrow>ps. snd p * snd p)" by (intro sum_list_nonneg) auto
    with Cons.prems show ?case by (simp add: add_pos_nonneg)
  qed simp
  then have n: "sqrt q \<noteq> 0" "sqrt q * sqrt q = q" by simp_all
  have "(\<Sum>p\<leftarrow>token_vector t. snd p * snd p) = (\<Sum>p\<leftarrow>cs. (snd p * snd p) * inverse q)"
    using n by (simp add: token_vector_def Let_def cs_def [symmetric] q_def [symmetric] comp_def
        divide_inverse mult_ac flip: inverse_mult_distrib)
  also have "\<dots> = q * inverse q" by (simp add: sum_list_mult_const q_def)
  finally show ?thesis using \<open>0 < q\<close> by simp
qed

lemma cosine_self:
  assumes "tokenize t \<noteq> []"
  shows "cosine (token_vector t) (sort_by fst (token_vector t)) = 1"
proof -
  let ?v = "token_vector t" and ?w = "sort_by fst (token_vector t)"
  have d: "distinct (dkeys ?v)" "distinct (dkeys ?w)"
    using distinct_token_vector by (simp_all add: distinct_map)
  then have m: "map_of ?w = map_of ?v" by (subst map_of_inject_set) simp_all
  have l: "dget_or ?w (fst p) 0 = snd p" if "p \<in> set ?v" for p
    using map_of_is_SomeI [OF d(1), of "fst p" "snd p"] that by (simp add: dget_or_def [of ?w] m)
  have "?v \<noteq> []" using token_vector_norm [OF assms] by auto
  moreover from this have "?w \<noteq> []" by (metis length_0_conv length_sort)
  moreover have "(\<Sum>p\<leftarrow>?v. snd p * dget_or ?w (fst p) 0) = (\<Sum>p\<leftarrow>?v. snd p * snd p)"
    using l by (intro arg_cong [where f = sum_list] map_cong) simp_all
  ultimately show ?thesis using token_vector_norm [OF assms] by (simp add: cosine_def)
qed

section \<open>Breadth-first search\<close>

text \<open>Identifiers reached from the start in exactly \<open>k\<close> steps along the kept connections of stored rows.\<close>

inductive graph_reach :: "memdb \<Rightarrow> string option \<Rightarrow> string \<Rightarrow> nat \<Rightarrow> string \<Rightarrow> bool"
  for d :: memdb and rel :: "string option" and s :: string where
  reach_start: "graph_reach d rel s 0 s"
| reach_step: "graph_reach d rel s k i \<Longrightarrow> find_row i d \<noteq> None \<Longrightarrow> c \<in> set (out_conns rel i d) \<Longrightarrow>
    graph_reach d rel s (Suc k) (c_target c)"

lemma out_conns_conns: "c \<in> set (out_conns rel i d) \<Longrightarrow> c \<in> set (conns d) \<and> c_source c = i"
  by (auto simp: out_conns_def dest!: in_set_takeD)

text \<open>What the loop keeps for soundness.\<close>

definition sound_inv :: "memdb \<Rightarrow> string option \<Rightarrow> string \<Rightarrow> nat \<Rightarrow> nat \<Rightarrow> mem_row list \<Rightarrow> conn_row list \<Rightarrow>
    string list \<Rightarrow> (string \<times> nat) list \<Rightarrow> bool" where
  "sound_inv d rel s depth limit nodes edges visited queue \<longleftrightarrow>
     distinct (map row_id nodes) \<and> row_id ` set nodes \<subseteq> set visited \<and> length nodes \<le> limit \<and>
     (\<forall>r \<in> set nodes. find_row (row_id r) d = Some r \<and> (\<exists>k \<le> depth. graph_reach d rel s k (row_id r))) \<and>
     (\<forall>c \<in> set edges. c \<in> set (conns d) \<and> c_source c \<in> row_id ` set nodes) \<and>
     (\<forall>(i, k) \<in> set queue. k \<le> depth \<and> graph_reach d rel s k i)"

lemma graph_loop_sound:
  assumes "sound_inv d rel s depth limit nodes edges visited queue"
    and "graph_loop d rel depth limit nodes edges visited queue = (ns, es)"
  shows "\<exists>vs. sound_inv d rel s depth limit ns es vs []"
  using assms
proof (induction d rel depth limit nodes edges visited queue rule: graph_loop.induct)
  case (1 db rel depth limit nodes edges visited)
  then show ?case by auto
next
  case (2 db rel depth limit nodes edges visited i k queue)
  note inv = 2(5) [unfolded sound_inv_def] and res = 2(6)
  have hd: "k \<le> depth" "graph_reach db rel s k i" and
    tl: "\<forall>(i, k) \<in> set queue. k \<le> depth \<and> graph_reach db rel s k i" using inv by auto
  show ?case
  proof (cases "limit \<le> length nodes")
    case True
    then show ?thesis using res inv by (auto simp: sound_inv_def)
  next
    case lim: False
    show ?thesis
    proof (cases "i \<in> set visited")
      case True
      moreover have "sound_inv db rel s depth limit nodes edges visited queue"
        using inv tl by (simp add: sound_inv_def)
      ultimately show ?thesis using lim res 2(1) by simp
    next
      case new: False
      show ?thesis
      proof (cases "find_row i db")
        case None
        moreover have "sound_inv db rel s depth limit nodes edges (i # visited) queue"
          using inv tl by (auto simp: sound_inv_def)
        ultimately show ?thesis using lim new res 2(2) by simp
      next
        case (Some r)
        then have ri: "row_id r = i" by (simp add: find_row_Some)
        have base: "sound_inv db rel s depth limit (nodes @ [r]) edges (i # visited) queue"
          using inv tl hd new lim Some ri by (auto simp: sound_inv_def)
        show ?thesis
        proof (cases "depth \<le> k")
          case True
          then show ?thesis using base lim new res Some 2(3) by simp
        next
          case False
          let ?q = "queue @ map (\<lambda>c. (c_target c, Suc k))
            (filter (\<lambda>c. c_target c \<notin> set (i # visited)) (out_conns rel i db))"
          have "graph_reach db rel s (Suc k) (c_target c)" if "c \<in> set (out_conns rel i db)" for c
            using reach_step [OF hd(2) _ that] Some by simp
          then have "sound_inv db rel s depth limit (nodes @ [r]) (edges @ out_conns rel i db) (i # visited) ?q"
            using base False ri by (auto simp: sound_inv_def dest: out_conns_conns)
          then show ?thesis using False lim new res Some 2(4) by simp
        qed
      qed
    qed
  qed
qed

text \<open>
  What it keeps for completeness: a ghost depth for every identifier taken from the queue, which
  grows along the queue, and every kept connection of an expanded row leads to an identifier taken
  or queued at most one step deeper.
\<close>

definition queue_sorted :: "(string \<times> nat) list \<Rightarrow> bool" where
  "queue_sorted q \<longleftrightarrow> sorted (map snd q) \<and> (\<forall>p \<in> set q. \<forall>p' \<in> set q. snd p' \<le> Suc (snd p))"

definition pending :: "(string \<Rightarrow> nat) \<Rightarrow> string list \<Rightarrow> (string \<times> nat) list \<Rightarrow> string \<Rightarrow> nat \<Rightarrow> bool" where
  "pending dep visited queue t n \<longleftrightarrow> (t \<in> set visited \<and> dep t \<le> n) \<or> (\<exists>k \<le> n. (t, k) \<in> set queue)"

definition bfs_inv :: "memdb \<Rightarrow> string option \<Rightarrow> string \<Rightarrow> nat \<Rightarrow> (string \<Rightarrow> nat) \<Rightarrow> mem_row list \<Rightarrow>
    string list \<Rightarrow> (string \<times> nat) list \<Rightarrow> bool" where
  "bfs_inv d rel s depth dep nodes visited queue \<longleftrightarrow>
     row_id ` set nodes = {i \<in> set visited. find_row i d \<noteq> None} \<and>
     queue_sorted queue \<and> (\<forall>i \<in> set visited. \<forall>p \<in> set queue. dep i \<le> snd p) \<and>
     pending dep visited queue s 0 \<and>
     (\<forall>i \<in> set visited. find_row i d \<noteq> None \<longrightarrow> dep i < depth \<longrightarrow>
        (\<forall>c \<in> set (out_conns rel i d). pending dep visited queue (c_target c) (Suc (dep i))))"

lemma pending_pop_seen:
  assumes "pending dep visited ((i, k) # queue) t n" "i \<in> set visited" "dep i \<le> k"
  shows "pending dep visited queue t n"
  using assms by (auto simp: pending_def)

lemma pending_pop_new:
  assumes "pending dep visited ((i, k) # queue) t n" "i \<notin> set visited" "set queue \<subseteq> set queue'"
  shows "pending (dep(i := k)) (i # visited) queue' t n"
  using assms by (auto simp: pending_def)

lemma queue_sorted_tl: "queue_sorted (p # q) \<Longrightarrow> queue_sorted q \<and> (\<forall>p' \<in> set q. snd p \<le> snd p')"
  by (auto simp: queue_sorted_def)

lemma queue_sorted_append:
  assumes "queue_sorted ((i, k) # q)" "\<forall>p \<in> set new. snd p = Suc k"
  shows "queue_sorted (q @ new)"
proof -
  have le: "\<forall>p \<in> set q. k \<le> snd p \<and> snd p \<le> Suc k" using assms(1) by (auto simp: queue_sorted_def)
  have "map snd new = map (\<lambda>_. Suc k) new" using assms(2) by simp
  also have "\<dots> = replicate (length new) (Suc k)" by (rule map_replicate_const)
  finally have "map snd new = replicate (length new) (Suc k)" .
  then have "sorted (map snd new)" by simp
  moreover have "sorted (map snd q)" using assms(1) by (simp add: queue_sorted_def)
  moreover have "\<forall>x \<in> set (map snd q). \<forall>y \<in> set (map snd new). x \<le> y"
    using le assms(2) by simp
  ultimately have "sorted (map snd (q @ new))" by (simp only: map_append sorted_append)
  moreover have "k \<le> snd p \<and> snd p \<le> Suc k" if "p \<in> set (q @ new)" for p
    using that le assms(2) by auto
  then have "\<forall>p \<in> set (q @ new). \<forall>p' \<in> set (q @ new). snd p' \<le> Suc (snd p)"
    by (meson Suc_le_mono le_trans)
  ultimately show ?thesis by (simp only: queue_sorted_def)
qed

lemma bfs_inv_new:
  assumes inv: "bfs_inv d rel s depth dep nodes visited ((i, k) # queue)" and i: "i \<notin> set visited"
    and nodes': "row_id ` set nodes' = {j \<in> set (i # visited). find_row j d \<noteq> None}"
    and new: "\<forall>p \<in> set new. snd p = Suc k"
    and exp: "find_row i d \<noteq> None \<Longrightarrow> k < depth \<Longrightarrow>
      (\<forall>c \<in> set (out_conns rel i d). c_target c \<in> set (i # visited) \<or> (c_target c, Suc k) \<in> set new)"
  shows "bfs_inv d rel s depth (dep(i := k)) nodes' (i # visited) (queue @ new)"
proof -
  let ?dep = "dep(i := k)" and ?v = "i # visited" and ?q = "queue @ new"
  note I = inv [unfolded bfs_inv_def]
  have sorted: "queue_sorted ?q" using queue_sorted_append [OF _ new] I by blast
  have le: "\<forall>j \<in> set visited. dep j \<le> k" using I by auto
  have kq: "\<forall>p \<in> set queue. k \<le> snd p" using queue_sorted_tl I by fastforce
  have grows: "\<forall>j \<in> set ?v. \<forall>p \<in> set ?q. ?dep j \<le> snd p"
    using I le kq new by fastforce
  have pend: "pending ?dep ?v ?q t n" if "pending dep visited ((i, k) # queue) t n" for t n
    using pending_pop_new [OF that i] by simp
  have closed: "pending ?dep ?v ?q (c_target c) (Suc (?dep j))"
    if "j \<in> set ?v" "find_row j d \<noteq> None" "?dep j < depth" "c \<in> set (out_conns rel j d)" for j c
  proof (cases "j = i")
    case True
    with exp that have "c_target c \<in> set ?v \<or> (c_target c, Suc k) \<in> set new" by simp
    then show ?thesis
    proof
      assume t: "c_target c \<in> set ?v"
      then have "?dep (c_target c) \<le> Suc k" using le by (auto simp: le_SucI)
      with t True show ?thesis by (simp add: pending_def)
    qed (use True in \<open>auto simp: pending_def\<close>)
  next
    case False
    then have "pending dep visited ((i, k) # queue) (c_target c) (Suc (dep j))"
      using that I by auto
    with pend False show ?thesis by simp
  qed
  have "pending ?dep ?v ?q s 0" using I by (intro pend) blast
  then show ?thesis
    unfolding bfs_inv_def by (intro conjI nodes' sorted grows) (use closed in blast)+
qed

lemma graph_loop_complete:
  assumes "bfs_inv d rel s depth dep nodes visited queue"
    and "graph_loop d rel depth limit nodes edges visited queue = (ns, es)" "length ns < limit"
  shows "\<exists>dep vs. bfs_inv d rel s depth dep ns vs []"
  using assms
proof (induction d rel depth limit nodes edges visited queue arbitrary: dep rule: graph_loop.induct)
  case (1 db rel depth limit nodes edges visited)
  then show ?case by auto
next
  case (2 db rel depth limit nodes edges visited i k queue)
  note inv = 2(5) and res = 2(6)
  note I = inv [unfolded bfs_inv_def]
  have lim: "\<not> limit \<le> length nodes"
  proof
    assume "limit \<le> length nodes"
    then show False using res 2(7) by simp
  qed
  show ?case
  proof (cases "i \<in> set visited")
    case True
    have "dep i \<le> k" using I True by auto
    then have "bfs_inv db rel s depth dep nodes visited queue"
      using I True queue_sorted_tl pending_pop_seen [OF _ True] unfolding bfs_inv_def
      by (meson list.set_intros(2))
    with True lim res 2(1) 2(7) show ?thesis by simp
  next
    case new: False
    show ?thesis
    proof (cases "find_row i db")
      case None
      have "bfs_inv db rel s depth (dep(i := k)) nodes (i # visited) (queue @ [])"
        by (rule bfs_inv_new [OF inv new]) (use I None in auto)
      with None lim new res 2(2) 2(7) show ?thesis by simp
    next
      case (Some r)
      then have "row_id r = i" by (simp add: find_row_Some)
      then have nodes': "row_id ` set (nodes @ [r]) = {j \<in> set (i # visited). find_row j db \<noteq> None}"
        using I Some by auto
      show ?thesis
      proof (cases "depth \<le> k")
        case True
        have "bfs_inv db rel s depth (dep(i := k)) (nodes @ [r]) (i # visited) (queue @ [])"
          by (rule bfs_inv_new [OF inv new nodes']) (use True in auto)
        with True lim new res Some 2(3) 2(7) show ?thesis by simp
      next
        case False
        let ?new = "map (\<lambda>c. (c_target c, Suc k))
          (filter (\<lambda>c. c_target c \<notin> set (i # visited)) (out_conns rel i db))"
        have "bfs_inv db rel s depth (dep(i := k)) (nodes @ [r]) (i # visited) (queue @ ?new)"
          by (rule bfs_inv_new [OF inv new nodes']) auto
        with False lim new res Some 2(4) 2(7) show ?thesis by simp
      qed
    qed
  qed
qed

text \<open>When the queue has run empty, everything within the depth has been taken.\<close>

lemma bfs_inv_reaches:
  assumes "bfs_inv d rel s depth dep nodes visited []" "graph_reach d rel s k i" "k \<le> depth"
  shows "i \<in> set visited \<and> dep i \<le> k"
  using assms(2,3)
proof (induction rule: graph_reach.induct)
  case reach_start
  then show ?case using assms(1) by (simp add: bfs_inv_def pending_def)
next
  case (reach_step k i c)
  then have i: "i \<in> set visited" "dep i \<le> k" by simp_all
  then have "dep i < depth" using reach_step.prems by simp
  then have "pending dep visited [] (c_target c) (Suc (dep i))"
    using assms(1) i(1) reach_step.hyps by (simp add: bfs_inv_def)
  then show ?case using i(2) by (auto simp: pending_def)
qed
section \<open>Properties of the store\<close>

text \<open>C4: every operation of the memory store keeps its invariant: unique identifiers and connection
  keys, no connection to a memory that is not stored or to itself, importances in 1..5 and
  visibilities private or public.\<close>

theorem memory_store_invariant:
  assumes "memdb_ok (store w)"
  shows "memdb_ok (snd (upsert_memory env dup e (store w))) \<and>
    memdb_ok (snd (sync_from_state env es (store w))) \<and>
    memdb_ok (snd (add_typed_connection env s t rel sc (store w))) \<and>
    memdb_ok (snd (set_visibility i v (store w))) \<and>
    memdb_ok (snd (delete_memory i (store w))) \<and>
    memdb_ok (store (snd (apply_retention_policy menv dry w))) \<and>
    memdb_ok (store (snd (import_memories env dup js a b w)))"
  using assms retention_ok [OF assms, of menv dry "fst (apply_retention_policy menv dry w)"
      "snd (apply_retention_policy menv dry w)"]
    import_ok [OF assms, of env dup js a b "fst (import_memories env dup js a b w)"
      "snd (import_memories env dup js a b w)"]
  by (simp add: upsert_ok sync_ok typed_connection_ok set_visibility_ok delete_ok)

definition demo_menv :: mem_env where
  "demo_menv = host_env.extend demo_env \<lparr>now_us = 1777629600000000, now_compact = ''20260501T100000'', local_offset = 0\<rparr>"

definition note_entry :: "string \<Rightarrow> string \<Rightarrow> obj" where
  "note_entry i t = [(''id'', JStr i), (''type'', JStr ''note''), (''text'', JStr t),
     (''created_at'', JStr ''2026-01-01T00:00:00+00:00'')]"

definition empty_db :: memdb where
  "empty_db = \<lparr>memories = [], conns = []\<rparr>"

definition demo_db :: memdb where
  "demo_db = snd (upsert_memory demo_menv False (note_entry ''m2'' ''robot garden'')
     (snd (upsert_memory demo_menv False (note_entry ''m1'' ''garden robot'') empty_db)))"

lemma empty_db_ok: "memdb_ok empty_db"
  by (simp add: memdb_ok_def empty_db_def)

lemma demo_db_ok: "memdb_ok demo_db"
  unfolding demo_db_def by (intro upsert_ok empty_db_ok)

theorem memory_store_invariant_witness:
  "memdb_ok (snd (delete_memory ''m1'' demo_db)) \<and>
   memdb_ok (store (snd (apply_retention_policy demo_menv False \<lparr>store = demo_db, archives = []\<rparr>)))"
proof -
  have "memdb_ok (store \<lparr>store = demo_db, archives = []\<rparr>)" by (simp add: demo_db_ok)
  note inv = memory_store_invariant [OF this, where i = "''m1''" and menv = demo_menv and dry = False]
  have "memdb_ok (snd (delete_memory ''m1'' (store \<lparr>store = demo_db, archives = []\<rparr>)))"
    using inv by blast
  moreover have "memdb_ok (store (snd (apply_retention_policy demo_menv False \<lparr>store = demo_db, archives = []\<rparr>)))"
    using inv by blast
  ultimately show ?thesis by simp
qed


text \<open>After an upsert the entry is found under its identifier, with the values it was given, all
  other rows are as before, and repeating the upsert changes no row.\<close>

theorem upsert_memory_lookup:
  assumes "memdb_ok d"
  shows "find_row i (snd (upsert_memory env False e d)) =
      (if i = entry_id env e then Some (entry_row env e) else find_row i d) \<and>
    memories (snd (upsert_memory env False e (snd (upsert_memory env False e d)))) =
      memories (snd (upsert_memory env False e d))"
proof -
  have "update_first (\<lambda>x. row_id x = row_id r) (\<lambda>_. r) (update_first (\<lambda>x. row_id x = row_id r) (\<lambda>_. r) rows) =
    update_first (\<lambda>x. row_id x = row_id r) (\<lambda>_. r) rows" for r and rows :: "mem_row list"
    by (induction rows) auto
  moreover have "r \<in> set (update_first (\<lambda>x. row_id x = row_id r) (\<lambda>_. r) rows)"
    if "\<exists>x \<in> set rows. row_id x = row_id r" for r and rows :: "mem_row list"
    using that by (induction rows) auto
  then have "\<exists>x \<in> set (put_row r rows). row_id x = row_id r" for r rows
    by (auto simp: put_row_def)
  moreover have "update_first (\<lambda>x. row_id x = row_id r) (\<lambda>_. r) (rows @ [r]) = rows @ [r]"
    if "\<not> (\<exists>x \<in> set rows. row_id x = row_id r)" for r rows
    using that by (induction rows) auto
  ultimately have "put_row r (put_row r rows) = put_row r rows" for r rows
    by (auto simp: put_row_def image_iff)
  then show ?thesis
    by (intro conjI find_row_upsert [OF assms]) (simp add: upsert_memory_def Let_def)
qed

theorem upsert_memory_lookup_witness:
  "find_row ''m3'' (snd (upsert_memory demo_menv False (note_entry ''m3'' ''new thought'') demo_db)) =
     Some (entry_row demo_menv (note_entry ''m3'' ''new thought''))"
proof -
  have "entry_id demo_menv (note_entry ''m3'' ''new thought'') = ''m3''"
    by (simp add: entry_id_def note_entry_def dget_or_def)
  with upsert_memory_lookup [OF demo_db_ok, of "''m3''" demo_menv "note_entry ''m3'' ''new thought''"]
  show ?thesis by simp
qed


lemma find_duplicate_same_text:
  assumes "memdb_ok d" "r \<in> set (memories d)" "row_search r = search_text e" "tokenize (search_text e) \<noteq> []"
    "str_or (jget e ''id'') [] \<noteq> row_id r"
  shows "\<exists>q. q \<in> set (memories d) \<and> find_duplicate e d = Some (row_id q)"
proof -
  let ?st = "search_text e" and ?i = "str_or (jget e ''id'') []"
  let ?P = "\<lambda>r. \<not> (?i \<noteq> [] \<and> row_id r = ?i) \<and> 88/100 \<le> cosine (token_vector ?st) (row_vector r)"
  have "row_vector r = sort_by fst (token_vector ?st)"
    using assms(1-3) by (simp add: memdb_ok_def row_ok_def)
  then have "?P r" using cosine_self [OF assms(4)] assms(5) by simp
  then obtain q where q: "List.find ?P (memories d) = Some q"
    using assms(2) by (cases "List.find ?P (memories d)") (auto simp: find_None_iff)
  then have "q \<in> set (memories d)" by (auto simp: find_Some_iff)
  moreover have "strip ?st \<noteq> []"
  proof -
    have "?st \<noteq> []" using assms(4) by (auto simp: tokenize_def)
    moreover have "strip ?st = ?st" by (simp add: search_text_def)
    ultimately show ?thesis by simp
  qed
  ultimately show ?thesis using q by (auto simp: find_duplicate_def Let_def)
qed

text \<open>Duplicate detection finds every exact duplicate: an entry whose search text has at least one
  token and equals that of a stored memory other than the entry itself is reported as a duplicate,
  and inserting it with the check on returns the stored memory and leaves the store as it is.\<close>

theorem duplicate_detected:
  assumes "memdb_ok d" "r \<in> set (memories d)" "row_search r = search_text e" "tokenize (search_text e) \<noteq> []"
    "str_or (jget e ''id'') [] \<noteq> row_id r" "\<forall>q \<in> set (memories d). row_id q \<noteq> []"
  shows "\<exists>q \<in> set (memories d). upsert_memory env True e d = (row_id q, d)"
  using find_duplicate_same_text [OF assms(1-5)] assms(6) by (auto simp: upsert_memory_def Let_def)

lemma note_entry_facts [simp]:
  "entry_id env (note_entry i t) = (if i = [] then memory_id env (note_entry i t) else i)"
  "row_search (entry_row env (note_entry i t)) = search_text (note_entry i t)"
  "search_text (note_entry i t) = strip (join '' '' (''note'' # (if t = [] then [] else [t])))"
  by (simp_all add: entry_id_def note_entry_def dget_or_def entry_row_def search_text_def)

lemma demo_db_rows:
  "memories demo_db = [entry_row demo_menv (note_entry ''m1'' ''garden robot''),
     entry_row demo_menv (note_entry ''m2'' ''robot garden'')]"
  by (simp add: demo_db_def upsert_memory_def Let_def put_row_def empty_db_def)

theorem duplicate_detected_witness:
  "\<exists>q \<in> set (memories demo_db). upsert_memory demo_menv True (note_entry ''m9'' ''garden robot'') demo_db = (row_id q, demo_db)"
proof (rule duplicate_detected [OF demo_db_ok])
  let ?r = "entry_row demo_menv (note_entry ''m1'' ''garden robot'')"
  show "?r \<in> set (memories demo_db)" by (simp add: demo_db_rows)
  show "row_search ?r = search_text (note_entry ''m9'' ''garden robot'')" by simp
  have "tokenize (strip (join '' '' [''note'', ''garden robot''])) \<noteq> []" by code_simp
  then show "tokenize (search_text (note_entry ''m9'' ''garden robot'')) \<noteq> []" by simp
  show "str_or (jget (note_entry ''m9'' ''garden robot'') ''id'') [] \<noteq> row_id ?r"
    by (simp add: dget_or_def note_entry_def [of "''m9''"])
  show "\<forall>q \<in> set (memories demo_db). row_id q \<noteq> []" by (simp add: demo_db_rows)
qed

lemma fold_delete_memories:
  "memories (fold (\<lambda>i d. snd (delete_memory i d)) is d) = filter (\<lambda>r. row_id r \<notin> set is) (memories d)"
  by (induction "is" arbitrary: d) (auto simp: delete_memory_def intro: filter_cong)

text \<open>A retention run that succeeds removes exactly the expired memories; a memory of importance 4
  or 5 always stays; and when it is not a dry run every removed memory is in the archive file it
  writes.\<close>

theorem retention_removes_expired:
  assumes "memdb_ok (store w)" "apply_retention_policy env False w = (Inr st, w')"
  shows "memories (store w') = filter (\<lambda>r. row_expired env r = Inr False) (memories (store w)) \<and>
    (\<forall>r \<in> set (memories (store w)). 4 \<le> row_importance r \<longrightarrow> r \<in> set (memories (store w'))) \<and>
    (\<forall>r \<in> set (memories (store w)) - set (memories (store w')).
       \<exists>f entries. dget (archives w') f = Some entries \<and> row_to_memory r \<in> set entries)"
proof -
  define rows where "rows = memories (store w)"
  obtain xs where xs: "filter_out (row_expired env) rows = Inr xs"
    using assms(2) by (auto simp: apply_retention_policy_def act_bind_app rows_def Let_def split: sum.splits)
  then have dec: "\<forall>r \<in> set rows. row_expired env r = Inr True \<or> row_expired env r = Inr False"
    and xs': "xs = filter (\<lambda>r. row_expired env r = Inr True) rows" by (simp_all add: filter_out_Inr)
  have dist: "distinct (map row_id rows)" using assms(1) by (simp add: memdb_ok_def rows_def)
  have w': "w' = (if xs \<noteq> [] then
      w\<lparr>archives := dset (''retention_'' @ now_compact env @ ''.jsonl'') (map row_to_memory xs) (archives w),
        store := fold (\<lambda>i d. snd (delete_memory i d)) (map row_id xs) (store w)\<rparr> else w)"
    using assms(2) xs by (simp add: apply_retention_policy_def act_bind_app rows_def [symmetric] Let_def split: if_splits)
  have kept: "filter (\<lambda>r. row_id r \<notin> row_id ` set xs) rows = filter (\<lambda>r. row_expired env r = Inr False) rows"
  proof (rule filter_cong [OF refl])
    fix r assume r: "r \<in> set rows"
    have "row_id r \<in> row_id ` set xs \<longleftrightarrow> r \<in> set xs"
      using r dist by (auto simp: xs' distinct_map inj_on_def)
    then show "(row_id r \<notin> row_id ` set xs) = (row_expired env r = Inr False)"
      using r dec by (auto simp: xs')
  qed
  have mem: "memories (store w') = filter (\<lambda>r. row_expired env r = Inr False) rows"
  proof (cases "xs = []")
    case True
    then have "filter (\<lambda>r. row_expired env r = Inr False) rows = rows" using kept by simp
    then show ?thesis using True by (simp add: w' rows_def)
  next
    case False
    then show ?thesis using kept by (simp add: w' fold_delete_memories rows_def)
  qed
  have imp: "row_expired env r = Inr False" if "r \<in> set rows" "4 \<le> row_importance r" for r
  proof -
    have "row_importance r = 4 \<or> row_importance r = 5"
      using that assms(1) by (auto simp: memdb_ok_def row_ok_def rows_def)
    then show ?thesis by (auto simp: row_expired_def retention_days_def)
  qed
  have arch: "\<exists>f entries. dget (archives w') f = Some entries \<and> row_to_memory r \<in> set entries"
    if "r \<in> set rows - set (memories (store w'))" for r
  proof -
    have "r \<in> set xs" using that dec by (auto simp: mem xs')
    then show ?thesis by (auto simp: w')
  qed
  show ?thesis using mem imp arch unfolding rows_def [symmetric] by auto
qed

definition minor_entry :: obj where
  "minor_entry = dset ''importance'' (JInt 1) (note_entry ''m1'' ''garden robot'')"

definition minor_store :: mem_store where
  "minor_store = \<lparr>store = snd (upsert_memory demo_menv False minor_entry empty_db), archives = []\<rparr>"

theorem retention_removes_expired_witness:
  "\<exists>st w'. apply_retention_policy demo_menv False minor_store = (Inr st, w') \<and> memories (store w') = [] \<and> archives w' \<noteq> []"
proof -
  let ?r = "entry_row demo_menv minor_entry"
  have rows: "memories (store minor_store) = [?r]"
    by (simp add: minor_store_def upsert_memory_def Let_def put_row_def empty_db_def)
  have "row_importance ?r = 1" "row_created ?r = ''2026-01-01T00:00:00+00:00''"
    by (simp_all add: entry_row_def meta_importance_def minor_entry_def note_entry_def dget_or_def)
  moreover have "map_option (\<lambda>t. (aware t, age_days (now_us demo_menv) t))
      (fromisoformat (strip_zulu ''2026-01-01T00:00:00+00:00'')) = Some (True, 120)" by code_simp
  ultimately have ex: "row_expired demo_menv ?r = Inr True"
    by (auto simp: row_expired_def retention_days_def split: option.splits)
  then obtain st w' where run: "apply_retention_policy demo_menv False minor_store = (Inr st, w')"
    by (simp add: apply_retention_policy_def act_bind_app rows Let_def)
  have "memdb_ok (store minor_store)" by (simp add: minor_store_def upsert_ok empty_db_ok)
  from retention_removes_expired [OF this run] show ?thesis using ex run by (fastforce simp: rows)
qed

text \<open>One creation time in the \<open>Z\<close> form stops the whole retention run: a memory of importance 1, 2,
  3 or out of range whose time becomes naive when cleaned up makes the run raise TypeError (or an
  earlier such row does), and nothing is removed, whatever else has expired.\<close>

theorem retention_stopped_by_naive_time:
  assumes "r \<in> set (memories (store w))" "retention_days (row_importance r) \<noteq> 0"
    "fromisoformat (strip_zulu (row_created r)) = Some t" "\<not> aware t"
  shows "\<exists>e. apply_retention_policy env dry w = (Inl e, w)"
proof -
  have "row_expired env r = Inl TypeError" using assms(2-) by (simp add: row_expired_def Let_def)
  then have "\<nexists>ys. filter_out (row_expired env) (memories (store w)) = Inr ys"
    using assms(1) by (force simp: filter_out_Inr)
  then obtain e where "filter_out (row_expired env) (memories (store w)) = Inl e"
    by (cases "filter_out (row_expired env) (memories (store w))") auto
  then show ?thesis by (simp add: apply_retention_policy_def act_bind_app)
qed

definition zulu_row :: mem_row where
  "zulu_row = (entry_row demo_env (note_entry ''z'' ''old''))\<lparr>row_created := ''2020-01-01T00:00:00Z''\<rparr>"

theorem retention_stopped_by_naive_time_witness:
  "\<exists>e. apply_retention_policy demo_menv False \<lparr>store = \<lparr>memories = [zulu_row], conns = []\<rparr>, archives = []\<rparr> =
     (Inl e, \<lparr>store = \<lparr>memories = [zulu_row], conns = []\<rparr>, archives = []\<rparr>)"
proof -
  have "map_option aware (fromisoformat (strip_zulu ''2020-01-01T00:00:00Z'')) = Some False" by code_simp
  then obtain t where t: "fromisoformat (strip_zulu (row_created zulu_row)) = Some t" "\<not> aware t"
    by (auto simp: zulu_row_def)
  have "row_importance zulu_row = 3"
    by (simp add: zulu_row_def entry_row_def meta_importance_def note_entry_def dget_or_def)
  then have "retention_days (row_importance zulu_row) \<noteq> 0" by (simp add: retention_days_def)
  then show ?thesis using t by (intro retention_stopped_by_naive_time) simp_all
qed

end
