(* ===== verification/HI_Memory.thy ===== *)
theory HI_Memory
  imports Memory_Store
begin

text \<open>
  Model of \<open>Kingofyadav/memory.py\<close>, \<open>archive_memory_events.py\<close> and \<open>migrate_memory.py\<close>: the
  operations on the memory section of \<open>state.json\<close> and their mirror in the SQLite store. The world
  is the store, the archive directory and the state file; each call commits what it wrote before an
  exception.
\<close>

section \<open>The world\<close>

record hi_world = mem_store +
  state_file :: state_doc

definition on_state :: "(state_doc, 'a) act \<Rightarrow> ('w hi_world_scheme, 'a) act" where
  "on_state m = (\<lambda>w. let (r, f) = m (state_file w) in (r, w\<lparr>state_file := f\<rparr>))"

text \<open>\<open>update_state\<close> with a mutator that also touches other files.\<close>

definition update_world ::
  "'e host_env_scheme \<Rightarrow> (hi_state \<Rightarrow> ('w hi_world_scheme, hi_state) act) \<Rightarrow> ('w hi_world_scheme, hi_state) act" where
  "update_world env mutator =
     act_bind (on_state (load_state (host_env.truncate env))) (\<lambda>s.
     act_bind (mutator s) (\<lambda>s'.
     act_bind (on_state (save_state s')) (\<lambda>_.
     act_of (normalize_state (dump_state s')))))"

definition load_world :: "'e host_env_scheme \<Rightarrow> ('w hi_world_scheme, hi_state) act" where
  "load_world env = on_state (load_state (host_env.truncate env))"

section \<open>memory.py\<close>

definition memory_cap :: nat where
  "memory_cap = 200"

text \<open>The file name has the time in seconds; opening it for writing empties it first.\<close>

definition archive_overflow :: "'e mem_env_scheme \<Rightarrow> hi_state \<Rightarrow> ('w hi_world_scheme, hi_state) act" where
  "archive_overflow env s =
     act_bind (act_modify (\<lambda>w. w\<lparr>archives :=
        dset (''archive_'' @ now_compact env @ ''.jsonl'') (butlastn memory_cap (memory s)) (archives w)\<rparr>))
       (\<lambda>_. act_return (s\<lparr>memory := lastn memory_cap (memory s)\<rparr>))"

definition append_item :: "'e mem_env_scheme \<Rightarrow> obj \<Rightarrow> hi_state \<Rightarrow> ('w hi_world_scheme, hi_state) act" where
  "append_item env item s =
     (let s1 = s\<lparr>memory := memory s @ [dset ''created_at'' (JStr (now_iso env)) item]\<rparr>
      in if memory_cap < length (memory s1) then archive_overflow env s1 else act_return s1)"

definition add_memory :: "'e mem_env_scheme \<Rightarrow> json \<Rightarrow> ('w hi_world_scheme, obj list) act" where
  "add_memory env entry =
     (case normalize_memory_entry entry of
        None \<Rightarrow> act_bind (load_world env) (\<lambda>s. act_return (memory s))
      | Some item \<Rightarrow>
          act_bind (update_world env (append_item env item)) (\<lambda>s.
            if memory s = [] then act_raise (RuntimeError ''IndexError'')
            else act_bind (lift_db (upsert_memory env False (last (memory s)))) (\<lambda>_.
              act_return (memory s))))"

definition sync_world :: "'e host_env_scheme \<Rightarrow> ('w hi_world_scheme, obj list) act" where
  "sync_world env =
     act_bind (load_world env) (\<lambda>s.
     act_bind (lift_db (sync_from_state env (memory s))) (\<lambda>_. act_return (memory s)))"

definition get_memory :: "'e host_env_scheme \<Rightarrow> ('w hi_world_scheme, obj list) act" where
  "get_memory env = sync_world env"

definition search_memory :: "'e host_env_scheme \<Rightarrow> string \<Rightarrow> ('w hi_world_scheme, obj list) act" where
  "search_memory env query =
     (let q = lower (strip query)
      in if q = [] then act_return []
         else act_bind (get_memory env) (\<lambda>ms.
           act_return (filter (\<lambda>m. \<exists>k \<in> {''text'', ''tag'', ''event'', ''command''}.
             contains q (lower (py_str (dget_or m k (JStr []))))) ms)))"

definition semantic_search_memory ::
  "'e mem_env_scheme \<Rightarrow> string \<Rightarrow> int \<Rightarrow> ('w hi_world_scheme, (real \<times> mem_row) list) act" where
  "semantic_search_memory env query limit =
     act_bind (sync_world env) (\<lambda>_. act_get (\<lambda>w. search_memories env query limit (store w)))"

text \<open>\<open>round(x, 4)\<close> as a value: round half to even, shortest decimal form.\<close>

definition round4 :: "real \<Rightarrow> int" where
  "round4 x = (let y = x * 10000; f = \<lfloor>y\<rfloor>; r = y - of_int f
     in if r < 1/2 then f else if 1/2 < r then f + 1 else if even f then f else f + 1)"

definition shortest_dec :: "int \<Rightarrow> json" where
  "shortest_dec m =
     (if m mod 1000 = 0 then JDec (m div 1000) 1 else if m mod 100 = 0 then JDec (m div 100) 2
      else if m mod 10 = 0 then JDec (m div 10) 3 else JDec m 4)"

definition score_json :: "real \<Rightarrow> json" where
  "score_json x = shortest_dec (round4 x)"

definition scored_memory :: "real \<times> mem_row \<Rightarrow> obj" where
  "scored_memory p = row_to_memory (snd p) @ [(''score'', score_json (fst p))]"

text \<open>\<open>m.get("text") or m.get("event") or m.get("command") or str(m)\<close> as text\<close>

definition display_text :: "obj \<Rightarrow> string" where
  "display_text m = py_str (py_or (jget m ''text'') (py_or (jget m ''event'') (py_or (jget m ''command'')
     (JStr (py_str (JObj m))))))"

definition newline :: string where
  "newline = [CHR 10]"

definition quoted :: "string \<Rightarrow> string" where
  "quoted s = [CHR 0x27] @ s @ [CHR 0x27]"

definition memory_args :: "string \<Rightarrow> obj \<Rightarrow> json" where
  "memory_args view rest = JObj ([(''module'', JStr ''memory''), (''view'', JStr view)] @ rest)"

definition search_line :: "obj \<Rightarrow> string" where
  "search_line m =
     ''  ['' @ take 10 (py_str (dget_or m ''created_at'' (JStr []))) @ '']''
     @ (if truthy (jget m ''tag'') then '' ['' @ py_str (jget m ''tag'') @ '']'' else [])
     @ (if dhas m ''score'' then '' score='' @ py_str (jget m ''score'') else [])
     @ '' '' @ display_text m"

definition get_memory_search_summary :: "'e mem_env_scheme \<Rightarrow> string \<Rightarrow> ('w hi_world_scheme, reply) act" where
  "get_memory_search_summary env query =
     act_bind (semantic_search_memory env query 10) (\<lambda>hits.
       let ms = map scored_memory hits;
           body = (if ms = [] then ''Memory search '' @ quoted query @ '': no matches found.''
                   else ''Semantic memory search '' @ quoted query @ '': '' @ show_nat (length ms)
                        @ '' match(es).'' @ newline @ join newline (map search_line ms))
       in act_return (text_reply body (memory_args ''semantic_search''
            [(''query'', JStr query), (''count'', JInt (int (length ms)))])))"

definition related_line :: "obj \<Rightarrow> string" where
  "related_line m = ''  '' @ py_str (jget m ''id'') @ '' score='' @ py_str (jget m ''score'') @ '' '' @ display_text m"

definition get_related_memory_summary :: "'e host_env_scheme \<Rightarrow> string \<Rightarrow> ('w hi_world_scheme, reply) act" where
  "get_related_memory_summary env i =
     act_bind (sync_world env) (\<lambda>_.
     act_bind (act_get (\<lambda>w. related_memories i 5 (store w))) (\<lambda>hits.
       let ms = map (\<lambda>(r, sc, rel). scored_memory (sc, r) @ [(''relation'', JStr rel)]) hits;
           body = (if ms = [] then ''Related memories for '' @ i @ '': no related entries found.''
                   else ''Related memories for '' @ i @ '': '' @ show_nat (length ms) @ '' result(s).'' @ newline
                        @ join newline (map related_line ms))
       in act_return (text_reply body (memory_args ''related''
            [(''memory_id'', JStr i), (''count'', JInt (int (length ms)))]))))"

text \<open>A reply that carries the private \<open>_error\<close> flag.\<close>

definition with_error :: "bool \<Rightarrow> reply \<Rightarrow> reply" where
  "with_error b r = r @ [(''_error'', JBool b)]"

definition set_memory_visibility :: "string \<Rightarrow> string \<Rightarrow> ('w hi_world_scheme, reply) act" where
  "set_memory_visibility i v =
     act_bind (lift_db (set_visibility i v)) (\<lambda>ok.
       let status = (if ok then ''updated'' else ''not_found_or_invalid'')
       in act_return (with_error (\<not> ok) (text_reply
            (''Memory visibility '' @ status @ '': '' @ i @ '' -> '' @ v)
            (memory_args ''visibility'' [(''status'', JStr status)]))))"

definition drop_memory :: "string \<Rightarrow> hi_state \<Rightarrow> hi_state" where
  "drop_memory mid s =
     s\<lparr>memory := filter (\<lambda>m. py_str (dget_or m ''id'' (JStr [])) \<noteq> mid) (memory s)\<rparr>"

definition delete_memory_entry :: "'e host_env_scheme \<Rightarrow> string \<Rightarrow> ('w hi_world_scheme, reply) act" where
  "delete_memory_entry env i =
     (let mid = strip i
      in if mid = [] then act_return [(''text'', JStr ''Refused: empty memory id.''), (''_error'', JBool True)]
         else act_bind (lift_db (delete_memory mid)) (\<lambda>ok.
              act_bind (update_world env (\<lambda>s. act_return (drop_memory mid s))) (\<lambda>_.
                let args = memory_args ''delete'' [(''id'', JStr mid)]
                in act_return (if ok then text_reply (''Memory '' @ mid @ '' deleted.'') args
                     else [(''text'', JStr (''Memory '' @ mid @ '' not found.'')), (''_error'', JBool True),
                           (''args'', args)]))))"

definition edge_json :: "conn_row \<Rightarrow> json" where
  "edge_json c = JObj [(''source'', JStr (c_source c)), (''target'', JStr (c_target c)),
     (''relation'', JStr (c_relation c)), (''score'', score_json (c_score c))]"

definition graph_json :: "graph \<Rightarrow> json" where
  "graph_json g = JObj [(''root'', JStr (g_root g)),
     (''nodes'', JArr (map (\<lambda>r. JObj (row_to_memory r)) (g_nodes g))),
     (''edges'', JArr (map edge_json (g_edges g))), (''depth'', JInt (g_depth g)),
     (''node_count'', JInt (int (length (g_nodes g)))), (''edge_count'', JInt (int (length (g_edges g))))]"

definition get_knowledge_graph :: "'e host_env_scheme \<Rightarrow> string \<Rightarrow> int \<Rightarrow> ('w hi_world_scheme, reply) act" where
  "get_knowledge_graph env i depth =
     act_bind (sync_world env) (\<lambda>_.
     act_bind (act_get (\<lambda>w. knowledge_graph_query i depth 20 None (store w))) (\<lambda>g.
       act_return (if g_nodes g = [] then
           [(''text'', JStr (''Knowledge graph for '' @ i @ '': no nodes found.'')), (''_error'', JBool True),
            (''args'', memory_args ''graph'' [])]
         else text_reply (''Knowledge graph for '' @ i @ '': '' @ show_nat (length (g_nodes g)) @ '' node(s), ''
                @ show_nat (length (g_edges g)) @ '' edge(s), depth='' @ show_int depth @ ''.'')
              (memory_args ''graph'' [(''graph'', graph_json g)]))))"

definition link_memories :: "'e host_env_scheme \<Rightarrow> string \<Rightarrow> string \<Rightarrow> string \<Rightarrow> ('w hi_world_scheme, reply) act" where
  "link_memories env s t rel =
     act_bind (sync_world env) (\<lambda>_.
     act_bind (lift_db (add_typed_connection env s t rel 1)) (\<lambda>ok.
       act_return (if ok then
           text_reply (''Memory link created: '' @ s @ '' --['' @ rel @ '']--> '' @ t) (memory_args ''link'' [])
         else [(''text'', JStr ''Memory link failed: one or both IDs not found.''), (''_error'', JBool True),
               (''args'', memory_args ''link'' [])])))"

definition retention_json :: "retention_stats \<Rightarrow> obj" where
  "retention_json st = [(''checked'', JInt (int (rs_checked st))), (''total_checked'', JInt (int (rs_total st))),
     (''expired'', JInt (int (rs_expired st))), (''archived'', JInt (int (rs_archived st))),
     (''dry_run'', JBool (rs_dry_run st))]"

definition run_retention_policy :: "'e mem_env_scheme \<Rightarrow> bool \<Rightarrow> ('w hi_world_scheme, reply) act" where
  "run_retention_policy env dry_run =
     act_bind (apply_retention_policy env dry_run) (\<lambda>st.
       act_return (text_reply
         ((if dry_run then ''Dry-run'' else ''Applied'') @ '' retention policy: '' @ show_nat (rs_expired st)
          @ '' expired, '' @ show_nat (rs_archived st) @ '' archived (from '' @ show_nat (rs_total st) @ '' total).'')
         (memory_args ''retention'' (retention_json st))))"

definition export_memory_backup :: "int \<Rightarrow> ('w hi_world_scheme, reply) act" where
  "export_memory_backup limit =
     act_bind (act_get (\<lambda>w. map row_to_memory (export_memories limit None (store w)))) (\<lambda>es.
       act_return (text_reply (''Memory export: '' @ show_nat (length es) @ '' entries.'')
         (memory_args ''export'' [(''entries'', JArr (map JObj es))])))"

definition import_memory_batch :: "'e host_env_scheme \<Rightarrow> json list \<Rightarrow> ('w hi_world_scheme, reply) act" where
  "import_memory_batch env es =
     act_bind (import_memories env True es 0 0) (\<lambda>(imported, skipped).
       act_return (text_reply (''Memory import: '' @ show_nat imported @ '' imported, '' @ show_nat skipped
           @ '' skipped (duplicates).'')
         (memory_args ''import'' [(''imported'', JInt (int imported)), (''skipped'', JInt (int skipped))])))"

definition counts_json :: "(string \<times> nat) list \<Rightarrow> json" where
  "counts_json cs = JObj (map (\<lambda>(k, n). (k, JInt (int n))) cs)"

definition get_graph_summary :: "'e host_env_scheme \<Rightarrow> ('w hi_world_scheme, reply) act" where
  "get_graph_summary env =
     act_bind (sync_world env) (\<lambda>_.
     act_bind (act_get (\<lambda>w. get_graph_stats (store w))) (\<lambda>st.
       let rel = join '', '' (map (\<lambda>(k, n). k @ ''='' @ show_nat n) (gs_relations st))
       in act_return (text_reply
            (''Knowledge graph: '' @ show_nat (gs_memories st) @ '' memories, '' @ show_nat (gs_connections st)
             @ '' connections. Relations: '' @ (if rel = [] then ''none'' else rel) @ ''.'')
            (memory_args ''graph_stats'' [(''total_memories'', JInt (int (gs_memories st))),
               (''total_connections'', JInt (int (gs_connections st))),
               (''relation_types'', counts_json (gs_relations st)),
               (''top_connected'', JArr (map (\<lambda>(k, n). JObj [(''id'', JStr k), (''connections'', JInt (int n))])
                  (gs_top st)))]))))"

definition get_memory_summary :: "'e host_env_scheme \<Rightarrow> json \<Rightarrow> ('w hi_world_scheme, reply) act" where
  "get_memory_summary env raw =
     act_bind (get_memory env) (\<lambda>ms.
       let recent = lastn 3 ms
       in act_return (text_reply
            (''Memory summary: '' @ show_nat (length ms) @ '' stored event(s). Recent entries: ''
             @ (if recent \<noteq> [] then py_str (JArr (map JObj recent)) else ''none'') @ ''.'' @ payload_detail raw)
            (reply_args ''memory'' ''summary'')))"

section \<open>The maintenance scripts\<close>

text \<open>Both keep a copy of the state file first; the exit code is the result.\<close>

record maint_world = hi_world +
  backup_file :: state_doc
  event_archive :: "obj list option"

definition migrate_memory :: "'e host_env_scheme \<Rightarrow> ('w maint_world_scheme, int) act" where
  "migrate_memory env =
     act_bind (act_get state_file) (\<lambda>f.
       if f = Missing then act_return 1
       else act_bind (act_modify (\<lambda>w. w\<lparr>backup_file := f\<rparr>)) (\<lambda>_.
            act_bind (act_of (case f of Doc raw \<Rightarrow> normalize_state raw | _ \<Rightarrow> Inl (ValueError []))) (\<lambda>s.
            act_bind (act_modify (\<lambda>w. w\<lparr>state_file := Doc (dump_state s)\<rparr>)) (\<lambda>_.
            act_bind (lift_db (sync_from_state env (memory s))) (\<lambda>_. act_return 0)))))"

text \<open>
  The marker \<open>json.dumps(item, sort_keys=True)\<close> is injective up to key order, so equal markers are
  equal dicts: the sorted entry list stands for the string.
\<close>

definition note_marker :: "obj \<Rightarrow> obj" where
  "note_marker d = sort_by fst d"

fun split_events :: "obj list \<Rightarrow> json list \<Rightarrow> obj list \<times> obj list" where
  "split_events seen [] = ([], [])"
| "split_events seen (e # es) =
     (case normalize_memory_entry e of
        None \<Rightarrow> split_events seen es
      | Some item \<Rightarrow>
          if jget item ''type'' = JStr ''event'' then
            (let (evs, notes) = split_events seen es in (item # evs, notes))
          else if note_marker item \<in> set seen then split_events seen es
          else (let (evs, notes) = split_events (note_marker item # seen) es in (evs, item # notes)))"

definition archive_memory_events :: "('w maint_world_scheme, int) act" where
  "archive_memory_events =
     act_bind (act_get state_file) (\<lambda>f.
       if f = Missing then act_return 1
       else act_bind (act_modify (\<lambda>w. w\<lparr>backup_file := f\<rparr>)) (\<lambda>_.
            act_bind (act_of (case f of Doc (JObj d) \<Rightarrow> Inr d | Doc _ \<Rightarrow> Inl AttributeError
                                      | _ \<Rightarrow> Inl (ValueError []))) (\<lambda>raw.
            let (evs, notes) = (case dget_or raw ''memory'' (JArr []) of JArr xs \<Rightarrow> split_events [] xs | _ \<Rightarrow> ([], []))
            in act_bind (act_modify (\<lambda>w. w\<lparr>event_archive := Some evs\<rparr>)) (\<lambda>_.
               act_bind (act_of (normalize_state (JObj (dset ''memory'' (JArr (map JObj notes)) raw)))) (\<lambda>s.
               act_bind (act_modify (\<lambda>w. w\<lparr>state_file := Doc (dump_state s)\<rparr>)) (\<lambda>_. act_return 0))))))"

section \<open>What the operations leave alone, and what they answer\<close>

text \<open>A component of the world that is neither the store, the archives nor the state file.\<close>

definition outside_store :: "('w hi_world_scheme \<Rightarrow> 'b) \<Rightarrow> bool" where
  "outside_store f \<longleftrightarrow> (\<forall>w x. f (w\<lparr>state_file := x\<rparr>) = f w) \<and> (\<forall>w x. f (w\<lparr>store := x\<rparr>) = f w)
     \<and> (\<forall>w x. f (w\<lparr>archives := x\<rparr>) = f w)"

lemma keeps_on_state [frame_intros]: "outside_store f \<Longrightarrow> keeps f (on_state m)"
  by (auto simp: keeps_def on_state_def outside_store_def split: prod.split)

lemma keeps_lift_db [frame_intros]: "outside_store f \<Longrightarrow> keeps f (lift_db m)"
  by (auto simp: keeps_def lift_db_def outside_store_def split: prod.split)

lemma keeps_memory_ops [frame_intros]:
  fixes menv :: "'e mem_env_scheme"
  assumes "outside_store f"
  shows "keeps f (load_world env)" "keeps f (sync_world env)" "keeps f (append_item menv item s)"
    "(\<And>s. keeps f (g s)) \<Longrightarrow> keeps f (update_world env g)"
    "keeps f (import_memories env dup es i k)" "keeps f (apply_retention_policy menv dry)"
proof -
  have ov: "keeps f (archive_overflow menv s)" for s
    using assms unfolding archive_overflow_def outside_store_def by (intro frame_intros keeps_modify) auto
  show l: "keeps f (load_world env)"
    unfolding load_world_def by (intro frame_intros assms)
  show "keeps f (sync_world env)"
    unfolding sync_world_def by (intro frame_intros assms l)
  show "keeps f (append_item menv item s)"
    unfolding append_item_def Let_def by (auto intro!: frame_intros ov)
  show "(\<And>s. keeps f (g s)) \<Longrightarrow> keeps f (update_world env g)"
    unfolding update_world_def by (intro frame_intros assms)
  show "keeps f (import_memories env dup es i k)"
  proof (induction es arbitrary: i k)
    case (Cons e es)
    then show ?case using assms by (auto intro!: frame_intros)
  qed simp
  show "keeps f (apply_retention_policy menv dry)"
    using assms unfolding apply_retention_policy_def outside_store_def Let_def by (intro frame_intros keeps_modify) auto
qed

lemma keeps_memory_replies [frame_intros]:
  fixes env :: "'e mem_env_scheme"
  assumes "outside_store f"
  shows "keeps f (get_memory_summary env raw)" "keeps f (get_memory_search_summary env q)"
    "keeps f (get_related_memory_summary env i)" "keeps f (set_memory_visibility i v)"
    "keeps f (delete_memory_entry env i)" "keeps f (get_knowledge_graph env i d)"
    "keeps f (link_memories env s t rel)" "keeps f (run_retention_policy env dry)"
    "keeps f (export_memory_backup k)" "keeps f (import_memory_batch env es)"
    "keeps f (get_graph_summary env)" "keeps f (add_memory env e)"
  unfolding get_memory_summary_def get_memory_search_summary_def get_related_memory_summary_def
    set_memory_visibility_def delete_memory_entry_def get_knowledge_graph_def link_memories_def
    run_retention_policy_def export_memory_backup_def import_memory_batch_def get_graph_summary_def
    add_memory_def get_memory_def semantic_search_memory_def Let_def
  by (auto intro!: frame_intros assms split: option.split)

text \<open>Every reply has a text and, if any, a dict of arguments: it is a valid payload.\<close>

definition reply_ok :: "reply \<Rightarrow> bool" where
  "reply_ok r \<longleftrightarrow> is_str (jget r ''text'') \<and> (dhas r ''args'' \<longrightarrow> is_obj (jget r ''args''))"

lemma reply_ok_text [yield_intros]: "is_obj a \<Longrightarrow> reply_ok (text_reply t a)"
  by (simp add: reply_ok_def text_reply_def dget_or_def dhas_def)

lemma reply_ok_error: "reply_ok r \<Longrightarrow> reply_ok (with_error b r)"
  by (auto simp: reply_ok_def with_error_def dget_or_def dhas_def map_add_def split: option.splits)

lemma is_obj_args [yield_intros]: "is_obj (reply_args a b)" "is_obj (memory_args v rest)"
  by (simp_all add: reply_args_def memory_args_def)

lemma yields_on_state [yield_intros]: "yields P m \<Longrightarrow> yields P (on_state m)"
  by (auto simp: yields_def on_state_def split: prod.splits)

lemma yields_state_replies [yield_intros]:
  "yields reply_ok (get_profile_summary env raw)" "yields reply_ok (get_hi_intro env raw)"
  "yields reply_ok (get_relationship_summary env raw)" "yields reply_ok (get_preferences_summary env raw)"
  "yields reply_ok (get_workflow_summary env raw)"
  unfolding get_profile_summary_def get_hi_intro_def get_relationship_summary_def
    get_preferences_summary_def get_workflow_summary_def Let_def
  by (auto intro!: yield_intros split: option.split)

lemma yields_memory_replies [yield_intros]:
  fixes env :: "'e mem_env_scheme"
  shows "yields reply_ok (get_memory_summary env raw)" "yields reply_ok (get_memory_search_summary env q)"
    "yields reply_ok (get_related_memory_summary env i)" "yields reply_ok (set_memory_visibility i v)"
    "yields reply_ok (delete_memory_entry env i)" "yields reply_ok (get_knowledge_graph env i d)"
    "yields reply_ok (link_memories env s t rel)" "yields reply_ok (run_retention_policy env dry)"
    "yields reply_ok (export_memory_backup k)" "yields reply_ok (import_memory_batch env es)"
    "yields reply_ok (get_graph_summary env)"
  unfolding get_memory_summary_def get_memory_search_summary_def get_related_memory_summary_def
    set_memory_visibility_def delete_memory_entry_def get_knowledge_graph_def link_memories_def
    run_retention_policy_def export_memory_backup_def import_memory_batch_def get_graph_summary_def Let_def
  by (auto intro!: yield_intros reply_ok_error split: option.split simp: reply_ok_def [of "(_, _) # _"] memory_args_def dget_or_def dhas_def)

end
