(* ===== verification/Event_Journal.thy ===== *)
theory Event_Journal
  imports PyJson "HOL-Library.Option_ord"
begin

text \<open>
  Model of \<open>shared/event_journal.py\<close>: one file of JSON lines per UTC day. A file is the list of its
  lines, \<open>None\<close> standing for a line that is no JSON. The in-memory SQLite table a query is run on is
  the list of its rows; its columns are text or NULL. The cache keyed on the sum of the modification
  times is part of the state.
\<close>

type_synonym journal_files = "json option list dict"

text \<open>A file name of the journal and one more record at its end.\<close>

definition event_record :: "string \<Rightarrow> string \<Rightarrow> string \<Rightarrow> json \<Rightarrow> json" where
  "event_record ts source ty payload =
     JObj [(''ts'', JStr ts), (''source'', JStr source), (''type'', JStr ty), (''payload'', payload)]"

definition append_event ::
  "string \<Rightarrow> string \<Rightarrow> string \<Rightarrow> string \<Rightarrow> json \<Rightarrow> journal_files \<Rightarrow> journal_files" where
  "append_event today ts source ty payload files =
     (let n = today @ ''.jsonl''
      in dset n (dget_or files n [] @ [Some (event_record ts source ty payload)]) files)"

text \<open>All events: the files by name, the lines in order, unreadable lines left out.\<close>

definition load_events :: "journal_files \<Rightarrow> json list" where
  "load_events files =
     concat (map (\<lambda>n. map the (filter (\<lambda>l. l \<noteq> None) (dget_or files n [])))
       (sort (filter (\<lambda>n. endswith n ''.jsonl'') (dkeys files))))"

record journal =
  j_files :: journal_files
  j_mtimes :: "int dict"
  j_cache :: "(int \<times> json list) option"

definition file_signature :: "journal \<Rightarrow> int" where
  "file_signature j = (\<Sum>n\<leftarrow>filter (\<lambda>n. endswith n ''.jsonl'') (dkeys (j_files j)). dget_or (j_mtimes j) n 0)"

definition load_events_cached :: "journal \<Rightarrow> json list \<times> journal" where
  "load_events_cached j =
     (let sig = file_signature j; es = load_events (j_files j)
      in case j_cache j of
           Some (s, cached) \<Rightarrow> if s = sig then (cached, j) else (es, j\<lparr>j_cache := Some (sig, es)\<rparr>)
         | None \<Rightarrow> (es, j\<lparr>j_cache := Some (sig, es)\<rparr>))"

section \<open>Queries\<close>

text \<open>A bound column value: SQLite stores text, NULL, and numbers as their text; a list or dict cannot be bound.\<close>

fun column :: "json \<Rightarrow> string option outcome" where
  "column JNull = Inr None"
| "column (JStr s) = Inr (Some s)"
| "column (JBool b) = Inr (Some (if b then ''1'' else ''0''))"
| "column (JInt i) = Inr (Some (show_int i))"
| "column (JDec m e) = Inr (Some (show_dec m e))"
| "column _ = Inl (RuntimeError ''InterfaceError'')"

record event_row =
  ev_ts :: "string option"
  ev_source :: "string option"
  ev_type :: "string option"
  ev_payload :: json

definition event_columns :: "json \<Rightarrow> event_row outcome" where
  "event_columns e =
     and_then (as_obj e) (\<lambda>d.
     and_then (column (dget_or d ''ts'' (JStr []))) (\<lambda>ts.
     and_then (column (dget_or d ''source'' (JStr []))) (\<lambda>src.
     and_then (column (dget_or d ''type'' (JStr []))) (\<lambda>ty.
       Inr \<lparr>ev_ts = ts, ev_source = src, ev_type = ty, ev_payload = dget_or d ''payload'' (JObj [])\<rparr>))))"

record event_query =
  q_from :: "string option"
  q_to :: "string option"
  q_source :: "string option"
  q_type :: "string option"
  q_limit :: int

text \<open>A condition is added for a truthy argument; NULL satisfies none.\<close>

definition cond :: "(string \<Rightarrow> string \<Rightarrow> bool) \<Rightarrow> string option \<Rightarrow> string option \<Rightarrow> bool" where
  "cond rel arg col =
     (case arg of None \<Rightarrow> True
      | Some a \<Rightarrow> if a = [] then True else (case col of None \<Rightarrow> False | Some c \<Rightarrow> rel c a))"

definition matches :: "event_query \<Rightarrow> event_row \<Rightarrow> bool" where
  "matches q r \<longleftrightarrow> cond (\<lambda>c a. a \<le> c) (q_from q) (ev_ts r) \<and> cond (\<lambda>c a. c \<le> a) (q_to q) (ev_ts r)
     \<and> cond (=) (q_source q) (ev_source r) \<and> cond (=) (q_type q) (ev_type r)"

text \<open>A negative LIMIT is none.\<close>

definition sql_limit :: "int \<Rightarrow> 'a list \<Rightarrow> 'a list" where
  "sql_limit n xs = (if n < 0 then xs else take (nat n) xs)"

definition query_events :: "event_query \<Rightarrow> journal \<Rightarrow> event_row list outcome \<times> journal" where
  "query_events q j =
     (let (es, j') = load_events_cached j
      in (and_then (traverse event_columns es)
            (\<lambda>rows. Inr (sql_limit (q_limit q) (sort_by_desc ev_ts (filter (matches q) rows)))), j'))"

text \<open>\<open>sorted({e.get(k, "") for e in events if e.get(k)})\<close>; a set of strings here.\<close>

definition distinct_values :: "string \<Rightarrow> json list \<Rightarrow> string list outcome" where
  "distinct_values k es =
     and_then (traverse as_obj es) (\<lambda>ds.
     and_then (traverse (\<lambda>d. case jget d k of JStr s \<Rightarrow> Inr s | _ \<Rightarrow> Inl TypeError)
                 (filter (\<lambda>d. truthy (jget d k)) ds))
       (\<lambda>vs. Inr (sort (remdups vs))))"

definition event_sources :: "journal \<Rightarrow> string list outcome \<times> journal" where
  "event_sources j = (let (es, j') = load_events_cached j in (distinct_values ''source'' es, j'))"

definition event_types :: "journal \<Rightarrow> string list outcome \<times> journal" where
  "event_types j = (let (es, j') = load_events_cached j in (distinct_values ''type'' es, j'))"

section \<open>Lemmas\<close>

lemma insort_snoc: "x \<le> n \<Longrightarrow> insort x (ys @ [n]) = insort x ys @ [n :: 'a :: linorder]"
  by (induction ys) auto

lemma sort_snoc_max: "\<forall>x \<in> set xs. x \<le> n \<Longrightarrow> sort (xs @ [n]) = sort xs @ [n :: 'a :: linorder]"
  by (induction xs) (simp_all add: insort_snoc)

lemma sort_ends_max:
  fixes n :: "'a :: linorder"
  assumes "n \<in> set xs" "\<forall>x \<in> set xs. x \<le> n" "distinct xs"
  obtains ys where "sort xs = ys @ [n]" "n \<notin> set ys"
proof -
  from assms(1) have "xs \<noteq> []" by auto
  then have ne: "sort xs \<noteq> []" by (metis length_0_conv length_sort)
  then obtain ys z where yz: "sort xs = ys @ [z]" by (metis append_butlast_last_id)
  have "sorted (ys @ [z])" using yz sorted_sort [of xs] by simp
  then have "\<forall>y \<in> set ys. y \<le> z" by (simp add: sorted_append)
  moreover have in_xs: "set xs = insert z (set ys)" using yz by (metis set_sort set_append list.set(1,2) Un_insert_right Un_empty_right)
  ultimately have "n \<le> z" using assms(1) by auto
  moreover have "z \<le> n" using assms(2) in_xs by simp
  ultimately have "z = n" by simp
  moreover have "distinct (ys @ [z])" using yz assms(3) by (metis distinct_sort)
  ultimately show thesis using that yz by simp
qed

definition file_events :: "journal_files \<Rightarrow> string \<Rightarrow> json list" where
  "file_events files n = map the (filter (\<lambda>l. l \<noteq> None) (dget_or files n []))"

lemma load_events_append:
  assumes "\<forall>n \<in> set (dkeys files). n \<le> today @ ''.jsonl''" "distinct (dkeys files)"
  shows "load_events (append_event today ts src ty p files) = load_events files @ [event_record ts src ty p]"
proof -
  let ?n = "today @ ''.jsonl''" and ?r = "event_record ts src ty p"
  let ?files = "append_event today ts src ty p files"
  let ?names = "\<lambda>fs. filter (\<lambda>n. endswith n ''.jsonl'') (dkeys (fs :: journal_files))"
  have load: "load_events fs = concat (map (file_events fs) (sort (?names fs)))" for fs
    by (simp add: load_events_def file_events_def cong: map_cong)
  have ev: "file_events ?files m = (if m = ?n then file_events files ?n @ [?r] else file_events files m)" for m
    by (simp add: append_event_def Let_def file_events_def)
  have "endswith ?n ''.jsonl''" unfolding endswith_iff by blast
  show ?thesis
  proof (cases "?n \<in> set (dkeys files)")
    case True
    then have keys: "dkeys ?files = dkeys files" by (simp add: append_event_def Let_def dkeys_dset)
    have "?n \<in> set (?names files)" using True \<open>endswith ?n ''.jsonl''\<close> by simp
    moreover have "\<forall>x \<in> set (?names files). x \<le> ?n" using assms(1) by auto
    moreover have "distinct (?names files)" using assms(2) by simp
    ultimately obtain ys where ys: "sort (?names files) = ys @ [?n]" "?n \<notin> set ys" by (rule sort_ends_max)
    have "map (file_events ?files) ys = map (file_events files) ys" using ys(2) ev by (intro map_cong) auto
    then show ?thesis using ev [of ?n] by (simp add: load keys ys(1) del: map_eq_conv)
  next
    case False
    then have keys: "dkeys ?files = dkeys files @ [?n]" by (simp add: append_event_def Let_def dkeys_dset)
    then have "?names ?files = ?names files @ [?n]" using \<open>endswith ?n ''.jsonl''\<close> by simp
    then have "sort (?names ?files) = sort (?names files) @ [?n]" using assms(1) by (simp add: sort_snoc_max del: set_map)
    moreover have "map (file_events ?files) (sort (?names files)) = map (file_events files) (sort (?names files))"
      using False ev by (intro map_cong) (auto simp del: set_map simp: image_iff)
    moreover have "file_events files ?n = []"
      using False by (simp add: file_events_def dget_or_def map_of_eq_None_iff [THEN iffD2])
    ultimately show ?thesis using ev [of ?n] by (simp add: load del: map_eq_conv)
  qed
qed

section \<open>Properties\<close>

text \<open>An event appended on the latest day of the journal is the last event read back, after all
  earlier ones in their order.\<close>

theorem append_event_read_back:
  assumes "\<forall>n \<in> set (dkeys files). n \<le> today @ ''.jsonl''" "distinct (dkeys files)"
  shows "load_events (append_event today ts src ty p files) = load_events files @ [event_record ts src ty p]"
  using assms by (rule load_events_append)

theorem append_event_read_back_witness:
  "load_events (append_event ''2026-05-02'' ''t2'' ''a'' ''x'' JNull (append_event ''2026-05-01'' ''t1'' ''a'' ''x'' JNull [])) =
     [event_record ''t1'' ''a'' ''x'' JNull, event_record ''t2'' ''a'' ''x'' JNull]"
proof -
  let ?f = "append_event ''2026-05-01'' ''t1'' ''a'' ''x'' JNull []"
  have le: "''2026-05-01.jsonl'' \<le> ''2026-05-02.jsonl''" by code_simp
  have "\<forall>n \<in> set (dkeys ?f). n \<le> ''2026-05-02'' @ ''.jsonl''" "distinct (dkeys ?f)"
    using le by (simp_all add: append_event_def Let_def)
  from append_event_read_back [OF this, of "''t2''" "''a''" "''x''" JNull]
  moreover have "load_events ?f = [event_record ''t1'' ''a'' ''x'' JNull]"
    using load_events_append [of "[]" "''2026-05-01''" "''t1''" "''a''" "''x''" JNull]
    by (simp add: load_events_def)
  ultimately show ?thesis by simp
qed

end
