(* ===== verification/HI_Handler.thy ===== *)
theory HI_Handler
  imports HI_Memory Event_Journal
begin

text \<open>
  Model of \<open>Kingofyadav/handler.py\<close>: the dispatch of a validated request to the operations on the
  state and the store, with the journal entry each change leaves. A branch that needs a dict payload
  and gets another one falls through to the unknown-intent reply, as in the source.
\<close>

record hub_world = hi_world +
  events :: journal_files

record hub_env = mem_env +
  today :: string

definition base_env :: "'e hub_env_scheme \<Rightarrow> host_env" where
  "base_env env = host_env.truncate env"

definition log_event :: "'e hub_env_scheme \<Rightarrow> string \<Rightarrow> obj \<Rightarrow> ('w hub_world_scheme, unit) act" where
  "log_event env ty payload =
     act_modify (\<lambda>w. w\<lparr>events := append_event (today env) (now_iso env) ''Kingofyadav'' ty (JObj payload) (events w)\<rparr>)"

text \<open>\<open>str(raw.get(k, "")).strip()\<close>\<close>

definition field :: "obj \<Rightarrow> string \<Rightarrow> string" where
  "field d k = str_strip (dget_or d k (JStr []))"

definition extract_payload :: "obj \<Rightarrow> json outcome" where
  "extract_payload m =
     and_then (as_obj (dget_or m ''payload'' (JObj []))) (\<lambda>p.
     and_then (as_obj (py_or (dget_or p ''args'' (JObj [])) (JObj []))) (\<lambda>a.
       Inr (dget_or a ''raw_payload'' (JStr []))))"

text \<open>\<open>raw.get(k, raw) if isinstance(raw, dict) else str(raw)\<close>, then \<open>str(...).strip()\<close>\<close>

definition text_or_field :: "json \<Rightarrow> string \<Rightarrow> string" where
  "text_or_field raw k = (case raw of JObj d \<Rightarrow> str_strip (dget_or d k raw) | _ \<Rightarrow> str_strip (JStr (py_str raw)))"

definition raw_or_field :: "json \<Rightarrow> string \<Rightarrow> json" where
  "raw_or_field raw k = (case raw of JObj d \<Rightarrow> dget_or d k raw | _ \<Rightarrow> raw)"

definition failed :: "reply \<Rightarrow> bool" where
  "failed r = truthy (jget r ''_error'')"

definition logged_unless_failed ::
  "'e hub_env_scheme \<Rightarrow> string \<Rightarrow> obj \<Rightarrow> ('w hub_world_scheme, reply) act \<Rightarrow> ('w hub_world_scheme, reply) act" where
  "logged_unless_failed env ty payload m =
     act_bind m (\<lambda>r. act_bind (if failed r then act_return () else log_event env ty payload) (\<lambda>_. act_return r))"

section \<open>The branches\<close>

definition h_set_profile :: "'e hub_env_scheme \<Rightarrow> obj \<Rightarrow> ('w hub_world_scheme, reply) act" where
  "h_set_profile env d =
     (let f = field d ''field''; v = field d ''value'' in
      act_bind (on_state (set_profile_field (base_env env) f v)) (\<lambda>p.
      act_bind (log_event env ''profile_updated'' [(''field'', JStr f), (''value'', JStr v)]) (\<lambda>_.
      act_return (text_reply (''Profile updated: '' @ f @ ''='' @ py_str (dget_or p f (JStr v)))
        (reply_args ''profile'' ''update'')))))"

definition h_set_preference :: "'e hub_env_scheme \<Rightarrow> obj \<Rightarrow> ('w hub_world_scheme, reply) act" where
  "h_set_preference env d =
     (let k = field d ''key''; v = field d ''value'' in
      act_bind (on_state (set_preference (base_env env) k v)) (\<lambda>_.
      act_bind (log_event env ''preference_updated'' [(''key'', JStr k), (''value'', JStr v)]) (\<lambda>_.
      act_return (text_reply (''Preference set: '' @ k @ ''='' @ v) (reply_args ''preferences'' ''update'')))))"

definition h_memory_visibility :: "'e hub_env_scheme \<Rightarrow> obj \<Rightarrow> ('w hub_world_scheme, reply) act" where
  "h_memory_visibility env d =
     (let i = field d ''memory_id''; v = field d ''visibility'' in
      logged_unless_failed env ''memory_visibility_updated'' [(''memory_id'', JStr i), (''visibility'', JStr v)]
        (set_memory_visibility i v))"

definition h_memory_add :: "'e hub_env_scheme \<Rightarrow> json \<Rightarrow> ('w hub_world_scheme, reply) act" where
  "h_memory_add env raw =
     (let entry = raw_or_field raw ''entry'' in
      act_bind (add_memory env entry) (\<lambda>ms.
      act_bind (log_event env ''memory_added'' [(''entry'', entry)]) (\<lambda>_.
      act_return (text_reply (''Memory stored. Total entries: '' @ show_nat (length ms) @ ''.'')
        (reply_args ''memory'' ''append'')))))"

definition h_memory_delete :: "'e hub_env_scheme \<Rightarrow> json \<Rightarrow> ('w hub_world_scheme, reply) act" where
  "h_memory_delete env raw =
     (let logged = (case raw of JObj d \<Rightarrow> dget_or d ''memory_id'' raw | _ \<Rightarrow> JStr (py_str raw)) in
      logged_unless_failed env ''memory_deleted'' [(''memory_id'', logged)]
        (delete_memory_entry env (text_or_field raw ''memory_id'')))"

definition h_memory_graph :: "'e hub_env_scheme \<Rightarrow> json \<Rightarrow> ('w hub_world_scheme, reply) act" where
  "h_memory_graph env raw =
     act_bind (act_of (case raw of JObj d \<Rightarrow> py_int (dget_or d ''depth'' (JInt 2)) | _ \<Rightarrow> Inr 2)) (\<lambda>depth.
       get_knowledge_graph env (text_or_field raw ''memory_id'') depth)"

definition h_memory_link :: "'e hub_env_scheme \<Rightarrow> obj \<Rightarrow> ('w hub_world_scheme, reply) act" where
  "h_memory_link env d =
     (let s = field d ''source_id''; t = field d ''target_id'';
          rel = str_strip (dget_or d ''relation'' (JStr ''related'')) in
      logged_unless_failed env ''memory_linked''
        [(''source_id'', JStr s), (''target_id'', JStr t), (''relation'', JStr rel)] (link_memories env s t rel))"

definition h_memory_retention :: "'e hub_env_scheme \<Rightarrow> json \<Rightarrow> ('w hub_world_scheme, reply) act" where
  "h_memory_retention env raw =
     (let dry = (case raw of JObj d \<Rightarrow> truthy (dget_or d ''dry_run'' (JBool False)) | _ \<Rightarrow> False) in
      act_bind (run_retention_policy env dry) (\<lambda>r.
      act_bind (if dry then act_return ()
                else log_event env ''memory_retention_applied''
                  (case dget_or r ''args'' (JObj []) of JObj a \<Rightarrow> a | _ \<Rightarrow> [])) (\<lambda>_.
      act_return r)))"

definition h_memory_import :: "'e hub_env_scheme \<Rightarrow> obj \<Rightarrow> ('w hub_world_scheme, reply) act" where
  "h_memory_import env d =
     (case dget_or d ''entries'' (JArr []) of
        JArr es \<Rightarrow>
          act_bind (import_memory_batch env es) (\<lambda>r.
          act_bind (log_event env ''memory_imported'' (case dget_or r ''args'' (JObj []) of JObj a \<Rightarrow> a | _ \<Rightarrow> [])) (\<lambda>_.
          act_return r))
      | _ \<Rightarrow> act_return [(''text'', JStr ''Memory import failed: entries must be a list.''), (''_error'', JBool True)])"

definition h_set_focus :: "'e hub_env_scheme \<Rightarrow> obj \<Rightarrow> ('w hub_world_scheme, reply) act" where
  "h_set_focus env d =
     (let task = field d ''task'' in
      act_bind (on_state (update_focus (base_env env) task)) (\<lambda>wf.
      act_bind (log_event env ''workflow_updated'' [(''task'', JStr task)]) (\<lambda>_.
      act_return (text_reply (''Workflow updated: current_focus=''
          @ py_str (py_or (dget_or wf ''current_focus'' (JStr [])) (JStr ''none'')) @ ''.'')
        (reply_args ''workflow'' ''update'')))))"

text \<open>\<open>int(raw.get("estimate_minutes", 0) or 0)\<close>, zero when that is no number\<close>

definition estimate_of :: "obj \<Rightarrow> int" where
  "estimate_of d = int_or (py_or (dget_or d ''estimate_minutes'' (JInt 0)) (JInt 0)) 0"

definition h_add_task :: "'e hub_env_scheme \<Rightarrow> obj \<Rightarrow> ('w hub_world_scheme, reply) act" where
  "h_add_task env d =
     (let title = field d ''title'' in
      act_bind (on_state (add_task (base_env env) title (field d ''due'') (estimate_of d) ''todo'' [])) (\<lambda>wf.
      act_bind (act_of (as_objs (dget_or wf ''tasks'' (JArr [])))) (\<lambda>ts.
        let task = (case List.find (\<lambda>t. jget t ''title'' = JStr title) ts of Some t \<Rightarrow> t | None \<Rightarrow> []);
            i = dget_or task ''id'' (JStr [])
        in act_bind (log_event env ''workflow_task_added'' [(''title'', JStr title), (''id'', i)]) (\<lambda>_.
           act_return (text_reply (''Workflow task added: '' @ py_str i @ '' '' @ title)
             (JObj [(''module'', JStr ''workflow''), (''view'', JStr ''task_add''), (''task'', JObj task)]))))))"

text \<open>The three task updates share their shape.\<close>

definition task_reply :: "string \<Rightarrow> string \<Rightarrow> obj \<Rightarrow> reply" where
  "task_reply text view flow = text_reply text
     (JObj [(''module'', JStr ''workflow''), (''view'', JStr view), (''workflow'', JObj flow)])"

definition h_task_status :: "'e hub_env_scheme \<Rightarrow> obj \<Rightarrow> ('w hub_world_scheme, reply) act" where
  "h_task_status env d =
     (let i = field d ''task_id''; st = field d ''status'' in
      act_bind (on_state (update_task_status (base_env env) i st)) (\<lambda>wf.
      act_bind (log_event env ''workflow_task_status_updated'' [(''task_id'', JStr i), (''status'', JStr st)]) (\<lambda>_.
      act_return (task_reply (''Workflow task status updated: '' @ i @ '' -> '' @ st) ''task_status'' wf))))"

definition h_task_blocker :: "'e hub_env_scheme \<Rightarrow> obj \<Rightarrow> ('w hub_world_scheme, reply) act" where
  "h_task_blocker env d =
     (let i = field d ''task_id''; b = field d ''blocker'' in
      act_bind (on_state (add_task_blocker (base_env env) i b)) (\<lambda>wf.
      act_bind (log_event env ''workflow_task_blocked'' [(''task_id'', JStr i), (''blocker'', JStr b)]) (\<lambda>_.
      act_return (task_reply (''Workflow task blocker added: '' @ i @ '' -> '' @ b) ''task_blocker'' wf))))"

definition h_task_due :: "'e hub_env_scheme \<Rightarrow> obj \<Rightarrow> ('w hub_world_scheme, reply) act" where
  "h_task_due env d =
     (let i = field d ''task_id''; due = field d ''due'' in
      act_bind (on_state (update_task_due (base_env env) i due)) (\<lambda>wf.
      act_bind (log_event env ''workflow_task_due_updated'' [(''task_id'', JStr i), (''due'', JStr due)]) (\<lambda>_.
      act_return (task_reply (''Workflow task due date updated: '' @ i @ '' -> '' @ due) ''task_due'' wf))))"

definition set_logged_field :: "'e hub_env_scheme \<Rightarrow> string \<Rightarrow> string \<Rightarrow> ('w hub_world_scheme, unit) act" where
  "set_logged_field env k v =
     (if v = [] then act_return ()
      else act_bind (on_state (set_profile_field (base_env env) k v)) (\<lambda>_.
           log_event env ''profile_updated'' [(''field'', JStr k), (''value'', JStr v)]))"

definition h_set_domain :: "'e hub_env_scheme \<Rightarrow> obj \<Rightarrow> ('w hub_world_scheme, reply) act" where
  "h_set_domain env d =
     (let domain = field d ''domain''; website = field d ''website'' in
      if domain = [] \<and> website = [] then
        act_return [(''text'', JStr ''Domain update failed: both domain and website are empty.''),
          (''args'', JObj [(''status'', JStr ''error''), (''module'', JStr ''profile'')]), (''_error'', JBool True)]
      else act_bind (set_logged_field env ''domain'' domain) (\<lambda>_.
           act_bind (set_logged_field env ''website'' website) (\<lambda>_.
           act_return (text_reply (''Domain updated: domain='' @ domain @ '', website='' @ website @ ''.'')
             (reply_args ''profile'' ''update'')))))"

definition h_unknown :: "json \<Rightarrow> ('w hub_world_scheme, reply) act" where
  "h_unknown intent =
     act_return [(''text'', JStr (''Unhandled intent: '' @ py_str intent)),
       (''args'', JObj [(''status'', JStr ''unknown_intent''), (''layer'', JStr ''HI''), (''intent'', intent)]),
       (''_error'', JBool True)]"

section \<open>The dispatch\<close>

text \<open>The intents that read any payload, and those that need a dict.\<close>

definition plain_branch ::
  "'e hub_env_scheme \<Rightarrow> string \<Rightarrow> json \<Rightarrow> ('w hub_world_scheme, reply) act option" where
  "plain_branch env i raw =
     (if i = ''hi_get_profile'' then Some (on_state (get_profile_summary (base_env env) raw))
      else if i = ''hi_get_intro'' then Some (on_state (get_hi_intro (base_env env) raw))
      else if i = ''hi_get_relationship'' then Some (on_state (get_relationship_summary (base_env env) raw))
      else if i = ''hi_get_preferences'' then Some (on_state (get_preferences_summary (base_env env) raw))
      else if i = ''hi_get_memory'' then Some (get_memory_summary env raw)
      else if i = ''hi_memory_search'' then Some (get_memory_search_summary env (text_or_field raw ''query''))
      else if i = ''hi_memory_related'' then Some (get_related_memory_summary env (text_or_field raw ''memory_id''))
      else if i = ''hi_memory_add'' then Some (h_memory_add env raw)
      else if i = ''hi_memory_delete'' then Some (h_memory_delete env raw)
      else if i = ''hi_memory_graph'' then Some (h_memory_graph env raw)
      else if i = ''hi_memory_graph_stats'' then Some (get_graph_summary env)
      else if i = ''hi_memory_retention'' then Some (h_memory_retention env raw)
      else if i = ''hi_memory_export'' then Some (export_memory_backup 1000)
      else if i = ''hi_get_workflow'' then Some (on_state (get_workflow_summary (base_env env) raw))
      else None)"

definition dict_branch ::
  "'e hub_env_scheme \<Rightarrow> string \<Rightarrow> obj \<Rightarrow> ('w hub_world_scheme, reply) act option" where
  "dict_branch env i d =
     (if i = ''hi_set_profile_field'' then Some (h_set_profile env d)
      else if i = ''hi_set_preference'' then Some (h_set_preference env d)
      else if i = ''hi_memory_visibility'' then Some (h_memory_visibility env d)
      else if i = ''hi_memory_link'' then Some (h_memory_link env d)
      else if i = ''hi_memory_import'' then Some (h_memory_import env d)
      else if i = ''hi_set_workflow_focus'' then Some (h_set_focus env d)
      else if i = ''hi_workflow_add_task'' then Some (h_add_task env d)
      else if i = ''hi_workflow_set_task_status'' then Some (h_task_status env d)
      else if i = ''hi_workflow_add_blocker'' then Some (h_task_blocker env d)
      else if i = ''hi_workflow_set_due'' then Some (h_task_due env d)
      else if i = ''hi_set_domain'' then Some (h_set_domain env d)
      else None)"

definition handle_request :: "'e hub_env_scheme \<Rightarrow> obj \<Rightarrow> ('w hub_world_scheme, reply) act" where
  "handle_request env m =
     act_bind (act_of (extract_payload m)) (\<lambda>raw.
       case jget m ''intent'' of
         JStr i \<Rightarrow>
           (case plain_branch env i raw of
              Some a \<Rightarrow> a
            | None \<Rightarrow>
                (case raw of
                   JObj d \<Rightarrow> (case dict_branch env i d of Some a \<Rightarrow> a | None \<Rightarrow> h_unknown (JStr i))
                 | _ \<Rightarrow> h_unknown (JStr i)))
       | v \<Rightarrow> h_unknown v)"

section \<open>What a request leaves alone, and what it is answered\<close>

definition outside_hub :: "('w hub_world_scheme \<Rightarrow> 'b) \<Rightarrow> bool" where
  "outside_hub f \<longleftrightarrow> outside_store f \<and> (\<forall>w x. f (w\<lparr>events := x\<rparr>) = f w)"

lemma keeps_log_event [frame_intros]: "outside_hub f \<Longrightarrow> keeps f (log_event env ty p)"
  unfolding log_event_def outside_hub_def by (intro keeps_modify) auto

lemma keeps_logged [frame_intros]:
  "outside_hub f \<Longrightarrow> keeps f m \<Longrightarrow> keeps f (logged_unless_failed env ty p m)"
  unfolding logged_unless_failed_def by (auto intro!: frame_intros)


lemma outside_hubD: "outside_hub f \<Longrightarrow> outside_store f"
  by (simp add: outside_hub_def)

lemma keeps_set_logged_field [frame_intros]: "outside_hub f \<Longrightarrow> keeps f (set_logged_field env k v)"
  unfolding set_logged_field_def by (auto intro!: frame_intros dest: outside_hubD)

lemma keeps_handle_request:
  fixes f :: "'w hub_world_scheme \<Rightarrow> 'b"
  assumes hub: "outside_hub f"
  shows "keeps f (handle_request env m)"
proof -
  note outside = outside_hubD [OF hub]
  have plain: "plain_branch env i raw = Some a \<Longrightarrow> keeps f a" for i raw a
    unfolding plain_branch_def h_memory_add_def h_memory_delete_def h_memory_graph_def h_memory_retention_def Let_def
    by (auto intro!: frame_intros outside hub split: if_splits)
  have d: "dict_branch env i d = Some a \<Longrightarrow> keeps f a" for i d a
    unfolding dict_branch_def h_set_profile_def h_set_preference_def h_memory_visibility_def h_memory_link_def
      h_memory_import_def h_set_focus_def h_add_task_def h_task_status_def h_task_blocker_def h_task_due_def
      h_set_domain_def Let_def
    by (auto intro!: frame_intros outside hub split: if_splits json.splits)
  have u: "keeps f (h_unknown v)" for v :: json
    by (simp add: h_unknown_def)
  show ?thesis
    unfolding handle_request_def
    by (auto intro!: frame_intros split: json.split option.split intro: plain d u)
qed

lemma yields_logged [yield_intros]: "yields P m \<Longrightarrow> yields P (logged_unless_failed env ty p m)"
  by (auto simp: yields_def logged_unless_failed_def act_bind_Inr)

lemma yields_handle_request:
  "yields reply_ok (handle_request env m :: ('w hub_world_scheme, reply) act)"
proof -
  note ok = reply_ok_def [of "(_, _) # _"]
  have keep: "yields P m \<Longrightarrow> yields P (act_bind m (\<lambda>r. act_bind (k r) (\<lambda>_. act_return r)))" for P and m :: "('w hub_world_scheme, reply) act" and k
    by (auto simp: yields_def act_bind_Inr)
  have ret: "yields reply_ok (h_memory_retention env raw :: ('w hub_world_scheme, reply) act)" for raw
    unfolding h_memory_retention_def Let_def by (rule keep) (rule yields_memory_replies)
  have imp: "yields reply_ok (h_memory_import env d :: ('w hub_world_scheme, reply) act)" for d
    unfolding h_memory_import_def
    by (auto split: json.split intro: keep [OF yields_memory_replies(10)] simp: ok dget_or_def dhas_def)
  have plain: "plain_branch env i raw = Some a \<Longrightarrow> yields reply_ok a" for i raw and a :: "('w hub_world_scheme, reply) act"
    unfolding plain_branch_def h_memory_add_def h_memory_delete_def h_memory_graph_def Let_def
    by (auto intro!: ret yield_intros split: if_splits)
  have d: "dict_branch env i d = Some a \<Longrightarrow> yields reply_ok a" for i d and a :: "('w hub_world_scheme, reply) act"
    unfolding dict_branch_def h_set_profile_def h_set_preference_def h_memory_visibility_def h_memory_link_def
      h_set_focus_def h_add_task_def h_task_status_def h_task_blocker_def h_task_due_def
      h_set_domain_def task_reply_def Let_def
    by (auto intro!: imp yield_intros simp: ok dget_or_def dhas_def split: if_splits)
  have u: "yields reply_ok (h_unknown v :: ('w hub_world_scheme, reply) act)" for v
    by (simp add: h_unknown_def reply_ok_def dget_or_def dhas_def)
  show ?thesis
    unfolding handle_request_def
    by (auto intro!: yield_intros split: json.split option.split intro: plain d u)
qed

end
