(* ===== verification/Message.thy ===== *)
theory Message
  imports HI_State Clock
begin

text \<open>
  Model of \<open>shared/validate_message.py\<close> with the contract it reads (\<open>shared/intent_schema.json\<close>),
  and of the message both bus back ends build (\<open>build_message\<close>, the response of \<open>send_response\<close>).
\<close>

section \<open>The contract\<close>

definition request_intents :: "string list" where
  "request_intents = [''hi_get_profile'', ''hi_get_intro'', ''hi_get_relationship'', ''hi_get_preferences'',
     ''hi_get_memory'', ''hi_memory_search'', ''hi_get_workflow'', ''hi_set_profile_field'',
     ''hi_set_preference'', ''hi_set_workflow_focus'', ''hi_memory_add'', ''hi_set_domain'']"

definition intent_enum :: "string list" where
  "intent_enum = request_intents @ map (\<lambda>i. i @ ''_response'') request_intents"

definition actors :: "string list" where
  "actors = [''Jarvis'', ''Kingofyadav'', ''root'']"

definition priorities :: "string list" where
  "priorities = [''low'', ''normal'', ''high'']"

definition required_fields :: "string list" where
  "required_fields = [''version'', ''intent'', ''source'', ''target'', ''payload'', ''timestamp'']"

definition allowed_fields :: "string list" where
  "allowed_fields = required_fields @ [''request_id'', ''priority'', ''meta'']"

section \<open>Validation\<close>

definition invalid :: "string \<Rightarrow> unit outcome" where
  "invalid s = Inl (ValidationError s)"

definition check :: "bool \<Rightarrow> string \<Rightarrow> unit outcome" where
  "check b s = (if b then Inr () else invalid s)"

fun check_all :: "unit outcome list \<Rightarrow> unit outcome" where
  "check_all [] = Inr ()"
| "check_all (c # cs) = and_then c (\<lambda>_. check_all cs)"

definition expect_str :: "string \<Rightarrow> obj \<Rightarrow> unit outcome" where
  "expect_str k m = check (is_str (jget m k)) (k @ '' must be str'')"

definition expect_dict :: "string \<Rightarrow> obj \<Rightarrow> unit outcome" where
  "expect_dict k m = check (is_obj (jget m k)) (k @ '' must be dict'')"

definition expect_enum :: "string \<Rightarrow> string list \<Rightarrow> obj \<Rightarrow> unit outcome" where
  "expect_enum k allowed m = check (jget m k \<in> JStr ` set allowed) (k @ '' must be one of the allowed values'')"

definition if_present :: "string \<Rightarrow> obj \<Rightarrow> unit outcome \<Rightarrow> unit outcome" where
  "if_present k m c = (if dhas m k then c else Inr ())"

definition payload_of :: "obj \<Rightarrow> obj" where
  "payload_of m = (case jget m ''payload'' of JObj p \<Rightarrow> p | _ \<Rightarrow> [])"

definition validate_dict :: "obj \<Rightarrow> unit outcome" where
  "validate_dict m = check_all
     (map (\<lambda>f. check (dhas m f) (''Missing required field: '' @ f)) required_fields @
      [check (set (dkeys m) \<subseteq> set allowed_fields) ''Unexpected top-level field(s)'',
       expect_str ''version'' m, expect_str ''intent'' m, expect_str ''source'' m, expect_str ''target'' m,
       expect_dict ''payload'' m, expect_str ''timestamp'' m,
       expect_enum ''source'' actors m, expect_enum ''target'' actors m, expect_enum ''intent'' intent_enum m,
       if_present ''priority'' m (and_then (expect_str ''priority'' m) (\<lambda>_. expect_enum ''priority'' priorities m)),
       if_present ''request_id'' m (expect_str ''request_id'' m),
       if_present ''meta'' m (expect_dict ''meta'' m),
       if_present ''text'' (payload_of m) (expect_str ''text'' (payload_of m)),
       if_present ''args'' (payload_of m) (expect_dict ''args'' (payload_of m))])"

text \<open>A message that is no dict fails at the first lookup or at \<open>keys()\<close>, with one error or another.\<close>

definition validate_message :: "json \<Rightarrow> obj outcome" where
  "validate_message v =
     (case v of
        JObj m \<Rightarrow> and_then (validate_dict m) (\<lambda>_. Inr m)
      | JArr xs \<Rightarrow> if set (map JStr required_fields) \<subseteq> set xs then Inl AttributeError
                  else Inl (ValidationError ''Missing required field'')
      | JStr s \<Rightarrow> if \<forall>f \<in> set required_fields. contains f s then Inl AttributeError
                  else Inl (ValidationError ''Missing required field'')
      | _ \<Rightarrow> Inl TypeError)"

section \<open>Building messages\<close>

record bus_env =
  bus_now :: int
  bus_now_iso :: string
  bus_uuid :: string

definition new_request_id :: "bus_env \<Rightarrow> string \<Rightarrow> string" where
  "new_request_id env p = p @ ''-'' @ take 12 (bus_uuid env)"

definition build_message ::
  "bus_env \<Rightarrow> string \<Rightarrow> string \<Rightarrow> string \<Rightarrow> obj \<Rightarrow> string \<Rightarrow> string option \<Rightarrow> obj option \<Rightarrow> obj outcome" where
  "build_message env actor intent target payload priority rid meta =
     validate_message (JObj
       [(''version'', JStr ''1.0''), (''intent'', JStr intent), (''source'', JStr actor),
        (''target'', JStr target), (''payload'', JObj payload), (''timestamp'', JStr (bus_now_iso env)),
        (''request_id'', JStr (case rid of Some r \<Rightarrow> if r = [] then new_request_id env (lower actor) else r
                               | None \<Rightarrow> new_request_id env (lower actor))),
        (''priority'', JStr priority), (''meta'', JObj (case meta of Some m \<Rightarrow> m | None \<Rightarrow> []))])"

text \<open>The request must have \<open>intent\<close>, \<open>source\<close> and \<open>request_id\<close>, else KeyError.\<close>

definition build_response :: "bus_env \<Rightarrow> string \<Rightarrow> obj \<Rightarrow> obj \<Rightarrow> string \<Rightarrow> obj option \<Rightarrow> obj outcome" where
  "build_response env actor req payload status meta =
     and_then (subscript req ''intent'') (\<lambda>i.
     and_then (subscript req ''source'') (\<lambda>src.
     and_then (subscript req ''request_id'') (\<lambda>rid.
       validate_message (JObj
         [(''version'', JStr ''1.0''), (''intent'', JStr (py_str i @ ''_response'')), (''source'', JStr actor),
          (''target'', src), (''payload'', JObj payload), (''timestamp'', JStr (bus_now_iso env)),
          (''request_id'', rid), (''priority'', dget_or req ''priority'' (JStr ''normal'')),
          (''meta'', JObj (dupdate [(''status'', JStr status), (''reply_to_intent'', i)]
             (case meta of Some m \<Rightarrow> m | None \<Rightarrow> [])))]))))"

section \<open>Lemmas\<close>

lemma check_Inr [simp]: "check b s = Inr () \<longleftrightarrow> b"
  by (simp add: check_def invalid_def)

lemma check_all_Inr: "check_all cs = Inr () \<longleftrightarrow> (\<forall>c \<in> set cs. c = Inr ())"
  by (induction cs) auto

lemma unit_outcome: "(r :: unit outcome) = Inr u \<longleftrightarrow> r = Inr ()"
  by simp

lemma expect_Inr [simp]:
  "expect_str k m = Inr () \<longleftrightarrow> is_str (jget m k)"
  "expect_dict k m = Inr () \<longleftrightarrow> is_obj (jget m k)"
  "expect_enum k as m = Inr () \<longleftrightarrow> jget m k \<in> JStr ` set as"
  "if_present k m c = Inr () \<longleftrightarrow> (dhas m k \<longrightarrow> c = Inr ())"
  by (simp_all add: expect_str_def expect_dict_def expect_enum_def if_present_def)

text \<open>What a valid message is, field by field.\<close>

definition valid_message :: "obj \<Rightarrow> bool" where
  "valid_message m \<longleftrightarrow>
     (\<forall>f \<in> set required_fields. dhas m f) \<and> set (dkeys m) \<subseteq> set allowed_fields \<and>
     is_str (jget m ''version'') \<and> is_str (jget m ''timestamp'') \<and> is_obj (jget m ''payload'') \<and>
     jget m ''intent'' \<in> JStr ` set intent_enum \<and> jget m ''source'' \<in> JStr ` set actors \<and>
     jget m ''target'' \<in> JStr ` set actors \<and>
     (dhas m ''priority'' \<longrightarrow> jget m ''priority'' \<in> JStr ` set priorities) \<and>
     (dhas m ''request_id'' \<longrightarrow> is_str (jget m ''request_id'')) \<and>
     (dhas m ''meta'' \<longrightarrow> is_obj (jget m ''meta'')) \<and>
     (dhas (payload_of m) ''text'' \<longrightarrow> is_str (jget (payload_of m) ''text'')) \<and>
     (dhas (payload_of m) ''args'' \<longrightarrow> is_obj (jget (payload_of m) ''args''))"

lemma validate_dict_iff: "validate_dict m = Inr () \<longleftrightarrow> valid_message m"
proof -
  have s: "v \<in> JStr ` X \<Longrightarrow> is_str v" for v X by auto
  have r: "(\<forall>c \<in> set (map (\<lambda>f. check (dhas m f) (msg f)) fs). c = Inr ()) \<longleftrightarrow> (\<forall>f \<in> set fs. dhas m f)" for msg fs
    by simp
  show ?thesis
    unfolding validate_dict_def check_all_Inr valid_message_def set_append ball_Un r
    using s by (simp del: set_map) blast
qed

lemma validate_message_iff: "validate_message v = Inr m \<longleftrightarrow> v = JObj m \<and> valid_message m"
  by (cases v) (auto simp: validate_message_def validate_dict_iff [symmetric])

end
