(* ===== verification/Bus_File.thy ===== *)
theory Bus_File
  imports Message
begin

text \<open>
  Model of \<open>shared/message_bus.py\<close>: the bus whose messages are files in four directories. A
  directory is a dict from names to files; a file has its parsed content (\<open>None\<close> when it is no
  JSON) and its modification time in microseconds. A rename keeps the time and replaces a file of the
  target name, as \<open>os.replace\<close> does. The log lines are left out.
\<close>

section \<open>Files and directories\<close>

datatype bus_dir = Requests | Responses | Processed | Deadletter

record bfile =
  body :: "json option"
  mtime :: int

type_synonym bus_fs = "bus_dir \<Rightarrow> bfile dict"
type_synonym bus_path = "bus_dir \<times> string"

definition empty_bus :: bus_fs where
  "empty_bus = (\<lambda>_. [])"

definition file_at :: "bus_path \<Rightarrow> bus_fs \<Rightarrow> bfile option" where
  "file_at p fs = dget (fs (fst p)) (snd p)"

definition put_file :: "bus_path \<Rightarrow> bfile \<Rightarrow> bus_fs \<Rightarrow> bus_fs" where
  "put_file p f fs = fs(fst p := dset (snd p) f (fs (fst p)))"

definition remove_file :: "bus_path \<Rightarrow> bus_fs \<Rightarrow> bus_fs" where
  "remove_file p fs = fs(fst p := ddel (snd p) (fs (fst p)))"

definition move_file :: "bus_path \<Rightarrow> bus_path \<Rightarrow> bus_fs \<Rightarrow> bus_fs option" where
  "move_file p q fs = map_option (\<lambda>f. put_file q f (remove_file p fs)) (file_at p fs)"

text \<open>\<open>Path.with_suffix\<close>\<close>

definition with_suffix :: "string \<Rightarrow> string \<Rightarrow> string" where
  "with_suffix suf n =
     (case rpartition_at ''.'' n of
        None \<Rightarrow> n @ suf
      | Some (a, b) \<Rightarrow> if a = [] \<or> b = [] then n @ suf else a @ suf)"

definition names_ending :: "string \<Rightarrow> bus_dir \<Rightarrow> bus_fs \<Rightarrow> string list" where
  "names_ending suf d fs = filter (\<lambda>n. endswith n suf) (dkeys (fs d))"

section \<open>Settings\<close>

text \<open>\<open>max(1, int(os.getenv(name, str(default))))\<close>, the default when that is no number\<close>

definition env_int :: "string option \<Rightarrow> int \<Rightarrow> int" where
  "env_int v d = (case v of None \<Rightarrow> max 1 d
     | Some s \<Rightarrow> (case int_of_str s of Some i \<Rightarrow> max 1 i | None \<Rightarrow> d))"

record bus_conf =
  request_ttl :: int
  stale_processing :: int
  response_ttl :: int
  dl_alert_interval :: int

definition bus_conf_of :: "(string \<Rightarrow> string option) \<Rightarrow> bus_conf" where
  "bus_conf_of env = \<lparr>request_ttl = env_int (env ''JARVIS_BUS_REQUEST_TTL'') 300,
     stale_processing = env_int (env ''JARVIS_BUS_STALE_PROCESSING'') 30,
     response_ttl = env_int (env ''JARVIS_BUS_RESPONSE_TTL'') 300,
     dl_alert_interval = env_int (env ''JARVIS_BUS_DL_ALERT_INTERVAL'') 300\<rparr>"

definition processed_keep :: nat where
  "processed_keep = 500"

definition secs :: "int \<Rightarrow> int" where
  "secs s = s * 1000000"

section \<open>Claiming, archiving, dead letters\<close>

definition claim_path :: "bus_path \<Rightarrow> (bus_fs, bus_path option) act" where
  "claim_path p = (\<lambda>fs.
     let q = (fst p, with_suffix ''.processing'' (snd p))
     in case move_file p q fs of None \<Rightarrow> (Inr None, fs) | Some fs' \<Rightarrow> (Inr (Some q), fs'))"

definition rotate_processed :: "bus_fs \<Rightarrow> bus_fs" where
  "rotate_processed fs =
     (let files = map fst (sort_by (\<lambda>p. mtime (snd p)) (fs Processed))
      in fold (\<lambda>n fs. remove_file (Processed, n) fs) (butlastn processed_keep files) fs)"

definition mark_processed :: "bus_path \<Rightarrow> (bus_fs, bus_path) act" where
  "mark_processed p = (\<lambda>fs.
     case move_file p (Processed, snd p) fs of
       None \<Rightarrow> (Inl FileNotFoundError, fs)
     | Some fs' \<Rightarrow> (Inr (Processed, snd p), rotate_processed fs'))"

definition move_to_deadletter :: "bus_path \<Rightarrow> (bus_fs, unit) act" where
  "move_to_deadletter p = (\<lambda>fs.
     case move_file p (Deadletter, snd p) fs of None \<Rightarrow> (Inr (), fs) | Some fs' \<Rightarrow> (Inr (), fs'))"

definition reap_one_processing :: "int \<Rightarrow> string \<Rightarrow> bus_fs \<Rightarrow> bus_fs" where
  "reap_one_processing cutoff n fs =
     (case file_at (Requests, n) fs of
        None \<Rightarrow> fs
      | Some f \<Rightarrow>
          if mtime f < cutoff
          then (case move_file (Requests, n) (Requests, with_suffix ''.json'' n) fs of
                  None \<Rightarrow> fs | Some fs' \<Rightarrow> fs')
          else fs)"

definition reap_stale_processing :: "bus_conf \<Rightarrow> bus_env \<Rightarrow> bus_fs \<Rightarrow> bus_fs" where
  "reap_stale_processing conf env fs =
     fold (reap_one_processing (bus_now env - secs (stale_processing conf)))
       (names_ending ''.processing'' Requests fs) fs"

text \<open>An error while archiving one response is logged and the next one is tried.\<close>

definition reap_one_response :: "int \<Rightarrow> string \<Rightarrow> nat \<times> bus_fs \<Rightarrow> nat \<times> bus_fs" where
  "reap_one_response cutoff n st =
     (case st of (k, fs) \<Rightarrow>
       (case file_at (Responses, n) fs of
          None \<Rightarrow> (k, fs)
        | Some f \<Rightarrow>
            if cutoff \<le> mtime f then (k, fs)
            else (case claim_path (Responses, n) fs of
                    (Inr (Some q), fs') \<Rightarrow>
                      (case mark_processed q fs' of
                         (Inr _, fs'') \<Rightarrow> (Suc k, fs'') | (Inl _, fs'') \<Rightarrow> (k, fs''))
                  | (_, fs') \<Rightarrow> (k, fs'))))"

definition reap_stale_responses :: "bus_conf \<Rightarrow> bus_env \<Rightarrow> bus_fs \<Rightarrow> nat \<times> bus_fs" where
  "reap_stale_responses conf env fs =
     fold (reap_one_response (bus_now env - secs (response_ttl conf))) (names_ending ''.json'' Responses fs) (0, fs)"

text \<open>Subtracting a naive time raises and counts as expired, like a time that does not parse.\<close>

definition is_request_expired :: "bus_conf \<Rightarrow> bus_env \<Rightarrow> obj \<Rightarrow> bool" where
  "is_request_expired conf env m =
     (case dget_or m ''timestamp'' (JStr []) of
        JStr ts \<Rightarrow>
          if ts = [] then True
          else (case fromisoformat ts of
                  None \<Rightarrow> True
                | Some t \<Rightarrow> if aware t then secs (request_ttl conf) < bus_now env - micros t else True)
      | _ \<Rightarrow> True)"

section \<open>Sending\<close>

definition write_message :: "bus_env \<Rightarrow> bus_path \<Rightarrow> obj \<Rightarrow> (bus_fs, unit) act" where
  "write_message env p m = act_modify (put_file p \<lparr>body = Some (JObj m), mtime = bus_now env\<rparr>)"

definition request_name :: "obj \<Rightarrow> string" where
  "request_name m = replace '':'' ''-'' (py_str (jget m ''timestamp'')) @ ''__'' @ py_str (jget m ''request_id'') @ ''.json''"

definition response_name :: "string \<Rightarrow> string" where
  "response_name rid = rid @ ''.json''"

definition send_request ::
  "bus_env \<Rightarrow> string \<Rightarrow> string \<Rightarrow> string \<Rightarrow> obj \<Rightarrow> string \<Rightarrow> obj option \<Rightarrow> (bus_fs, obj) act" where
  "send_request env actor intent target payload priority meta =
     act_bind (act_of (build_message env actor intent target payload priority None meta)) (\<lambda>m.
     act_bind (write_message env (Requests, request_name m) m) (\<lambda>_. act_return m))"

definition send_response ::
  "bus_env \<Rightarrow> string \<Rightarrow> obj \<Rightarrow> obj \<Rightarrow> string \<Rightarrow> obj option \<Rightarrow> (bus_fs, obj) act" where
  "send_response env actor req payload status meta =
     act_bind (act_of (build_response env actor req payload status meta)) (\<lambda>m.
     act_bind (write_message env (Responses, response_name (py_str (jget m ''request_id''))) m) (\<lambda>_. act_return m))"

section \<open>Receiving\<close>

definition read_message :: "bus_path \<Rightarrow> (bus_fs, obj) act" where
  "read_message p = (\<lambda>fs.
     (case file_at p fs of
        None \<Rightarrow> Inl FileNotFoundError
      | Some f \<Rightarrow> (case body f of None \<Rightarrow> Inl (ValueError []) | Some v \<Rightarrow> validate_message v), fs))"

text \<open>One file of the request directory: \<open>Some\<close> claimed path, or \<open>None\<close> when it is passed over.\<close>

definition take_request :: "bus_conf \<Rightarrow> bus_env \<Rightarrow> string \<Rightarrow> string \<Rightarrow> (bus_fs, bus_path option) act" where
  "take_request conf env actor n =
     act_catch
       (act_bind (read_message (Requests, n)) (\<lambda>m.
          if jget m ''target'' \<noteq> JStr actor then act_return None
          else if is_request_expired conf env m then
            act_bind (move_to_deadletter (Requests, n)) (\<lambda>_. act_return None)
          else claim_path (Requests, n)))
       (\<lambda>e. if e = FileNotFoundError then act_return None
            else act_bind (move_to_deadletter (Requests, n)) (\<lambda>_. act_return None))"

fun take_requests :: "bus_conf \<Rightarrow> bus_env \<Rightarrow> string \<Rightarrow> string list \<Rightarrow> (bus_fs, bus_path list) act" where
  "take_requests conf env actor [] = act_return []"
| "take_requests conf env actor (n # ns) =
     act_bind (take_request conf env actor n) (\<lambda>r.
     act_bind (take_requests conf env actor ns) (\<lambda>ps.
       act_return (case r of None \<Rightarrow> ps | Some p \<Rightarrow> p # ps)))"

definition list_requests_for_me :: "bus_conf \<Rightarrow> bus_env \<Rightarrow> string \<Rightarrow> (bus_fs, bus_path list) act" where
  "list_requests_for_me conf env actor =
     act_bind (act_modify (reap_stale_processing conf env)) (\<lambda>_.
     act_bind (act_modify (\<lambda>fs. snd (reap_stale_responses conf env fs))) (\<lambda>_.
     act_bind (act_get (\<lambda>fs. sort (names_ending ''.json'' Requests fs)))
       (take_requests conf env actor)))"

fun responses_among :: "string \<Rightarrow> string list \<Rightarrow> (bus_fs, bus_path list) act" where
  "responses_among actor [] = act_return []"
| "responses_among actor (n # ns) =
     act_bind (act_catch
       (act_bind (read_message (Responses, n)) (\<lambda>m.
          act_return (if jget m ''target'' = JStr actor then [(Responses, n)] else [])))
       (\<lambda>e. act_bind (move_to_deadletter (Responses, n)) (\<lambda>_. act_return []))) (\<lambda>ps.
     act_bind (responses_among actor ns) (\<lambda>qs. act_return (ps @ qs)))"

definition list_responses_for_me :: "string \<Rightarrow> (bus_fs, bus_path list) act" where
  "list_responses_for_me actor =
     act_bind (act_get (\<lambda>fs. sort (names_ending ''.json'' Responses fs))) (responses_among actor)"

text \<open>One round of \<open>wait_for_response\<close>: nothing there yet, or the answer the call returns.\<close>

datatype poll = Waiting | Answered "obj option"

definition poll_response :: "string \<Rightarrow> string \<Rightarrow> (bus_fs, poll) act" where
  "poll_response actor rid =
     act_bind (claim_path (Responses, response_name rid)) (\<lambda>c.
       case c of
         None \<Rightarrow> act_return Waiting
       | Some p \<Rightarrow>
           act_catch
             (act_bind (read_message p) (\<lambda>m.
                if jget m ''target'' \<noteq> JStr actor
                then act_bind (move_to_deadletter p) (\<lambda>_. act_return (Answered None))
                else act_bind (mark_processed p) (\<lambda>_. act_return (Answered (Some m)))))
             (\<lambda>_. act_bind (move_to_deadletter p) (\<lambda>_. act_return (Answered None))))"

text \<open>
  The whole wait: between two rounds the other processes take a step; the list of their steps is as
  long as there are rounds before the deadline.
\<close>

fun wait_for_response :: "string \<Rightarrow> string \<Rightarrow> (bus_fs \<Rightarrow> bus_fs) list \<Rightarrow> (bus_fs, obj option) act" where
  "wait_for_response actor rid [] = act_return None"
| "wait_for_response actor rid (step # steps) =
     act_bind (poll_response actor rid) (\<lambda>r.
       case r of
         Answered x \<Rightarrow> act_return x
       | Waiting \<Rightarrow> act_bind (act_modify step) (\<lambda>_. wait_for_response actor rid steps))"

text \<open>\<open>alert_deadletter\<close>: the number of dead letters; at most one alert per interval.\<close>

record alert_state =
  last_dl_alert :: int
  activity :: "(nat \<times> string list) list"

definition alert_deadletter :: "bus_conf \<Rightarrow> bus_env \<Rightarrow> bus_fs \<Rightarrow> alert_state \<Rightarrow> nat \<times> alert_state" where
  "alert_deadletter conf env fs st =
     (let items = filter (\<lambda>n. \<not> startswith n ''.'') (dkeys (fs Deadletter))
      in if items = [] then (0, st)
         else if bus_now env - last_dl_alert st < secs (dl_alert_interval conf) then (length items, st)
         else (length items, st\<lparr>last_dl_alert := bus_now env,
                 activity := activity st @ [(length items, take 5 items)]\<rparr>))"

section \<open>Lemmas: files\<close>

lemma file_at_put [simp, bus_simps]:
  "file_at q (put_file p f fs) = (if q = p then Some f else file_at q fs)"
  by (auto simp: file_at_def put_file_def prod_eq_iff)

lemma file_at_remove [simp, bus_simps]:
  "file_at q (remove_file p fs) = (if q = p then None else file_at q fs)"
  by (auto simp: file_at_def remove_file_def prod_eq_iff)

lemma move_file_Some:
  "move_file p q fs = Some fs' \<longleftrightarrow> (\<exists>f. file_at p fs = Some f \<and> fs' = put_file q f (remove_file p fs))"
  by (auto simp: move_file_def)

lemma move_file_None: "move_file p q fs = None \<longleftrightarrow> file_at p fs = None"
  by (simp add: move_file_def)

lemma file_at_rotate [simp, bus_simps]:
  "fst p \<noteq> Processed \<Longrightarrow> file_at p (rotate_processed fs) = file_at p fs"
proof -
  assume p: "fst p \<noteq> Processed"
  have "file_at p (fold (\<lambda>n fs. remove_file (Processed, n) fs) ns fs) = file_at p fs" for ns fs
    using p by (induction ns arbitrary: fs) auto
  then show ?thesis by (simp add: rotate_processed_def Let_def)
qed

lemma mark_processed_other:
  assumes "mark_processed p fs = (r, fs')" "fst q \<noteq> Processed" "q \<noteq> p"
  shows "file_at q fs' = file_at q fs"
  using assms by (cases q) (auto simp: mark_processed_def move_file_Some split: option.splits)

text \<open>A message written under the response name of its request is what the requester's poll returns.\<close>

lemma poll_response_stored:
  assumes "file_at (Responses, response_name rid) fs = Some f" "body f = Some (JObj m)" "valid_message m"
    "jget m ''target'' = JStr actor"
  shows "\<exists>fs'. poll_response actor rid fs = (Inr (Answered (Some m)), fs')"
proof -
  let ?q = "(Responses, with_suffix ''.processing'' (response_name rid))"
  let ?fs = "put_file ?q f (remove_file (Responses, response_name rid) fs)"
  have claim: "claim_path (Responses, response_name rid) fs = (Inr (Some ?q), ?fs)"
    using assms(1) by (simp add: claim_path_def move_file_def Let_def)
  have "read_message ?q ?fs = (Inr m, ?fs)"
    using assms(2,3) by (simp add: read_message_def validate_message_iff)
  moreover obtain fs' where "mark_processed ?q ?fs = (Inr (Processed, snd ?q), fs')"
    by (simp add: mark_processed_def move_file_def)
  ultimately show ?thesis
    using assms(4) by (simp add: poll_response_def act_bind_app claim act_catch_def)
qed

lemma poll_response_waiting:
  "file_at (Responses, response_name rid) fs = None \<Longrightarrow> poll_response actor rid fs = (Inr Waiting, fs)"
  by (simp add: poll_response_def act_bind_app claim_path_def move_file_def)

section \<open>Lemmas: claiming\<close>

text \<open>\<open>stem_ok a\<close>: the suffix of \<open>a.json\<close> and \<open>a.processing\<close> can be exchanged without a clash.\<close>

definition stem_ok :: "string \<Rightarrow> bool" where
  "stem_ok a \<longleftrightarrow> a \<noteq> [] \<and> a \<noteq> ''.json'' \<and> a \<noteq> ''.processing''"

lemma with_suffix_json: "with_suffix suf (a @ ''.json'') = (if a = [] then ''.json'' else a) @ suf"
proof -
  have "rpartition_at ''.'' (a @ ''.json'') = Some (a, ''json'')"
    by (simp add: rpartition_at_def startswith_def)
  then show ?thesis by (simp add: with_suffix_def)
qed

lemma with_suffix_processing:
  "with_suffix suf (a @ ''.processing'') = (if a = [] then ''.processing'' else a) @ suf"
proof -
  have "rpartition_at ''.'' (a @ ''.processing'') = Some (a, ''processing'')"
    by (simp add: rpartition_at_def startswith_def)
  then show ?thesis by (simp add: with_suffix_def)
qed

lemma json_not_processing [simp]: "a @ ''.json'' \<noteq> b @ ''.processing''" "a @ ''.processing'' \<noteq> b @ ''.json''"
proof -
  have "last (a @ ''.json'') \<noteq> last (b @ ''.processing'')" "last (a @ ''.processing'') \<noteq> last (b @ ''.json'')" for a b
    by simp_all
  then show "a @ ''.json'' \<noteq> b @ ''.processing''" "a @ ''.processing'' \<noteq> b @ ''.json''" by metis+
qed

lemma in_names: "n \<in> set (names_ending suf d fs) \<longleftrightarrow> file_at (d, n) fs \<noteq> None \<and> (\<exists>a. n = a @ suf)"
  by (auto simp: names_ending_def file_at_def endswith_iff map_of_eq_None_iff)

text \<open>What one step of the three loops leaves of a file of another name.\<close>

lemma take_request_result:
  "\<exists>r. fst (take_request conf env actor n fs) = Inr r"
  by (auto simp: take_request_def act_catch_def act_bind_app read_message_def move_to_deadletter_def claim_path_def Let_def
      split: option.splits sum.splits prod.splits)

lemma take_request_frame:
  assumes "q \<noteq> (Requests, n)" "q \<noteq> (Requests, with_suffix ''.processing'' n)" "fst q = Requests"
  shows "file_at q (snd (take_request conf env actor n fs)) = file_at q fs"
proof -
  have "q \<noteq> (Deadletter, n)" using assms(3) by auto
  then show ?thesis
    using assms(1,2)
    by (auto simp: take_request_def act_catch_def act_bind_app read_message_def move_to_deadletter_def claim_path_def
        Let_def move_file_def split: option.splits sum.splits prod.splits)
qed

lemma take_request_missing:
  "file_at (Requests, n) fs = None \<Longrightarrow> take_request conf env actor n fs = (Inr None, fs)"
  by (simp add: take_request_def act_catch_def act_bind_app read_message_def)

lemma take_request_claims:
  assumes "file_at (Requests, n) fs = Some f" "body f = Some (JObj m)" "valid_message m"
    "jget m ''target'' = JStr actor" "\<not> is_request_expired conf env m"
  shows "take_request conf env actor n fs =
           (Inr (Some (Requests, with_suffix ''.processing'' n)),
            put_file (Requests, with_suffix ''.processing'' n) f (remove_file (Requests, n) fs))"
  using assms(1,2,4,5) validate_message_iff [of "JObj m" m] assms(3)
  by (simp add: take_request_def act_catch_def act_bind_app read_message_def claim_path_def move_file_def Let_def)


lemma take_requests_app:
  "take_requests conf env actor (n # ns) fs =
     (let (r, fs1) = take_request conf env actor n fs; (rs, fs2) = take_requests conf env actor ns fs1
      in (case r of Inl e \<Rightarrow> (Inl e, fs1)
          | Inr x \<Rightarrow> (and_then rs (\<lambda>ps. Inr (case x of None \<Rightarrow> ps | Some p \<Rightarrow> p # ps)), fs2)))"
  by (simp add: act_bind_app Let_def split: prod.split sum.split)

lemma take_requests_result: "\<exists>ps. fst (take_requests conf env actor ns fs) = Inr ps"
proof (induction ns arbitrary: fs)
  case (Cons n ns)
  obtain r fs1 where r: "take_request conf env actor n fs = (Inr r, fs1)"
    using take_request_result by (metis prod.collapse)
  show ?case using Cons [of fs1] by (auto simp: take_requests_app r Let_def simp del: take_requests.simps split: prod.split)
qed simp

lemma take_requests_snd:
  "snd (take_requests conf env actor (n # ns) fs) =
     snd (take_requests conf env actor ns (snd (take_request conf env actor n fs)))"
proof -
  obtain r fs1 where r: "take_request conf env actor n fs = (Inr r, fs1)"
    using take_request_result by (metis prod.collapse)
  show ?thesis by (simp add: take_requests_app r Let_def del: take_requests.simps split: prod.split)
qed

lemma take_requests_frame:
  assumes "fst q = Requests" "\<forall>n \<in> set ns. q \<noteq> (Requests, n) \<and> q \<noteq> (Requests, with_suffix ''.processing'' n)"
  shows "file_at q (snd (take_requests conf env actor ns fs)) = file_at q fs"
  using assms(2)
proof (induction ns arbitrary: fs)
  case (Cons n ns)
  obtain r fs1 where r: "take_request conf env actor n fs = (Inr r, fs1)"
    using take_request_result by (metis prod.collapse)
  have "file_at q fs1 = file_at q fs"
    using take_request_frame [of q n conf env actor fs] Cons.prems assms(1) r by simp
  then show ?case using Cons.IH [of fs1] Cons.prems by (auto simp: take_requests_app r Let_def simp del: take_requests.simps split: prod.split)
qed simp

text \<open>A file whose name is listed, and the claim that becomes of it.\<close>

lemma listed_file_claimed:
  assumes f: "body f = Some (JObj m)" "valid_message m" "jget m ''target'' = JStr actor"
      "\<not> is_request_expired conf env m"
    and a: "stem_ok a" and ns: "\<forall>n \<in> set ns. endswith n ''.json''"
    and here: "(file_at (Requests, a @ ''.json'') fs = Some f \<and> a @ ''.json'' \<in> set ns)"
  shows "\<exists>ps fs'. take_requests conf env actor ns fs = (Inr ps, fs')
           \<and> (Requests, a @ ''.processing'') \<in> set ps \<and> file_at (Requests, a @ ''.processing'') fs' = Some f
           \<and> file_at (Requests, a @ ''.json'') fs' = None"
proof -
  let ?n = "a @ ''.json''" and ?c = "a @ ''.processing''"
  have suf: "with_suffix ''.processing'' ?n = ?c" using a by (simp add: with_suffix_json stem_ok_def)
  have other: "endswith n ''.json'' \<Longrightarrow> n \<noteq> ?n \<Longrightarrow> with_suffix ''.processing'' n \<noteq> ?c \<and> with_suffix ''.processing'' n \<noteq> ?n \<and> n \<noteq> ?c" for n
    using a by (auto simp: endswith_iff with_suffix_json stem_ok_def split: if_splits)
  have after: "file_at (Requests, ?c) (snd (take_requests conf env actor ns fs)) = Some f
      \<and> file_at (Requests, ?n) (snd (take_requests conf env actor ns fs)) = None"
    if "file_at (Requests, ?c) fs = Some f" "file_at (Requests, ?n) fs = None" "\<forall>n \<in> set ns. endswith n ''.json''" for ns fs
    using that
  proof (induction ns arbitrary: fs)
    case (Cons n ns)
    show ?case
    proof (cases "n = ?n")
      case True
      then show ?thesis using Cons take_request_missing [of n fs conf env actor]
        by (simp add: take_requests_snd del: take_requests.simps)
    next
      case False
      obtain r fs1 where r: "take_request conf env actor n fs = (Inr r, fs1)"
        using take_request_result by (metis prod.collapse)
      have "file_at (Requests, x) fs1 = file_at (Requests, x) fs" if "x = ?c \<or> x = ?n" for x
        using take_request_frame [of "(Requests, x)" n conf env actor fs] other [of n] Cons.prems False r that by auto
      then show ?thesis using Cons by (simp add: take_requests_snd r del: take_requests.simps)
    qed
  qed simp
  from ns here show ?thesis
  proof (induction ns arbitrary: fs)
    case (Cons n ns)
    show ?case
    proof (cases "n = ?n")
      case True
      let ?fs1 = "put_file (Requests, ?c) f (remove_file (Requests, ?n) fs)"
      have r: "take_request conf env actor n fs = (Inr (Some (Requests, ?c)), ?fs1)"
        using take_request_claims [OF _ f, of n fs] Cons.prems True suf by simp
      obtain ps where ps: "fst (take_requests conf env actor ns ?fs1) = Inr ps" using take_requests_result by blast
      then show ?thesis
        using after [of ?fs1 ns] Cons.prems by (cases "take_requests conf env actor ns ?fs1") (simp add: take_requests_app r del: take_requests.simps)
    next
      case False
      obtain r fs1 where r: "take_request conf env actor n fs = (Inr r, fs1)"
        using take_request_result by (metis prod.collapse)
      have "file_at (Requests, ?n) fs1 = Some f"
        using take_request_frame [of "(Requests, ?n)" n conf env actor fs] other [of n] Cons.prems False r by auto
      then show ?thesis
        using Cons.IH [of fs1] Cons.prems False by (auto simp: take_requests_app r Let_def simp del: take_requests.simps split: option.split)
    qed
  qed simp
qed


lemma reap_one_response_frame:
  "fst q = Requests \<Longrightarrow> file_at q (snd (reap_one_response cutoff n st)) = file_at q (snd st)"
proof -
  assume q: "fst q = Requests"
  then have "q \<noteq> (Responses, x)" "q \<noteq> (Processed, x)" for x by auto
  then show ?thesis using q
    by (cases st) (auto simp: reap_one_response_def claim_path_def mark_processed_def move_file_def Let_def split: option.split)
qed

lemma reap_stale_responses_frame:
  assumes "fst q = Requests"
  shows "file_at q (snd (reap_stale_responses conf env fs)) = file_at q fs"
proof -
  have "file_at q (snd (fold (reap_one_response cutoff) ns st)) = file_at q (snd st)" for cutoff ns st
    using assms by (induction ns arbitrary: st) (simp_all add: reap_one_response_frame)
  from this [where st = "(0, fs)"] show ?thesis unfolding reap_stale_responses_def by simp
qed

lemma reap_one_processing_frame:
  "q \<noteq> (Requests, n) \<Longrightarrow> q \<noteq> (Requests, with_suffix ''.json'' n) \<Longrightarrow>
     file_at q (reap_one_processing cutoff n fs) = file_at q fs"
  by (auto simp: reap_one_processing_def move_file_def split: option.split)

text \<open>No claim of the name there: the request stays. A stale claim: it becomes the request again.\<close>

lemma reap_stale_processing_request:
  assumes a: "stem_ok a"
  shows "file_at (Requests, a @ ''.processing'') fs = None \<Longrightarrow>
      file_at (Requests, a @ ''.json'') (reap_stale_processing conf env fs) = file_at (Requests, a @ ''.json'') fs"
    and "file_at (Requests, a @ ''.processing'') fs = Some f \<Longrightarrow> mtime f < bus_now env - secs (stale_processing conf) \<Longrightarrow>
      file_at (Requests, a @ ''.json'') (reap_stale_processing conf env fs) = Some f"
proof -
  let ?n = "a @ ''.json''" and ?c = "a @ ''.processing''"
  have suf: "with_suffix ''.json'' ?c = ?n" using a by (simp add: with_suffix_processing stem_ok_def)
  have other: "endswith n ''.processing'' \<Longrightarrow> n \<noteq> ?c \<Longrightarrow> with_suffix ''.json'' n \<noteq> ?n \<and> with_suffix ''.json'' n \<noteq> ?c \<and> n \<noteq> ?n" for n
    using a by (auto simp: endswith_iff with_suffix_processing stem_ok_def split: if_splits)
  have keep: "file_at (Requests, ?n) (fold (reap_one_processing cutoff) ns fs) = file_at (Requests, ?n) fs"
    if "file_at (Requests, ?c) fs = None" "\<forall>n \<in> set ns. endswith n ''.processing''" for cutoff ns fs
    using that
  proof (induction ns arbitrary: fs)
    case (Cons n ns)
    show ?case
    proof (cases "n = ?c")
      case True
      then show ?thesis using Cons by (simp add: reap_one_processing_def)
    next
      case False
      then have "file_at (Requests, x) (reap_one_processing cutoff n fs) = file_at (Requests, x) fs" if "x = ?n \<or> x = ?c" for x
        using reap_one_processing_frame [of "(Requests, x)" n cutoff fs] other [of n] Cons.prems that by auto
      then show ?thesis using Cons by simp
    qed
  qed simp
  have again: "file_at (Requests, ?n) (fold (reap_one_processing cutoff) ns fs) = Some f"
    if "file_at (Requests, ?c) fs = Some f" "mtime f < cutoff" "?c \<in> set ns" "\<forall>n \<in> set ns. endswith n ''.processing''" for cutoff ns fs
    using that(1,3,4)
  proof (induction ns arbitrary: fs)
    case (Cons n ns)
    show ?case
    proof (cases "n = ?c")
      case True
      have "reap_one_processing cutoff n fs = put_file (Requests, ?n) f (remove_file (Requests, ?c) fs)"
        using Cons.prems(1) that(2) suf True by (simp add: reap_one_processing_def move_file_def)
      then show ?thesis using keep [of "put_file (Requests, ?n) f (remove_file (Requests, ?c) fs)" ns cutoff] Cons.prems(3) by simp
    next
      case False
      then have "file_at (Requests, ?c) (reap_one_processing cutoff n fs) = Some f"
        using reap_one_processing_frame [of "(Requests, ?c)" n cutoff fs] other [of n] Cons.prems by auto
      then show ?thesis using Cons False by simp
    qed
  qed simp
  have names: "\<forall>n \<in> set (names_ending ''.processing'' Requests fs). endswith n ''.processing''"
    by (simp add: names_ending_def)
  show "file_at (Requests, ?c) fs = None \<Longrightarrow>
      file_at (Requests, ?n) (reap_stale_processing conf env fs) = file_at (Requests, ?n) fs"
    unfolding reap_stale_processing_def by (rule keep [OF _ names])
  assume f: "file_at (Requests, ?c) fs = Some f" "mtime f < bus_now env - secs (stale_processing conf)"
  then have "?c \<in> set (names_ending ''.processing'' Requests fs)" unfolding in_names by auto
  with f show "file_at (Requests, ?n) (reap_stale_processing conf env fs) = Some f"
    unfolding reap_stale_processing_def by (intro again [OF _ _ _ names])
qed

lemma list_requests_claims:
  assumes f: "body f = Some (JObj m)" "valid_message m" "jget m ''target'' = JStr actor"
      "\<not> is_request_expired conf env m" and a: "stem_ok a"
    and here: "file_at (Requests, a @ ''.json'') (reap_stale_processing conf env fs) = Some f"
  shows "\<exists>ps fs'. list_requests_for_me conf env actor fs = (Inr ps, fs')
           \<and> (Requests, a @ ''.processing'') \<in> set ps \<and> file_at (Requests, a @ ''.processing'') fs' = Some f
           \<and> file_at (Requests, a @ ''.json'') fs' = None"
proof -
  let ?fs = "snd (reap_stale_responses conf env (reap_stale_processing conf env fs))"
  let ?ns = "sort (names_ending ''.json'' Requests ?fs)"
  have at: "file_at (Requests, a @ ''.json'') ?fs = Some f" using here by (simp add: reap_stale_responses_frame)
  then have "a @ ''.json'' \<in> set (names_ending ''.json'' Requests ?fs)" unfolding in_names by auto
  moreover have "\<forall>n \<in> set ?ns. endswith n ''.json''" by (simp add: names_ending_def)
  ultimately show ?thesis
    using listed_file_claimed [OF f a, of ?ns ?fs] at
    by (simp add: list_requests_for_me_def act_bind_app)
qed


section \<open>Properties\<close>

definition request_stem :: "obj \<Rightarrow> string" where
  "request_stem m = replace '':'' ''-'' (py_str (jget m ''timestamp'')) @ ''__'' @ py_str (jget m ''request_id'')"

lemma request_stem: "request_name m = request_stem m @ ''.json''" "stem_ok (request_stem m)"
proof -
  show "request_name m = request_stem m @ ''.json''" by (simp add: request_name_def request_stem_def)
  have "CHR ''_'' \<in> set (request_stem m)" by (simp add: request_stem_def)
  then show "stem_ok (request_stem m)" by (auto simp: stem_ok_def)
qed

lemma build_message_Inr:
  assumes "build_message env actor intent target payload priority rid meta = Inr m"
  shows "valid_message m" "jget m ''target'' = JStr target" "jget m ''timestamp'' = JStr (bus_now_iso env)"
    "jget m ''payload'' = JObj payload" "jget m ''intent'' = JStr intent" "jget m ''source'' = JStr actor"
  using assms by (auto simp: build_message_def validate_message_iff dget_or_def)

lemma not_expired:
  assumes "jget m ''timestamp'' = JStr ts" "fromisoformat ts = Some t" "aware t"
    "bus_now env - micros t \<le> secs (request_ttl conf)"
  shows "\<not> is_request_expired conf env m"
proof -
  have "fromisoformat [] = None" by code_simp
  then have "ts \<noteq> []" using assms(2) by auto
  moreover have "dget_or m ''timestamp'' (JStr []) = JStr ts"
    using assms(1) by (auto simp: dget_or_def split: option.splits)
  ultimately show ?thesis using assms by (simp add: is_request_expired_def)
qed

text \<open>C19: a request sent on the file bus reaches its target. Within the time to live, the target's next listing
  claims it, and the claimed file reads as the message that was sent, whatever else is on the bus.\<close>

theorem sent_request_received:
  assumes send: "send_request env actor intent target payload priority meta fs = (Inr m, fs1)"
    and unclaimed: "file_at (Requests, request_stem m @ ''.processing'') fs = None"
    and clock: "fromisoformat (bus_now_iso env) = Some t" "aware t" "micros t = bus_now env"
    and fresh: "bus_now env' - bus_now env \<le> secs (request_ttl conf)"
  shows "\<exists>ps fs2. list_requests_for_me conf env' target fs1 = (Inr ps, fs2)
           \<and> (Requests, request_stem m @ ''.processing'') \<in> set ps
           \<and> fst (read_message (Requests, request_stem m @ ''.processing'') fs2) = Inr m
           \<and> file_at (Requests, request_name m) fs2 = None"
proof -
  let ?f = "\<lparr>body = Some (JObj m), mtime = bus_now env\<rparr>"
  have m: "build_message env actor intent target payload priority None meta = Inr m"
    and fs1: "fs1 = put_file (Requests, request_name m) ?f fs"
    using send by (auto simp: send_request_def act_bind_Inr write_message_def)
  note built = build_message_Inr [OF m]
  have live: "\<not> is_request_expired conf env' m"
    using not_expired [OF built(3) clock(1,2)] clock(3) fresh by simp
  have un: "file_at (Requests, request_stem m @ ''.processing'') fs1 = None"
    using unclaimed by (simp add: fs1 request_stem)
  have "file_at (Requests, request_stem m @ ''.json'') fs1 = Some ?f"
    by (simp add: fs1 request_stem)
  then have "file_at (Requests, request_stem m @ ''.json'') (reap_stale_processing conf env' fs1) = Some ?f"
    using reap_stale_processing_request(1) [OF request_stem(2) un, of conf env'] by simp
  from list_requests_claims [OF _ built(1,2) live request_stem(2) this]
  show ?thesis using built(1) by (auto simp: read_message_def validate_message_iff request_stem(1))
qed

text \<open>A request older than the stale limit is claimed twice. The claim keeps the file's modification time, so
  the next listing takes the fresh claim for a stale one, puts it back and claims it again.\<close>

theorem old_request_claimed_twice:
  assumes f: "file_at (Requests, a @ ''.json'') fs = Some f" "body f = Some (JObj m)" "valid_message m"
      "jget m ''target'' = JStr actor" "stem_ok a"
    and unclaimed: "file_at (Requests, a @ ''.processing'') fs = None"
    and old: "mtime f < bus_now env - secs (stale_processing conf)" "bus_now env \<le> bus_now env'"
    and live: "\<not> is_request_expired conf env m" "\<not> is_request_expired conf env' m"
  shows "\<exists>ps ps' fs1 fs2. list_requests_for_me conf env actor fs = (Inr ps, fs1)
           \<and> list_requests_for_me conf env' actor fs1 = (Inr ps', fs2)
           \<and> (Requests, a @ ''.processing'') \<in> set ps \<and> (Requests, a @ ''.processing'') \<in> set ps'"
proof -
  have "file_at (Requests, a @ ''.json'') (reap_stale_processing conf env fs) = Some f"
    using reap_stale_processing_request(1) [OF f(5) unclaimed] f(1) by simp
  from list_requests_claims [OF f(2-4) live(1) f(5) this]
  obtain ps fs1 where one: "list_requests_for_me conf env actor fs = (Inr ps, fs1)"
    "(Requests, a @ ''.processing'') \<in> set ps" "file_at (Requests, a @ ''.processing'') fs1 = Some f" by blast
  have "mtime f < bus_now env' - secs (stale_processing conf)" using old by simp
  from reap_stale_processing_request(2) [OF f(5) one(3) this]
  have "file_at (Requests, a @ ''.json'') (reap_stale_processing conf env' fs1) = Some f" .
  from list_requests_claims [OF f(2-4) live(2) f(5) this] one show ?thesis by blast
qed


definition epoch_env :: "int \<Rightarrow> bus_env" where
  "epoch_env t = \<lparr>bus_now = t, bus_now_iso = ''1970-01-01T00:00:00+00:00'', bus_uuid = ''0a1b''\<rparr>"

definition default_conf :: bus_conf where
  "default_conf = bus_conf_of (\<lambda>_. None)"

definition intro_message :: obj where
  "intro_message =
     [(''version'', JStr ''1.0''), (''intent'', JStr ''hi_get_intro''), (''source'', JStr ''Jarvis''),
      (''target'', JStr ''Kingofyadav''), (''payload'', JObj []), (''timestamp'', JStr ''1970-01-01T00:00:00+00:00''),
      (''request_id'', JStr ''jarvis-0a1b''), (''priority'', JStr ''normal''), (''meta'', JObj [])]"

lemma intro_message_valid: "valid_message intro_message"
  by (simp add: valid_message_def intro_message_def required_fields_def allowed_fields_def dhas_def dget_or_def
    payload_of_def actors_def priorities_def intent_enum_def request_intents_def)

lemma intro_message_built:
  "build_message (epoch_env 0) ''Jarvis'' ''hi_get_intro'' ''Kingofyadav'' [] ''normal'' None None = Inr intro_message"
proof -
  have "lower ''Jarvis'' = ''jarvis''" by code_simp
  then have "build_message (epoch_env 0) ''Jarvis'' ''hi_get_intro'' ''Kingofyadav'' [] ''normal'' None None = validate_message (JObj intro_message)"
    by (simp add: build_message_def epoch_env_def new_request_id_def intro_message_def)
  also have "\<dots> = Inr intro_message" using intro_message_valid by (simp add: validate_message_iff)
  finally show ?thesis .
qed

lemma intro_message_sent:
  "send_request (epoch_env 0) ''Jarvis'' ''hi_get_intro'' ''Kingofyadav'' [] ''normal'' None fs =
     (Inr intro_message, put_file (Requests, request_name intro_message) \<lparr>body = Some (JObj intro_message), mtime = 0\<rparr> fs)"
  by (simp add: send_request_def act_bind_app write_message_def intro_message_built) (simp add: epoch_env_def)

lemma default_conf: "secs (request_ttl default_conf) = 300000000" "secs (stale_processing default_conf) = 30000000"
  by (simp_all add: default_conf_def bus_conf_of_def env_int_def secs_def)

theorem sent_request_received_witness:
  "\<exists>ps fs2. list_requests_for_me default_conf (epoch_env 5000000) ''Kingofyadav''
       (snd (send_request (epoch_env 0) ''Jarvis'' ''hi_get_intro'' ''Kingofyadav'' [] ''normal'' None empty_bus)) = (Inr ps, fs2)
     \<and> (Requests, request_stem intro_message @ ''.processing'') \<in> set ps"
proof -
  have "file_at (Requests, request_stem intro_message @ ''.processing'') empty_bus = None"
    by (simp add: file_at_def empty_bus_def)
  from sent_request_received [OF intro_message_sent this, of "\<lparr>micros = 0, aware = True\<rparr>" "epoch_env 5000000" default_conf]
  show ?thesis using fromisoformat_epoch by (auto simp: epoch_env_def default_conf intro_message_sent [unfolded epoch_env_def])
qed

theorem old_request_claimed_twice_witness:
  "\<exists>ps ps' fs1 fs2. list_requests_for_me default_conf (epoch_env 60000000) ''Kingofyadav''
       (put_file (Requests, ''r.json'') \<lparr>body = Some (JObj intro_message), mtime = 0\<rparr> empty_bus) = (Inr ps, fs1)
     \<and> list_requests_for_me default_conf (epoch_env 61000000) ''Kingofyadav'' fs1 = (Inr ps', fs2)
     \<and> (Requests, ''r.processing'') \<in> set ps \<and> (Requests, ''r.processing'') \<in> set ps'"
proof -
  let ?f = "\<lparr>body = Some (JObj intro_message), mtime = 0\<rparr>"
  have live: "\<not> is_request_expired default_conf (epoch_env t) intro_message" if "t \<le> 300000000" for t
    by (rule not_expired [OF _ fromisoformat_epoch])
      (use that in \<open>simp_all add: intro_message_def dget_or_def epoch_env_def default_conf\<close>)
  show ?thesis
    using old_request_claimed_twice [of "''r''" "put_file (Requests, ''r.json'') ?f empty_bus" ?f intro_message "''Kingofyadav''"
        "epoch_env 60000000" default_conf "epoch_env 61000000"] intro_message_valid live [of 60000000] live [of 61000000]
    by (simp add: epoch_env_def default_conf stem_ok_def intro_message_def dget_or_def file_at_def put_file_def empty_bus_def)
qed

end
