(* ===== verification/Bus_Sqlite.thy ===== *)
theory Bus_Sqlite
  imports Bus_File
begin

text \<open>
  Model of \<open>shared/bus_db.py\<close>: the bus on one SQLite table. The table is the list of its rows in
  insertion order; \<open>request_id\<close> is unique, so INSERT raises on a known identifier and INSERT OR
  REPLACE drops the old row first. Each method runs in one transaction.
\<close>

section \<open>The table\<close>

datatype row_status = SPending | SProcessing | SResponse | SProcessed | SDeadletter

record bus_row =
  br_id :: string
  br_intent :: string
  br_source :: string
  br_target :: string
  br_priority :: string
  br_status :: row_status
  br_created :: int
  br_updated :: int
  br_reason :: string
  br_msg :: obj

type_synonym bus_table = "bus_row list"

definition message_row :: "bus_env \<Rightarrow> row_status \<Rightarrow> obj \<Rightarrow> bus_row" where
  "message_row env st m = \<lparr>
     br_id = py_str (jget m ''request_id''), br_intent = py_str (jget m ''intent''),
     br_source = py_str (jget m ''source''), br_target = py_str (jget m ''target''),
     br_priority = py_str (dget_or m ''priority'' (JStr ''normal'')), br_status = st,
     br_created = bus_now env, br_updated = bus_now env, br_reason = [], br_msg = m\<rparr>"

definition db_insert :: "bus_row \<Rightarrow> (bus_table, unit) act" where
  "db_insert r = (\<lambda>t. if \<exists>x \<in> set t. br_id x = br_id r then (Inl IntegrityError, t) else (Inr (), t @ [r]))"

definition db_replace :: "bus_row \<Rightarrow> (bus_table, unit) act" where
  "db_replace r = act_modify (\<lambda>t. filter (\<lambda>x. br_id x \<noteq> br_id r) t @ [r])"

definition db_update :: "(bus_row \<Rightarrow> bool) \<Rightarrow> (bus_row \<Rightarrow> bus_row) \<Rightarrow> bus_table \<Rightarrow> bus_table" where
  "db_update p f t = map (\<lambda>r. if p r then f r else r) t"

section \<open>The bus\<close>

definition db_send_request ::
  "bus_env \<Rightarrow> string \<Rightarrow> string \<Rightarrow> string \<Rightarrow> obj \<Rightarrow> string \<Rightarrow> obj option \<Rightarrow> (bus_table, obj) act" where
  "db_send_request env actor intent target payload priority meta =
     act_bind (act_of (build_message env actor intent target payload priority None meta)) (\<lambda>m.
     act_bind (db_insert (message_row env SPending m)) (\<lambda>_. act_return m))"

definition db_send_response ::
  "bus_env \<Rightarrow> string \<Rightarrow> obj \<Rightarrow> obj \<Rightarrow> string \<Rightarrow> obj option \<Rightarrow> (bus_table, obj) act" where
  "db_send_response env actor req payload status meta =
     act_bind (act_of (build_response env actor req payload status meta)) (\<lambda>m.
     act_bind (db_replace (message_row env SResponse m)) (\<lambda>_. act_return m))"

definition priority_rank :: "string \<Rightarrow> nat" where
  "priority_rank p = (if p = ''high'' then 0 else if p = ''normal'' then 1 else 2)"

definition reclaim_stale :: "bus_conf \<Rightarrow> bus_env \<Rightarrow> string \<Rightarrow> bus_table \<Rightarrow> bus_table" where
  "reclaim_stale conf env actor =
     db_update (\<lambda>r. br_status r = SProcessing \<and> br_target r = actor
                    \<and> br_updated r < bus_now env - secs (stale_processing conf))
       (\<lambda>r. r\<lparr>br_status := SPending, br_updated := bus_now env\<rparr>)"

definition expire_pending :: "bus_conf \<Rightarrow> bus_env \<Rightarrow> string \<Rightarrow> bus_table \<Rightarrow> bus_table" where
  "expire_pending conf env actor =
     db_update (\<lambda>r. br_status r = SPending \<and> br_target r = actor
                    \<and> br_created r < bus_now env - secs (request_ttl conf))
       (\<lambda>r. r\<lparr>br_status := SDeadletter, br_reason := ''TTL expired'', br_updated := bus_now env\<rparr>)"

definition claimable :: "string \<Rightarrow> bus_table \<Rightarrow> bus_row list" where
  "claimable actor t =
     sort_by (\<lambda>r. (priority_rank (br_priority r), br_created r))
       (filter (\<lambda>r. br_status r = SPending \<and> br_target r = actor) t)"

text \<open>The claimed rows, as the identifier and message that \<open>_DBPath\<close> carries.\<close>

definition db_list_requests :: "bus_conf \<Rightarrow> bus_env \<Rightarrow> string \<Rightarrow> bus_table \<Rightarrow> (string \<times> obj) list \<times> bus_table" where
  "db_list_requests conf env actor t =
     (let t1 = expire_pending conf env actor (reclaim_stale conf env actor t);
          rows = claimable actor t1
      in (map (\<lambda>r. (br_id r, br_msg r)) rows,
          db_update (\<lambda>r. br_id r \<in> br_id ` set rows)
            (\<lambda>r. r\<lparr>br_status := SProcessing, br_updated := bus_now env\<rparr>) t1))"

definition db_rotate :: "bus_table \<Rightarrow> bus_table" where
  "db_rotate t =
     (let done = filter (\<lambda>r. br_status r = SProcessed) t;
          drop_ids = map br_id (butlastn processed_keep (sort_by br_updated done))
      in filter (\<lambda>r. br_id r \<notin> set drop_ids) t)"

definition db_mark_processed :: "bus_env \<Rightarrow> string \<Rightarrow> bus_table \<Rightarrow> bus_table" where
  "db_mark_processed env rid t =
     db_rotate (db_update (\<lambda>r. br_id r = rid) (\<lambda>r. r\<lparr>br_status := SProcessed, br_updated := bus_now env\<rparr>) t)"

definition db_move_to_deadletter :: "bus_env \<Rightarrow> string \<Rightarrow> string \<Rightarrow> bus_table \<Rightarrow> bus_table" where
  "db_move_to_deadletter env rid reason =
     db_update (\<lambda>r. br_id r = rid)
       (\<lambda>r. r\<lparr>br_status := SDeadletter, br_reason := reason, br_updated := bus_now env\<rparr>)"

definition db_poll_response :: "bus_env \<Rightarrow> string \<Rightarrow> string \<Rightarrow> (bus_table, poll) act" where
  "db_poll_response env actor rid = (\<lambda>t.
     case List.find (\<lambda>r. br_id r = rid \<and> br_status r = SResponse \<and> br_target r = actor) t of
       None \<Rightarrow> (Inr Waiting, t)
     | Some r \<Rightarrow>
         (case validate_message (JObj (br_msg r)) of
            Inl e \<Rightarrow> (Inl e, t)
          | Inr m \<Rightarrow> (Inr (Answered (Some m)),
              db_update (\<lambda>r. br_id r = rid) (\<lambda>r. r\<lparr>br_status := SProcessed, br_updated := bus_now env\<rparr>) t)))"

fun db_wait_for_response ::
  "bus_env \<Rightarrow> string \<Rightarrow> string \<Rightarrow> (bus_table \<Rightarrow> bus_table) list \<Rightarrow> (bus_table, obj option) act" where
  "db_wait_for_response env actor rid [] = act_return None"
| "db_wait_for_response env actor rid (step # steps) =
     act_bind (db_poll_response env actor rid) (\<lambda>r.
       case r of
         Answered x \<Rightarrow> act_return x
       | Waiting \<Rightarrow> act_bind (act_modify step) (\<lambda>_. db_wait_for_response env actor rid steps))"

definition db_alert_deadletter :: "bus_conf \<Rightarrow> bus_env \<Rightarrow> bus_table \<Rightarrow> alert_state \<Rightarrow> nat \<times> alert_state" where
  "db_alert_deadletter conf env t st =
     (let ids = map br_id (filter (\<lambda>r. br_status r = SDeadletter) t)
      in if ids = [] then (0, st)
         else if bus_now env - last_dl_alert st < secs (dl_alert_interval conf) then (length ids, st)
         else (length ids, st\<lparr>last_dl_alert := bus_now env, activity := activity st @ [(length ids, [])]\<rparr>))"

record bus_health =
  h_pending :: nat
  h_processing :: nat
  h_response :: nat
  h_processed :: nat
  h_deadletter :: nat

definition count_status :: "row_status \<Rightarrow> bus_table \<Rightarrow> nat" where
  "count_status s t = length (filter (\<lambda>r. br_status r = s) t)"

definition db_get_health :: "bus_table \<Rightarrow> bus_health" where
  "db_get_health t = \<lparr>h_pending = count_status SPending t, h_processing = count_status SProcessing t,
     h_response = count_status SResponse t, h_processed = count_status SProcessed t,
     h_deadletter = count_status SDeadletter t\<rparr>"

section \<open>The factory\<close>

datatype backend = Sqlite | Filesystem

definition get_bus :: "string option \<Rightarrow> backend" where
  "get_bus v = (if lower (strip (case v of None \<Rightarrow> ''filesystem'' | Some s \<Rightarrow> s)) = ''sqlite'' then Sqlite else Filesystem)"

section \<open>The table's invariant\<close>

text \<open>A row agrees with the message it stores, and no identifier occurs twice.\<close>

definition row_agrees :: "bus_row \<Rightarrow> bool" where
  "row_agrees r \<longleftrightarrow> valid_message (br_msg r) \<and> jget (br_msg r) ''request_id'' = JStr (br_id r)
     \<and> jget (br_msg r) ''target'' = JStr (br_target r)
     \<and> br_priority r = py_str (dget_or (br_msg r) ''priority'' (JStr ''normal''))"

definition table_ok :: "bus_table \<Rightarrow> bool" where
  "table_ok t \<longleftrightarrow> distinct (map br_id t) \<and> (\<forall>r \<in> set t. row_agrees r)"

text \<open>What any process may do to the table.\<close>

inductive table_step :: "bus_table \<Rightarrow> bus_table \<Rightarrow> bool" where
  send: "db_send_request env actor intent target payload priority meta t = (r, t') \<Longrightarrow> table_step t t'"
| respond: "db_send_response env actor req payload status meta t = (r, t') \<Longrightarrow> table_step t t'"
| receive: "db_list_requests conf env actor t = (ps, t') \<Longrightarrow> table_step t t'"
| finish: "table_step t (db_mark_processed env i t)"
| bury: "table_step t (db_move_to_deadletter env i reason t)"
| poll: "db_poll_response env actor i t = (r, t') \<Longrightarrow> table_step t t'"

lemma db_update_ids [simp]: "(\<And>r. br_id (f r) = br_id r) \<Longrightarrow> map br_id (db_update p f t) = map br_id t"
  by (simp add: db_update_def)

lemma table_ok_update:
  assumes "table_ok t"
    "\<And>r. br_id (f r) = br_id r \<and> br_msg (f r) = br_msg r \<and> br_target (f r) = br_target r \<and> br_priority (f r) = br_priority r"
  shows "table_ok (db_update p f t)"
proof -
  have "map br_id (db_update p f t) = map br_id t" using assms(2) by simp
  moreover have "\<forall>r \<in> set (db_update p f t). row_agrees r"
    using assms by (auto simp: db_update_def table_ok_def row_agrees_def)
  ultimately show ?thesis using assms(1) by (simp add: table_ok_def)
qed

lemma table_ok_filter: "table_ok t \<Longrightarrow> table_ok (filter p t)"
  by (auto simp: table_ok_def distinct_map_filter)

lemma message_row_agrees:
  assumes "valid_message m" "dhas m ''request_id''"
  shows "row_agrees (message_row env s m)"
proof -
  from assms have "is_str (jget m ''request_id'')" by (simp add: valid_message_def)
  then obtain i where i: "jget m ''request_id'' = JStr i" by (cases "jget m ''request_id''") simp_all
  from assms obtain t where t: "jget m ''target'' = JStr t" unfolding valid_message_def by blast
  show ?thesis using assms(1) i t by (simp add: row_agrees_def message_row_def)
qed

lemma build_response_Inr:
  assumes "build_response env actor req payload status meta = Inr m"
  shows "valid_message m" "dhas m ''request_id''"
  using assms by (auto simp: build_response_def validate_message_iff dhas_def)

lemma build_message_valid:
  assumes "build_message env actor intent target payload priority rid meta = Inr m"
  shows "valid_message m" "dhas m ''request_id''"
  using assms by (auto simp: build_message_def validate_message_iff dhas_def)

lemma table_ok_insert:
  assumes "table_ok t" "valid_message m" "dhas m ''request_id''"
  shows "table_ok (snd (db_insert (message_row env s m) t))" "table_ok (snd (db_replace (message_row env s m) t))"
  using assms message_row_agrees [OF assms(2,3)]
  by (auto simp: db_insert_def db_replace_def table_ok_def distinct_map_filter)

lemma table_ok_mark: "table_ok t \<Longrightarrow> table_ok (db_mark_processed env i t)"
  by (simp add: db_mark_processed_def db_rotate_def Let_def table_ok_filter table_ok_update)

lemma table_ok_list:
  "table_ok t \<Longrightarrow> db_list_requests conf env actor t = (ps, t') \<Longrightarrow> table_ok t'"
  by (auto simp: db_list_requests_def Let_def expire_pending_def reclaim_stale_def intro!: table_ok_update)

lemma table_ok_step:
  assumes "table_step t t'" "table_ok t"
  shows "table_ok t'"
  using assms(1)
proof cases
  case (send env actor intent target payload priority meta r)
  show ?thesis
  proof (cases "build_message env actor intent target payload priority None meta")
    case (Inr m)
    then show ?thesis using send table_ok_insert(1) [OF assms(2) build_message_valid [OF Inr], of env SPending]
      by (auto simp: db_send_request_def act_bind_app split: prod.splits sum.splits)
  qed (use send assms(2) in \<open>simp add: db_send_request_def act_bind_app\<close>)
next
  case (respond env actor req payload status meta r)
  show ?thesis
  proof (cases "build_response env actor req payload status meta")
    case (Inr m)
    then show ?thesis using respond table_ok_insert(2) [OF assms(2) build_response_Inr [OF Inr], of env SResponse]
      by (auto simp: db_send_response_def act_bind_app split: prod.splits sum.splits)
  qed (use respond assms(2) in \<open>simp add: db_send_response_def act_bind_app\<close>)
next
  case (poll env actor i r)
  then show ?thesis using assms(2)
    by (auto simp: db_poll_response_def split: option.splits sum.splits intro!: table_ok_update)
qed (use assms(2) in \<open>auto simp: db_move_to_deadletter_def table_ok_mark intro!: table_ok_update dest: table_ok_list\<close>)

inductive reachable :: "bus_table \<Rightarrow> bool" where
  empty: "reachable []"
| step: "reachable t \<Longrightarrow> table_step t t' \<Longrightarrow> reachable t'"

lemma reachable_ok: "reachable t \<Longrightarrow> table_ok t"
  by (induction rule: reachable.induct) (auto simp: table_ok_def [of "[]"] dest: table_ok_step)

section \<open>Claiming\<close>

lemma sorted_map_fst: "sorted (map (\<lambda>x. (f x :: 'a :: linorder, g x :: 'b :: linorder)) xs) \<Longrightarrow> sorted (map f xs)"
  by (induction xs) (auto simp: less_eq_prod_def)

lemma listed_rows:
  "db_list_requests conf env actor t = (ps, t') \<Longrightarrow>
     ps = map (\<lambda>r. (br_id r, br_msg r)) (claimable actor (expire_pending conf env actor (reclaim_stale conf env actor t)))"
  by (simp add: db_list_requests_def Let_def)

lemma db_update_cases:
  assumes "x \<in> set (db_update p f t)"
  obtains y where "y \<in> set t" "p y" "x = f y" | "x \<in> set t" "\<not> p x"
  using assms unfolding db_update_def by (auto split: if_splits)

lemma claimable_not_processing:
  assumes "r \<in> set (claimable actor (expire_pending conf env actor (reclaim_stale conf env actor t)))"
  obtains x where "x \<in> set t" "br_id x = br_id r"
    "br_status x \<noteq> SProcessing \<or> br_updated x < bus_now env - secs (stale_processing conf)"
proof -
  have r: "r \<in> set (expire_pending conf env actor (reclaim_stale conf env actor t))" "br_status r = SPending"
    using assms by (simp_all add: claimable_def)
  from r(1) have "r \<in> set (reclaim_stale conf env actor t)"
    unfolding expire_pending_def by (cases rule: db_update_cases) (use r(2) in auto)
  then show thesis
    unfolding reclaim_stale_def
    by (cases rule: db_update_cases) (use r(2) that in auto)
qed

lemma claimed_rows:
  assumes "db_list_requests conf env actor t = (ps, t')"
  shows "map snd ps = map br_msg (claimable actor (expire_pending conf env actor (reclaim_stale conf env actor t)))"
    "\<forall>r \<in> set t'. br_id r \<in> fst ` set ps \<longrightarrow> br_status r = SProcessing \<and> br_updated r = bus_now env"
  using assms by (auto simp: db_list_requests_def Let_def db_update_def)

text \<open>C8: on every table the two processes can reach, the requests of one listing are valid messages addressed
  to the actor, ordered by priority, and a listing within the stale limit claims none of them again.\<close>

theorem sqlite_claims:
  assumes "reachable t" "db_list_requests conf env actor t = (ps, t1)"
    and again: "db_list_requests conf env' actor t1 = (ps', t2)"
      "bus_now env' \<le> bus_now env + secs (stale_processing conf)"
  shows "(\<forall>(i, m) \<in> set ps. valid_message m \<and> jget m ''request_id'' = JStr i \<and> jget m ''target'' = JStr actor)
    \<and> sorted (map (\<lambda>(i, m). priority_rank (py_str (dget_or m ''priority'' (JStr ''normal'')))) ps)
    \<and> fst ` set ps \<inter> fst ` set ps' = {}"
proof (intro conjI)
  have ok: "table_ok (expire_pending conf env actor (reclaim_stale conf env actor t))"
    using reachable_ok [OF assms(1)] by (auto simp: expire_pending_def reclaim_stale_def intro!: table_ok_update)
  let ?rows = "claimable actor (expire_pending conf env actor (reclaim_stale conf env actor t))"
  note ps = listed_rows [OF assms(2)]
  have agree: "\<forall>r \<in> set ?rows. row_agrees r \<and> br_target r = actor"
    using ok by (auto simp: claimable_def table_ok_def)
  then show "\<forall>(i, m) \<in> set ps. valid_message m \<and> jget m ''request_id'' = JStr i \<and> jget m ''target'' = JStr actor"
    by (auto simp: ps row_agrees_def)
  have "sorted (map (\<lambda>r. priority_rank (br_priority r)) ?rows)"
    by (rule sorted_map_fst [where g = br_created]) (simp add: claimable_def)
  then show "sorted (map (\<lambda>(i, m). priority_rank (py_str (dget_or m ''priority'' (JStr ''normal'')))) ps)"
    using agree by (simp add: ps row_agrees_def comp_def del: map_eq_conv cong: map_cong)
  show "fst ` set ps \<inter> fst ` set ps' = {}"
  proof (rule ccontr)
    assume "fst ` set ps \<inter> fst ` set ps' \<noteq> {}"
    then obtain i where i: "i \<in> fst ` set ps" "i \<in> fst ` set ps'" by blast
    from i(2) obtain r where r: "r \<in> set (claimable actor (expire_pending conf env' actor (reclaim_stale conf env' actor t1)))"
      "br_id r = i"
      unfolding listed_rows [OF again(1)] by auto
    from claimable_not_processing [OF r(1)] obtain x where "x \<in> set t1" "br_id x = br_id r"
      "br_status x \<noteq> SProcessing \<or> br_updated x < bus_now env' - secs (stale_processing conf)" .
    then show False using claimed_rows(2) [OF assms(2)] r(2) i(1) again(2) by auto
  qed
qed


theorem sqlite_claims_witness:
  "let t = snd (db_send_request (epoch_env 0) ''Jarvis'' ''hi_get_intro'' ''Kingofyadav'' [] ''normal'' None []);
       (ps, t1) = db_list_requests default_conf (epoch_env 1000000) ''Kingofyadav'' t;
       (ps', t2) = db_list_requests default_conf (epoch_env 2000000) ''Kingofyadav'' t1
   in ps = [(''jarvis-0a1b'', intro_message)] \<and> fst ` set ps \<inter> fst ` set ps' = {}"
proof -
  let ?t = "[message_row (epoch_env 0) SPending intro_message]"
  have send: "db_send_request (epoch_env 0) ''Jarvis'' ''hi_get_intro'' ''Kingofyadav'' [] ''normal'' None [] = (Inr intro_message, ?t)"
    by (simp add: db_send_request_def act_bind_app intro_message_built db_insert_def)
  obtain ps t1 where one: "db_list_requests default_conf (epoch_env 1000000) ''Kingofyadav'' ?t = (ps, t1)" by fastforce
  obtain ps' t2 where two: "db_list_requests default_conf (epoch_env 2000000) ''Kingofyadav'' t1 = (ps', t2)" by fastforce
  have "fst ` set ps \<inter> fst ` set ps' = {}"
    by (rule sqlite_claims [THEN conjunct2, THEN conjunct2, OF reachable.step [OF reachable.empty table_step.send [OF send]] one two])
      (simp add: epoch_env_def default_conf)
  moreover have "ps = [(''jarvis-0a1b'', intro_message)]"
    using listed_rows [OF one]
    by (simp add: claimable_def expire_pending_def reclaim_stale_def db_update_def message_row_def epoch_env_def
        intro_message_def dget_or_def default_conf)
  ultimately show ?thesis by (simp add: send one two)
qed

end
