(* ===== verification/Listener.thy ===== *)
theory Listener
  imports HI_Handler Bus_Sqlite
begin

text \<open>
  Model of \<open>Kingofyadav/app.py\<close>: the listener that claims requests from either bus, handles each and
  answers it, and the adaptive polling. Lemmas: what a requester sees of the answer. The interface
  between a listener and a waiting requester is the locale \<open>reply_bus\<close>; the file bus provides it.
\<close>

section \<open>The listener\<close>

record node = hub_world +
  bus :: bus_fs

record db_node = hub_world +
  table :: bus_table

definition on_bus :: "(bus_fs, 'a) act \<Rightarrow> ('w node_scheme, 'a) act" where
  "on_bus m = (\<lambda>w. let (r, b) = m (bus w) in (r, w\<lparr>bus := b\<rparr>))"

definition on_table :: "(bus_table, 'a) act \<Rightarrow> ('w db_node_scheme, 'a) act" where
  "on_table m = (\<lambda>w. let (r, b) = m (table w) in (r, w\<lparr>table := b\<rparr>))"

definition me :: string where
  "me = ''Kingofyadav''"

definition handler_meta :: obj where
  "handler_meta = [(''handler'', JStr ''Kingofyadav.app'')]"

definition reply_status :: "reply \<Rightarrow> string" where
  "reply_status r = (if truthy (dget_or r ''_error'' (JBool False)) then ''error'' else ''ok'')"

text \<open>One claimed file: read, handle, answer, archive; any exception makes it a dead letter.\<close>

definition process_one :: "hub_env \<Rightarrow> bus_env \<Rightarrow> bus_path \<Rightarrow> ('w node_scheme, unit) act" where
  "process_one env benv p =
     act_catch
       (act_bind (on_bus (read_message p)) (\<lambda>m.
        act_bind (handle_request env m) (\<lambda>r.
        act_bind (on_bus (send_response benv me m (ddel ''_error'' r) (reply_status r) (Some handler_meta))) (\<lambda>_.
        act_bind (on_bus (mark_processed p)) (\<lambda>_. act_return ())))))
       (\<lambda>_. on_bus (move_to_deadletter p))"

definition process_files :: "hub_env \<Rightarrow> bus_conf \<Rightarrow> bus_env \<Rightarrow> ('w node_scheme, nat) act" where
  "process_files env conf benv =
     act_bind (on_bus (list_requests_for_me conf benv me)) (\<lambda>ps.
     act_bind (act_iter (process_one env benv) ps) (\<lambda>_. act_return (length ps)))"

text \<open>The same loop on the SQLite bus.\<close>

definition process_row :: "hub_env \<Rightarrow> bus_env \<Rightarrow> string \<times> obj \<Rightarrow> ('w db_node_scheme, unit) act" where
  "process_row env benv p =
     act_catch
       (act_bind (act_of (validate_message (JObj (snd p)))) (\<lambda>m.
        act_bind (handle_request env m) (\<lambda>r.
        act_bind (on_table (db_send_response benv me m (ddel ''_error'' r) (reply_status r) (Some handler_meta))) (\<lambda>_.
        on_table (act_modify (db_mark_processed benv (fst p)))))))
       (\<lambda>_. on_table (act_modify (db_move_to_deadletter benv (fst p) [])))"

definition process_rows :: "hub_env \<Rightarrow> bus_conf \<Rightarrow> bus_env \<Rightarrow> ('w db_node_scheme, nat) act" where
  "process_rows env conf benv =
     act_bind (on_table (\<lambda>t. let (ps, t') = db_list_requests conf benv me t in (Inr ps, t'))) (\<lambda>ps.
     act_bind (act_iter (process_row env benv) ps) (\<lambda>_. act_return (length ps)))"

text \<open>Polling in milliseconds: the delay grows while there is nothing to do.\<close>

definition poll_min :: nat where "poll_min = 50"
definition poll_max :: nat where "poll_max = 1000"
definition poll_step :: nat where "poll_step = 100"

definition next_poll :: "nat \<Rightarrow> nat \<Rightarrow> nat" where
  "next_poll interval processed = (if processed = 0 then min (interval + poll_step) poll_max else poll_min)"

section \<open>The interface between a listener and a requester\<close>

text \<open>
  \<open>respond m\<close> stores an answer, \<open>finish p\<close> archives the claimed request \<open>p\<close>, \<open>poll\<close> is one round of the
  requester's wait. The law: archiving the request leaves the answer for the requester.
\<close>

locale reply_bus =
  fixes respond :: "obj \<Rightarrow> 's \<Rightarrow> 's"
    and finish :: "'p \<Rightarrow> 's \<Rightarrow> 's"
    and poll :: "string \<Rightarrow> string \<Rightarrow> 's \<Rightarrow> poll"
    and inflight :: "'s \<Rightarrow> 'p \<Rightarrow> bool"
  assumes answered: "inflight s p \<Longrightarrow> valid_message m \<Longrightarrow> jget m ''request_id'' = JStr rid \<Longrightarrow>
      jget m ''target'' = JStr actor \<Longrightarrow> poll actor rid (finish p (respond m s)) = Answered (Some m)"
begin

text \<open>A requester that polls until its answer, the listener's step coming anywhere before the last poll.\<close>

fun waits :: "string \<Rightarrow> string \<Rightarrow> ('s \<Rightarrow> 's) list \<Rightarrow> 's \<Rightarrow> obj option" where
  "waits actor rid [] s = None"
| "waits actor rid (f # fs) s =
     (case poll actor rid s of Answered x \<Rightarrow> x | Waiting \<Rightarrow> waits actor rid fs (f s))"

lemma waits_answered:
  assumes "inflight s p" "valid_message m" "jget m ''request_id'' = JStr rid" "jget m ''target'' = JStr actor"
    "poll actor rid s = Waiting" "before = replicate k (\<lambda>s. s)" "after \<noteq> []"
  shows "waits actor rid (before @ (\<lambda>s. finish p (respond m s)) # after) s = Some m"
  unfolding assms(6)
proof (induction k)
  case 0
  then show ?case using assms by (cases after) (simp_all add: answered)
next
  case (Suc k)
  then show ?case using assms(5) by simp
qed

end

definition store_response :: "int \<Rightarrow> obj \<Rightarrow> bus_fs \<Rightarrow> bus_fs" where
  "store_response t m = put_file (Responses, response_name (py_str (jget m ''request_id''))) \<lparr>body = Some (JObj m), mtime = t\<rparr>"

interpretation file_bus: reply_bus "store_response t" "\<lambda>p fs. snd (mark_processed p fs)"
    "\<lambda>actor rid fs. case fst (poll_response actor rid fs) of Inr r \<Rightarrow> r | Inl _ \<Rightarrow> Waiting"
    "\<lambda>fs p. fst p = Requests"
  for t
proof
  fix s :: bus_fs and p :: bus_path and m rid actor
  assume p: "fst p = Requests" and m: "valid_message m" "jget m ''request_id'' = JStr rid" "jget m ''target'' = JStr actor"
  let ?fs = "snd (mark_processed p (store_response t m s))"
  have "file_at (Responses, response_name rid) ?fs = Some \<lparr>body = Some (JObj m), mtime = t\<rparr>"
    using p m(2) mark_processed_other [of p "store_response t m s" "fst (mark_processed p (store_response t m s))" ?fs "(Responses, response_name rid)"]
    by (cases p) (simp add: store_response_def)
  from poll_response_stored [OF this _ m(1,3)]
  show "(case fst (poll_response actor rid ?fs) of Inr r \<Rightarrow> r | Inl _ \<Rightarrow> Waiting) = Answered (Some m)"
    by auto
qed

section \<open>Lemmas: the reply to a claimed request\<close>

lemma outside_bus: "outside_hub bus" "outside_hub table"
  by (simp_all add: outside_hub_def outside_store_def)

lemma handle_keeps_bus: "handle_request env m w = (r, w') \<Longrightarrow> bus w' = bus w"
  using keepsD [OF keeps_handle_request [OF outside_bus(1)]] .

lemma on_bus_app: "on_bus m w = (fst (m (bus w)), w\<lparr>bus := snd (m (bus w))\<rparr>)"
  by (simp add: on_bus_def split: prod.split)

lemma on_table_app: "on_table m w = (fst (m (table w)), w\<lparr>table := snd (m (table w))\<rparr>)"
  by (simp add: on_table_def split: prod.split)

lemma read_message_Inr:
  "file_at p fs = Some f \<Longrightarrow> body f = Some (JObj m) \<Longrightarrow> valid_message m \<Longrightarrow> read_message p fs = (Inr m, fs)"
  by (simp add: read_message_def validate_message_iff)

lemma handle_reply_ok: "handle_request env m w = (Inr r, w') \<Longrightarrow> reply_ok r"
  using yieldsD [OF yields_handle_request] .

text \<open>The answer to a request: its fields, and that it is a valid message.\<close>

definition answer_to :: "bus_env \<Rightarrow> obj \<Rightarrow> reply \<Rightarrow> obj" where
  "answer_to benv req r =
     [(''version'', JStr ''1.0''), (''intent'', JStr (py_str (jget req ''intent'') @ ''_response'')), (''source'', JStr me),
      (''target'', jget req ''source''), (''payload'', JObj (ddel ''_error'' r)), (''timestamp'', JStr (bus_now_iso benv)),
      (''request_id'', jget req ''request_id''), (''priority'', dget_or req ''priority'' (JStr ''normal'')),
      (''meta'', JObj [(''status'', JStr (reply_status r)), (''reply_to_intent'', jget req ''intent''),
         (''handler'', JStr ''Kingofyadav.app'')])]"

lemma valid_message_intent: "valid_message m \<Longrightarrow> \<exists>i \<in> set intent_enum. jget m ''intent'' = JStr i"
  by (auto simp: valid_message_def)

lemma payload_ok_reply: "reply_ok r \<Longrightarrow> is_str (jget (ddel ''_error'' r) ''text'') \<and> (dhas (ddel ''_error'' r) ''args'' \<longrightarrow> is_obj (jget (ddel ''_error'' r) ''args''))"
  by (simp add: reply_ok_def dget_or_def dhas_def)

lemma subscript_Inr: "dhas m k \<Longrightarrow> subscript m k = Inr (jget m k)"
  by (auto simp: subscript_def dhas_def dget_or_def)

lemma build_response_answer:
  assumes req: "valid_message req" "dhas req ''request_id''" "jget req ''intent'' \<in> JStr ` set request_intents"
    and r: "reply_ok r"
  shows "build_response benv me req (ddel ''_error'' r) (reply_status r) (Some handler_meta) = Inr (answer_to benv req r)"
    and "valid_message (answer_to benv req r)"
proof -
  have has: "dhas req ''intent''" "dhas req ''source''" "is_str (jget req ''request_id'')"
    using req(1,2) by (auto simp: valid_message_def required_fields_def)
  have src: "jget req ''source'' \<in> JStr ` set actors" using req(1) by (simp add: valid_message_def)
  have prio: "dget_or req ''priority'' (JStr ''normal'') \<in> JStr ` set priorities"
    using req(1) by (cases "dget req ''priority''") (auto simp: valid_message_def dhas_def dget_or_def priorities_def)
  obtain i where i: "jget req ''intent'' = JStr i" "i \<in> set request_intents" using req(3) by auto
  have enum: "i @ ''_response'' \<in> set intent_enum" using i(2) by (simp add: intent_enum_def)
  show valid: "valid_message (answer_to benv req r)"
    unfolding valid_message_def answer_to_def payload_of_def
    using src prio has(3) payload_ok_reply [OF r] enum i(1)
    by (simp add: required_fields_def allowed_fields_def dhas_def dget_or_def actors_def me_def)
  show "build_response benv me req (ddel ''_error'' r) (reply_status r) (Some handler_meta) = Inr (answer_to benv req r)"
    using valid subscript_Inr [OF has(1)] subscript_Inr [OF has(2)] subscript_Inr [OF req(2)]
    by (simp add: build_response_def validate_message_def validate_dict_iff [symmetric] answer_to_def handler_meta_def)
qed


lemma send_response_answer:
  assumes "valid_message req" "dhas req ''request_id''" "jget req ''intent'' \<in> JStr ` set request_intents" "reply_ok r"
    and rid: "jget req ''request_id'' = JStr rid"
  shows "send_response benv me req (ddel ''_error'' r) (reply_status r) (Some handler_meta) fs =
           (Inr (answer_to benv req r), store_response (bus_now benv) (answer_to benv req r) fs)"
  using build_response_answer(1) [OF assms(1-4)] rid
  by (simp add: send_response_def act_bind_app write_message_def store_response_def)

lemma answer_to_fields [simp]:
  "jget (answer_to benv req r) ''request_id'' = jget req ''request_id''"
  "jget (answer_to benv req r) ''target'' = jget req ''source''"
  "jget (answer_to benv req r) ''payload'' = JObj (ddel ''_error'' r)"
  by (simp_all add: answer_to_def dget_or_def)

text \<open>The whole step on a claimed request that the handler serves, and on one it fails on.\<close>

lemma process_one_served:
  assumes p: "file_at p (bus w) = Some f" "fst p = Requests" "body f = Some (JObj req)"
    and req: "valid_message req" "jget req ''request_id'' = JStr rid" "jget req ''intent'' \<in> JStr ` set request_intents"
    and h: "handle_request env req w = (Inr r, w1)"
  shows "bus (snd (process_one env benv p w)) =
           snd (mark_processed p (store_response (bus_now benv) (answer_to benv req r) (bus w)))"
proof -
  have id: "dhas req ''request_id''" using req(2) by (auto simp: dhas_def dget_or_def split: option.splits)
  let ?fs = "store_response (bus_now benv) (answer_to benv req r) (bus w)"
  have "file_at p ?fs = Some f" using p(1,2) by (cases p) (simp add: store_response_def)
  then obtain q fs' where mark: "mark_processed p ?fs = (Inr q, fs')"
    by (cases p) (simp add: mark_processed_def move_file_def)
  show ?thesis
    using send_response_answer [OF req(1) id req(3) handle_reply_ok [OF h] req(2)] mark
    by (simp add: process_one_def act_bind_app on_bus_app read_message_Inr [OF p(1,3) req(1)] h handle_keeps_bus [OF h])
qed

lemma process_one_failed:
  assumes p: "file_at p (bus w) = Some f" "fst p = Requests" "body f = Some (JObj req)" "valid_message req"
    and h: "handle_request env req w = (Inl e, w1)"
  shows "bus (snd (process_one env benv p w)) = put_file (Deadletter, snd p) f (remove_file p (bus w))"
  using p(1)
  by (simp add: process_one_def act_catch_def act_bind_app on_bus_app read_message_Inr [OF p(1,3,4)] h
    handle_keeps_bus [OF h] move_to_deadletter_def move_file_def)

section \<open>Properties\<close>


text \<open>C20: a request the handler fails on is neither lost nor answered. It becomes a dead letter under its
  own name, nothing is left of it among the requests, and its sender still waits.\<close>

theorem failed_request_is_dead_letter:
  assumes p: "file_at p (bus w) = Some f" "fst p = Requests" "body f = Some (JObj req)" "valid_message req"
    and h: "handle_request env req w = (Inl e, w1)"
    and quiet: "file_at (Responses, response_name rid) (bus w) = None"
  shows "file_at (Deadletter, snd p) (bus (snd (process_one env benv p w))) = Some f
    \<and> file_at p (bus (snd (process_one env benv p w))) = None
    \<and> fst (poll_response src rid (bus (snd (process_one env benv p w)))) = Inr Waiting"
proof -
  note eq = process_one_failed [OF p h]
  have q: "(Responses, response_name rid) \<noteq> p" "p \<noteq> (Deadletter, snd p)" using p(2) by (auto simp: prod_eq_iff)
  have "file_at (Responses, response_name rid) (bus (snd (process_one env benv p w))) = None"
    using q(1) quiet by (simp add: eq)
  then show ?thesis using q(2) by (simp add: eq poll_response_waiting)
qed

text \<open>On the SQLite bus the answer is lost. Marking the request processed hits the row of the answer,
  which has the request's identifier, so no poll after the listener's step ever returns it.\<close>

theorem sqlite_answer_is_lost:
  "fst (db_poll_response benv' actor (fst p) (table (snd (process_row env benv p w)))) = Inr Waiting"
proof -
  let ?over = "\<lambda>t. \<forall>r \<in> set t. br_id r = fst p \<longrightarrow> br_status r \<in> {SProcessed, SDeadletter}"
  have mark: "?over (db_mark_processed benv (fst p) t)" for t
    by (auto simp: db_mark_processed_def db_rotate_def Let_def db_update_def)
  have dead: "?over (db_move_to_deadletter benv (fst p) reason t)" for t reason
    by (auto simp: db_move_to_deadletter_def db_update_def)
  have "?over (table (snd (process_row env benv p w)))"
    using mark dead
    by (simp add: process_row_def act_catch_def act_bind_app on_table_app split: prod.split sum.split)
  then have "List.find (\<lambda>r. br_id r = fst p \<and> br_status r = SResponse \<and> br_target r = actor)
      (table (snd (process_row env benv p w))) = None"
    by (auto simp: find_None_iff)
  then show ?thesis by (simp add: db_poll_response_def)
qed


section \<open>Witnesses\<close>

definition demo_request :: "string \<Rightarrow> obj" where
  "demo_request i =
     [(''version'', JStr ''1.0''), (''intent'', JStr i), (''source'', JStr ''Jarvis''), (''target'', JStr ''Kingofyadav''),
      (''payload'', JObj [(''args'', JObj [(''raw_payload'', JObj [])])]),
      (''timestamp'', JStr ''2026-05-01T00:00:00+00:00''), (''request_id'', JStr ''jarvis-1'')]"

definition demo_hub_env :: hub_env where
  "demo_hub_env = mem_env.extend demo_menv \<lparr>today = ''2026-05-01''\<rparr>"

definition demo_bus_env :: bus_env where
  "demo_bus_env = \<lparr>bus_now = 0, bus_now_iso = ''2026-05-01T00:00:00+00:00'', bus_uuid = ''abc''\<rparr>"

definition demo_node :: "string \<Rightarrow> node" where
  "demo_node i = \<lparr>store = empty_db, archives = [], state_file = Garbled, events = [],
     bus = put_file (Requests, ''r.processing'') \<lparr>body = Some (JObj (demo_request i)), mtime = 0\<rparr> empty_bus\<rparr>"

lemma demo_request_valid: "i \<in> set request_intents \<Longrightarrow> valid_message (demo_request i)"
  by (auto simp: valid_message_def demo_request_def required_fields_def allowed_fields_def dhas_def dget_or_def
    payload_of_def actors_def intent_enum_def)


theorem failed_request_is_dead_letter_witness:
  "file_at (Deadletter, ''r.processing'') (bus (snd (process_one demo_hub_env demo_bus_env
       (Requests, ''r.processing'') (demo_node ''hi_get_profile'')))) =
     Some \<lparr>body = Some (JObj (demo_request ''hi_get_profile'')), mtime = 0\<rparr>"
proof -
  let ?w = "demo_node ''hi_get_profile''" and ?m = "demo_request ''hi_get_profile''"
  have f: "file_at (Requests, ''r.processing'') (bus ?w) = Some \<lparr>body = Some (JObj ?m), mtime = 0\<rparr>"
    "file_at (Responses, response_name ''jarvis-1'') (bus ?w) = None"
    by (simp_all add: demo_node_def file_at_def empty_bus_def put_file_def)
  have i: "''hi_get_profile'' \<in> set request_intents" by (simp add: request_intents_def)
  have "\<exists>e w1. handle_request demo_hub_env ?m ?w = (Inl e, w1)"
    by (simp add: handle_request_def extract_payload_def demo_request_def dget_or_def py_or_def plain_branch_def
      act_bind_app on_state_def get_profile_summary_def load_state_def demo_node_def)
  then obtain e w1 where h: "handle_request demo_hub_env ?m ?w = (Inl e, w1)" by blast
  show ?thesis
    using failed_request_is_dead_letter [OF f(1) _ _ demo_request_valid [OF i] h f(2), of demo_bus_env] by simp
qed

end
