(* ===== verification/Rules.thy ===== *)
theory Rules
  imports HI_State
begin

text \<open>
  Model of \<open>automation/rules.py\<close>: validation of rules, the rules file, and the evaluation of a rule's
  conditions. A rule is the dict read from the file; \<open>re.search\<close> is a field of the environment, and an
  invalid pattern is an outcome of it.
\<close>

section \<open>Iterating over any value\<close>

text \<open>\<open>for x in v\<close>: the elements of a list, the keys of a dict, the characters of a string.\<close>

fun py_iter :: "json \<Rightarrow> json list outcome" where
  "py_iter (JArr xs) = Inr xs"
| "py_iter (JObj d) = Inr (map (\<lambda>p. JStr (fst p)) d)"
| "py_iter (JStr s) = Inr (map (\<lambda>c. JStr [c]) s)"
| "py_iter _ = Inl TypeError"

text \<open>\<open>a >= b\<close>: numbers by value, strings and lists in lexicographic order, else TypeError.\<close>

fun py_ge :: "json \<Rightarrow> json \<Rightarrow> bool outcome" where
  "py_ge (JStr a) (JStr b) = Inr (b \<le> a)"
| "py_ge (JArr xs) (JArr []) = Inr True"
| "py_ge (JArr []) (JArr (y # ys)) = Inr False"
| "py_ge (JArr (x # xs)) (JArr (y # ys)) = (if py_eq x y then py_ge (JArr xs) (JArr ys) else py_ge x y)"
| "py_ge a b = and_then (num_less a b) (\<lambda>l. Inr (\<not> l))"

section \<open>Validation\<close>

definition trigger_types :: "string list" where
  "trigger_types = [''interval'', ''cron'']"

definition action_types :: "string list" where
  "action_types = [''notify'', ''restart_service'', ''command'', ''webhook'']"

definition risk_tiers :: "string list" where
  "risk_tiers = [''low'', ''medium'', ''high'']"

definition condition_types :: "string list" where
  "condition_types = [''health_fail_count'', ''health_warn_count'', ''process_down'',
     ''log_pattern'', ''state_field_equals'', ''always'']"

definition err_if :: "bool \<Rightarrow> string \<Rightarrow> string list" where
  "err_if b m = (if b then [m] else [])"

definition rule_err :: "json \<Rightarrow> string \<Rightarrow> string" where
  "rule_err rid m = ''['' @ py_str rid @ ''] '' @ m"

definition quote :: "string \<Rightarrow> string" where
  "quote s = [CHR 0x27] @ s @ [CHR 0x27]"

definition valid_list :: "string list \<Rightarrow> string" where
  "valid_list xs = ''; valid: '' @ py_repr (JArr (map JStr (sort xs)))"

definition trigger_errors :: "json \<Rightarrow> json \<Rightarrow> string list outcome" where
  "trigger_errors rid trigger =
     (case trigger of
        JObj (p # d) \<Rightarrow>
          (let t = p # d; ty = jget t ''type'' in
           and_then (in_str_set trigger_types ty) (\<lambda>known.
             Inr (err_if (\<not> known) (rule_err rid (''unknown trigger type '' @ quote (py_str ty) @ valid_list trigger_types))
               @ err_if (ty = JStr ''interval'' \<and> \<not> is_num (jget t ''seconds''))
                   (rule_err rid (''interval trigger requires numeric '' @ quote ''seconds''))
               @ err_if (ty = JStr ''cron'' \<and> \<not> is_int (jget t ''hour''))
                   (rule_err rid (''cron trigger requires integer '' @ quote ''hour''))
               @ err_if (ty = JStr ''cron'' \<and> \<not> is_int (jget t ''minute''))
                   (rule_err rid (''cron trigger requires integer '' @ quote ''minute'')))))
      | _ \<Rightarrow> Inr [rule_err rid (''missing or invalid '' @ quote ''trigger'')])"

definition action_errors :: "json \<Rightarrow> json \<Rightarrow> string list outcome" where
  "action_errors rid action =
     (case action of
        JObj (p # d) \<Rightarrow>
          (let a = p # d; ty = jget a ''type'' in
           and_then (in_str_set action_types ty) (\<lambda>known.
             Inr (err_if (\<not> known) (rule_err rid (''unknown action type '' @ quote (py_str ty) @ valid_list action_types))
               @ err_if (ty = JStr ''restart_service'' \<and> \<not> truthy (jget a ''service''))
                   (rule_err rid (''restart_service action requires '' @ quote ''service''))
               @ err_if (ty = JStr ''restart_service'' \<and> \<not> truthy (jget a ''script''))
                   (rule_err rid (''restart_service action requires '' @ quote ''script''))
               @ err_if (ty \<in> {JStr ''webhook'', JStr ''notify''} \<and> jget a ''channel'' = JStr ''webhook''
                     \<and> \<not> truthy (jget a ''webhook_url''))
                   (rule_err rid (''webhook action requires '' @ quote ''webhook_url'')))))
      | _ \<Rightarrow> Inr [rule_err rid (''missing or invalid '' @ quote ''action'')])"

definition condition_error :: "json \<Rightarrow> json \<Rightarrow> string list outcome" where
  "condition_error rid c =
     and_then (as_obj c) (\<lambda>d.
     and_then (in_str_set condition_types (jget d ''type'')) (\<lambda>known.
       Inr (err_if (\<not> known) (rule_err rid (''unknown condition type '' @ quote (py_str (jget d ''type'')))))))"

definition negative :: "json \<Rightarrow> bool" where
  "negative v = (case num_parts v of Some (m, e) \<Rightarrow> m < 0 | None \<Rightarrow> False)"

definition validate_rule :: "obj \<Rightarrow> string list outcome" where
  "validate_rule r =
     (let rid = dget_or r ''id'' (JStr ''<no id>'');
          risk = dget_or r ''risk_tier'' (JStr ''low'');
          retries = dget_or r ''max_retries'' (JInt 0);
          cooldown = dget_or r ''cooldown_seconds'' (JInt 0) in
      and_then (trigger_errors rid (jget r ''trigger'')) (\<lambda>te.
      and_then (action_errors rid (jget r ''action'')) (\<lambda>ae.
      and_then (in_str_set risk_tiers risk) (\<lambda>tier.
      and_then (py_iter (dget_or r ''conditions'' (JArr []))) (\<lambda>cs.
      and_then (traverse (condition_error rid) cs) (\<lambda>ce.
        Inr (err_if (\<not> truthy (jget r ''id'')) ''missing required field: id''
          @ err_if (\<not> truthy (jget r ''description'')) (rule_err rid ''missing required field: description'')
          @ te @ ae
          @ err_if (\<not> tier) (rule_err rid (''unknown risk_tier '' @ quote (py_str risk) @ valid_list risk_tiers))
          @ concat ce
          @ err_if (\<not> is_int retries \<or> negative retries) (rule_err rid ''max_retries must be a non-negative integer'')
          @ err_if (\<not> is_num cooldown \<or> negative cooldown) (rule_err rid ''cooldown_seconds must be non-negative''))))))))"

text \<open>The dict of errors by rule id; ids are compared with \<open>==\<close> and must be hashable.\<close>

fun hashable :: "json \<Rightarrow> bool" where
  "hashable (JArr _) = False" | "hashable (JObj _) = False" | "hashable _ = True"

fun put_errors :: "json \<Rightarrow> string list \<Rightarrow> (json \<times> string list) list \<Rightarrow> (json \<times> string list) list" where
  "put_errors k v [] = [(k, v)]"
| "put_errors k v ((k', v') # d) = (if py_eq k k' then (k', v) # d else (k', v') # put_errors k v d)"

fun validate_rules_from ::
  "json list \<Rightarrow> (json \<times> string list) list \<Rightarrow> obj list \<Rightarrow> (json \<times> string list) list outcome" where
  "validate_rules_from seen res [] = Inr res"
| "validate_rules_from seen res (r # rs) =
     (let rid = dget_or r ''id'' (JStr ''<no id>'') in
      and_then (validate_rule r) (\<lambda>es.
        if \<not> hashable rid then Inl TypeError
        else let es' = es @ err_if (list_ex (py_eq rid) seen) (rule_err rid ''duplicate rule id'')
             in validate_rules_from (rid # seen) (if es' = [] then res else put_errors rid es' res) rs))"

definition validate_rules :: "obj list \<Rightarrow> (json \<times> string list) list outcome" where
  "validate_rules rules = validate_rules_from [] [] rules"

section \<open>The rules file\<close>

definition load_all_rules :: "state_doc \<Rightarrow> json outcome" where
  "load_all_rules file = (case file of Missing \<Rightarrow> Inr (JArr []) | Garbled \<Rightarrow> Inl (ValueError []) | Doc v \<Rightarrow> Inr v)"

definition rule_list :: "state_doc \<Rightarrow> obj list outcome" where
  "rule_list file = and_then (load_all_rules file) (\<lambda>v. and_then (py_iter v) (traverse as_obj))"

definition load_rules :: "state_doc \<Rightarrow> obj list outcome" where
  "load_rules file = and_then (rule_list file)
     (\<lambda>rs. Inr (filter (\<lambda>r. truthy (dget_or r ''enabled'' (JBool True))) rs))"

text \<open>The loop of \<open>set_rule_enabled\<close>: the list with the first matching rule changed, if there is one.\<close>

fun enable_first :: "json \<Rightarrow> bool \<Rightarrow> json list \<Rightarrow> json list option outcome" where
  "enable_first i b [] = Inr None"
| "enable_first i b (v # vs) =
     and_then (as_obj v) (\<lambda>r.
       if py_eq (jget r ''id'') i then Inr (Some (JObj (dset ''enabled'' (JBool b) r) # vs))
       else and_then (enable_first i b vs) (\<lambda>res. Inr (map_option (\<lambda>ws. v # ws) res)))"

definition set_rule_enabled :: "json \<Rightarrow> bool \<Rightarrow> (state_doc, string) act" where
  "set_rule_enabled i b =
     act_bind (act_get load_all_rules) (\<lambda>r.
     act_bind (act_of r) (\<lambda>v.
     act_bind (act_of (and_then (py_iter v) (enable_first i b))) (\<lambda>res.
       case res of
         None \<Rightarrow> act_return (''Rule '' @ quote (py_str i) @ '' not found in rules.json.'')
       | Some vs \<Rightarrow>
           act_bind (act_modify (\<lambda>_. Doc (JArr vs))) (\<lambda>_.
           act_return (''Rule '' @ quote (py_str i) @ '' '' @ (if b then ''enabled'' else ''disabled'')
             @ ''. Restart the daemon to apply.'')))))"

section \<open>Conditions\<close>

record rule_context =
  fail_count :: json
  warn_count :: json
  pass_count :: json
  health_error :: json
  down_processes :: "string list"
  recent_log_lines :: "string list"
  state_snapshot :: obj

type_synonym regex_search = "string \<Rightarrow> string \<Rightarrow> bool outcome"

text \<open>\<open>any(re.search(pattern, line) for line in lines)\<close>\<close>

fun any_line :: "regex_search \<Rightarrow> json \<Rightarrow> string list \<Rightarrow> bool outcome" where
  "any_line rx p [] = Inr False"
| "any_line rx p (l # ls) =
     (case p of
        JStr pat \<Rightarrow> and_then (rx pat l) (\<lambda>b. if b then Inr True else any_line rx p ls)
      | _ \<Rightarrow> Inl TypeError)"

definition check_condition :: "regex_search \<Rightarrow> obj \<Rightarrow> rule_context \<Rightarrow> bool outcome" where
  "check_condition rx c ctx =
     (let ty = dget_or c ''type'' (JStr []) in
      if ty = JStr ''health_fail_count'' then py_ge (fail_count ctx) (dget_or c ''min'' (JInt 1))
      else if ty = JStr ''health_warn_count'' then py_ge (warn_count ctx) (dget_or c ''min'' (JInt 1))
      else if ty = JStr ''process_down'' then Inr (dget_or c ''name'' (JStr []) \<in> JStr ` set (down_processes ctx))
      else if ty = JStr ''log_pattern'' then any_line rx (dget_or c ''pattern'' (JStr [])) (recent_log_lines ctx)
      else if ty = JStr ''state_field_equals'' then
        (case dget_or c ''field'' (JStr []) of
           JStr f \<Rightarrow> Inr (py_eq (jget (state_snapshot ctx) f) (jget c ''value''))
         | f \<Rightarrow> if hashable f then Inr (py_eq JNull (jget c ''value'')) else Inl TypeError)
      else Inr (ty = JStr ''always''))"

fun all_conditions :: "regex_search \<Rightarrow> rule_context \<Rightarrow> json list \<Rightarrow> bool outcome" where
  "all_conditions rx ctx [] = Inr True"
| "all_conditions rx ctx (c # cs) =
     and_then (as_obj c) (\<lambda>d. and_then (check_condition rx d ctx) (\<lambda>b.
       if b then all_conditions rx ctx cs else Inr False))"

definition evaluate_rule :: "regex_search \<Rightarrow> obj \<Rightarrow> rule_context \<Rightarrow> bool outcome" where
  "evaluate_rule rx r ctx = and_then (py_iter (dget_or r ''conditions'' (JArr []))) (all_conditions rx ctx)"

section \<open>The default rules\<close>

definition rule_of ::
  "string \<Rightarrow> string \<Rightarrow> string \<Rightarrow> int \<Rightarrow> int \<Rightarrow> obj \<Rightarrow> obj list \<Rightarrow> obj \<Rightarrow> json" where
  "rule_of i descr risk retries cooldown trigger conditions action = JObj
     [(''id'', JStr i), (''description'', JStr descr), (''enabled'', JBool True), (''risk_tier'', JStr risk),
      (''max_retries'', JInt retries), (''cooldown_seconds'', JInt cooldown), (''trigger'', JObj trigger),
      (''conditions'', JArr (map JObj conditions)), (''action'', JObj action)]"

definition default_rules :: "json list" where
  "default_rules =
     [rule_of ''health_check_every_5m'' ''Run a health check every 5 minutes and notify on failures.'' ''low'' 0 0
        [(''type'', JStr ''interval''), (''seconds'', JInt 300)]
        [[(''type'', JStr ''health_fail_count''), (''min'', JInt 1)]]
        [(''type'', JStr ''notify''), (''channel'', JStr ''log''),
         (''message'', JStr ''Health check: {health_fail_count} failure(s) detected.'')],
      rule_of ''watchdog_restart_api'' ''Restart jarvis-api if its PID file is stale or process is gone.'' ''medium'' 2 120
        [(''type'', JStr ''interval''), (''seconds'', JInt 60)]
        [[(''type'', JStr ''process_down''), (''name'', JStr ''jarvis-api'')]]
        [(''type'', JStr ''restart_service''), (''service'', JStr ''jarvis-api''), (''script'', JStr ''scripts/start_api.sh'')],
      rule_of ''watchdog_restart_kingofyadav'' ''Restart kingofyadav listener if it goes down.'' ''medium'' 2 120
        [(''type'', JStr ''interval''), (''seconds'', JInt 60)]
        [[(''type'', JStr ''process_down''), (''name'', JStr ''jarvis-kingofyadav'')]]
        [(''type'', JStr ''restart_service''), (''service'', JStr ''jarvis-kingofyadav''), (''script'', JStr ''scripts/start_all.sh'')],
      rule_of ''daily_journal_summary'' ''Log a daily summary of automation activity at midnight.'' ''low'' 0 0
        [(''type'', JStr ''cron''), (''hour'', JInt 0), (''minute'', JInt 0)] []
        [(''type'', JStr ''notify''), (''channel'', JStr ''log''),
         (''message'', JStr ''Daily automation checkpoint: system running.'')]]"

definition create_default_rules_file :: "state_doc \<Rightarrow> state_doc" where
  "create_default_rules_file file = (if file = Missing then Doc (JArr default_rules) else file)"

end
