(* ===== verification/Scheduler.thy ===== *)
theory Scheduler
  imports Rules
begin

text \<open>
  Model of \<open>automation/monitor.py\<close>, \<open>automation/notifier.py\<close>, \<open>automation/scheduler.py\<close> and the start of
  \<open>automation/app.py\<close>. Times are microseconds. What leaves the process (log notes, webhook posts, scripts
  and commands run) is the list of effects of the world, each with the rule that caused it; the answers
  of scripts, of the bridge and of the network are fields of the environment.
\<close>

section \<open>The monitor\<close>

datatype probe = Alive | Denied | Gone

record monitor_env =
  pid_files :: "(string \<times> string option) list"
  kill_probe :: "int \<Rightarrow> probe"
  health_reply :: "string + json"
  log_files :: "string list option list"
  hi_file :: state_doc

definition pid_alive :: "'e monitor_env_scheme \<Rightarrow> string option \<Rightarrow> bool" where
  "pid_alive env content =
     (case content of None \<Rightarrow> False
      | Some s \<Rightarrow> (case int_of_str (strip s) of None \<Rightarrow> False | Some pid \<Rightarrow> kill_probe env pid \<noteq> Gone))"

definition check_processes :: "'e monitor_env_scheme \<Rightarrow> (string \<times> bool) list" where
  "check_processes env = map (\<lambda>(n, c). (n, pid_alive env c)) (pid_files env)"

definition no_health :: obj where
  "no_health = [(''pass'', JInt 0), (''warn'', JInt 0), (''fail'', JInt 0)]"

definition check_api_health :: "'e monitor_env_scheme \<Rightarrow> json outcome" where
  "check_api_health env =
     (case health_reply env of
        Inl e \<Rightarrow> Inr (JObj (no_health @ [(''error'', JStr e)]))
      | Inr v \<Rightarrow> and_then (as_obj v) (\<lambda>d. Inr (dget_or d ''summary'' (JObj no_health))))"

definition log_lines_max :: nat where
  "log_lines_max = 200"

definition read_recent_log_lines :: "'e monitor_env_scheme \<Rightarrow> string list" where
  "read_recent_log_lines env =
     map (rstrip_by is_space) (lastn log_lines_max (concat (map (\<lambda>f. case f of None \<Rightarrow> [] | Some ls \<Rightarrow> lastn log_lines_max ls)
       (log_files env))))"

definition read_state_snapshot :: "'e monitor_env_scheme \<Rightarrow> obj outcome" where
  "read_state_snapshot env =
     (case hi_file env of
        Doc v \<Rightarrow>
          and_then (as_obj v) (\<lambda>s.
          and_then (as_obj (dget_or s ''workflow'' (JObj []))) (\<lambda>wf.
          and_then (py_len (dget_or s ''memories'' (JArr []))) (\<lambda>n.
            Inr [(''current_focus'', dget_or s ''current_focus'' (JStr [])),
                 (''workflow_status'', dget_or wf ''status'' (JStr [])), (''memory_count'', JInt (int n))])))
      | _ \<Rightarrow> Inr [])"

definition build_context :: "'e monitor_env_scheme \<Rightarrow> rule_context outcome" where
  "build_context env =
     and_then (check_api_health env) (\<lambda>hv.
     and_then (as_obj hv) (\<lambda>h.
     and_then (read_state_snapshot env) (\<lambda>s.
       Inr \<lparr>fail_count = dget_or h ''fail'' (JInt 0), warn_count = dget_or h ''warn'' (JInt 0),
         pass_count = dget_or h ''pass'' (JInt 0), health_error = jget h ''error'',
         down_processes = map fst (filter (\<lambda>p. \<not> snd p) (check_processes env)),
         recent_log_lines = read_recent_log_lines env, state_snapshot = s\<rparr>)))"

section \<open>World and environment of the daemon\<close>

datatype script_result = NoFile | Exit int string | TimedOut

datatype effect =
    LogNote json
  | WebhookPost string obj
  | RanScript string
  | RanCommand string

record pending_item =
  p_rule :: json
  p_description :: json
  p_action :: json
  p_ts :: string

record auto_world =
  stop_file :: bool
  rules_file :: state_doc
  pending_file :: "pending_item list option"
  audit_log :: "obj list"
  failure_log :: "obj list"
  effects :: "(json \<times> effect) list"

record auto_env =
  mono :: int
  utc_hour :: int
  utc_minute :: int
  utc_day :: int
  utc_iso :: string
  dry_run_var :: "string option"
  regex :: regex_search
  context_now :: "rule_context outcome"
  run_script :: "string \<Rightarrow> script_result"
  run_bridge :: "string \<Rightarrow> script_result"
  http_post :: "string \<Rightarrow> unit outcome"
  exn_text :: "exn \<Rightarrow> string"
  script_path :: "string \<Rightarrow> string"

definition emit :: "json \<Rightarrow> effect \<Rightarrow> ('w auto_world_scheme, unit) act" where
  "emit rid e = act_modify (\<lambda>w. w\<lparr>effects := effects w @ [(rid, e)]\<rparr>)"

section \<open>notifier.py\<close>

text \<open>
  \<open>_notify_bus\<close> calls a method the bus does not have; the AttributeError is swallowed, so the channel
  has no effect. The two-argument \<open>append_event\<close> of the log channel raises TypeError, swallowed too.
  A network failure of a post is swallowed; \<open>http_post\<close> returns the other errors (a malformed URL).
\<close>

definition notify_payload :: "'e auto_env_scheme \<Rightarrow> json \<Rightarrow> json \<Rightarrow> obj" where
  "notify_payload env msg rid = [(''rule_id'', rid), (''message'', msg), (''ts'', JStr (utc_iso env))]"

definition notify_webhook :: "'e auto_env_scheme \<Rightarrow> json \<Rightarrow> json \<Rightarrow> obj \<Rightarrow> ('w auto_world_scheme, unit) act" where
  "notify_webhook env rid url payload =
     act_bind (act_of (http_post env (py_str url))) (\<lambda>_. emit rid (WebhookPost (py_str url) payload))"

definition notify :: "'e auto_env_scheme \<Rightarrow> json \<Rightarrow> json \<Rightarrow> json \<Rightarrow> json \<Rightarrow> ('w auto_world_scheme, unit) act" where
  "notify env msg channel rid url =
     (if channel = JStr ''bus'' then act_return ()
      else if channel = JStr ''webhook'' then
        (if truthy url then notify_webhook env rid url (notify_payload env msg rid) else act_return ())
      else emit rid (LogNote msg))"

section \<open>The dispatcher of scheduler.py\<close>

definition restart_service ::
  "'e auto_env_scheme \<Rightarrow> json \<Rightarrow> json \<Rightarrow> json \<Rightarrow> ('w auto_world_scheme, unit) act" where
  "restart_service env rid service script =
     (case script of
        JStr s \<Rightarrow>
          (case run_script env s of
             NoFile \<Rightarrow> act_raise (RuntimeError (''restart script not found: '' @ script_path env s))
           | TimedOut \<Rightarrow> act_bind (emit rid (RanScript s)) (\<lambda>_. act_raise (RuntimeError ''TimeoutExpired''))
           | Exit c err \<Rightarrow>
               act_bind (emit rid (RanScript s)) (\<lambda>_.
               if c \<noteq> 0 then act_raise (RuntimeError (''script exited '' @ show_int c @ '': '' @ take 200 err))
               else notify env (JStr (''Restarted '' @ py_str service @ ''.'')) (JStr ''log'') rid (JStr [])))
      | _ \<Rightarrow> act_raise TypeError)"

definition run_jarvis_command :: "'e auto_env_scheme \<Rightarrow> json \<Rightarrow> json \<Rightarrow> ('w auto_world_scheme, unit) act" where
  "run_jarvis_command env rid cmd =
     (case cmd of
        JStr s \<Rightarrow>
          act_bind (emit rid (RanCommand s)) (\<lambda>_.
          case run_bridge env s of
            Exit c err \<Rightarrow> if c \<noteq> 0 then act_raise (RuntimeError (''bridge exited '' @ show_int c @ '': '' @ take 100 err))
                          else act_return ()
          | TimedOut \<Rightarrow> act_raise (RuntimeError (''command timed out: '' @ s))
          | NoFile \<Rightarrow> act_raise FileNotFoundError)
      | _ \<Rightarrow> act_raise TypeError)"

definition dispatch_action :: "'e auto_env_scheme \<Rightarrow> obj \<Rightarrow> ('w auto_world_scheme, unit) act" where
  "dispatch_action env r =
     act_bind (act_of (as_obj (dget_or r ''action'' (JObj [])))) (\<lambda>a.
       let ty = dget_or a ''type'' (JStr ''notify''); rid = dget_or r ''id'' (JStr []) in
       if ty = JStr ''notify'' then
         notify env (dget_or a ''message'' (JStr ''automation trigger fired'')) (dget_or a ''channel'' (JStr ''log'')) rid
           (dget_or a ''webhook_url'' (JStr []))
       else if ty = JStr ''restart_service'' then
         restart_service env rid (dget_or a ''service'' (JStr [])) (dget_or a ''script'' (JStr []))
       else if ty = JStr ''command'' then
         (let cmd = dget_or a ''command'' (JStr []) in if truthy cmd then run_jarvis_command env rid cmd else act_return ())
       else if ty = JStr ''webhook'' then
         notify env (dget_or a ''message'' (dget_or r ''description'' (JStr []))) (JStr ''webhook'') rid
           (dget_or a ''url'' (dget_or a ''webhook_url'' (JStr [])))
       else act_return ())"

section \<open>Logs and approvals\<close>

definition write_audit ::
  "'e auto_env_scheme \<Rightarrow> json \<Rightarrow> json \<Rightarrow> string \<Rightarrow> string \<Rightarrow> ('w auto_world_scheme, unit) act" where
  "write_audit env rid ty status detail = act_modify (\<lambda>w. w\<lparr>audit_log := audit_log w @
     [[(''ts'', JStr (utc_iso env)), (''rule_id'', rid), (''action_type'', ty), (''status'', JStr status),
       (''detail'', JStr detail)]]\<rparr>)"

definition write_failure ::
  "'e auto_env_scheme \<Rightarrow> json \<Rightarrow> json \<Rightarrow> string \<Rightarrow> int \<Rightarrow> ('w auto_world_scheme, unit) act" where
  "write_failure env rid ty err retry = act_modify (\<lambda>w. w\<lparr>failure_log := failure_log w @
     [[(''ts'', JStr (utc_iso env)), (''rule_id'', rid), (''action_type'', ty), (''error'', JStr err),
       (''retry'', JInt retry)]]\<rparr>)"

definition load_pending :: "'w auto_world_scheme \<Rightarrow> pending_item list" where
  "load_pending w = (case pending_file w of None \<Rightarrow> [] | Some items \<Rightarrow> items)"

definition save_pending :: "pending_item list \<Rightarrow> ('w auto_world_scheme, unit) act" where
  "save_pending items = act_modify (\<lambda>w. w\<lparr>pending_file := Some items\<rparr>)"

definition add_pending_approval :: "'e auto_env_scheme \<Rightarrow> obj \<Rightarrow> ('w auto_world_scheme, unit) act" where
  "add_pending_approval env r =
     act_bind (act_get load_pending) (\<lambda>items.
       let rid = dget_or r ''id'' (JStr []) in
       if \<exists>p \<in> set items. py_eq (p_rule p) rid then act_return ()
       else save_pending (items @ [\<lparr>p_rule = rid, p_description = dget_or r ''description'' (JStr []),
              p_action = dget_or r ''action'' (JObj []), p_ts = utc_iso env\<rparr>]))"

definition no_pending :: "string \<Rightarrow> string" where
  "no_pending i = ''No pending approval for rule '' @ quote i @ ''.''"

definition approve_pending :: "'e auto_env_scheme \<Rightarrow> string \<Rightarrow> ('w auto_world_scheme, string) act" where
  "approve_pending env i =
     act_bind (act_get load_pending) (\<lambda>items.
       case List.find (\<lambda>p. p_rule p = JStr i) items of
         None \<Rightarrow> act_return (no_pending i)
       | Some entry \<Rightarrow>
           act_bind
             (act_catch
               (act_bind (dispatch_action env [(''id'', JStr i), (''action'', p_action entry)]) (\<lambda>_.
                act_bind (act_of (as_obj (p_action entry))) (\<lambda>a.
                act_bind (write_audit env (JStr i) (dget_or a ''type'' (JStr [])) ''approved'' []) (\<lambda>_.
                act_return (''Rule '' @ quote i @ '' approved and executed.'')))))
               (\<lambda>e. act_bind (act_of (as_obj (p_action entry))) (\<lambda>a.
                act_bind (write_failure env (JStr i) (dget_or a ''type'' (JStr [])) (exn_text env e) 0) (\<lambda>_.
                act_return (''Rule '' @ quote i @ '' approved but action failed: '' @ exn_text env e)))))
             (\<lambda>msg. act_bind (save_pending (filter (\<lambda>p. p_rule p \<noteq> JStr i) items)) (\<lambda>_. act_return msg)))"

definition deny_pending :: "'e auto_env_scheme \<Rightarrow> string \<Rightarrow> ('w auto_world_scheme, string) act" where
  "deny_pending env i =
     act_bind (act_get load_pending) (\<lambda>items.
       if \<forall>p \<in> set items. p_rule p \<noteq> JStr i then act_return (no_pending i)
       else act_bind (save_pending (filter (\<lambda>p. p_rule p \<noteq> JStr i) items)) (\<lambda>_.
            act_bind (write_audit env (JStr i) (JStr []) ''denied'' []) (\<lambda>_.
            act_return (''Rule '' @ quote i @ '' denied and removed from pending queue.''))))"

definition set_emergency_stop :: "bool \<Rightarrow> ('w auto_world_scheme, unit) act" where
  "set_emergency_stop b = act_modify (\<lambda>w. w\<lparr>stop_file := b\<rparr>)"

definition is_dry_run :: "'e auto_env_scheme \<Rightarrow> bool" where
  "is_dry_run env \<longleftrightarrow> strip (case dry_run_var env of None \<Rightarrow> ''0'' | Some s \<Rightarrow> s) = ''1''"

section \<open>Jobs\<close>

record job =
  rule :: obj
  j_type :: json
  interval :: int
  cron_hour :: int
  cron_minute :: int
  max_retries :: int
  cooldown :: int
  last_run :: int
  last_success :: int
  last_cron_day :: int
  retry_count :: int
  retry_at :: int

definition sec :: int where
  "sec = 1000000"

definition new_job :: "'e auto_env_scheme \<Rightarrow> obj \<Rightarrow> job outcome" where
  "new_job env r =
     and_then (as_obj (dget_or r ''trigger'' (JObj []))) (\<lambda>t.
     and_then (py_int (dget_or t ''seconds'' (JInt 60))) (\<lambda>iv.
     and_then (py_int (dget_or t ''hour'' (JInt 0))) (\<lambda>h.
     and_then (py_int (dget_or t ''minute'' (JInt 0))) (\<lambda>mi.
     and_then (py_int (dget_or r ''max_retries'' (JInt 0))) (\<lambda>mr.
     and_then (py_int (dget_or r ''cooldown_seconds'' (JInt 0))) (\<lambda>cd.
       Inr \<lparr>rule = r, j_type = dget_or t ''type'' (JStr ''interval''), interval = iv, cron_hour = h, cron_minute = mi,
         max_retries = mr, cooldown = cd, last_run = mono env - iv * sec, last_success = 0, last_cron_day = -1,
         retry_count = 0, retry_at = 0\<rparr>))))))"

definition is_due :: "'e auto_env_scheme \<Rightarrow> job \<Rightarrow> bool" where
  "is_due env j =
     (if 0 < retry_at j then retry_at j \<le> mono env
      else if 0 < cooldown j \<and> 0 < last_success j \<and> mono env - last_success j < cooldown j * sec then False
      else if j_type j = JStr ''interval'' then interval j * sec \<le> mono env - last_run j
      else if j_type j = JStr ''cron'' then
        utc_hour env = cron_hour j \<and> utc_minute env = cron_minute j \<and> utc_day env \<noteq> last_cron_day j
      else False)"

definition mark_ran :: "'e auto_env_scheme \<Rightarrow> job \<Rightarrow> job" where
  "mark_ran env j =
     (let j' = j\<lparr>last_run := mono env\<rparr>
      in if j_type j = JStr ''cron'' then j'\<lparr>last_cron_day := utc_day env\<rparr> else j')"

definition retry_base :: int where "retry_base = 30"
definition retry_cap :: int where "retry_cap = 300"

definition backoff :: "int \<Rightarrow> int" where
  "backoff n = min (retry_base * 2 ^ nat n) retry_cap"

text \<open>The action failed: schedule a retry, or give up and switch the rule off in the file.\<close>

definition after_failure :: "'e auto_env_scheme \<Rightarrow> job \<Rightarrow> json \<Rightarrow> json \<Rightarrow> exn \<Rightarrow> ('w auto_world_scheme, job) act" where
  "after_failure env j rid ty e =
     act_bind (write_failure env rid ty (exn_text env e) (retry_count j)) (\<lambda>_.
     if retry_count j < max_retries j then
       act_return (j\<lparr>retry_at := mono env + backoff (retry_count j) * sec, retry_count := retry_count j + 1\<rparr>)
     else act_bind (write_audit env rid ty ''disabled_after_retries'' (exn_text env e)) (\<lambda>_.
          act_bind (if 0 < max_retries j
                    then (\<lambda>w. let (r, f) = set_rule_enabled rid False (rules_file w) in (Inr (), w\<lparr>rules_file := f\<rparr>))
                    else act_return ()) (\<lambda>_.
          act_return (j\<lparr>retry_count := 0\<rparr>))))"

definition run_action :: "'e auto_env_scheme \<Rightarrow> job \<Rightarrow> json \<Rightarrow> json \<Rightarrow> ('w auto_world_scheme, job) act" where
  "run_action env j rid ty =
     act_catch
       (act_bind (dispatch_action env (rule j)) (\<lambda>_.
        act_bind (write_audit env rid ty ''success'' []) (\<lambda>_.
        act_return (j\<lparr>last_success := mono env, retry_count := 0\<rparr>))))
       (after_failure env j rid ty)"

definition high_risk :: "obj \<Rightarrow> bool" where
  "high_risk r \<longleftrightarrow> dget_or r ''risk_tier'' (JStr ''low'') = JStr ''high''"

definition fire :: "'e auto_env_scheme \<Rightarrow> job \<Rightarrow> ('w auto_world_scheme, job) act" where
  "fire env j =
     (let rid = dget_or (rule j) ''id'' (JStr ''?''); j0 = j\<lparr>retry_at := 0\<rparr> in
      act_bind (act_of (as_obj (dget_or (rule j) ''action'' (JObj [])))) (\<lambda>a.
        let ty = dget_or a ''type'' (JStr []) in
        act_bind (act_get stop_file) (\<lambda>stopped.
        if stopped then act_return j0
        else case context_now env of
               Inl _ \<Rightarrow> act_return j0
             | Inr ctx \<Rightarrow>
                 act_bind (act_of (evaluate_rule (regex env) (rule j) ctx)) (\<lambda>ok.
                 if \<not> ok then act_return (j0\<lparr>retry_count := 0\<rparr>)
                 else if is_dry_run env then
                   act_bind (write_audit env rid ty ''dry_run'' ''AUTOMATION_DRY_RUN=1'') (\<lambda>_.
                   act_return (j0\<lparr>last_success := mono env, retry_count := 0\<rparr>))
                 else if high_risk (rule j) then
                   act_bind (add_pending_approval env (rule j)) (\<lambda>_.
                   act_bind (write_audit env rid ty ''pending_approval'' []) (\<lambda>_. act_return j0))
                 else run_action env j0 rid ty))))"

section \<open>The scheduler thread\<close>

text \<open>
  One pass over the jobs, and a run of passes. An exception that leaves \<open>fire\<close> ends the thread: the
  outcome of the run is then that error. The clock stands still within a pass.
\<close>

fun tick :: "'e auto_env_scheme \<Rightarrow> job list \<Rightarrow> ('w auto_world_scheme, job list) act" where
  "tick env [] = act_return []"
| "tick env (j # js) =
     act_bind (if is_due env j then fire env (mark_ran env j) else act_return j) (\<lambda>j'.
     act_bind (tick env js) (\<lambda>js'. act_return (j' # js')))"

fun scheduler_loop :: "'e auto_env_scheme list \<Rightarrow> job list \<Rightarrow> ('w auto_world_scheme, job list) act" where
  "scheduler_loop [] js = act_return js"
| "scheduler_loop (env # envs) js = act_bind (tick env js) (scheduler_loop envs)"

text \<open>The start of the daemon: errors of the rules are only logged, every enabled rule becomes a job.\<close>

definition daemon_jobs :: "'e auto_env_scheme \<Rightarrow> ('w auto_world_scheme, job list) act" where
  "daemon_jobs env =
     act_bind (act_modify (\<lambda>w. w\<lparr>rules_file := create_default_rules_file (rules_file w)\<rparr>)) (\<lambda>_.
     act_bind (act_get (\<lambda>w. rule_list (rules_file w))) (\<lambda>all.
     act_bind (act_of (and_then all validate_rules)) (\<lambda>errors.
     act_bind (act_get (\<lambda>w. load_rules (rules_file w))) (\<lambda>enabled.
     act_of (and_then enabled (traverse (new_job env)))))))"

end
