(* ===== verification/Shell.thy ===== *)
theory Shell
  imports Scheduler
begin

text \<open>
  Model of the shell command of \<open>Jarvis/actions.py\<close>: the POSIX word splitting of \<open>shlex.split\<close>, the allowlist
  of programs, flags and paths, and the run itself. Resolving a path and running a program are parameters:
  \<open>resolve t\<close> are the components of \<open>(BASE_DIR / t).resolve()\<close>, \<open>run_program argv\<close> the output of the run.
\<close>

section \<open>Word splitting\<close>

text \<open>The states of the lexer; the escape remembers the state it returns to.\<close>

datatype lex_state = Blank | Plain | Quoted char | Escaped lex_state

definition backslash :: char where "backslash = char_of (92::nat)"
definition dquote :: char where "dquote = char_of (34::nat)"
definition squote :: char where "squote = char_of (39::nat)"

definition lex_space :: "char \<Rightarrow> bool" where
  "lex_space c = (code c \<in> {32, 9, 10, 13})"

definition is_quote :: "char \<Rightarrow> bool" where
  "is_quote c = (c = dquote \<or> c = squote)"

text \<open>\<open>lex st q tok s\<close>: the words of \<open>s\<close> from state \<open>st\<close> with the characters \<open>tok\<close> of the current word, which has a
  quoted part if \<open>q\<close>; so it is a word even when empty.\<close>

fun lex :: "lex_state \<Rightarrow> bool \<Rightarrow> string \<Rightarrow> string \<Rightarrow> string list outcome" where
  "lex Blank q tok [] = Inr []"
| "lex Plain q tok [] = Inr (if tok = [] \<and> \<not> q then [] else [tok])"
| "lex (Quoted k) q tok [] = Inl (ValueError ''No closing quotation'')"
| "lex (Escaped st) q tok [] = Inl (ValueError ''No escaped character'')"
| "lex Blank q tok (c # s) =
     (if lex_space c then lex Blank False [] s
      else if c = backslash then lex (Escaped Plain) False [] s
      else if is_quote c then lex (Quoted c) False [] s
      else lex Plain False [c] s)"
| "lex Plain q tok (c # s) =
     (if lex_space c then
        (if tok = [] \<and> \<not> q then lex Blank False [] s else and_then (lex Blank False [] s) (\<lambda>ws. Inr (tok # ws)))
      else if is_quote c then lex (Quoted c) q tok s
      else if c = backslash then lex (Escaped Plain) q tok s
      else lex Plain q (tok @ [c]) s)"
| "lex (Quoted k) q tok (c # s) =
     (if c = k then lex Plain True tok s
      else if c = backslash \<and> k = dquote then lex (Escaped (Quoted k)) True tok s
      else lex (Quoted k) True (tok @ [c]) s)"
| "lex (Escaped st) q tok (c # s) =
     lex st q (tok @ (case st of Quoted k \<Rightarrow> if c \<noteq> backslash \<and> c \<noteq> k then [backslash, c] else [c] | _ \<Rightarrow> [c])) s"

definition shlex_split :: "string \<Rightarrow> string list outcome" where
  "shlex_split s = lex Blank False [] s"

section \<open>The allowlist\<close>

record policy =
  flags :: "string list"
  allow_path :: bool

definition safe_commands :: "(string \<times> policy) list" where
  "safe_commands =
     [(''pwd'', \<lparr>flags = [], allow_path = False\<rparr>), (''whoami'', \<lparr>flags = [], allow_path = False\<rparr>),
      (''date'', \<lparr>flags = [], allow_path = False\<rparr>), (''uname'', \<lparr>flags = [''-a'', ''-s'', ''-r'', ''-m''], allow_path = False\<rparr>),
      (''ls'', \<lparr>flags = [''-1'', ''-a'', ''-l'', ''-la'', ''-al''], allow_path = True\<rparr>)]"

record shell_env =
  base_dir :: "string list"
  resolve :: "string \<Rightarrow> string list outcome"
  run_program :: "string list \<Rightarrow> (string \<times> string) outcome"

definition path_allowed :: "'e shell_env_scheme \<Rightarrow> string \<Rightarrow> bool outcome" where
  "path_allowed env token = and_then (resolve env token) (\<lambda>p. Inr (take (length (base_dir env)) p = base_dir env))"

definition backquoted :: "string \<Rightarrow> string" where
  "backquoted s = [char_of (96::nat)] @ s @ [char_of (96::nat)]"

text \<open>The check of the arguments: the refusal, or nothing.\<close>

fun check_args :: "'e shell_env_scheme \<Rightarrow> string \<Rightarrow> policy \<Rightarrow> string list \<Rightarrow> string option outcome" where
  "check_args env program pol [] = Inr None"
| "check_args env program pol (t # ts) =
     (if startswith t ''-'' then
        (if t \<notin> set (flags pol) then Inr (Some (''Refused: argument '' @ backquoted t @ '' is not allowed for '' @ backquoted program @ ''.''))
         else check_args env program pol ts)
      else if \<not> allow_path pol then Inr (Some (''Refused: '' @ backquoted program @ '' does not allow path arguments.''))
      else and_then (path_allowed env t) (\<lambda>ok.
        if \<not> ok then Inr (Some (''Refused: path '' @ backquoted t @ '' is outside the Jarvis workspace.''))
        else check_args env program pol ts))"

section \<open>Execution\<close>

text \<open>The state is the list of the programs run so far: the whole effect of this action.\<close>

type_synonym runs = "string list list"

definition run_argv :: "'e shell_env_scheme \<Rightarrow> string list \<Rightarrow> (runs, string) act" where
  "run_argv env argv =
     act_bind (act_modify (\<lambda>w. w @ [argv])) (\<lambda>_.
     act_bind (act_of (run_program env argv)) (\<lambda>(out, err).
     act_return (if strip out \<noteq> [] then strip out else if strip err \<noteq> [] then strip err
                 else ''Command completed with no output.'')))"

definition execute_shell_command :: "'e shell_env_scheme \<Rightarrow> string \<Rightarrow> (runs, string) act" where
  "execute_shell_command env command =
     (let normalized = strip command in
      if normalized = [] then act_return ''Refused: empty command.''
      else case shlex_split normalized of
             Inl e \<Rightarrow> act_return (''Refused: invalid command syntax ('' @ (case e of ValueError m \<Rightarrow> m | _ \<Rightarrow> []) @ '').'')
           | Inr [] \<Rightarrow> act_return ''Refused: empty command.''
           | Inr (program # args) \<Rightarrow>
               (case map_of safe_commands program of
                  None \<Rightarrow> act_return (''Refused: '' @ backquoted program @ '' is not in the safe allowlist.'')
                | Some pol \<Rightarrow>
                    act_bind (act_of (check_args env program pol args)) (\<lambda>refusal.
                      case refusal of
                        Some msg \<Rightarrow> act_return msg
                      | None \<Rightarrow> run_argv env (program # args))))"

section \<open>Lemmas\<close>

definition arg_allowed :: "'e shell_env_scheme \<Rightarrow> policy \<Rightarrow> string \<Rightarrow> bool" where
  "arg_allowed env pol t \<longleftrightarrow> (if startswith t ''-'' then t \<in> set (flags pol)
     else allow_path pol \<and> (\<exists>p. resolve env t = Inr (base_dir env @ p)))"

lemma check_args_iff: "check_args env program pol ts = Inr None \<longleftrightarrow> (\<forall>t \<in> set ts. arg_allowed env pol t)"
proof (induction ts)
  case (Cons t ts)
  have "path_allowed env t = Inr True \<longleftrightarrow> (\<exists>p. resolve env t = Inr (base_dir env @ p))"
    by (auto simp: path_allowed_def) (metis append_take_drop_id)
  then show ?case using Cons by (cases "path_allowed env t") (auto simp: arg_allowed_def)
qed simp

text \<open>A word of the lexer that needs no quoting.\<close>

definition plain_char :: "char \<Rightarrow> bool" where
  "plain_char c \<longleftrightarrow> \<not> lex_space c \<and> \<not> is_quote c \<and> c \<noteq> backslash"

lemma lex_plain_run: "list_all plain_char w \<Longrightarrow> lex Plain q tok (w @ s) = lex Plain q (tok @ w) s"
  by (induction w arbitrary: tok) (auto simp: plain_char_def)

lemma lex_quoted_run: "k \<notin> set w \<Longrightarrow> k \<noteq> dquote \<Longrightarrow> w \<noteq> [] \<Longrightarrow> lex (Quoted k) q tok (w @ s) = lex (Quoted k) True (tok @ w) s"
proof (induction w arbitrary: q tok)
  case (Cons c w)
  then show ?case by (cases "w = []") auto
qed simp

text \<open>How a careful caller writes a word: plain, or in single quotes.\<close>

definition quote_word :: "string \<Rightarrow> string" where
  "quote_word w = (if w \<noteq> [] \<and> list_all plain_char w then w else [squote] @ w @ [squote])"

lemma squote_ne [simp]: "squote \<noteq> dquote" "is_quote squote" "\<not> lex_space squote" "squote \<noteq> backslash"
  by (simp_all add: squote_def dquote_def is_quote_def lex_space_def backslash_def)

lemma lex_word:
  assumes "squote \<notin> set w"
  shows "lex Blank q tok (quote_word w @ s) = lex Plain (\<not> (w \<noteq> [] \<and> list_all plain_char w)) w s"
proof (cases "w \<noteq> [] \<and> list_all plain_char w")
  case True
  then obtain c w' where w: "w = c # w'" "plain_char c" "list_all plain_char w'" by (cases w) auto
  then show ?thesis using lex_plain_run [of w' False "[c]" s] by (simp add: quote_word_def plain_char_def)
next
  case False
  then show ?thesis
    using assms lex_quoted_run [of squote w False "[]" "[squote] @ s"]
    by (cases "w = []") (auto simp: quote_word_def)
qed

lemma lex_space_blank: "lex_space (CHR '' '')"
  by code_simp

lemma lex_join:
  assumes "\<forall>w \<in> set ws. squote \<notin> set w"
  shows "lex Blank q tok (join '' '' (map quote_word ws)) = Inr ws"
  using assms
proof (induction ws arbitrary: q tok rule: induct_list012)
  case (2 w)
  then show ?case using lex_word [of w q tok "[]"] by auto
next
  case (3 w v ws)
  have "lex Blank q tok (quote_word w @ '' '' @ join '' '' (map quote_word (v # ws)))
      = and_then (lex Blank False [] (join '' '' (map quote_word (v # ws)))) (\<lambda>ws. Inr (w # ws))"
    using 3 lex_word [of w] by (auto simp: lex_space_blank)
  then show ?case using 3 by simp
qed simp

section \<open>Properties\<close>

text \<open>C2: whatever the text, the shell action runs at most one program, and only one of the allowlist, every
  argument being a flag of its list or, for \<open>ls\<close> alone, a path that resolves inside the workspace. Otherwise it
  runs nothing.\<close>

theorem shell_runs_only_allowed:
  assumes "execute_shell_command env command w = (r, w')"
  shows "w' = w \<or> (\<exists>program args pol. w' = w @ [program # args] \<and> (program, pol) \<in> set safe_commands
     \<and> (\<forall>t \<in> set args. if startswith t ''-'' then t \<in> set (flags pol)
          else program = ''ls'' \<and> (\<exists>p. resolve env t = Inr (base_dir env @ p))))"
proof (cases "w' = w")
  case False
  have ls: "(program, pol) \<in> set safe_commands \<Longrightarrow> allow_path pol \<Longrightarrow> program = ''ls''" for program pol
    by (auto simp: safe_commands_def)
  from False assms obtain program args where split: "shlex_split (strip command) = Inr (program # args)"
    by (auto simp: execute_shell_command_def Let_def split: if_splits sum.splits list.splits)
  with False assms obtain pol where pol: "map_of safe_commands program = Some pol"
    by (auto simp: execute_shell_command_def Let_def split: if_splits option.splits)
  with False assms split have c: "check_args env program pol args = Inr None"
    by (cases "check_args env program pol args")
      (auto simp: execute_shell_command_def Let_def split: if_splits option.splits)
  then have "execute_shell_command env command w = run_argv env (program # args) w"
    using split pol False assms by (auto simp: execute_shell_command_def Let_def split: if_splits)
  then have "w' = w @ [program # args]"
    using assms by (auto simp: run_argv_def act_bind_app split: sum.splits prod.splits)
  moreover have "(program, pol) \<in> set safe_commands" by (rule map_of_SomeD [OF pol])
  moreover have "\<forall>t \<in> set args. arg_allowed env pol t" using c by (simp add: check_args_iff)
  ultimately show ?thesis using ls by (intro disjI2 exI [of _ program] exI [of _ args] exI [of _ pol]) (auto simp: arg_allowed_def)
qed simp



definition ls_env :: shell_env where
  "ls_env = \<lparr>base_dir = [''ws''], resolve = (\<lambda>t. Inr (if t = ''docs'' then [''ws'', ''docs''] else [''etc''])),
     run_program = (\<lambda>_. Inr (''a.md'', []))\<rparr>"

theorem shell_runs_only_allowed_witness:
  "\<exists>w'. execute_shell_command ls_env '' ls -la docs'' [] = (Inr ''a.md'', w') \<and> w' = [[''ls'', ''-la'', ''docs'']]
     \<and> (\<exists>program args. w' = [] @ [program # args] \<and> program \<in> set (map fst safe_commands))"
proof -
  have run: "execute_shell_command ls_env '' ls -la docs'' [] = (Inr ''a.md'', [[''ls'', ''-la'', ''docs'']])" by code_simp
  from shell_runs_only_allowed [OF run] run show ?thesis by force
qed


end
