(* ===== verification/Profiles.thy ===== *)
theory Profiles
  imports HI_State
begin

text \<open>
  Model of \<open>Jarvis/profile_manager.py\<close>: the profiles file of the assistant with its four sections, the
  defaults merged into it, the identity fields of the AI section, the overlay of the human's fields from
  \<open>state.json\<close>, and the session of the last and the pending command. The lock serialises the calls, so
  each is one step on the file; the document of \<open>state.json\<close> is an argument.
\<close>

section \<open>The defaults\<close>

definition default_ai :: obj where
  "default_ai =
     [(''name'', JStr ''Jarvis''), (''connectivity'', JStr ''online''), (''tts_voice'', JStr ''en-US-AriaNeural''),
      (''tts_offline_voice'', JStr ''en-gb-x-rp''), (''tts_speed'', JDec 10 1),
      (''type'', JStr ''Artificial Intelligence System''), (''role'', JStr ''assistant''),
      (''capabilities'', JArr (map JStr [''voice recognition'', ''task execution'', ''automation'', ''analysis'',
         ''context-aware responses''])),
      (''mode'', JStr ''assistant''),
      (''intro'', JStr (''Hello, I am Jarvis, your Artificial Intelligence assistant. '' @
         ''I am designed to understand commands, process information, and execute tasks efficiently. '' @
         ''My purpose is to assist you in managing systems, automating workflows, and providing intelligent responses based on data and context.''))]"

definition default_hi :: obj where
  "default_hi =
     [(''name'', JStr ''Amit Kumar Yadav''), (''full_name'', JStr ''Amit Kumar Yadav''),
      (''type'', JStr ''Human Intelligence''), (''role'', JStr ''owner''), (''permissions'', JArr [JStr ''full_access'']),
      (''language'', JStr ''en''), (''domain'', JStr ''kingofyadav.in''), (''preferred_intro_mode'', JStr ''normal''),
      (''preferred_response_mode'', JStr ''adaptive''), (''preferred_command_style'', JStr ''natural''),
      (''trusted_device_name'', JStr ''Jarvis''), (''preferred_mic_device'', JInt 5), (''wake_phrase'', JStr ''jarvis''),
      (''intro'', JStr (''I am the primary user and controller of this system. '' @
         ''My role is to provide commands, make decisions, and define objectives. '' @
         ''I rely on the AI to assist with execution, automation, and analysis. '' @
         ''The AI should prioritize my instructions, maintain context, and operate within defined boundaries.''))]"

definition default_relation :: obj where
  "default_relation = [(''human_role'', JStr ''decision making''), (''ai_role'', JStr ''execution and assistance''),
     (''bridge_role'', JStr ''intent processing''), (''voice_input_role'', JStr ''command capture'')]"

definition session_fields :: "string list" where
  "session_fields = [''last_intent'', ''last_action'', ''last_command'', ''last_successful_action'', ''last_risk_tier'',
     ''pending_action'', ''pending_payload'', ''pending_command'', ''pending_since'', ''device_name'']"

definition default_session :: obj where
  "default_session = map (\<lambda>k. (k, JStr [])) session_fields"

definition default_profiles :: obj where
  "default_profiles = [(''AI'', JObj default_ai), (''HI'', JObj default_hi), (''relationship'', JObj default_relation),
     (''session'', JObj default_session)]"

section \<open>Merging, overlay and identity\<close>

definition merge_value :: "json option \<Rightarrow> json \<Rightarrow> json" where
  "merge_value base v = (case (v, base) of (JObj e, Some (JObj b)) \<Rightarrow> JObj (dupdate b e) | _ \<Rightarrow> v)"

fun merge_into :: "obj \<Rightarrow> obj \<Rightarrow> obj" where
  "merge_into m [] = m"
| "merge_into m ((k, v) # d) = merge_into (dset k (merge_value (dget m k) v) m) d"

definition merge_defaults :: "obj \<Rightarrow> obj" where
  "merge_defaults d = merge_into default_profiles d"

text \<open>\<open>if src.get(k): hi[k'] = src[k]\<close>\<close>

definition copy_field :: "obj \<Rightarrow> string \<Rightarrow> string \<Rightarrow> json \<Rightarrow> json outcome" where
  "copy_field src k k' hi =
     (if truthy (jget src k) then (case hi of JObj h \<Rightarrow> Inr (JObj (dset k' (jget src k) h)) | _ \<Rightarrow> Inl TypeError)
      else Inr hi)"

definition overlay_hi :: "state_doc \<Rightarrow> obj \<Rightarrow> obj outcome" where
  "overlay_hi file profiles =
     (case file of
        Doc v \<Rightarrow>
          (let p = dsetdefault ''HI'' (JObj []) profiles in
           and_then (as_obj v) (\<lambda>s.
           and_then (as_obj (dget_or s ''profile'' (JObj []))) (\<lambda>sp.
           and_then (copy_field sp ''name'' ''name'' (jget p ''HI'')) (\<lambda>h1.
           and_then (copy_field sp ''domain'' ''domain'' h1) (\<lambda>h2.
           and_then (copy_field sp ''language'' ''language'' h2) (\<lambda>h3.
           and_then (as_obj (dget_or s ''preferences'' (JObj []))) (\<lambda>prefs.
           and_then (copy_field prefs ''response_mode'' ''preferred_response_mode'' h3) (\<lambda>h4.
             Inr (dset ''HI'' h4 p)))))))))
      | _ \<Rightarrow> Inr profiles)"

definition ensure_ai_identity :: "host_env \<Rightarrow> obj \<Rightarrow> obj" where
  "ensure_ai_identity env ai =
     (let a1 = set_if_empty ''id'' (generate_id env ''ai'') ai;
          a2 = set_if_empty ''created_at'' (now_iso env) a1;
          a3 = set_if_empty ''connectivity'' ''online'' a2
      in dset ''fingerprint'' (JStr (make_fingerprint env [jget a3 ''id'', dget_or a3 ''name'' (JStr ''Jarvis'')])) a3)"

section \<open>Loading and saving\<close>

definition save_profiles :: "obj \<Rightarrow> (state_doc, unit) act" where
  "save_profiles p = act_modify (\<lambda>_. Doc (JObj (merge_defaults p)))"

definition load_profiles :: "host_env \<Rightarrow> state_doc \<Rightarrow> (state_doc, obj) act" where
  "load_profiles env hi =
     act_bind (act_get id) (\<lambda>doc.
     act_bind (act_of (case doc of
         Missing \<Rightarrow> and_then (overlay_hi hi default_profiles) (\<lambda>p. Inr (False, p))
       | Garbled \<Rightarrow> Inl (ValueError [])
       | Doc raw \<Rightarrow>
           and_then (as_obj raw) (\<lambda>d.
           and_then (as_obj (dget_or d ''AI'' (JObj []))) (\<lambda>ai.
           and_then (overlay_hi hi (merge_defaults d)) (\<lambda>p. Inr (truthy (jget ai ''id''), p))))))
     (\<lambda>(had_id, p).
        act_bind (act_of (and_then (as_obj (dget_or p ''AI'' (JObj []))) (\<lambda>ai.
                    Inr (dset ''AI'' (JObj (ensure_ai_identity env ai)) p)))) (\<lambda>p'.
        act_bind (if had_id then act_return () else save_profiles p') (\<lambda>_. act_return p'))))"

text \<open>\<open>data[sec].update(fs)\<close>; the error for a section that is no dict is the caller's.\<close>

definition update_section ::
  "host_env \<Rightarrow> state_doc \<Rightarrow> exn \<Rightarrow> string \<Rightarrow> obj \<Rightarrow> (state_doc, unit) act" where
  "update_section env hi err sec fs =
     act_bind (load_profiles env hi) (\<lambda>p.
       case dget_or p sec (JObj []) of
         JObj s \<Rightarrow> save_profiles (dset sec (JObj (dupdate s fs)) p)
       | _ \<Rightarrow> act_raise err)"

definition update_hi_field :: "host_env \<Rightarrow> state_doc \<Rightarrow> string \<Rightarrow> json \<Rightarrow> (state_doc, unit) act" where
  "update_hi_field env hi field v = update_section env hi TypeError ''HI'' [(field, v)]"

definition update_ai_field :: "host_env \<Rightarrow> state_doc \<Rightarrow> string \<Rightarrow> json \<Rightarrow> (state_doc, unit) act" where
  "update_ai_field env hi field v = update_section env hi TypeError ''AI'' [(field, v)]"

definition update_session_field :: "host_env \<Rightarrow> state_doc \<Rightarrow> string \<Rightarrow> json \<Rightarrow> (state_doc, unit) act" where
  "update_session_field env hi field v = update_section env hi TypeError ''session'' [(field, v)]"

definition bulk_update_session :: "host_env \<Rightarrow> state_doc \<Rightarrow> obj \<Rightarrow> (state_doc, unit) act" where
  "bulk_update_session env hi fs = update_section env hi AttributeError ''session'' fs"

definition cleared_pending :: obj where
  "cleared_pending = [(''pending_action'', JStr []), (''pending_payload'', JStr []), (''pending_command'', JStr []),
     (''pending_since'', JStr [])]"

definition clear_pending_confirmation :: "host_env \<Rightarrow> state_doc \<Rightarrow> (state_doc, unit) act" where
  "clear_pending_confirmation env hi = update_section env hi TypeError ''session'' cleared_pending"

definition reset_session :: "host_env \<Rightarrow> state_doc \<Rightarrow> (state_doc, unit) act" where
  "reset_session env hi =
     act_bind (load_profiles env hi) (\<lambda>p. save_profiles (dset ''session'' (JObj default_session) p))"

definition get_section :: "host_env \<Rightarrow> state_doc \<Rightarrow> string \<Rightarrow> (state_doc, json) act" where
  "get_section env hi sec = act_bind (load_profiles env hi) (\<lambda>p. act_return (dget_or p sec (JObj [])))"

definition get_session :: "host_env \<Rightarrow> state_doc \<Rightarrow> (state_doc, json) act" where
  "get_session env hi = get_section env hi ''session''"

section \<open>Lemmas: merging\<close>

declare map_of_eq_Some_iff [simp del]

lemma map_of_dupdate_distinct:
  "distinct (dkeys e) \<Longrightarrow> map_of (dupdate d e) k = (case map_of e k of None \<Rightarrow> map_of d k | Some v \<Rightarrow> Some v)"
proof (induction d e rule: dupdate.induct)
  case (2 d k' v e)
  then have "map_of e k' = None" by (simp add: map_of_eq_None_iff)
  with 2 show ?case by (simp split: option.split)
qed simp

lemma map_of_merge_into:
  "distinct (dkeys d) \<Longrightarrow> map_of (merge_into m d) k =
     (case map_of d k of None \<Rightarrow> map_of m k | Some v \<Rightarrow> Some (merge_value (map_of m k) v))"
proof (induction m d rule: merge_into.induct)
  case (2 m k' v d)
  then have "map_of d k' = None" by (simp add: map_of_eq_None_iff)
  with 2 show ?case by (auto split: option.split)
qed simp

lemma distinct_merge_into [simp]: "distinct (dkeys m) \<Longrightarrow> distinct (dkeys (merge_into m d))"
  by (induction m d rule: merge_into.induct) simp_all

lemma default_profiles_distinct [simp]: "distinct (dkeys default_profiles)"
  by (simp add: default_profiles_def)

lemma default_session_get: "map_of default_session k = (if k \<in> set session_fields then Some (JStr []) else None)"
  by (simp add: default_session_def map_of_map_restrict comp_def)

lemma default_session_distinct [simp]: "distinct (dkeys default_session)"
  by (simp add: default_session_def session_fields_def)


section \<open>Lemmas: loading and updating\<close>

text \<open>What a load sees in a section of the file, before identity and overlay.\<close>

definition sec_get :: "state_doc \<Rightarrow> string \<Rightarrow> string \<Rightarrow> json option" where
  "sec_get f sec k =
     (case f of Doc (JObj d) \<Rightarrow> (case dget (merge_defaults d) sec of Some (JObj s) \<Rightarrow> map_of s k | _ \<Rightarrow> None) | _ \<Rightarrow> None)"

definition sections_ok :: "obj \<Rightarrow> bool" where
  "sections_ok d \<longleftrightarrow> distinct (dkeys d) \<and>
     (\<forall>sec \<in> {''AI'', ''HI'', ''session''}. \<exists>s. dget d sec = Some (JObj s) \<and> distinct (dkeys s) \<and> (sec = ''AI'' \<longrightarrow> truthy (jget s ''id'')))"

definition profiles_ok :: "state_doc \<Rightarrow> bool" where
  "profiles_ok f \<longleftrightarrow> (\<exists>d. f = Doc (JObj d) \<and> sections_ok d)"

definition hi_file_ok :: "state_doc \<Rightarrow> bool" where
  "hi_file_ok f \<longleftrightarrow> (case f of Doc v \<Rightarrow> (case v of JObj s \<Rightarrow>
       is_obj (dget_or s ''profile'' (JObj [])) \<and> is_obj (dget_or s ''preferences'' (JObj [])) | _ \<Rightarrow> False) | _ \<Rightarrow> True)"

lemma is_objE: "is_obj v \<Longrightarrow> (\<And>d. v = JObj d \<Longrightarrow> P) \<Longrightarrow> P"
  by (cases v) auto

lemma default_profiles_get:
  "dget default_profiles ''AI'' = Some (JObj default_ai)" "dget default_profiles ''HI'' = Some (JObj default_hi)"
  "dget default_profiles ''session'' = Some (JObj default_session)"
  by (simp_all add: default_profiles_def)

lemma default_sections_distinct [simp]: "distinct (dkeys default_ai)" "distinct (dkeys default_hi)"
  by (simp_all add: default_ai_def default_hi_def)

lemma default_section:
  "sec \<in> {''AI'', ''HI'', ''session''} \<Longrightarrow> \<exists>b. dget default_profiles sec = Some (JObj b) \<and> distinct (dkeys b)"
  by (elim insertE emptyE) (simp_all add: default_profiles_get)

lemma merged_section:
  assumes "distinct (dkeys d)" "dget d sec = Some (JObj s)" "dget default_profiles sec = Some (JObj b)"
  shows "dget (merge_defaults d) sec = Some (JObj (dupdate b s))"
  using assms by (simp add: merge_defaults_def map_of_merge_into merge_value_def)

lemma merge_sections_ok:
  assumes "sections_ok d"
  shows "sections_ok (merge_defaults d)"
  unfolding sections_ok_def
proof (intro conjI ballI)
  show "distinct (dkeys (merge_defaults d))" by (simp add: merge_defaults_def)
next
  fix sec assume sec: "sec \<in> {''AI'', ''HI'', ''session''}"
  then obtain b where b: "dget default_profiles sec = Some (JObj b)" "distinct (dkeys b)" using default_section by blast
  from assms sec obtain s where s: "dget d sec = Some (JObj s)" "distinct (dkeys s)" "sec = ''AI'' \<longrightarrow> truthy (jget s ''id'')"
    unfolding sections_ok_def by blast
  have d: "distinct (dkeys d)" using assms by (simp add: sections_ok_def)
  have "sec = ''AI'' \<longrightarrow> truthy (jget (dupdate b s) ''id'')"
    using s(3) by (simp add: dget_or_def map_of_dupdate_distinct [OF s(2)] split: option.split_asm)
  then show "\<exists>s. dget (merge_defaults d) sec = Some (JObj s) \<and> distinct (dkeys s) \<and> (sec = ''AI'' \<longrightarrow> truthy (jget s ''id''))"
    using merged_section [OF d s(1) b(1)] b(2) by simp
qed

lemma sections_ok_dset:
  assumes "sections_ok d" "sec = ''AI'' \<longrightarrow> truthy (jget s ''id'')" "distinct (dkeys s)"
  shows "sections_ok (dset sec (JObj s) d)"
  unfolding sections_ok_def
proof (intro conjI ballI)
  show "distinct (dkeys (dset sec (JObj s) d))" using assms(1) by (simp add: sections_ok_def)
  fix sec' assume sec': "sec' \<in> {''AI'', ''HI'', ''session''}"
  show "\<exists>s'. dget (dset sec (JObj s) d) sec' = Some (JObj s') \<and> distinct (dkeys s') \<and> (sec' = ''AI'' \<longrightarrow> truthy (jget s' ''id''))"
  proof (cases "sec' = sec")
    case True
    then show ?thesis using assms(2,3) by (intro exI [of _ s]) simp
  next
    case False
    have "dget (dset sec (JObj s) d) sec' = dget d sec'" using False by (simp add: map_of_dset)
    moreover have "\<exists>s'. dget d sec' = Some (JObj s') \<and> distinct (dkeys s') \<and> (sec' = ''AI'' \<longrightarrow> truthy (jget s' ''id''))"
      using assms(1) sec' unfolding sections_ok_def by blast
    ultimately show ?thesis by presburger
  qed
qed

text \<open>A section after a save is the section that was saved, over the defaults.\<close>

lemma sec_get_saved:
  assumes "sections_ok p" "dget p sec = Some (JObj s)" "sec \<in> {''AI'', ''HI'', ''session''}"
  shows "sec_get (Doc (JObj (merge_defaults p))) sec k
     = (case map_of s k of Some v \<Rightarrow> Some v | None \<Rightarrow> (case dget default_profiles sec of Some (JObj b) \<Rightarrow> map_of b k | _ \<Rightarrow> None))"
proof -
  obtain b where b: "dget default_profiles sec = Some (JObj b)" "distinct (dkeys b)" using assms(3) default_section by blast
  have p: "distinct (dkeys p)" "distinct (dkeys s)" using assms by (auto simp: sections_ok_def)
  have one: "dget (merge_defaults p) sec = Some (JObj (dupdate b s))" by (rule merged_section [OF p(1) assms(2) b(1)])
  have "dget (merge_defaults (merge_defaults p)) sec = Some (JObj (dupdate b (dupdate b s)))"
    by (rule merged_section [OF _ one b(1)]) (simp add: merge_defaults_def)
  then show ?thesis
    using b p by (simp add: sec_get_def map_of_dupdate_distinct split: option.split)
qed

lemma overlay_ok:
  assumes "hi_file_ok hi" and h0: "dget p ''HI'' = Some (JObj h0)" "distinct (dkeys h0)"
  shows "\<exists>h. overlay_hi hi p = Inr (dset ''HI'' (JObj h) p) \<and> distinct (dkeys h)"
proof -
  have c: "\<exists>h'. copy_field src k k' (JObj h) = Inr (JObj h') \<and> distinct (dkeys h')" if "distinct (dkeys h)" for src k k' h
    using that by (simp add: copy_field_def)
  have set: "dsetdefault ''HI'' (JObj []) p = p" using h0(1) by (simp add: dsetdefault_def dhas_def)
  have get: "jget p ''HI'' = JObj h0" using h0(1) by (simp add: dget_or_def)
  show ?thesis
  proof (cases hi)
    case (Doc v)
    with assms(1) obtain s sp prefs where "v = JObj s" "dget_or s ''profile'' (JObj []) = JObj sp" "dget_or s ''preferences'' (JObj []) = JObj prefs"
      by (auto simp: hi_file_ok_def elim!: is_objE split: json.splits)
    moreover obtain h1 where h1: "copy_field sp ''name'' ''name'' (JObj h0) = Inr (JObj h1)" "distinct (dkeys h1)" using c [OF h0(2)] by blast
    moreover obtain h2 where h2: "copy_field sp ''domain'' ''domain'' (JObj h1) = Inr (JObj h2)" "distinct (dkeys h2)" using c [OF h1(2)] by blast
    moreover obtain h3 where h3: "copy_field sp ''language'' ''language'' (JObj h2) = Inr (JObj h3)" "distinct (dkeys h3)" using c [OF h2(2)] by blast
    moreover obtain h4 where h4: "copy_field prefs ''response_mode'' ''preferred_response_mode'' (JObj h3) = Inr (JObj h4)" "distinct (dkeys h4)"
      using c [OF h3(2)] by blast
    ultimately show ?thesis by (intro exI [of _ h4]) (simp add: overlay_hi_def Doc Let_def set get)
  qed (use h0 dset_same [of p "''HI''"] in \<open>auto simp: overlay_hi_def intro!: exI [of _ h0]\<close>)
qed

lemma ensure_ai_ok:
  "distinct (dkeys ai) \<Longrightarrow> truthy (jget ai ''id'') \<Longrightarrow>
     distinct (dkeys (ensure_ai_identity env ai)) \<and> jget (ensure_ai_identity env ai) ''id'' = jget ai ''id''"
  by (auto simp: ensure_ai_identity_def Let_def set_if_empty_def)

lemma load_ok:
  assumes "profiles_ok f" "hi_file_ok hi"
  shows "\<exists>p. load_profiles env hi f = (Inr p, f) \<and> sections_ok p
     \<and> (\<forall>s. dget p ''session'' = Some (JObj s) \<longrightarrow> (\<forall>k. map_of s k = sec_get f ''session'' k))
     \<and> (\<forall>s. dget p ''AI'' = Some (JObj s) \<longrightarrow> Some (jget s ''id'') = sec_get f ''AI'' ''id'' \<and> map_of s ''name'' = sec_get f ''AI'' ''name'')"
proof -
  obtain d where f: "f = Doc (JObj d)" and d: "sections_ok d" using assms(1) by (auto simp: profiles_ok_def)
  have m: "sections_ok (merge_defaults d)" by (rule merge_sections_ok [OF d])
  from m obtain h0 where "dget (merge_defaults d) ''HI'' = Some (JObj h0)" "distinct (dkeys h0)" unfolding sections_ok_def by blast
  from overlay_ok [OF assms(2) this] obtain h where h: "overlay_hi hi (merge_defaults d) = Inr (dset ''HI'' (JObj h) (merge_defaults d))"
    "distinct (dkeys h)" by blast
  from m obtain ai where ai: "dget (merge_defaults d) ''AI'' = Some (JObj ai)" "distinct (dkeys ai)" "truthy (jget ai ''id'')"
    by (auto simp: sections_ok_def)
  from d obtain ai0 where ai0: "dget d ''AI'' = Some (JObj ai0)" "truthy (jget ai0 ''id'')" by (auto simp: sections_ok_def)
  let ?q = "dset ''HI'' (JObj h) (merge_defaults d)"
  let ?p = "dset ''AI'' (JObj (ensure_ai_identity env ai)) ?q"
  have "load_profiles env hi f = (Inr ?p, f)"
    using ai0 h(1) ai(1) by (simp add: load_profiles_def f act_bind_app dget_or_def)
  moreover have "sections_ok ?q" by (rule sections_ok_dset [OF m]) (simp_all add: h(2))
  from sections_ok_dset [OF this, of "''AI''"] ensure_ai_ok [OF ai(2,3)] ai(3) have "sections_ok ?p" by simp
  moreover have "map_of s k = sec_get f ''session'' k" if "dget ?p ''session'' = Some (JObj s)" for s k
    using that by (simp add: sec_get_def f)
  moreover have "Some (jget (ensure_ai_identity env ai) ''id'') = sec_get f ''AI'' ''id'' \<and>
      map_of (ensure_ai_identity env ai) ''name'' = sec_get f ''AI'' ''name''"
    using ai by (auto simp: sec_get_def f ensure_ai_identity_def Let_def set_if_empty_def dget_or_def split: option.splits dest: map_of_SomeD)
  ultimately show ?thesis by (intro exI [of _ ?p]) simp
qed

text \<open>With an unreadable \<open>state.json\<close> a load raises and leaves the file.\<close>

lemma as_obj_Inr: "as_obj v = Inr d \<longleftrightarrow> v = JObj d"
  by (cases v) auto

lemma overlay_Inr: "overlay_hi hi p = Inr q \<Longrightarrow> hi_file_ok hi"
  by (auto simp: overlay_hi_def hi_file_ok_def Let_def as_obj_Inr split: state_doc.splits)

lemma load_bad:
  assumes "profiles_ok f" "\<not> hi_file_ok hi"
  shows "\<exists>x. load_profiles env hi f = (Inl x, f)"
proof -
  obtain d where f: "f = Doc (JObj d)" and d: "sections_ok d" using assms(1) by (auto simp: profiles_ok_def)
  obtain ai where ai: "dget d ''AI'' = Some (JObj ai)" using d by (auto simp: sections_ok_def)
  obtain x where "overlay_hi hi (merge_defaults d) = Inl x"
    using assms(2) overlay_Inr by (cases "overlay_hi hi (merge_defaults d)") blast+
  then show ?thesis using ai by (simp add: load_profiles_def f act_bind_app dget_or_def)
qed

definition over :: "obj \<Rightarrow> (string \<Rightarrow> json option) \<Rightarrow> string \<Rightarrow> json option" where
  "over fs g k = (case map_of fs k of Some v \<Rightarrow> Some v | None \<Rightarrow> g k)"

lemma sec_get_default:
  assumes "sections_ok p" "dget p sec = Some (JObj s)" "sec \<in> {''AI'', ''HI'', ''session''}"
    "\<And>k. map_of s k = sec_get f sec k" "profiles_ok f"
  shows "sec_get (Doc (JObj (merge_defaults p))) sec k = sec_get f sec k"
proof -
  obtain b where b: "dget default_profiles sec = Some (JObj b)" "distinct (dkeys b)" using assms(3) default_section by blast
  obtain d where f: "f = Doc (JObj d)" and d: "sections_ok d" using assms(5) by (auto simp: profiles_ok_def)
  obtain s0 where s0: "dget d sec = Some (JObj s0)" "distinct (dkeys s0)" using d assms(3) unfolding sections_ok_def by blast
  have "distinct (dkeys d)" using d by (simp add: sections_ok_def)
  from merged_section [OF this s0(1) b(1)] have "sec_get f sec k = map_of (dupdate b s0) k" by (simp add: sec_get_def f)
  then have "sec_get f sec k = None \<Longrightarrow> map_of b k = None" using s0(2) by (simp add: map_of_dupdate_distinct split: option.splits)
  then show ?thesis using assms(4) b(1) by (simp add: sec_get_saved [OF assms(1-3)] split: option.split)
qed

text \<open>An update of one section succeeds; it overrides the fields in its section and leaves the session of the others.\<close>

lemma update_ok:
  assumes ok: "profiles_ok f" "hi_file_ok hi" and sec: "sec \<in> {''AI'', ''HI'', ''session''}"
    and fs: "distinct (dkeys fs)" "sec = ''AI'' \<longrightarrow> ''id'' \<notin> set (dkeys fs)"
  shows "\<exists>f'. update_section env hi e sec fs f = (Inr (), f') \<and> profiles_ok f'
     \<and> (\<forall>k. sec_get f' ''session'' k = (if sec = ''session'' then over fs (sec_get f ''session'') k else sec_get f ''session'' k))
     \<and> sec_get f' ''AI'' ''id'' = sec_get f ''AI'' ''id''"
proof -
  from load_ok [OF ok, of env] obtain p where load: "load_profiles env hi f = (Inr p, f)" and p: "sections_ok p"
    and ses: "\<And>s k. dget p ''session'' = Some (JObj s) \<Longrightarrow> map_of s k = sec_get f ''session'' k"
    and ai: "\<And>s. dget p ''AI'' = Some (JObj s) \<Longrightarrow> Some (jget s ''id'') = sec_get f ''AI'' ''id''" by blast
  from p sec obtain s where s: "dget p sec = Some (JObj s)" "distinct (dkeys s)" "sec = ''AI'' \<longrightarrow> truthy (jget s ''id'')"
    unfolding sections_ok_def by blast
  let ?p = "dset sec (JObj (dupdate s fs)) p"
  have id: "jget (dupdate s fs) ''id'' = jget s ''id''" if "sec = ''AI''"
    using that fs by (simp add: dget_or_def map_of_dupdate_distinct map_of_eq_None_iff [THEN iffD2])
  have okp: "sections_ok ?p" using id s by (intro sections_ok_dset [OF p]) simp_all
  let ?f = "Doc (JObj (merge_defaults ?p))"
  have run: "update_section env hi e sec fs f = (Inr (), ?f)"
    using load s(1) by (simp add: update_section_def dget_or_def save_profiles_def)
  have "sec_get ?f ''session'' k = (if sec = ''session'' then over fs (sec_get f ''session'') k else sec_get f ''session'' k)" for k
  proof (cases "sec = ''session''")
    case True
    have get: "dget ?p ''session'' = Some (JObj (dupdate s fs))" by (simp add: True)
    have "map_of (dupdate s fs) k = over fs (sec_get f ''session'') k"
      using fs(1) ses s(1) True by (simp add: over_def map_of_dupdate_distinct split: option.split)
    moreover have "map_of default_session k = None" if "sec_get f ''session'' k = None"
    proof -
      obtain d where f: "f = Doc (JObj d)" and d: "sections_ok d" using ok(1) by (auto simp: profiles_ok_def)
      obtain s0 where s0: "dget d ''session'' = Some (JObj s0)" "distinct (dkeys s0)" using d unfolding sections_ok_def by blast
      have "distinct (dkeys d)" using d by (simp add: sections_ok_def)
      from merged_section [OF this s0(1) default_profiles_get(3)] s0(2) that show ?thesis
        by (simp add: sec_get_def f map_of_dupdate_distinct split: option.splits)
    qed
    ultimately show ?thesis
      using sec_get_saved [OF okp get, of k] True
      by (cases "map_of fs k"; cases "sec_get f ''session'' k") (simp_all add: default_profiles_get over_def)
  next
    case False
    obtain t where t: "dget p ''session'' = Some (JObj t)" using p unfolding sections_ok_def by blast
    with False have get: "dget ?p ''session'' = Some (JObj t)" by simp
    show ?thesis using False sec_get_default [OF okp get _ ses [OF t] ok(1)] by simp
  qed
  moreover have "sec_get ?f ''AI'' ''id'' = sec_get f ''AI'' ''id''"
  proof -
    obtain a where a: "dget p ''AI'' = Some (JObj a)" using p unfolding sections_ok_def by blast
    obtain a' where a': "dget ?p ''AI'' = Some (JObj a')" "jget a' ''id'' = jget a ''id''"
      using a id s(1) by (cases "sec = ''AI''") auto
    have "truthy (jget a' ''id'')" using okp a'(1) unfolding sections_ok_def by force
    then have "map_of a' ''id'' = Some (jget a' ''id'')" by (cases "map_of a' ''id''") (simp_all add: dget_or_def)
    then show ?thesis using sec_get_saved [OF okp a'(1), of "''id''"] a'(2) ai [OF a, symmetric] by simp
  qed
  moreover have "profiles_ok ?f" using merge_sections_ok [OF okp] by (simp add: profiles_ok_def)
  ultimately show ?thesis using run by blast
qed

lemma get_session_ok:
  assumes "profiles_ok f" "hi_file_ok hi"
  shows "\<exists>s. get_session env hi f = (Inr (JObj s), f) \<and> (\<forall>k. map_of s k = sec_get f ''session'' k)"
proof -
  from load_ok [OF assms, of env] obtain p where p: "load_profiles env hi f = (Inr p, f)" "sections_ok p"
    and ses: "\<And>s k. dget p ''session'' = Some (JObj s) \<Longrightarrow> map_of s k = sec_get f ''session'' k" by blast
  from p(2) obtain s where s: "dget p ''session'' = Some (JObj s)" unfolding sections_ok_def by blast
  then show ?thesis using p(1) ses [OF s] by (intro exI [of _ s]) (simp add: get_session_def get_section_def dget_or_def)
qed

text \<open>Fields written to the session are read back by the next reader, at any time and whatever is in
  \<open>state.json\<close>, and no other field of the session changes.\<close>

theorem session_update_read_back:
  assumes "profiles_ok f" "hi_file_ok hi" "hi_file_ok hi'" "distinct (dkeys fs)"
  shows "\<exists>f' s. bulk_update_session env hi fs f = (Inr (), f') \<and> get_session env' hi' f' = (Inr (JObj s), f')
     \<and> (\<forall>k. map_of s k = (case map_of fs k of Some v \<Rightarrow> Some v | None \<Rightarrow> sec_get f ''session'' k))"
proof -
  have "''session'' \<in> {''AI'', ''HI'', ''session''}" by simp
  from update_ok [OF assms(1,2) this assms(4), of env AttributeError] obtain f' where
    f': "bulk_update_session env hi fs f = (Inr (), f')" "profiles_ok f'"
      "\<And>k. sec_get f' ''session'' k = over fs (sec_get f ''session'') k"
    by (auto simp: bulk_update_session_def)
  from get_session_ok [OF f'(2) assms(3), of env'] f' show ?thesis by (fastforce simp: over_def)
qed


lemma first_load:
  assumes "hi_file_ok hi"
  shows "\<exists>p f. load_profiles env hi Missing = (Inr p, f) \<and> profiles_ok f
     \<and> sec_get f ''AI'' ''id'' = Some (JStr (generate_id env ''ai'')) \<and> sec_get f ''session'' = map_of default_session"
proof -
  let ?d = default_profiles and ?ai = "ensure_ai_identity env default_ai"
  from overlay_ok [OF assms default_profiles_get(2)] obtain h where h: "overlay_hi hi ?d = Inr (dset ''HI'' (JObj h) ?d)" "distinct (dkeys h)"
    by auto
  let ?p = "dset ''AI'' (JObj ?ai) (dset ''HI'' (JObj h) ?d)"
  have id: "jget default_ai ''id'' = JNull" by (simp add: default_ai_def dget_or_def)
  have ai: "distinct (dkeys ?ai)" "map_of ?ai ''id'' = Some (JStr (generate_id env ''ai''))"
    by (simp_all add: ensure_ai_identity_def Let_def set_if_empty_def id)
  then have "truthy (jget ?ai ''id'')" by (simp add: dget_or_def generate_id_def)
  then have ok: "sections_ok ?p"
    unfolding sections_ok_def using ai(1) h(2) by (simp add: default_profiles_get)
  have run: "load_profiles env hi Missing = (Inr ?p, Doc (JObj (merge_defaults ?p)))"
    using h(1) by (simp add: load_profiles_def act_bind_app dget_or_def default_profiles_get save_profiles_def)
  have get: "dget ?p ''AI'' = Some (JObj ?ai)" "dget ?p ''session'' = Some (JObj default_session)"
    by (simp_all add: default_profiles_get)
  have "sec_get (Doc (JObj (merge_defaults ?p))) ''session'' = map_of default_session"
    using sec_get_saved [OF ok get(2)] by (auto simp: default_profiles_get split: option.split)
  moreover have "sec_get (Doc (JObj (merge_defaults ?p))) ''AI'' ''id'' = Some (JStr (generate_id env ''ai''))"
    using sec_get_saved [OF ok get(1)] ai(2) by simp
  moreover have "profiles_ok (Doc (JObj (merge_defaults ?p)))" using merge_sections_ok [OF ok] by (simp add: profiles_ok_def)
  ultimately show ?thesis using run by blast
qed

text \<open>What can happen to the profiles file of an installation after its first load.\<close>

inductive profile_step :: "state_doc \<Rightarrow> state_doc \<Rightarrow> bool" where
  load: "hi_file_ok hi \<Longrightarrow> profile_step f (snd (load_profiles env hi f))"
| update: "hi_file_ok hi \<Longrightarrow> sec \<in> {''AI'', ''HI'', ''session''} \<Longrightarrow> distinct (dkeys fs) \<Longrightarrow> sec = ''AI'' \<longrightarrow> ''id'' \<notin> set (dkeys fs) \<Longrightarrow>
    profile_step f (snd (update_section env hi e sec fs f))"
| reset: "hi_file_ok hi \<Longrightarrow> profile_step f (snd (reset_session env hi f))"

lemma reset_ok:
  assumes "profiles_ok f" "hi_file_ok hi"
  shows "\<exists>f'. reset_session env hi f = (Inr (), f') \<and> profiles_ok f'
     \<and> sec_get f' ''session'' = map_of default_session \<and> sec_get f' ''AI'' ''id'' = sec_get f ''AI'' ''id''"
proof -
  from load_ok [OF assms, of env] obtain p where load: "load_profiles env hi f = (Inr p, f)" and p: "sections_ok p"
    and ai: "\<And>s. dget p ''AI'' = Some (JObj s) \<Longrightarrow> Some (jget s ''id'') = sec_get f ''AI'' ''id''" by blast
  let ?p = "dset ''session'' (JObj default_session) p"
  have okp: "sections_ok ?p" by (rule sections_ok_dset [OF p]) simp_all
  obtain a where a: "dget ?p ''AI'' = Some (JObj a)" "truthy (jget a ''id'')" "dget p ''AI'' = Some (JObj a)"
    using p unfolding sections_ok_def by force
  then have "map_of a ''id'' = Some (jget a ''id'')" by (cases "map_of a ''id''") (simp_all add: dget_or_def)
  then have "sec_get (Doc (JObj (merge_defaults ?p))) ''AI'' ''id'' = sec_get f ''AI'' ''id''"
    using sec_get_saved [OF okp a(1), of "''id''"] ai [OF a(3), symmetric] by simp
  moreover have "sec_get (Doc (JObj (merge_defaults ?p))) ''session'' = map_of default_session"
    using sec_get_saved [OF okp, of "''session''" default_session] by (auto simp: default_profiles_get split: option.split)
  moreover have "profiles_ok (Doc (JObj (merge_defaults ?p)))" using merge_sections_ok [OF okp] by (simp add: profiles_ok_def)
  ultimately show ?thesis using load by (simp add: reset_session_def act_bind_app save_profiles_def)
qed

lemma step_keeps_id:
  assumes "profile_step f f'" "profiles_ok f"
  shows "profiles_ok f' \<and> sec_get f' ''AI'' ''id'' = sec_get f ''AI'' ''id''"
  using assms(1)
proof cases
  case (load hi env)
  with load_ok [OF assms(2) load(2), of env] assms(2) show ?thesis by auto
next
  case (update hi sec fs env e)
  from update_ok [OF assms(2) update(2-5), of env e] update(1) show ?thesis by auto
next
  case (reset hi env)
  from reset_ok [OF assms(2) reset(2), of env] reset(1) show ?thesis by auto
qed

text \<open>The identifier of the assistant is generated at the first load of a new installation and is the
  same at every later load, whatever loads, updates and session resets come between.\<close>

theorem ai_identity_generated_once:
  assumes "load_profiles env hi Missing = (Inr p, f)" "hi_file_ok hi" "profile_step\<^sup>*\<^sup>* f f'" "hi_file_ok hi'"
  shows "\<exists>q ai. load_profiles env' hi' f' = (Inr q, f') \<and> dget q ''AI'' = Some (JObj ai) \<and> jget ai ''id'' = JStr (''ai-'' @ fresh_uuid env)"
proof -
  from first_load [OF assms(2), of env] assms(1) have "profiles_ok f" "sec_get f ''AI'' ''id'' = Some (JStr (''ai-'' @ fresh_uuid env))"
    by (auto simp: generate_id_def)
  with assms(3) have f': "profiles_ok f' \<and> sec_get f' ''AI'' ''id'' = Some (JStr (''ai-'' @ fresh_uuid env))"
    by (induction rule: rtranclp_induct) (use step_keeps_id in auto)
  from load_ok [OF conjunct1 [OF f'] assms(4), of env'] obtain q where q: "load_profiles env' hi' f' = (Inr q, f')" "sections_ok q"
    "\<And>s. dget q ''AI'' = Some (JObj s) \<Longrightarrow> Some (jget s ''id'') = sec_get f' ''AI'' ''id''" by blast
  from q(2) obtain ai where "dget q ''AI'' = Some (JObj ai)" unfolding sections_ok_def by blast
  with q f' show ?thesis by fastforce
qed

definition test_host :: host_env where
  "test_host = \<lparr>fresh_uuid = ''u1'', now_iso = ''now'', hostname = ''h'', sysuser = ''u'', sha256_hex = id\<rparr>"

theorem ai_identity_generated_once_witness:
  "\<exists>f q ai. load_profiles (test_host\<lparr>fresh_uuid := ''u2''\<rparr>) Missing f = (Inr q, f) \<and> dget q ''AI'' = Some (JObj ai)
     \<and> jget ai ''id'' = JStr ''ai-u1''"
proof -
  obtain p f where p: "load_profiles test_host Missing Missing = (Inr p, f)"
    using first_load [of Missing test_host] by (auto simp: hi_file_ok_def)
  have "profile_step f (snd (reset_session test_host Missing f))" by (rule profile_step.reset) (simp add: hi_file_ok_def)
  from ai_identity_generated_once [OF p _ r_into_rtranclp [of profile_step, OF this], of Missing "test_host\<lparr>fresh_uuid := ''u2''\<rparr>"]
  show ?thesis by (auto simp: hi_file_ok_def test_host_def)
qed

theorem session_update_read_back_witness:
  "\<exists>f f' s. bulk_update_session test_host Missing [(''last_action'', JStr ''status'')] f = (Inr (), f')
     \<and> get_session test_host Garbled f' = (Inr (JObj s), f') \<and> map_of s ''last_action'' = Some (JStr ''status'')
     \<and> map_of s ''pending_action'' = Some (JStr [])"
proof -
  obtain f where f: "profiles_ok f" "sec_get f ''session'' = map_of default_session"
    using first_load [of Missing test_host] by (auto simp: hi_file_ok_def)
  from session_update_read_back [OF f(1), of Missing Garbled "[(''last_action'', JStr ''status'')]" test_host test_host] f(2)
  show ?thesis by (fastforce simp: hi_file_ok_def default_session_get session_fields_def)
qed

end
