(* ===== verification/Commands.thy ===== *)
theory Commands
  imports PyValue
begin

text \<open>
  Model of \<open>Jarvis/plugin_loader.py\<close> and \<open>Jarvis/command_registry.py\<close>: the commands the skill files
  declare, the registry of the built-in commands with their phrases and risk tiers, and the tables derived
  from them. A skill module is what importing it gives: the callables it defines and the entries of its
  \<open>ACTIONS\<close>; the behaviour of a handler is a function of the payload. The rule of the help text is made
  of a character outside the 8-bit alphabet and is an argument.
\<close>

section \<open>Skills\<close>

type_synonym plugin_fn = "json \<Rightarrow> string outcome"

datatype raw_handler = NoHandler | Callable plugin_fn | Named string

record raw_action =
  raw_fields :: obj
  raw_handler :: raw_handler

text \<open>\<open>None\<close> among the actions: an entry that is no dict.\<close>

record plugin_module =
  callables :: "string \<Rightarrow> plugin_fn option"
  actions :: "raw_action option list"

record plugin_command =
  pl_action :: string
  pl_aliases :: "string list"
  pl_description :: string
  pl_tier :: string
  pl_category :: string
  pl_hint :: string
  pl_run :: plugin_fn

text \<open>The files of the skills directory; \<open>None\<close> for one whose import raises or gives no module.\<close>

type_synonym skills = "(string \<times> plugin_module option) list"

definition is_lower_ascii :: "char \<Rightarrow> bool" where
  "is_lower_ascii c = (97 \<le> code c \<and> code c \<le> 122)"

definition action_char :: "char \<Rightarrow> bool" where
  "action_char c = (is_lower_ascii c \<or> is_digit c \<or> code c = 95)"

definition action_name_ok :: "string \<Rightarrow> bool" where
  "action_name_ok s = (case s of [] \<Rightarrow> False
     | c # t \<Rightarrow> is_lower_ascii c \<and> 2 \<le> length t \<and> length t \<le> 64 \<and> list_all action_char t)"

definition valid_risk :: "string list" where
  "valid_risk = [''low'', ''medium'', ''high'']"

definition coerce_aliases :: "json \<Rightarrow> string list" where
  "coerce_aliases v =
     map (\<lambda>a. lower (strip a)) (filter (\<lambda>a. a \<noteq> [] \<and> strip a \<noteq> [])
       (case v of JStr s \<Rightarrow> [s] | JArr xs \<Rightarrow> map py_str xs | _ \<Rightarrow> []))"

definition handler_from :: "plugin_module \<Rightarrow> raw_action \<Rightarrow> plugin_fn option" where
  "handler_from m raw =
     (case raw_handler raw of
        Callable f \<Rightarrow> Some f
      | Named n \<Rightarrow> callables m n
      | NoHandler \<Rightarrow> callables m ''run'')"

text \<open>\<open>str(raw.get(k, d)).strip() or d\<close>\<close>

definition text_field :: "obj \<Rightarrow> string \<Rightarrow> string \<Rightarrow> string" where
  "text_field raw k d = (let s = strip (py_str (dget_or raw k (JStr d))) in if s = [] then d else s)"

definition command_from :: "plugin_module \<Rightarrow> raw_action \<Rightarrow> plugin_command option" where
  "command_from m raw =
     (let d = raw_fields raw;
          action = strip (py_str (dget_or d ''action'' (JStr [])));
          aliases = coerce_aliases (dget_or d ''aliases'' (JArr []));
          tier = lower (strip (py_str (dget_or d ''risk_tier'' (JStr ''low'')))) in
      if \<not> action_name_ok action \<or> aliases = [] then None
      else case handler_from m raw of
             None \<Rightarrow> None
           | Some f \<Rightarrow> Some \<lparr>pl_action = action, pl_aliases = aliases,
               pl_description = text_field d ''description'' ''Plugin action'',
               pl_tier = (if tier \<in> set valid_risk then tier else ''low''),
               pl_category = text_field d ''category'' ''plugins'', pl_hint = text_field d ''payload_hint'' (hd aliases),
               pl_run = f\<rparr>)"

definition module_commands :: "plugin_module \<Rightarrow> plugin_command list" where
  "module_commands m = List.map_filter (command_from m) (List.map_filter id (actions m))"

definition load_plugin_commands :: "skills \<Rightarrow> plugin_command dict" where
  "load_plugin_commands sk =
     foldl (\<lambda>d c. dset (pl_action c) c d) []
       (concat (map (\<lambda>(n, m). case m of None \<Rightarrow> [] | Some md \<Rightarrow> module_commands md)
          (filter (\<lambda>p. endswith (fst p) ''.py'' \<and> \<not> startswith (fst p) ''_'') (sort_key fst sk))))"

text \<open>An alias with the action it stands for; the payload of every entry is empty.\<close>

definition add_aliases :: "string \<Rightarrow> string list \<Rightarrow> string dict \<Rightarrow> string dict" where
  "add_aliases action aliases t = foldl (\<lambda>t a. dset a action t) t aliases"

definition get_plugin_exact_table :: "skills \<Rightarrow> string dict" where
  "get_plugin_exact_table sk =
     foldl (\<lambda>t c. add_aliases (pl_action c) (pl_aliases c) t) [] (map snd (load_plugin_commands sk))"

definition get_plugin_risk_tier :: "skills \<Rightarrow> string \<Rightarrow> string option" where
  "get_plugin_risk_tier sk action = map_option pl_tier (dget (load_plugin_commands sk) action)"

definition execute_plugin_action :: "skills \<Rightarrow> string \<Rightarrow> json \<Rightarrow> string option outcome" where
  "execute_plugin_action sk action payload =
     (case dget (load_plugin_commands sk) action of
        None \<Rightarrow> Inr None
      | Some c \<Rightarrow> and_then (pl_run c payload) (\<lambda>s. Inr (Some s)))"

text \<open>\<open>f"  {trigger:<42} {text}"\<close>\<close>

definition padded :: "nat \<Rightarrow> string \<Rightarrow> string" where
  "padded n s = s @ replicate (n - length s) (CHR '' '')"

definition help_line :: "string \<Rightarrow> string \<Rightarrow> string" where
  "help_line trigger text = ''  '' @ padded 42 trigger @ '' '' @ text"

definition newline :: string where
  "newline = [char_of (10::nat)]"

definition format_plugin_help :: "skills \<Rightarrow> string" where
  "format_plugin_help sk =
     (let cs = map snd (load_plugin_commands sk) in
      if cs = [] then []
      else join newline (''[PLUGINS]'' # map (\<lambda>c. help_line (if pl_hint c = [] then hd (pl_aliases c) else pl_hint c) (pl_description c))
             (sort_key pl_action cs)))"

section \<open>The registry\<close>

record command =
  c_action :: string
  c_aliases :: "string list"
  c_category :: string
  c_tier :: string
  c_description :: string
  takes_payload :: bool
  payload_hint :: string

definition cmd :: "string \<Rightarrow> string list \<Rightarrow> string \<Rightarrow> string \<Rightarrow> string \<Rightarrow> bool \<Rightarrow> string \<Rightarrow> command" where
  "cmd a al cat tier descr takes hint =
     \<lparr>c_action = a, c_aliases = al, c_category = cat, c_tier = tier, c_description = descr, takes_payload = takes, payload_hint = hint\<rparr>"

definition registry :: "command list" where
  "registry = [
    cmd ''status'' [''status'', ''system status'', ''health''] ''info'' ''low'' ''Show system health and connectivity.'' False [],
    cmd ''context'' [''context'', ''runtime context'', ''show context''] ''info'' ''low'' ''Show runtime context snapshot.'' False [],
    cmd ''system_info'' [''info'', ''system info'', ''system information''] ''info'' ''low'' ''Show detailed system information.'' False [],
    cmd ''system_summary'' [''system summary''] ''info'' ''low'' ''Full system summary.'' False [],
    cmd ''device_report'' [''device report'', ''device status'', ''verify device'', ''trusted device''] ''info'' ''low'' ''Show trusted-device registration status.'' False [],
    cmd ''device_inventory'' [''device inventory'', ''full device inventory''] ''info'' ''low'' ''Show hardware, software, network, and safe environment inventory.'' False [],
    cmd ''device_hardware'' [''hardware report'', ''device hardware'', ''hardware details''] ''info'' ''low'' ''Show trusted-device hardware details.'' False [],
    cmd ''device_software'' [''software report'', ''device software'', ''software details''] ''info'' ''low'' ''Show trusted-device software details.'' False [],
    cmd ''device_network'' [''network report'', ''device network'', ''network details''] ''info'' ''low'' ''Show trusted-device network details.'' False [],
    cmd ''device_environment'' [''env report'', ''environment report'', ''device environment'', ''environment details''] ''info'' ''low'' ''Show safe trusted-device environment details.'' False [],
    cmd ''auto_detect_device'' [''auto detect device'', ''auto register device'', ''detect device''] ''settings'' ''medium'' ''Auto-detect and register or refresh this trusted device.'' True ''auto detect device [label]'',
    cmd ''logs'' [''logs'', ''activity'', ''history''] ''info'' ''low'' ''Show recent activity logs.'' False [],
    cmd ''ai_status'' [''ai status'', ''model status'', ''openai status''] ''info'' ''low'' ''Show AI provider and model status.'' False [],
    cmd ''time'' [''time'', ''what time is it'', ''current time'', ''tell me the time''] ''info'' ''low'' ''Show current local time.'' False [],
    cmd ''commands'' [''commands'', ''help'', ''show commands'', ''list commands''] ''info'' ''low'' ''Show all available commands.'' False [],
    cmd ''doctor'' [''doctor'', ''health check'', ''system check'', ''run doctor''] ''info'' ''low'' ''Show system health check report.'' False [],
    cmd ''inbox_summary'' [''inbox'', ''public inbox'', ''inbox summary''] ''info'' ''low'' ''Show public enquiry and signup counts.'' False [],
    cmd ''chat_stats'' [''chat stats'', ''public chat stats'', ''chat activity''] ''info'' ''low'' ''Show public Jarvis chat statistics.'' False [],
    cmd ''identity'' [''identity'', ''intro'', []] ''identity'' ''low'' ''Describe Jarvis identity.'' False [],
    cmd ''profiles'' [''profiles'', ''show profiles'', ''ai hi profiles''] ''identity'' ''low'' ''Show all profiles (AI + HI).'' False [],
    cmd ''ai_intro'' [''jarvis introduce yourself'', ''ai intro'', ''introduce yourself''] ''identity'' ''low'' ''Jarvis self-introduction.'' False [],
    cmd ''who_are_you'' [''who are you'', ''jarvis who are you''] ''identity'' ''low'' ''Ask who Jarvis is.'' False [],
    cmd ''greet_user'' [''hello'', ''hi''] ''identity'' ''low'' ''Greet the user.'' False [],
    cmd ''who_am_i'' [''who am i'', ''identify''] ''hi_state'' ''low'' ''Show the human operator identity.'' False [],
    cmd ''hi_get_profile'' [''profile'', ''show profile''] ''hi_state'' ''low'' ''Show full HI profile.'' False [],
    cmd ''hi_get_intro'' [''human intro'', ''user intro'', ''owner intro'', ''hi_intro''] ''hi_state'' ''low'' ''HI self-introduction.'' False [],
    cmd ''hi_get_relationship'' [''relationship'', ''relationship model'', ''ai hi relationship''] ''hi_state'' ''low'' ''Show HI-AI relationship model.'' False [],
    cmd ''hi_identity_summary'' [''hi summary'', ''my identity'', ''identity summary'', ''who is hi''] ''hi_state'' ''low'' ''Full HI identity summary.'' False [],
    cmd ''hi_get_memory'' [''memory'', ''memory lite'', ''show memory''] ''hi_state'' ''low'' ''Show HI memory entries.'' False [],
    cmd ''hi_get_preferences'' [''preferences'', ''show preferences''] ''hi_state'' ''low'' ''Show HI preferences.'' False [],
    cmd ''hi_get_workflow'' [''workflow'', ''show workflow'', ''current focus''] ''hi_state'' ''low'' ''Show HI workflow and current focus.'' False [],
    cmd ''what_is_my_domain'' [''what is my domain'', ''my domain'', ''show my domain'', ''domain''] ''hi_state'' ''low'' ''Show HI domain.'' False [],
    cmd ''what_is_my_language'' [''what is my language'', ''my language''] ''hi_state'' ''low'' ''Show HI language setting.'' False [],
    cmd ''what_is_my_device'' [''what is my device'', ''my device''] ''hi_state'' ''low'' ''Show HI device info.'' False [],
    cmd ''website_status'' [''website status'', ''show website status'', ''check website'', ''site status''] ''hi_state'' ''low'' ''Check HI website reachability.'' False [],
    cmd ''show_session'' [''show session'', ''session''] ''session'' ''low'' ''Show current session state.'' False [],
    cmd ''what_was_my_last_command'' [''what was my last command'', ''last command''] ''session'' ''low'' ''Show last command run.'' False [],
    cmd ''what_was_my_last_action'' [''what was my last action'', ''last action''] ''session'' ''low'' ''Show last action taken.'' False [],
    cmd ''confirmation_status'' [''confirmation status'', ''pending action''] ''session'' ''low'' ''Show pending confirmation.'' False [],
    cmd ''confirm'' [''confirm'', ''confirm last action''] ''session'' ''low'' ''Confirm a pending high-risk action.'' False [],
    cmd ''cancel'' [''cancel'', ''cancel pending action'', ''clear pending action''] ''session'' ''medium'' ''Cancel a pending action.'' False [],
    cmd ''reset_session'' [''reset session''] ''session'' ''medium'' ''Reset session state.'' False [],
    cmd ''ai'' [] ''ai'' ''low'' ''Ask AI a question.'' True ''ask <question>'',
    cmd ''plan'' [] ''ai'' ''low'' ''Plan with AI.'' True ''plan <topic>'',
    cmd ''open_terminal'' [''open terminal'', ''launch terminal''] ''apps'' ''low'' ''Open a terminal window.'' False [],
    cmd ''open_chrome'' [''open chrome'', ''launch chrome''] ''apps'' ''low'' ''Open Chrome browser.'' False [],
    cmd ''open_files'' [''open files'', ''open file manager''] ''apps'' ''low'' ''Open file manager (Nautilus).'' False [],
    cmd ''battery_status'' [''battery'', ''battery status'', ''show battery''] ''system'' ''low'' ''Show battery level and state.'' False [],
    cmd ''disk_status'' [''disk'', ''disk status'', ''show disk''] ''system'' ''low'' ''Show disk usage.'' False [],
    cmd ''lock_screen'' [''lock'', ''lock screen'', ''lock my screen''] ''system'' ''low'' ''Lock the screen.'' False [],
    cmd ''volume_up'' [''volume up'', ''increase volume''] ''system'' ''low'' ''Increase system volume by 10%.'' False [],
    cmd ''volume_down'' [''volume down'', ''decrease volume''] ''system'' ''low'' ''Decrease system volume by 10%.'' False [],
    cmd ''mute_volume'' [''mute'', ''mute volume''] ''system'' ''low'' ''Toggle system mute.'' False [],
    cmd ''hi_set_profile_field'' [] ''settings'' ''medium'' ''Set an HI profile field.'' True ''set my name <name>'',
    cmd ''hi_set_preference'' [] ''settings'' ''medium'' ''Set an HI preference.'' True ''set response mode <adaptive|concise|detailed>'',
    cmd ''hi_set_workflow_focus'' [] ''settings'' ''medium'' ''Set workflow current focus.'' True ''set current focus <task>'',
    cmd ''hi_workflow_add_task'' [] ''settings'' ''medium'' ''Add a workflow task with status, blockers, due date, and estimate metadata.'' True ''add task <title>'',
    cmd ''hi_workflow_set_task_status'' [] ''settings'' ''medium'' ''Update a workflow task status.'' True ''set task status <task_id> <todo|doing|blocked|done|cancelled>'',
    cmd ''hi_workflow_add_blocker'' [] ''settings'' ''medium'' ''Add a blocker to a workflow task.'' True ''block task <task_id> <blocker>'',
    cmd ''hi_workflow_set_due'' [] ''settings'' ''medium'' ''Set a workflow task due date.'' True ''set task due <task_id> <due>'',
    cmd ''hi_memory_add'' [] ''settings'' ''medium'' ''Add a memory entry.'' True ''add memory <note>'',
    cmd ''hi_set_domain'' [] ''settings'' ''medium'' ''Set HI domain and website.'' True ''set my domain <domain>'',
    cmd ''hi_memory_search'' [] ''hi_state'' ''low'' ''Semantic search across HI memory.'' True ''search memory <query>'',
    cmd ''hi_memory_related'' [] ''hi_state'' ''low'' ''Show memories related to a memory id.'' True ''related memory <id>'',
    cmd ''hi_memory_visibility'' [] ''settings'' ''medium'' ''Set memory public/private visibility.'' True ''make memory public <id>'',
    cmd ''hi_memory_delete'' [] ''settings'' ''medium'' ''Delete a memory entry by id.'' True ''delete memory <id>'',
    cmd ''hi_memory_graph'' [] ''hi_state'' ''low'' ''Show knowledge graph neighbourhood for a memory.'' True ''memory graph <id>'',
    cmd ''hi_memory_link'' [] ''settings'' ''medium'' ''Create a typed link between two memories.'' True ''link memory <source_id> to <target_id> [as <relation>]'',
    cmd ''hi_memory_graph_stats'' [''knowledge graph'', ''memory graph stats'', ''graph stats'', ''memory graph summary''] ''hi_state'' ''low'' ''Show knowledge graph statistics.'' False [],
    cmd ''hi_memory_retention'' [''memory retention'', ''apply retention policy'', ''run retention''] ''settings'' ''medium'' ''Apply importance-based memory retention policy.'' False [],
    cmd ''hi_memory_export'' [''export memory'', ''memory export'', ''backup memory''] ''hi_state'' ''low'' ''Export all memories for backup.'' False [],
    cmd ''hi_memory_import'' [] ''settings'' ''medium'' ''Bulk-import memories with duplicate detection.'' True ''import memories <json list>'',
    cmd ''set_ai_name'' [] ''settings'' ''medium'' ''Set the AI assistant name.'' True ''set ai name <name>'',
    cmd ''set_intro_mode'' [] ''settings'' ''medium'' ''Set intro verbosity mode.'' True ''set intro mode <short|normal|formal>'',
    cmd ''set_command_style'' [] ''settings'' ''medium'' ''Set preferred command style.'' True ''set command style <natural|structured>'',
    cmd ''set_mic_device'' [] ''settings'' ''medium'' ''Set microphone device index.'' True ''set mic device <index>'',
    cmd ''set_wake_phrase'' [] ''settings'' ''medium'' ''Set the voice wake phrase.'' True ''set wake phrase <phrase>'',
    cmd ''register_device'' [''register device''] ''settings'' ''medium'' ''Register this machine as a trusted Jarvis control device.'' True ''register device [label]'',
    cmd ''sync_status'' [''sync status'', ''device sync status'', ''sync peers''] ''sync'' ''low'' ''Show multi-device sync status and registered peers.'' False [],
    cmd ''sync_run'' [''sync now'', ''run sync'', ''sync all peers''] ''sync'' ''medium'' ''Trigger immediate sync with all registered peers.'' False [],
    cmd ''sync_peers'' [''list sync peers'', ''show peers''] ''sync'' ''low'' ''List all registered sync peer devices.'' False [],
    cmd ''sync_add_peer'' [] ''sync'' ''medium'' ''Register a new sync peer by URL.'' True ''add sync peer <url> [label]'',
    cmd ''sync_remove_peer'' [] ''sync'' ''medium'' ''Remove a sync peer.'' True ''remove sync peer <url_or_id>'',
    cmd ''shell'' [] ''shell'' ''high'' ''Execute an allowlisted shell command (requires confirmation).'' True ''run <command>''
  ]"

text \<open>An action with two tiers would be in two of the sets.\<close>

definition actions_of_tier :: "(string \<Rightarrow> bool) \<Rightarrow> string list" where
  "actions_of_tier p = map c_action (filter (\<lambda>c. p (c_tier c)) registry)"

definition high_risk_actions :: "string list" where
  "high_risk_actions = actions_of_tier (\<lambda>t. t = ''high'')"

definition medium_risk_actions :: "string list" where
  "medium_risk_actions = actions_of_tier (\<lambda>t. t = ''medium'')"

definition low_risk_actions :: "string list" where
  "low_risk_actions = actions_of_tier (\<lambda>t. t \<noteq> ''high'' \<and> t \<noteq> ''medium'')"

definition build_exact_table :: "string dict" where
  "build_exact_table = foldl (\<lambda>t c. add_aliases (c_action c) (c_aliases c) t) [] registry"

definition get_commands_by_category :: "command list dict" where
  "get_commands_by_category =
     foldl (\<lambda>d c. dset (c_category c) (dget_or d (c_category c) [] @ [c]) d) [] registry"

text \<open>\<open>str.title\<close> and \<open>str.upper\<close> on ASCII text, which the phrases and labels are.\<close>

definition upper_ascii :: "char \<Rightarrow> char" where
  "upper_ascii c = (if is_lower_ascii c then char_of (code c - 32) else c)"

fun title_from :: "bool \<Rightarrow> string \<Rightarrow> string" where
  "title_from inside [] = []"
| "title_from inside (c # s) =
     (let letter = is_lower_ascii c \<or> is_upper c in
      (if letter then (if inside then lower_char c else upper_ascii c) else c) # title_from letter s)"

definition get_quick_actions :: "string \<Rightarrow> (string \<times> string) list" where
  "get_quick_actions cat =
     map (\<lambda>c. (title_from False (hd (c_aliases c)), hd (c_aliases c)))
       (filter (\<lambda>c. c_category c = cat \<and> c_aliases c \<noteq> [] \<and> hd (c_aliases c) \<noteq> []) registry)"

definition get_all_quick_actions :: "(string \<times> string) list dict" where
  "get_all_quick_actions =
     filter (\<lambda>p. snd p \<noteq> []) (map (\<lambda>cat. (cat, get_quick_actions cat)) [''info'', ''hi_state'', ''system'', ''apps''])"

definition category_labels :: "string dict" where
  "category_labels = [(''info'', ''Info & Status''), (''identity'', ''Identity''), (''hi_state'', ''HI State''),
     (''session'', ''Session''), (''ai'', ''AI''), (''apps'', ''Apps''), (''system'', ''System''), (''settings'', ''Settings''),
     (''shell'', ''Shell'')]"

definition risk_notes :: "string dict" where
  "risk_notes = [(''medium'', '' (changes state)''), (''high'', '' (requires confirmation)'')]"

definition command_lines :: "command \<Rightarrow> string list" where
  "command_lines c =
     (let entry = (\<lambda>trigger. if 40 < length trigger
                    then [''  '' @ trigger, ''    '' @ padded 40 [] @ '' '' @ c_description c]
                    else [help_line trigger (c_description c)]) in
      if takes_payload c then entry (if payload_hint c = [] then c_action c else payload_hint c)
      else case c_aliases c of [] \<Rightarrow> [] | a # _ \<Rightarrow> entry a)"

definition category_lines :: "string option \<Rightarrow> string \<Rightarrow> string list" where
  "category_lines only cat =
     (let cs = dget_or get_commands_by_category cat [] in
      if cs = [] \<or> (case only of None \<Rightarrow> False | Some k \<Rightarrow> k \<noteq> [] \<and> cat \<noteq> k) then []
      else (''['' @ map upper_ascii (dget_or category_labels cat cat) @ dget_or risk_notes (c_tier (hd cs)) [] @ '']'')
           # concat (map command_lines cs) @ [[]])"

definition format_help_text :: "string \<Rightarrow> skills \<Rightarrow> string option \<Rightarrow> string" where
  "format_help_text bar sk only =
     (let dot = ''  '' @ [char_of (183::nat)] @ ''  ''; plugin_help = format_plugin_help sk in
      join newline ([''Jarvis Commands'', bar, []] @ concat (map (category_lines only) (map fst category_labels))
        @ [''Prefix commands: ask/ai <question>'' @ dot @ ''plan <topic>'' @ dot @ ''run <shell cmd>'']
        @ (if plugin_help = [] then [] else [[], plugin_help])
        @ [''Unknown phrases are routed to AI automatically.'']))"

section \<open>Lemmas: the phrase tables\<close>

lemma map_of_add_aliases: "map_of (add_aliases a al t) k = (if k \<in> set al then Some a else map_of t k)"
  unfolding add_aliases_def by (induction al arbitrary: t) auto

lemma table_lookup:
  assumes "distinct (concat (map al cs))" "c \<in> set cs" "k \<in> set (al c)"
  shows "map_of (foldl (\<lambda>t c. add_aliases (ac c) (al c) t) t cs) k = Some (ac c)"
  using assms
proof (induction cs rule: rev_induct)
  case (snoc d cs)
  show ?case
  proof (cases "c = d")
    case False
    then have "c \<in> set cs" using snoc.prems(2) by auto
    moreover have "k \<notin> set (al d)" using snoc.prems \<open>c \<in> set cs\<close> by auto
    ultimately show ?thesis using snoc by (auto simp: map_of_add_aliases)
  qed (use snoc.prems in \<open>simp add: map_of_add_aliases\<close>)
qed simp

lemma table_source:
  "map_of (foldl (\<lambda>t c. add_aliases (ac c) (al c) t) t cs) k = Some a \<Longrightarrow>
     map_of t k = Some a \<or> (\<exists>c \<in> set cs. k \<in> set (al c) \<and> a = ac c)"
  by (induction cs rule: rev_induct) (auto simp: map_of_add_aliases split: if_splits)

lemma registry_aliases: "distinct (concat (map c_aliases registry))"
  by (simp add: registry_def cmd_def)

lemma exact_table_lookup: "c \<in> set registry \<Longrightarrow> k \<in> set (c_aliases c) \<Longrightarrow> map_of build_exact_table k = Some (c_action c)"
  unfolding build_exact_table_def by (rule table_lookup [OF registry_aliases])

lemma exact_table_source: "map_of build_exact_table k = Some a \<Longrightarrow> \<exists>c \<in> set registry. k \<in> set (c_aliases c) \<and> a = c_action c"
  unfolding build_exact_table_def by (drule table_source) simp

lemma distinct_table: "distinct (dkeys t) \<Longrightarrow> distinct (dkeys (foldl (\<lambda>t c. add_aliases (ac c) (al c) t) t cs))"
proof (induction cs arbitrary: t)
  case (Cons c cs)
  have "distinct (dkeys (add_aliases a as t))" if "distinct (dkeys t)" for a as t
    using that unfolding add_aliases_def by (induction as arbitrary: t) simp_all
  then show ?case using Cons by simp
qed simp

section \<open>Lemmas: the commands of skills\<close>

definition plugin_ok :: "plugin_command \<Rightarrow> bool" where
  "plugin_ok c \<longleftrightarrow> action_name_ok (pl_action c) \<and> pl_aliases c \<noteq> [] \<and> pl_tier c \<in> set valid_risk
     \<and> (\<forall>a \<in> set (pl_aliases c). a \<noteq> [] \<and> lower (strip a) = a)"

lemma coerce_aliases_ok: "a \<in> set (coerce_aliases v) \<Longrightarrow> a \<noteq> [] \<and> lower (strip a) = a"
  by (auto simp: coerce_aliases_def strip_lower)

lemma command_from_ok: "command_from m raw = Some c \<Longrightarrow> plugin_ok c"
  by (auto simp: command_from_def plugin_ok_def Let_def valid_risk_def dest: coerce_aliases_ok split: if_splits option.splits)

lemma map_of_foldl_dset:
  "map_of (foldl (\<lambda>d c. dset (f c) c d) d cs) k = Some c \<Longrightarrow> map_of d k = Some c \<or> c \<in> set cs \<and> k = f c"
  by (induction cs arbitrary: d) (fastforce split: if_splits)+

lemma distinct_foldl_dset: "distinct (dkeys d) \<Longrightarrow> distinct (dkeys (foldl (\<lambda>d c. dset (f c) c d) d cs))"
  by (induction cs arbitrary: d) simp_all

lemma module_commands_ok: "c \<in> set (module_commands m) \<Longrightarrow> plugin_ok c"
  by (auto simp: module_commands_def List.map_filter_def command_from_ok)

text \<open>Whatever the skill files hold, every command loaded from them has a well-formed action name under
  which it is found, a valid risk tier, and phrases that are non-empty, trimmed and lower-case; the tier and
  the table of phrases are those of the loaded commands.\<close>

theorem plugin_commands_valid:
  assumes "dget (load_plugin_commands sk) a = Some c"
  shows "pl_action c = a \<and> action_name_ok a \<and> pl_aliases c \<noteq> [] \<and> pl_tier c \<in> {''low'', ''medium'', ''high''}
     \<and> get_plugin_risk_tier sk a = Some (pl_tier c)
     \<and> (\<forall>p \<in> set (pl_aliases c). p \<noteq> [] \<and> lower (strip p) = p \<and>
          (\<exists>c'. dget (get_plugin_exact_table sk) p = Some (pl_action c') \<and> dget (load_plugin_commands sk) (pl_action c') = Some c'
             \<and> p \<in> set (pl_aliases c')))"
proof -
  let ?cs = "concat (map (\<lambda>(n, m). case m of None \<Rightarrow> [] | Some md \<Rightarrow> module_commands md)
          (filter (\<lambda>p. endswith (fst p) ''.py'' \<and> \<not> startswith (fst p) ''_'') (sort_key fst sk)))"
  have src: "pl_action c = a \<and> plugin_ok c" if "dget (load_plugin_commands sk) a = Some c" for a c
    using map_of_foldl_dset [of pl_action "[]" ?cs a c] that
    by (auto simp: load_plugin_commands_def dest: module_commands_ok split: option.splits)
  have d: "distinct (dkeys (load_plugin_commands sk))" by (simp add: load_plugin_commands_def distinct_foldl_dset)
  have "\<exists>c'. dget (get_plugin_exact_table sk) p = Some (pl_action c') \<and> dget (load_plugin_commands sk) (pl_action c') = Some c' \<and> p \<in> set (pl_aliases c')"
    if p: "p \<in> set (pl_aliases c)" for p
  proof -
    have mem: "c \<in> set (map snd (load_plugin_commands sk))" using map_of_SomeD [OF assms] by force
    have "map_of (foldl (\<lambda>t c. add_aliases (pl_action c) (pl_aliases c) t) t cs) p \<noteq> None" if "c \<in> set cs" for t cs
      using that p by (induction cs rule: rev_induct) (auto simp: map_of_add_aliases)
    then obtain a' where a': "dget (get_plugin_exact_table sk) p = Some a'" using mem by (fastforce simp: get_plugin_exact_table_def)
    then obtain c' where c': "c' \<in> set (map snd (load_plugin_commands sk))" "p \<in> set (pl_aliases c')" "a' = pl_action c'"
      using table_source [of pl_action pl_aliases "[]"] by (fastforce simp: get_plugin_exact_table_def)
    then obtain k where "(k, c') \<in> set (load_plugin_commands sk)" by auto
    then have "dget (load_plugin_commands sk) k = Some c'" using d by simp
    then show ?thesis using src a' c' by blast
  qed
  then show ?thesis using src [OF assms] assms by (auto simp: plugin_ok_def valid_risk_def get_plugin_risk_tier_def)
qed

definition greet_skill :: plugin_module where
  "greet_skill = \<lparr>callables = (\<lambda>n. if n = ''run'' then Some (\<lambda>_. Inr ''hi'') else None),
     actions = [Some \<lparr>raw_fields = [(''action'', JStr ''greet''), (''aliases'', JArr [JStr '' Hey ''])], raw_handler = NoHandler\<rparr>]\<rparr>"

theorem plugin_commands_valid_witness:
  "\<exists>c. dget (load_plugin_commands [(''greet.py'', Some greet_skill)]) ''greet'' = Some c \<and> pl_aliases c = [''hey'']
     \<and> get_plugin_risk_tier [(''greet.py'', Some greet_skill)] ''greet'' = Some (pl_tier c)"
proof -
  have c: "command_from greet_skill \<lparr>raw_fields = [(''action'', JStr ''greet''), (''aliases'', JArr [JStr '' Hey ''])], raw_handler = NoHandler\<rparr>
     = Some \<lparr>pl_action = ''greet'', pl_aliases = [''hey''], pl_description = ''Plugin action'', pl_tier = ''low'',
         pl_category = ''plugins'', pl_hint = ''hey'', pl_run = (\<lambda>_. Inr ''hi'')\<rparr>"
    by (simp add: command_from_def greet_skill_def handler_from_def dget_or_def text_field_def coerce_aliases_def Let_def) code_simp
  have "\<exists>c. dget (load_plugin_commands [(''greet.py'', Some greet_skill)]) ''greet'' = Some c \<and> pl_aliases c = [''hey'']"
    using c by (simp add: load_plugin_commands_def module_commands_def List.map_filter_def endswith_def startswith_def
        greet_skill_def)
  then show ?thesis using plugin_commands_valid by blast
qed

end
