(* ===== verification/Intents.thy ===== *)
theory Intents
  imports Commands
begin

text \<open>
  Model of \<open>Jarvis/intent_parser.py\<close> and of the text cleaning of \<open>Jarvis/bridge.py\<close>: how the text of a
  command becomes an action with a payload. The fuzzy matcher (rapidfuzz or difflib) is a field of the
  environment: given the text and the phrases, it returns one of them or none.
\<close>

section \<open>The parser\<close>

record parser_env =
  skills :: skills
  fuzzy :: "string \<Rightarrow> string list \<Rightarrow> string option"

definition normalize_intent :: "string \<Rightarrow> string" where
  "normalize_intent s = lower (strip s)"

definition exact_table :: "'e parser_env_scheme \<Rightarrow> string dict" where
  "exact_table env = dupdate build_exact_table (get_plugin_exact_table (skills env))"

definition require_text :: "string \<Rightarrow> string \<Rightarrow> string outcome" where
  "require_text v label = (if v = [] then Inl (ValueError (''Empty '' @ label)) else Inr v)"

definition words_error :: "string \<Rightarrow> json outcome" where
  "words_error s = Inl (ValueError s)"

definition parse_memory_link :: "string \<Rightarrow> json outcome" where
  "parse_memory_link value =
     (let v = strip value;
          (v1, relation) = (case rpartition_at '' as '' v of
                              None \<Rightarrow> (v, ''related'')
                            | Some (a, r) \<Rightarrow> (a, if strip r = [] then ''related'' else strip r));
          link = (\<lambda>s t. Inr (JObj [(''source_id'', JStr s), (''target_id'', JStr t), (''relation'', JStr relation)])) in
      case partition_at '' to '' v1 of
        Some (s, t) \<Rightarrow> link (strip s) (strip t)
      | None \<Rightarrow>
          (case split_ws v1 of
             s # t # _ \<Rightarrow> link s t
           | _ \<Rightarrow> words_error ''link memory needs: <source_id> to <target_id> [as <relation>]''))"

definition parse_task_status :: "string \<Rightarrow> json outcome" where
  "parse_task_status value =
     (case split_ws (strip value) of
        i # st # _ \<Rightarrow> Inr (JObj [(''task_id'', JStr i), (''status'', JStr st)])
      | _ \<Rightarrow> words_error ''Task status needs: <task_id> <status>'')"

text \<open>\<open>value.strip().partition(" ")\<close> with both sides non-blank.\<close>

definition parse_task_pair :: "string \<Rightarrow> string \<Rightarrow> string \<Rightarrow> json outcome" where
  "parse_task_pair key msg value =
     (case partition_at '' '' (strip value) of
        Some (i, x) \<Rightarrow>
          if strip i = [] \<or> strip x = [] then words_error msg
          else Inr (JObj [(''task_id'', JStr (strip i)), (key, JStr (strip x))])
      | None \<Rightarrow> words_error msg)"

definition parse_task_blocker :: "string \<Rightarrow> json outcome" where
  "parse_task_blocker = parse_task_pair ''blocker'' ''Task blocker needs: <task_id> <blocker>''"

definition parse_task_due :: "string \<Rightarrow> json outcome" where
  "parse_task_due = parse_task_pair ''due'' ''Task due date needs: <task_id> <due>''"

section \<open>The prefix rules\<close>

definition plain :: "string \<Rightarrow> string \<Rightarrow> json outcome" where
  "plain label v = and_then (require_text v label) (\<lambda>x. Inr (JStr x))"

definition as_field :: "string \<Rightarrow> string \<Rightarrow> obj \<Rightarrow> string \<Rightarrow> json outcome" where
  "as_field key label rest v = and_then (require_text v label) (\<lambda>x. Inr (JObj ((key, JStr x) # rest)))"

definition profile_value :: "string \<Rightarrow> string \<Rightarrow> string \<Rightarrow> json outcome" where
  "profile_value field label v = and_then (require_text v label) (\<lambda>x. Inr (JObj [(''field'', JStr field), (''value'', JStr x)]))"

definition domain_value :: "string \<Rightarrow> json outcome" where
  "domain_value v = and_then (require_text v ''human domain'') (\<lambda>x.
     Inr (JObj [(''domain'', JStr x), (''website'', JStr (if startswith v ''http'' then v else ''https://'' @ v))]))"

definition mode_value :: "string \<Rightarrow> json outcome" where
  "mode_value v = and_then (require_text v ''response mode'') (\<lambda>x. Inr (JObj [(''key'', JStr ''response_mode''), (''value'', JStr (lower x))]))"

type_synonym prefix_rule = "string \<times> string \<times> (string \<Rightarrow> json outcome)"

definition prefix_rules :: "prefix_rule list" where
  "prefix_rules =
     [(''add memory '', ''hi_memory_add'', as_field ''entry'' ''memory entry'' [(''source'', JStr ''user'')]),
      (''set current focus '', ''hi_set_workflow_focus'', as_field ''task'' ''workflow focus'' []),
      (''add task '', ''hi_workflow_add_task'', as_field ''title'' ''task title'' []),
      (''set task status '', ''hi_workflow_set_task_status'', parse_task_status),
      (''block task '', ''hi_workflow_add_blocker'', parse_task_blocker),
      (''set task due '', ''hi_workflow_set_due'', parse_task_due),
      (''search memory '', ''hi_memory_search'', as_field ''query'' ''search query'' []),
      (''semantic memory '', ''hi_memory_search'', as_field ''query'' ''semantic memory query'' []),
      (''related memory '', ''hi_memory_related'', as_field ''memory_id'' ''memory id'' []),
      (''make memory public '', ''hi_memory_visibility'', as_field ''memory_id'' ''memory id'' [(''visibility'', JStr ''public'')]),
      (''make memory private '', ''hi_memory_visibility'', as_field ''memory_id'' ''memory id'' [(''visibility'', JStr ''private'')]),
      (''delete memory '', ''hi_memory_delete'', as_field ''memory_id'' ''memory id'' []),
      (''memory graph '', ''hi_memory_graph'', as_field ''memory_id'' ''memory id'' []),
      (''link memory '', ''hi_memory_link'', parse_memory_link),
      (''set my name '', ''hi_set_profile_field'', profile_value ''name'' ''human name''),
      (''set my language '', ''hi_set_profile_field'', profile_value ''language'' ''human language''),
      (''set my domain '', ''hi_set_domain'', domain_value),
      (''set my website '', ''hi_set_profile_field'', profile_value ''website'' ''website URL''),
      (''set ai name '', ''set_ai_name'', plain ''AI name''),
      (''set intro mode '', ''set_intro_mode'', plain ''intro mode''),
      (''set command style '', ''set_command_style'', plain ''command style''),
      (''set mic device '', ''set_mic_device'', plain ''microphone device''),
      (''set wake phrase '', ''set_wake_phrase'', plain ''wake phrase''),
      (''register device '', ''register_device'', plain ''device label''),
      (''auto detect device '', ''auto_detect_device'', plain ''device label''),
      (''set response mode '', ''hi_set_preference'', mode_value),
      (''ask '', ''ai'', plain ''AI prompt''),
      (''ai '', ''ai'', plain ''AI prompt''),
      (''plan '', ''plan'', plain ''planning prompt''),
      (''run '', ''shell'', plain ''shell command''),
      (''add sync peer '', ''sync_add_peer'', plain ''peer URL''),
      (''remove sync peer '', ''sync_remove_peer'', plain ''peer URL or ID''),
      (''automation rule enable '', ''automation_rule_enable'', plain ''rule id''),
      (''automation rule disable '', ''automation_rule_disable'', plain ''rule id''),
      (''automation approve '', ''automation_approve'', plain ''rule id''),
      (''automation deny '', ''automation_deny'', plain ''rule id'')]"

section \<open>Interpretation\<close>

definition fuzzy_match :: "'e parser_env_scheme \<Rightarrow> string \<Rightarrow> string option" where
  "fuzzy_match env normalized =
     (if normalized = [] then None
      else case fuzzy env normalized (filter (\<lambda>k. k \<noteq> []) (dkeys (exact_table env))) of
             None \<Rightarrow> None
           | Some k \<Rightarrow> dget (exact_table env) k)"

fun first_prefix :: "prefix_rule list \<Rightarrow> string \<Rightarrow> prefix_rule option" where
  "first_prefix [] s = None"
| "first_prefix (r # rs) s = (if startswith s (fst r) then Some r else first_prefix rs s)"

text \<open>A payload function only raises ValueError; its text is the payload of the \<open>error\<close> action.\<close>

definition error_text :: "exn \<Rightarrow> string" where
  "error_text e = (case e of ValueError s \<Rightarrow> s | _ \<Rightarrow> [])"

definition interpret_intent :: "'e parser_env_scheme \<Rightarrow> string \<Rightarrow> string \<times> json" where
  "interpret_intent env intent =
     (let normalized = normalize_intent intent in
      case dget (exact_table env) normalized of
        Some a \<Rightarrow> (a, JStr [])
      | None \<Rightarrow>
          (case first_prefix prefix_rules normalized of
             Some (p, a, f) \<Rightarrow>
               (case f (drop (length p) (strip intent)) of
                  Inl e \<Rightarrow> (''error'', JStr (error_text e))
                | Inr v \<Rightarrow> (a, v))
           | None \<Rightarrow>
               (case fuzzy_match env normalized of
                  Some a \<Rightarrow> (a, JStr [])
                | None \<Rightarrow> (''ai'', JStr normalized))))"

text \<open>The cleaning of the words on the command line of \<open>bridge.py\<close>.\<close>

definition clean_words :: "string list \<Rightarrow> string" where
  "clean_words args =
     (let t = lower (join '' '' args) in
      strip (replace ''jarvis'' [] (replace ''please'' [] (replace ''could you'' [] (replace ''can you'' [] (replace ''are you'' [] t))))))"

section \<open>Lemmas\<close>

text \<open>No prefix is a prefix of another one, so at most one rule applies.\<close>

definition prefixes :: "string list" where
  "prefixes = map fst prefix_rules"

definition prefix_free :: "string list \<Rightarrow> bool" where
  "prefix_free ps = list_all (\<lambda>p. list_all (\<lambda>q. startswith p q \<longrightarrow> q = p) ps) ps"

lemma prefixes_prefix_free: "prefix_free prefixes"
  by code_simp

lemma prefixes_free: "r \<in> set prefix_rules \<Longrightarrow> q \<in> set prefix_rules \<Longrightarrow> startswith (fst r) (fst q) \<Longrightarrow> fst q = fst r"
  using prefixes_prefix_free by (auto simp: prefix_free_def prefixes_def list_all_iff)

definition prefix_shape :: "string \<Rightarrow> bool" where
  "prefix_shape p = (p \<noteq> [] \<and> \<not> is_space (hd p) \<and> lower p = p \<and> is_space (last p))"

lemma prefixes_shape: "list_all prefix_shape prefixes"
  by code_simp

lemma prefixes_distinct: "distinct prefixes"
  by (simp add: prefixes_def prefix_rules_def)

lemma first_prefix_eq:
  assumes "r \<in> set rs" "startswith s (fst r)" "\<forall>q \<in> set rs. startswith s (fst q) \<longrightarrow> q = r"
  shows "first_prefix rs s = Some r"
  using assms
proof (induction rs)
  case (Cons q rs)
  show ?case
  proof (cases "startswith s (fst q)")
    case True
    then have "q = r" using Cons.prems(3) by simp
    then show ?thesis using True by simp
  next
    case False
    then have "r \<in> set rs" using Cons.prems(1,2) by auto
    then show ?thesis using Cons.IH [OF _ Cons.prems(2)] Cons.prems(3) False by simp
  qed
qed simp

lemma startswith_both: "startswith s p \<Longrightarrow> startswith s q \<Longrightarrow> startswith p q \<or> startswith q p"
  by (auto simp: startswith_iff append_eq_append_conv2)

lemma first_prefix_rules:
  assumes "r \<in> set prefix_rules" "startswith s (fst r)"
  shows "first_prefix prefix_rules s = Some r"
proof (rule first_prefix_eq [OF assms], intro ballI impI)
  fix q assume q: "q \<in> set prefix_rules" "startswith s (fst q)"
  from startswith_both [OF assms(2) q(2)] assms(1) q(1) prefixes_free have "fst q = fst r" by metis
  then show "q = r" using prefixes_distinct q(1) assms(1) by (metis prefixes_def distinct_map inj_onD)
qed

lemma first_prefix_Some: "first_prefix rs s = Some r \<Longrightarrow> r \<in> set rs \<and> startswith s (fst r)"
  by (induction rs) (auto split: if_splits)

lemma exact_table_get:
  "dget (exact_table env) k = (case dget (get_plugin_exact_table (skills env)) k of Some a \<Rightarrow> Some a | None \<Rightarrow> dget build_exact_table k)"
proof -
  have d: "distinct (dkeys (get_plugin_exact_table (skills env)))" by (simp add: get_plugin_exact_table_def distinct_table)
  have "map_of (dupdate d e) k = (case map_of e k of None \<Rightarrow> map_of d k | Some v \<Rightarrow> Some v)" if "distinct (dkeys e)" for d e :: "string dict"
    using that
  proof (induction d e rule: dupdate.induct)
    case (2 d k' v e)
    then have "map_of e k' = None" by (simp add: map_of_eq_None_iff)
    with 2 show ?case by (simp split: option.split)
  qed simp
  from this [OF d] show ?thesis by (simp add: exact_table_def split: option.split)
qed


lemma prefix_props:
  assumes "r \<in> set prefix_rules"
  shows "fst r \<noteq> []" "\<not> is_space (hd (fst r))" "lower (fst r) = fst r"
  using assms prefixes_shape by (auto simp: prefixes_def list_all_iff prefix_shape_def)

lemma interpret_prefix:
  assumes "(p, a, f) \<in> set prefix_rules" "v \<noteq> []" "\<not> is_space (last v)" "dget (exact_table env) (p @ lower v) = None"
  shows "interpret_intent env (p @ v) = (case f v of Inl e \<Rightarrow> (''error'', JStr (error_text e)) | Inr x \<Rightarrow> (a, x))"
proof -
  note p = prefix_props [OF assms(1), simplified]
  have s: "strip (p @ v) = p @ v" using p assms(2,3) by (intro strip_fix) (simp add: hd_append)
  then have n: "normalize_intent (p @ v) = p @ lower v" by (simp add: normalize_intent_def p)
  have "first_prefix prefix_rules (p @ lower v) = Some (p, a, f)" by (rule first_prefix_rules [OF assms(1)]) simp
  then show ?thesis using assms(4) by (simp add: interpret_intent_def n s Let_def)
qed

text \<open>Every phrase of the registry, in any case and with blanks around it, is understood as the command
  that declares it, unless a skill claims the same phrase.\<close>

theorem registered_phrase_understood:
  assumes "c \<in> set registry" "a \<in> set (c_aliases c)" "normalize_intent s = a"
    and "dget (get_plugin_exact_table (skills env)) a = None"
  shows "interpret_intent env s = (c_action c, JStr [])"
  using assms exact_table_lookup [OF assms(1,2)] by (simp add: interpret_intent_def exact_table_get)

text \<open>A command that starts with one of the prefixes and is not itself a phrase is dispatched to the action
  of that prefix, the value keeping its case; no other prefix can take it.\<close>

theorem prefix_command_dispatched:
  assumes "(p, a, f) \<in> set prefix_rules" "v \<noteq> []" "\<not> is_space (last v)" "dget (exact_table env) (lower (p @ v)) = None"
    and "f v = Inr x"
  shows "interpret_intent env (p @ v) = (a, x) \<and>
     (\<forall>(q, b, g) \<in> set prefix_rules. startswith (lower (p @ v)) q \<longrightarrow> q = p)"
proof -
  have l: "lower p = p" using prefix_props(3) [OF assms(1)] by simp
  have "first_prefix prefix_rules (lower (p @ v)) = Some (p, a, f)"
    by (rule first_prefix_rules [OF assms(1)]) (simp add: l)
  then have "q = p" if "(q, b, g) \<in> set prefix_rules" "startswith (lower (p @ v)) q" for q b g
    using first_prefix_rules [OF that(1), of "lower (p @ v)"] that(2) by simp
  then show ?thesis
    using interpret_prefix [OF assms(1-3), of env] assms(4,5) l by auto
qed

lemma registry_no_error: "''error'' \<notin> set (map c_action registry)"
  by (simp add: registry_def cmd_def)

definition pair_prefixes :: "string list" where
  "pair_prefixes = [''set task status '', ''block task '', ''set task due '', ''link memory '']"

lemma other_prefixes_total:
  "list_all (\<lambda>r. fst r \<in> set pair_prefixes \<or> (\<forall>v. v \<noteq> [] \<longrightarrow> (\<exists>x. snd (snd r) v = Inr x))) prefix_rules"
  by (simp add: prefix_rules_def pair_prefixes_def as_field_def plain_def profile_value_def domain_value_def mode_value_def require_text_def)

lemma prefix_errors:
  assumes "(p, a, f) \<in> set prefix_rules" "f v = Inl e" "v \<noteq> []"
  shows "p \<in> set pair_prefixes"
  using other_prefixes_total assms by (fastforce simp: list_all_iff)

lemma prefix_actions: "list_all (\<lambda>r. fst (snd r) \<noteq> ''error'') prefix_rules"
  by (simp add: prefix_rules_def)

text \<open>The only commands the parser rejects are the four with two arguments. The checks for an empty value of
  all other prefix commands never fail, since a trimmed text that starts with a prefix is longer than it.\<close>

theorem parser_rejects_only_pairs:
  assumes "interpret_intent env s = (''error'', v)" "\<forall>c \<in> set (map snd (load_plugin_commands (skills env))). pl_action c \<noteq> ''error''"
  shows "\<exists>p \<in> set pair_prefixes. startswith (normalize_intent s) p"
proof -
  have noexact: "dget (exact_table env) k \<noteq> Some ''error''" for k
  proof
    assume "dget (exact_table env) k = Some ''error''"
    then consider "dget (get_plugin_exact_table (skills env)) k = Some ''error''" | "dget build_exact_table k = Some ''error''"
      by (auto simp: exact_table_get split: option.splits)
    then show False
    proof cases
      case 1
      then show ?thesis using table_source [of pl_action pl_aliases "[]"] assms(2) by (fastforce simp: get_plugin_exact_table_def)
    next
      case 2
      from exact_table_source [OF this] registry_no_error show ?thesis by auto
    qed
  qed
  let ?n = "normalize_intent s"
  have exact: "dget (exact_table env) ?n = None"
    using assms(1) noexact by (auto simp: interpret_intent_def Let_def split: option.splits)
  have nofuzzy: "fuzzy_match env ?n \<noteq> Some ''error''" using noexact by (auto simp: fuzzy_match_def split: if_splits option.splits)
  obtain r where r: "first_prefix prefix_rules ?n = Some r"
    using assms(1) exact nofuzzy by (auto simp: interpret_intent_def Let_def split: option.splits)
  obtain p a f where paf: "r = (p, a, f)" by (cases r)
  from first_prefix_Some [OF r] have mem: "(p, a, f) \<in> set prefix_rules" and st: "startswith ?n p" by (simp_all add: paf)
  have "a \<noteq> ''error''" using prefix_actions mem by (auto simp: list_all_iff)
  then obtain e where e: "f (drop (length p) (strip s)) = Inl e"
    using assms(1) exact r by (auto simp: interpret_intent_def Let_def paf split: sum.splits)
  have "drop (length p) (strip s) \<noteq> []"
  proof
    assume "drop (length p) (strip s) = []"
    then have "length (lower (strip s)) \<le> length p" by simp
    with st have "lower (strip s) = p" by (simp add: normalize_intent_def startswith_def)
    moreover have "p \<noteq> []" "is_space (last p)"
      using prefixes_shape mem by (auto simp: prefixes_def list_all_iff prefix_shape_def)
    ultimately have "strip s \<noteq> []" "is_space (last (lower (strip s)))" by auto
    moreover have "is_space (last (lower (strip s))) = is_space (last (strip s))" using \<open>strip s \<noteq> []\<close> by (simp add: lower_def last_map)
    ultimately show False using strip_last by blast
  qed
  from prefix_errors [OF mem e this] st show ?thesis by blast
qed


definition word :: "string \<Rightarrow> bool" where
  "word w \<longleftrightarrow> w \<noteq> [] \<and> (\<forall>c \<in> set w. \<not> is_space c)"

lemma partition_at_fresh: "c \<notin> set a \<Longrightarrow> partition_at (c # sep) (a @ (c # sep) @ b) = Some (a, b)"
  by (induction a) (auto simp: startswith_def)

lemma strip_word: "word w \<Longrightarrow> strip w = w"
  by (rule strip_fix) (auto simp: word_def)

lemma space_notin: "word w \<Longrightarrow> CHR '' '' \<notin> set w"
proof
  assume w: "word w" "CHR '' '' \<in> set w"
  have "is_space (CHR '' '')" by code_simp
  then show False using w by (auto simp: word_def)
qed

lemma parse_memory_link_words:
  assumes "word s" "word t" "word r"
  shows "parse_memory_link (s @ '' to '' @ t @ '' as '' @ r) =
     Inr (JObj [(''source_id'', JStr s), (''target_id'', JStr t), (''relation'', JStr r)])"
proof -
  let ?v = "s @ '' to '' @ t @ '' as '' @ r"
  have "\<not> is_space (hd s)" "\<not> is_space (last r)" using assms by (auto simp: word_def)
  then have v: "strip ?v = ?v" using assms by (intro strip_fix) (simp add: word_def hd_append)
  have "rev ?v = rev r @ '' sa '' @ rev (s @ '' to '' @ t)" by simp
  then have "partition_at '' sa '' (rev ?v) = Some (rev r, rev (s @ '' to '' @ t))"
    using partition_at_fresh [of "CHR '' ''" "rev r" "''sa ''"] space_notin [OF assms(3)] by simp
  then have as: "rpartition_at '' as '' ?v = Some (s @ '' to '' @ t, r)" by (simp add: rpartition_at_def)
  have to: "partition_at '' to '' (s @ '' to '' @ t) = Some (s, t)"
    using partition_at_fresh [of "CHR '' ''" s "''to ''" t] space_notin [OF assms(1)] by simp
  have ne: "r \<noteq> []" using assms(3) by (simp add: word_def)
  show ?thesis
    by (simp only: parse_memory_link_def Let_def v as to option.case prod.case strip_word [OF assms(1)] strip_word [OF assms(2)]
        strip_word [OF assms(3)] ne if_False)
qed

text \<open>The text of a link command and its payload are the same information: written with any three words it is
  parsed back to exactly these words.\<close>

theorem link_command_round_trip:
  assumes "word s" "word t" "word r"
    and "dget (exact_table env) (lower (''link memory '' @ s @ '' to '' @ t @ '' as '' @ r)) = None"
  shows "interpret_intent env (''link memory '' @ s @ '' to '' @ t @ '' as '' @ r) =
     (''hi_memory_link'', JObj [(''source_id'', JStr s), (''target_id'', JStr t), (''relation'', JStr r)])"
proof -
  let ?v = "s @ '' to '' @ t @ '' as '' @ r"
  have mem: "(''link memory '', ''hi_memory_link'', parse_memory_link) \<in> set prefix_rules" by (simp add: prefix_rules_def)
  have "lower ''link memory '' = ''link memory ''" using prefix_props(3) [OF mem] by simp
  then have none: "dget (exact_table env) (''link memory '' @ lower ?v) = None" using assms(4) by (simp only: lower_append)
  have "?v \<noteq> []" "\<not> is_space (last ?v)" using assms by (auto simp: word_def)
  note run = interpret_prefix [OF mem this none]
  show ?thesis unfolding run parse_memory_link_words [OF assms(1-3)] by simp
qed

text \<open>The words "who are you" on the command line never reach the command of that phrase: the cleaning removes
  "are you" first, and what is left goes to the fuzzy matcher and then to the AI.\<close>

theorem who_are_you_is_cut:
  assumes "fuzzy env = (\<lambda>_ _. None)" "skills env = []"
  shows "(\<exists>c \<in> set registry. c_action c = ''who_are_you'' \<and> ''who are you'' \<in> set (c_aliases c))
     \<and> interpret_intent env (clean_words [''who'', ''are'', ''you'']) = (''ai'', JStr ''who'')"
proof
  let ?c = "cmd ''who_are_you'' [''who are you'', ''jarvis who are you''] ''identity'' ''low'' ''Ask who Jarvis is.'' False []"
  have "?c \<in> set registry" by (simp add: registry_def)
  then show "\<exists>c \<in> set registry. c_action c = ''who_are_you'' \<and> ''who are you'' \<in> set (c_aliases c)"
    by (rule bexI [rotated]) (simp add: cmd_def)
  have clean: "clean_words [''who'', ''are'', ''you''] = ''who''" "normalize_intent ''who'' = ''who''" by code_simp+
  have "list_all (\<lambda>c. ''who'' \<notin> set (c_aliases c)) registry" by (simp add: registry_def cmd_def)
  then have none: "dget build_exact_table ''who'' = None"
    using exact_table_source [of "''who''"] by (cases "dget build_exact_table ''who''") (auto simp: list_all_iff)
  have "get_plugin_exact_table [] = []" by (simp add: get_plugin_exact_table_def load_plugin_commands_def)
  then have exact: "dget (exact_table env) ''who'' = None" by (simp add: exact_table_get assms(2) none)
  have "first_prefix prefix_rules ''who'' = None" by (simp add: prefix_rules_def startswith_def)
  then show "interpret_intent env (clean_words [''who'', ''are'', ''you'']) = (''ai'', JStr ''who'')"
    by (simp add: clean(1)) (simp add: interpret_intent_def clean(2) exact fuzzy_match_def assms(1))
qed

section \<open>Witnesses\<close>

definition bare_env :: parser_env where
  "bare_env = \<lparr>skills = [], fuzzy = (\<lambda>_ _. None)\<rparr>"

lemma bare_env_exact: "dget (exact_table bare_env) k = dget build_exact_table k"
  by (simp add: exact_table_get bare_env_def get_plugin_exact_table_def load_plugin_commands_def)

lemma no_exact: "list_all (\<lambda>c. k \<notin> set (c_aliases c)) registry \<Longrightarrow> dget (exact_table bare_env) k = None"
  using exact_table_source [of k] by (cases "dget build_exact_table k") (auto simp: bare_env_exact list_all_iff)

theorem registered_phrase_understood_witness:
  "interpret_intent bare_env '' System Status'' = (''status'', JStr [])"
proof -
  let ?c = "cmd ''status'' [''status'', ''system status'', ''health''] ''info'' ''low'' ''Show system health and connectivity.'' False []"
  have "?c \<in> set registry" by (simp add: registry_def)
  moreover have "normalize_intent '' System Status'' = ''system status''" by code_simp
  moreover have "''system status'' \<in> set (c_aliases ?c)" by (simp add: cmd_def)
  ultimately have "interpret_intent bare_env '' System Status'' = (c_action ?c, JStr [])"
    by (intro registered_phrase_understood [of ?c "''system status''"])
      (simp_all add: bare_env_def get_plugin_exact_table_def load_plugin_commands_def)
  then show ?thesis by (simp add: cmd_def)
qed

theorem prefix_command_dispatched_witness:
  "interpret_intent bare_env ''add task Fix CI'' = (''hi_workflow_add_task'', JObj [(''title'', JStr ''Fix CI'')])"
proof -
  have mem: "(''add task '', ''hi_workflow_add_task'', as_field ''title'' ''task title'' []) \<in> set prefix_rules"
    by (simp add: prefix_rules_def)
  have l: "lower (''add task '' @ ''Fix CI'') = ''add task fix ci''" "\<not> is_space (last ''Fix CI'')" by code_simp+
  have "dget (exact_table bare_env) ''add task fix ci'' = None" by (rule no_exact) (simp add: registry_def cmd_def)
  with prefix_command_dispatched [OF mem _ l(2), of bare_env] l(1) show ?thesis
    by (simp add: as_field_def require_text_def)
qed

theorem parser_rejects_only_pairs_witness:
  "interpret_intent bare_env ''block task t1'' = (''error'', JStr ''Task blocker needs: <task_id> <blocker>'')
     \<and> (\<exists>p \<in> set pair_prefixes. startswith (normalize_intent ''block task t1'') p)"
proof -
  have mem: "(''block task '', ''hi_workflow_add_blocker'', parse_task_blocker) \<in> set prefix_rules"
    by (simp add: prefix_rules_def)
  have l: "lower ''t1'' = ''t1''" "\<not> is_space (last ''t1'')" by code_simp+
  have "dget (exact_table bare_env) (''block task '' @ lower ''t1'') = None" by (rule no_exact) (simp add: l registry_def cmd_def)
  moreover have "parse_task_blocker ''t1'' = Inl (ValueError ''Task blocker needs: <task_id> <blocker>'')"
  proof -
    have "partition_at '' '' (strip ''t1'') = None" by code_simp
    then show ?thesis by (simp add: parse_task_blocker_def parse_task_pair_def words_error_def)
  qed
  ultimately have run: "interpret_intent bare_env ''block task t1'' = (''error'', JStr ''Task blocker needs: <task_id> <blocker>'')"
    using interpret_prefix [OF mem _ l(2), of bare_env] by (simp add: error_text_def)
  from parser_rejects_only_pairs [OF this] run show ?thesis by (simp add: bare_env_def load_plugin_commands_def)
qed

theorem link_command_round_trip_witness:
  "interpret_intent bare_env ''link memory m1 to m2 as Cause'' =
     (''hi_memory_link'', JObj [(''source_id'', JStr ''m1''), (''target_id'', JStr ''m2''), (''relation'', JStr ''Cause'')])"
proof -
  have w: "word ''m1''" "word ''m2''" "word ''Cause''" by code_simp+
  have l: "lower (''link memory '' @ ''m1'' @ '' to '' @ ''m2'' @ '' as '' @ ''Cause'') = ''link memory m1 to m2 as cause''" by code_simp
  have "dget (exact_table bare_env) ''link memory m1 to m2 as cause'' = None" by (rule no_exact) (simp add: registry_def cmd_def)
  with link_command_round_trip [OF w, of bare_env] l show ?thesis by simp
qed

theorem who_are_you_is_cut_witness:
  "interpret_intent bare_env (clean_words [''who'', ''are'', ''you'']) = (''ai'', JStr ''who'')"
  using who_are_you_is_cut [of bare_env] by (simp add: bare_env_def)

end
