(* ===== verification/Actions.thy ===== *)
theory Actions
  imports Shell Profiles Intents Listener
begin

text \<open>
  Model of \<open>Jarvis/behavior.py\<close> (risk tiers) and of the local actions of \<open>Jarvis/actions.py\<close>: the settings,
  the session and the texts that are computed from the profiles and the HI state, the shell, the desktop
  programs and the skills. The actions that report on the machine, the network, the AI provider, the
  devices and the sync peers are \<open>outside_actions\<close>: their text is a field of the environment and what they do
  to the machine is not modelled. Texts of profile fields are their \<open>str\<close>.
\<close>

section \<open>World and environment of the assistant\<close>

record jarvis_world = node +
  profiles_file :: state_doc
  ran :: runs
  activity_log :: "(string \<times> json) list"

datatype desktop_result = Finished | TimedOutAfter | FailedWith string

record jarvis_env =
  j_host :: host_env
  j_parser :: parser_env
  j_shell :: shell_env
  j_bus :: bus_env
  j_today :: string
  j_now_iso :: string
  outside :: "string \<Rightarrow> json \<Rightarrow> string outcome"
  desktop :: "string list \<Rightarrow> desktop_result"
  which :: "string \<Rightarrow> bool"
  print_json :: "json \<Rightarrow> string"
  short_status :: string
  help_bar :: string
  os_host :: string
  hi_pid :: "string option"
  hi_probe :: "int \<Rightarrow> probe"
  hi_pid_age :: "int option"
  listener_path :: string
  err_text :: "exn \<Rightarrow> string"

definition on_profiles :: "(state_doc \<Rightarrow> (state_doc, 'a) act) \<Rightarrow> ('w jarvis_world_scheme, 'a) act" where
  "on_profiles m = (\<lambda>w. let (r, f) = m (state_file w) (profiles_file w) in (r, w\<lparr>profiles_file := f\<rparr>))"

definition on_runs :: "(runs, 'a) act \<Rightarrow> ('w jarvis_world_scheme, 'a) act" where
  "on_runs m = (\<lambda>w. let (r, f) = m (ran w) in (r, w\<lparr>ran := f\<rparr>))"

text \<open>\<open>f"{d.get(k, x)}"\<close>\<close>

definition shown :: "obj \<Rightarrow> string \<Rightarrow> string \<Rightarrow> string" where
  "shown d k x = py_str (dget_or d k (JStr x))"

definition with_profiles ::
  "'e jarvis_env_scheme \<Rightarrow> (obj \<Rightarrow> ('w jarvis_world_scheme, 'a) act) \<Rightarrow> ('w jarvis_world_scheme, 'a) act" where
  "with_profiles env k = act_bind (on_profiles (load_profiles (j_host env))) k"

definition with_section ::
  "'e jarvis_env_scheme \<Rightarrow> string \<Rightarrow> (obj \<Rightarrow> string outcome) \<Rightarrow> ('w jarvis_world_scheme, string) act" where
  "with_section env s k =
     with_profiles env (\<lambda>p. act_of (and_then (as_obj (dget_or p s (JObj []))) k))"

section \<open>Risk tiers\<close>

record risk_profile =
  tier :: string
  confirm_first :: bool
  reason :: string

definition risk :: "string \<Rightarrow> string \<Rightarrow> risk_profile" where
  "risk t why = \<lparr>tier = t, confirm_first = (t = ''high''), reason = why\<rparr>"

definition get_risk_profile :: "skills \<Rightarrow> string \<Rightarrow> risk_profile" where
  "get_risk_profile sk action =
     (case get_plugin_risk_tier sk action of
        Some t \<Rightarrow>
          if t = ''high'' then risk ''high'' ''Plugin action declared high risk.''
          else if t = ''medium'' then risk ''medium'' ''Plugin action changes local or assistant state.''
          else risk ''low'' ''Plugin action declared low risk.''
      | None \<Rightarrow>
          if action \<in> set high_risk_actions then risk ''high'' ''Local shell execution changes or queries the machine directly.''
          else if action \<in> set medium_risk_actions then risk ''medium'' ''This action changes Jarvis state or preferences.''
          else risk ''low'' ''This action only reads state or returns information.'')"

section \<open>Texts from the profiles\<close>

definition section_of :: "obj \<Rightarrow> string \<Rightarrow> obj outcome" where
  "section_of p k = and_then (subscript p k) as_obj"

definition get_ai_intro :: "'e jarvis_env_scheme \<Rightarrow> ('w jarvis_world_scheme, string) act" where
  "get_ai_intro env =
     with_profiles env (\<lambda>p. act_of (
       and_then (section_of p ''AI'') (\<lambda>ai.
       and_then (section_of p ''HI'') (\<lambda>hi.
         let mode = dget_or hi ''preferred_intro_mode'' (JStr ''normal''); name = shown ai ''name'' ''Jarvis''; domain = shown hi ''domain'' ''unknown'' in
         Inr (if mode = JStr ''short'' then ''I am '' @ name @ '', your AI assistant for '' @ domain @ ''.''
              else if mode = JStr ''formal'' then
                ''Greetings. I am '' @ name @ '', the Artificial Intelligence system assigned to assist the human operator for '' @ domain @
                ''. My function is to interpret intent, analyze context, and support safe execution under human control.''
              else shown ai ''intro'' ''Hello, I am Jarvis.'')))))"

definition get_hi_intro_text :: "'e jarvis_env_scheme \<Rightarrow> ('w jarvis_world_scheme, string) act" where
  "get_hi_intro_text env =
     with_profiles env (\<lambda>p. act_of (
       and_then (section_of p ''HI'') (\<lambda>hi.
         let mode = dget_or hi ''preferred_intro_mode'' (JStr ''normal''); name = shown hi ''name'' ''unknown''; domain = shown hi ''domain'' ''unknown'' in
         Inr (if mode = JStr ''short'' then ''I am '' @ name @ '', the human operator for '' @ domain @ ''.''
              else if mode = JStr ''formal'' then
                ''I am '' @ name @ '', the primary human operator and decision maker for '' @ domain @
                ''. I define objectives, authorize execution, and retain control over permissions and system boundaries.''
              else shown hi ''intro'' ''I am the primary user and controller of this system.''))))"

definition get_relationship_report :: "'e jarvis_env_scheme \<Rightarrow> ('w jarvis_world_scheme, string) act" where
  "get_relationship_report env =
     with_profiles env (\<lambda>p. act_of (
       and_then (section_of p ''relationship'') (\<lambda>r.
       and_then (section_of p ''HI'') (\<lambda>hi.
       and_then (section_of p ''AI'') (\<lambda>ai.
         Inr (join newline [''AI / HI Relationship Model'', ''--------------------------'',
           ''HI ('' @ shown hi ''name'' ''unknown'' @ ''): '' @ shown r ''human_role'' ''unknown'',
           ''AI ('' @ shown ai ''name'' ''unknown'' @ ''): '' @ shown r ''ai_role'' ''unknown'',
           ''Bridge: '' @ shown r ''bridge_role'' ''unknown'', ''Voice Input: '' @ shown r ''voice_input_role'' ''unknown'']))))))"

definition who_am_i :: "'e jarvis_env_scheme \<Rightarrow> ('w jarvis_world_scheme, string) act" where
  "who_am_i env = with_section env ''HI'' (\<lambda>hi.
     Inr (join newline [''You are '' @ shown hi ''full_name'' (shown hi ''name'' ''User'') @ ''.'', ''Short name: '' @ shown hi ''name'' ''User'',
       ''Role: '' @ shown hi ''role'' ''owner'', ''Preferred language: '' @ shown hi ''language'' ''unknown'']))"

definition joined_words :: "json \<Rightarrow> string outcome" where
  "joined_words v =
     and_then (py_iter v) (\<lambda>xs.
     and_then (traverse (\<lambda>x. case x of JStr s \<Rightarrow> Inr s | _ \<Rightarrow> Inl TypeError) xs) (\<lambda>ss. Inr (join '', '' ss)))"

definition who_are_you :: "'e jarvis_env_scheme \<Rightarrow> ('w jarvis_world_scheme, string) act" where
  "who_are_you env = with_section env ''AI'' (\<lambda>ai.
     let caps = dget_or ai ''capabilities'' (JArr []) in
     and_then (if truthy caps then joined_words caps else Inr ''none'') (\<lambda>c.
       Inr (join newline [''I am '' @ shown ai ''name'' ''Jarvis'' @ ''.'', ''Type: '' @ shown ai ''type'' ''Artificial Intelligence System'',
         ''Role: '' @ shown ai ''role'' ''assistant'', ''Capabilities: '' @ c])))"

definition greet_user :: "'e jarvis_env_scheme \<Rightarrow> ('w jarvis_world_scheme, string) act" where
  "greet_user env = with_section env ''HI'' (\<lambda>hi. Inr (''Hello '' @ shown hi ''name'' ''User'' @ '', how can I assist you today?''))"

definition get_preferences_report :: "'e jarvis_env_scheme \<Rightarrow> ('w jarvis_world_scheme, string) act" where
  "get_preferences_report env = with_section env ''HI'' (\<lambda>hi.
     Inr (join newline ([''Preferences'', ''-----------''] @ map (\<lambda>(l, k). l @ '': '' @ shown hi k ''unknown'')
       [(''Name'', ''name''), (''Domain'', ''domain''), (''Language'', ''language''), (''Intro Mode'', ''preferred_intro_mode''),
        (''Response Mode'', ''preferred_response_mode''), (''Command Style'', ''preferred_command_style''),
        (''Mic Device'', ''preferred_mic_device''), (''Wake Phrase'', ''wake_phrase'')])))"

definition what_is_my_language :: "'e jarvis_env_scheme \<Rightarrow> ('w jarvis_world_scheme, string) act" where
  "what_is_my_language env = with_section env ''HI'' (\<lambda>hi. Inr (''Your preferred language is '' @ shown hi ''language'' ''unknown'' @ ''.''))"

text \<open>\<open>hi.get("website") or (f"https://{domain}" if domain != "not set" else "not set")\<close>\<close>

definition website_of :: "obj \<Rightarrow> string" where
  "website_of hi =
     (let w = jget hi ''website''; d = dget_or hi ''domain'' (JStr ''not set'') in
      if truthy w then py_str w else if d \<noteq> JStr ''not set'' then ''https://'' @ py_str d else ''not set'')"

definition what_is_my_domain :: "'e jarvis_env_scheme \<Rightarrow> ('w jarvis_world_scheme, string) act" where
  "what_is_my_domain env = with_section env ''HI'' (\<lambda>hi.
     Inr (join newline [''Domain Identity'', ''---------------'', ''Domain  : '' @ shown hi ''domain'' ''not set'', ''Website : '' @ website_of hi,
       ''Brand   : '' @ shown hi ''brand'' ''not set'', ''Company : '' @ shown hi ''company'' ''not set'', ''Email   : '' @ shown hi ''email'' ''not set'']))"

definition hi_identity_summary :: "'e jarvis_env_scheme \<Rightarrow> ('w jarvis_world_scheme, string) act" where
  "hi_identity_summary env = with_section env ''HI'' (\<lambda>hi.
     let full = jget hi ''full_name'' in
     Inr (join newline [''HI Identity Summary'', ''-------------------'',
       ''Name          : '' @ (if truthy full then py_str full else shown hi ''name'' ''unknown''),
       ''Role          : '' @ shown hi ''role'' ''owner'', ''Domain        : '' @ shown hi ''domain'' ''not set'',
       ''Website       : '' @ website_of hi, ''Brand         : '' @ shown hi ''brand'' ''not set'',
       ''Company       : '' @ shown hi ''company'' ''not set'', ''Email         : '' @ shown hi ''email'' ''not set'',
       ''Language      : '' @ shown hi ''language'' ''unknown'', ''Response mode : '' @ shown hi ''preferred_response_mode'' ''adaptive'']))"

section \<open>Settings\<close>

text \<open>\<open>value.strip()\<close> of a payload: only a string has the method.\<close>

definition stripped :: "json \<Rightarrow> string outcome" where
  "stripped v = (case v of JStr s \<Rightarrow> Inr (strip s) | _ \<Rightarrow> Inl AttributeError)"

definition set_hi :: "'e jarvis_env_scheme \<Rightarrow> string \<Rightarrow> json \<Rightarrow> ('w jarvis_world_scheme, unit) act" where
  "set_hi env k v = on_profiles (\<lambda>hi. update_hi_field (j_host env) hi k v)"

text \<open>A setting that is any non-empty text: the refusal, the field and the message are the caller's.\<close>

definition set_text ::
  "'e jarvis_env_scheme \<Rightarrow> (json \<Rightarrow> ('w jarvis_world_scheme, unit) act) \<Rightarrow> string \<Rightarrow> string \<Rightarrow> json \<Rightarrow> ('w jarvis_world_scheme, string) act" where
  "set_text env put what msg v =
     act_bind (act_of (stripped v)) (\<lambda>c.
       if c = [] then act_return (''Refused: empty '' @ what @ ''.'')
       else act_bind (put (JStr c)) (\<lambda>_. act_return (msg @ '' updated to '' @ c)))"

definition set_hi_name :: "'e jarvis_env_scheme \<Rightarrow> json \<Rightarrow> ('w jarvis_world_scheme, string) act" where
  "set_hi_name env = set_text env (set_hi env ''name'') ''human name'' ''HI name''"

definition set_hi_language :: "'e jarvis_env_scheme \<Rightarrow> json \<Rightarrow> ('w jarvis_world_scheme, string) act" where
  "set_hi_language env = set_text env (set_hi env ''language'') ''human language'' ''HI language''"

definition set_hi_domain :: "'e jarvis_env_scheme \<Rightarrow> json \<Rightarrow> ('w jarvis_world_scheme, string) act" where
  "set_hi_domain env = set_text env (set_hi env ''domain'') ''human domain'' ''HI domain''"

definition set_ai_name :: "'e jarvis_env_scheme \<Rightarrow> json \<Rightarrow> ('w jarvis_world_scheme, string) act" where
  "set_ai_name env = set_text env (\<lambda>v. on_profiles (\<lambda>hi. update_ai_field (j_host env) hi ''name'' v)) ''AI name'' ''AI name''"

definition set_wake_phrase :: "'e jarvis_env_scheme \<Rightarrow> json \<Rightarrow> ('w jarvis_world_scheme, string) act" where
  "set_wake_phrase env = set_text env (set_hi env ''wake_phrase'') ''wake phrase'' ''Wake phrase''"

definition set_command_style :: "'e jarvis_env_scheme \<Rightarrow> json \<Rightarrow> ('w jarvis_world_scheme, string) act" where
  "set_command_style env v =
     act_bind (act_of (stripped v)) (\<lambda>c.
       set_text env (set_hi env ''preferred_command_style'') ''command style'' ''Preferred command style'' (JStr (lower c)))"

definition set_choice ::
  "'e jarvis_env_scheme \<Rightarrow> string \<Rightarrow> string list \<Rightarrow> string \<Rightarrow> string \<Rightarrow> json \<Rightarrow> ('w jarvis_world_scheme, string) act" where
  "set_choice env k allowed refusal msg v =
     act_bind (act_of (stripped v)) (\<lambda>c0.
       let c = lower c0 in
       if c \<notin> set allowed then act_return refusal
       else act_bind (set_hi env k (JStr c)) (\<lambda>_. act_return (msg @ '' updated to '' @ c)))"

definition set_intro_mode :: "'e jarvis_env_scheme \<Rightarrow> json \<Rightarrow> ('w jarvis_world_scheme, string) act" where
  "set_intro_mode env = set_choice env ''preferred_intro_mode'' [''short'', ''normal'', ''formal'']
     ''Refused: intro mode must be one of short, normal, or formal.'' ''Preferred intro mode''"

definition set_response_mode :: "'e jarvis_env_scheme \<Rightarrow> json \<Rightarrow> ('w jarvis_world_scheme, string) act" where
  "set_response_mode env = set_choice env ''preferred_response_mode'' [''adaptive'', ''concise'', ''detailed'']
     ''Refused: response mode must be one of adaptive, concise, or detailed.'' ''Preferred response mode''"

definition set_mic_device :: "'e jarvis_env_scheme \<Rightarrow> json \<Rightarrow> ('w jarvis_world_scheme, string) act" where
  "set_mic_device env v =
     act_bind (act_of (stripped v)) (\<lambda>c.
       if c = [] then act_return ''Refused: empty microphone device.''
       else case int_of_str c of
              None \<Rightarrow> act_return ''Refused: microphone device must be an integer.''
            | Some i \<Rightarrow> act_bind (set_hi env ''preferred_mic_device'' (JInt i)) (\<lambda>_.
                act_return (''Preferred microphone device updated to '' @ show_int i)))"

section \<open>Session\<close>

definition with_session :: "'e jarvis_env_scheme \<Rightarrow> (obj \<Rightarrow> string outcome) \<Rightarrow> ('w jarvis_world_scheme, string) act" where
  "with_session env = with_section env ''session''"

definition what_was_my_last_command :: "'e jarvis_env_scheme \<Rightarrow> ('w jarvis_world_scheme, string) act" where
  "what_was_my_last_command env = with_session env (\<lambda>s. Inr (''Your last command was '' @ shown s ''last_command'' ''unknown'' @ ''.''))"

definition what_was_my_last_action :: "'e jarvis_env_scheme \<Rightarrow> ('w jarvis_world_scheme, string) act" where
  "what_was_my_last_action env = with_session env (\<lambda>s. Inr (''Your last action was '' @ shown s ''last_successful_action'' ''unknown'' @ ''.''))"

definition show_session :: "'e jarvis_env_scheme \<Rightarrow> ('w jarvis_world_scheme, string) act" where
  "show_session env = with_profiles env (\<lambda>p. act_return (print_json env (dget_or p ''session'' (JObj []))))"

definition reset_session_state :: "'e jarvis_env_scheme \<Rightarrow> ('w jarvis_world_scheme, string) act" where
  "reset_session_state env = act_bind (on_profiles (reset_session (j_host env))) (\<lambda>_. act_return ''Session has been reset.'')"

definition cancel_pending_action :: "'e jarvis_env_scheme \<Rightarrow> ('w jarvis_world_scheme, string) act" where
  "cancel_pending_action env =
     act_bind (on_profiles (clear_pending_confirmation (j_host env))) (\<lambda>_. act_return ''Pending action canceled.'')"

text \<open>The name of an action kept in the session. A list or dict cannot be looked up; another value that is no
  string is no action's name, like the text it prints as.\<close>

definition action_text :: "json \<Rightarrow> string outcome" where
  "action_text v = (if hashable v then Inr (py_str v) else Inl TypeError)"

definition get_confirmation_status :: "'e jarvis_env_scheme \<Rightarrow> ('w jarvis_world_scheme, string) act" where
  "get_confirmation_status env = with_session env (\<lambda>s.
     let pending = dget_or s ''pending_action'' (JStr []) in
     if \<not> truthy pending then Inr ''No pending confirmation.''
     else and_then (action_text pending) (\<lambda>a.
       Inr (join newline [''Pending Confirmation'', ''--------------------'', ''Action: '' @ a,
         ''Risk Tier: '' @ tier (get_risk_profile (skills (j_parser env)) a),
         ''Payload: '' @ shown s ''pending_payload'' ''(none)'', ''Command: '' @ shown s ''pending_command'' ''(none)''])))"

section \<open>The HI memory\<close>

definition memory_line :: "obj \<Rightarrow> string" where
  "memory_line m =
     (let tag = jget m ''tag''; imp = dget_or m ''importance'' (JInt 3) in
      ''['' @ take 10 (shown m ''created_at'' []) @ ''] '' @ shown m ''type'' ''note''
        @ (if truthy tag then '' ['' @ py_str tag @ '']'' else [])
        @ (if \<not> py_eq imp (JInt 3) then '' imp='' @ py_str imp else [])
        @ (if jget m ''visibility'' = JStr ''public'' then '' [public]'' else [])
        @ '': '' @ take 120 (str_strip (py_or (jget m ''text'') (py_or (jget m ''event'') (py_or (jget m ''command'') (JStr []))))))"

definition get_memory_report :: "'e jarvis_env_scheme \<Rightarrow> ('w jarvis_world_scheme, string) act" where
  "get_memory_report env =
     act_bind (on_state (load_state (j_host env))) (\<lambda>s.
       act_return (if memory s = [] then join newline [''Memory'', ''------'', ''No memory entries yet.'']
         else join newline ([''Memory'', ''------'', ''Total entries: '' @ show_nat (length (memory s)), []]
                @ map memory_line (rev (lastn 10 (memory s))))))"

section \<open>Programs\<close>

definition run_desktop_action :: "'e jarvis_env_scheme \<Rightarrow> string list \<Rightarrow> string \<Rightarrow> ('w jarvis_world_scheme, string) act" where
  "run_desktop_action env argv success =
     act_bind (act_modify (\<lambda>w. w\<lparr>ran := ran w @ [argv]\<rparr>)) (\<lambda>_.
     act_return (case desktop env argv of
         Finished \<Rightarrow> success
       | TimedOutAfter \<Rightarrow> ''Command timed out after 5s: '' @ hd argv
       | FailedWith e \<Rightarrow> ''Command failed: '' @ e))"

definition open_chrome :: "'e jarvis_env_scheme \<Rightarrow> ('w jarvis_world_scheme, string) act" where
  "open_chrome env =
     (case filter (which env) [''google-chrome'', ''google-chrome-stable'', ''chromium-browser'', ''chromium''] of
        b # _ \<Rightarrow> run_desktop_action env [b] ''Opening Chrome.''
      | [] \<Rightarrow> act_return ''Chrome not found. Install google-chrome or chromium.'')"

definition shell_action :: "'e jarvis_env_scheme \<Rightarrow> json \<Rightarrow> ('w jarvis_world_scheme, string) act" where
  "shell_action env v =
     (case v of JStr s \<Rightarrow> on_runs (execute_shell_command (j_shell env) s) | _ \<Rightarrow> act_raise AttributeError)"

definition plugin_action :: "'e jarvis_env_scheme \<Rightarrow> string \<Rightarrow> json \<Rightarrow> ('w jarvis_world_scheme, string) act" where
  "plugin_action env a payload =
     act_bind (act_of (execute_plugin_action (skills (j_parser env)) a payload)) (\<lambda>r.
       act_return (case r of Some (c # t) \<Rightarrow> c # t | _ \<Rightarrow> ''Unknown plugin action: '' @ a))"

section \<open>The action table\<close>

definition outside_actions :: "string list" where
  "outside_actions =
     [''time'', ''identity'', ''profile'', ''profiles'', ''website_status'', ''what_is_my_device'', ''system_summary'', ''register_device'',
      ''auto_detect_device'', ''device_report'', ''device_inventory'', ''device_hardware'', ''device_software'', ''device_network'',
      ''device_environment'', ''status'', ''context'', ''ai_status'', ''ai'', ''plan'', ''doctor'', ''inbox_summary'', ''chat_stats'',
      ''logs'', ''system_info'', ''search_memory'', ''sync_status'', ''sync_run'', ''sync_peers'', ''sync_add_peer'',
      ''sync_remove_peer'', ''battery_status'', ''disk_status'']"

definition local_actions :: "'e jarvis_env_scheme \<Rightarrow> json \<Rightarrow> (string \<times> ('w jarvis_world_scheme, string) act) list" where
  "local_actions env payload =
     [(''ai_intro'', get_ai_intro env), (''hi_intro'', get_hi_intro_text env), (''who_am_i'', who_am_i env),
      (''who_are_you'', who_are_you env), (''greet_user'', greet_user env), (''relationship'', get_relationship_report env),
      (''set_hi_name'', set_hi_name env payload), (''set_hi_language'', set_hi_language env payload),
      (''set_hi_domain'', set_hi_domain env payload), (''set_ai_name'', set_ai_name env payload),
      (''set_intro_mode'', set_intro_mode env payload), (''set_command_style'', set_command_style env payload),
      (''set_mic_device'', set_mic_device env payload), (''set_wake_phrase'', set_wake_phrase env payload),
      (''memory'', get_memory_report env), (''preferences'', get_preferences_report env),
      (''what_is_my_domain'', what_is_my_domain env), (''hi_identity_summary'', hi_identity_summary env),
      (''what_is_my_language'', what_is_my_language env), (''what_was_my_last_command'', what_was_my_last_command env),
      (''what_was_my_last_action'', what_was_my_last_action env), (''show_session'', show_session env),
      (''reset_session'', reset_session_state env), (''set_response_mode'', set_response_mode env payload),
      (''confirmation_status'', get_confirmation_status env), (''cancel'', cancel_pending_action env),
      (''shell'', shell_action env payload),
      (''commands'', act_return (format_help_text (help_bar env) (skills (j_parser env)) None)),
      (''open_terminal'', run_desktop_action env [''gnome-terminal''] ''Opening terminal.''), (''open_chrome'', open_chrome env),
      (''open_files'', run_desktop_action env [''nautilus''] ''Opening Files.''),
      (''lock_screen'', run_desktop_action env [''loginctl'', ''lock-session''] ''Locking screen.''),
      (''volume_up'', run_desktop_action env [''pactl'', ''set-sink-volume'', ''@DEFAULT_SINK@'', ''+10%''] ''Volume increased.''),
      (''volume_down'', run_desktop_action env [''pactl'', ''set-sink-volume'', ''@DEFAULT_SINK@'', ''-10%''] ''Volume decreased.''),
      (''mute_volume'', run_desktop_action env [''pactl'', ''set-sink-mute'', ''@DEFAULT_SINK@'', ''toggle''] ''Volume toggled.'')]"

text \<open>The skills come last in the table and replace an action of the same name.\<close>

definition action_for :: "'e jarvis_env_scheme \<Rightarrow> string \<Rightarrow> json \<Rightarrow> ('w jarvis_world_scheme, string) act option" where
  "action_for env a payload =
     (if dhas (load_plugin_commands (skills (j_parser env))) a then Some (plugin_action env a payload)
      else case map_of (local_actions env payload) a of
             Some m \<Rightarrow> Some m
           | None \<Rightarrow> if a \<in> set outside_actions then Some (act_of (outside env a payload)) else None)"

definition execute_action :: "'e jarvis_env_scheme \<Rightarrow> string \<Rightarrow> json \<Rightarrow> ('w jarvis_world_scheme, string) act" where
  "execute_action env a payload =
     (case action_for env a payload of
        None \<Rightarrow> act_return (''Unknown action: '' @ a)
      | Some m \<Rightarrow>
          act_bind m (\<lambda>r.
          act_bind (act_modify (\<lambda>w. w\<lparr>activity_log := activity_log w @ [(a, if truthy payload then payload else JStr ''requested'')]\<rparr>))
            (\<lambda>_. act_return r)))"

end
