(* ===== verification/Router.thy ===== *)
theory Router
  imports Actions
begin

text \<open>
  Model of the rest of \<open>Jarvis/behavior.py\<close> and of \<open>Jarvis/router.py\<close> and \<open>Jarvis/bridge.py\<close>: the rules of
  behaviour of one command, the confirmation of high-risk actions through the session, the requests sent
  to the HI listener over the file bus, and the answer shown to the user. The other processes take their
  steps between two rounds of the wait for an answer; the list of these steps is as long as there are rounds
  before the deadline.
\<close>

section \<open>Behaviour\<close>

record behavior =
  response_mode :: string
  b_command_style :: json
  b_intro_mode :: json
  b_risk :: risk_profile
  repeated_status :: bool
  repeated_unknown :: bool
  repeated_greeting :: bool
  same_intent_repeat :: bool
  prefer_short :: bool
  prefer_detailed :: bool

definition build_behavior_rules :: "skills \<Rightarrow> obj \<Rightarrow> json \<Rightarrow> string \<Rightarrow> string \<Rightarrow> behavior outcome" where
  "build_behavior_rules sk profiles session intent action =
     and_then (as_obj (dget_or profiles ''HI'' (JObj []))) (\<lambda>hi.
     and_then (as_obj session) (\<lambda>s.
     and_then (stripped (dget_or s ''last_intent'' (JStr []))) (\<lambda>last.
     and_then (in_str_set [''adaptive'', ''concise'', ''detailed''] (dget_or hi ''preferred_response_mode'' (JStr ''adaptive''))) (\<lambda>known.
       let mode = (if known then shown hi ''preferred_response_mode'' ''adaptive'' else ''adaptive'');
           previous = dget_or s ''last_action'' (JStr []);
           again = (\<lambda>a. action = a \<and> previous = JStr a);
           n = normalize_intent intent in
       Inr \<lparr>response_mode = mode, b_command_style = dget_or hi ''preferred_command_style'' (JStr ''natural''),
         b_intro_mode = dget_or hi ''preferred_intro_mode'' (JStr ''normal''), b_risk = get_risk_profile sk action,
         repeated_status = again ''status'', repeated_unknown = again ''unknown'', repeated_greeting = again ''greet_user'',
         same_intent_repeat = (n \<noteq> [] \<and> n = lower last),
         prefer_short = (mode = ''concise'' \<or> mode = ''adaptive'' \<and> again ''status''), prefer_detailed = (mode = ''detailed'')\<rparr>))))"

definition apply_behavior_to_text :: "'e jarvis_env_scheme \<Rightarrow> string \<Rightarrow> bool \<Rightarrow> string \<Rightarrow> behavior \<Rightarrow> string" where
  "apply_behavior_to_text env text succeeded action b =
     (if succeeded \<and> action = ''status'' \<and> prefer_short b then short_status env
      else if succeeded \<and> action = ''greet_user'' \<and> repeated_greeting b then ''Hello again. Ready for the next command.''
      else if \<not> succeeded \<and> action = ''unknown'' \<and> repeated_unknown b then
        text @ newline @ ''Suggestions: try `status`, `system summary`, `who am i`, `who are you`, or `show session`.''
      else text)"

section \<open>Requests to the HI listener\<close>

text \<open>The pid file counts while its process is alive or hidden; a pid no process has counts while the file is fresh.\<close>

definition hi_listener_running :: "'e jarvis_env_scheme \<Rightarrow> bool" where
  "hi_listener_running env =
     (case hi_pid env of
        None \<Rightarrow> False
      | Some s \<Rightarrow>
          (case int_of_str (strip s) of
             None \<Rightarrow> False
           | Some pid \<Rightarrow>
               (if hi_probe env pid = Gone then (case hi_pid_age env of None \<Rightarrow> False | Some age \<Rightarrow> age < 300 * sec) else True)))"

definition hi_intents :: "string list" where
  "hi_intents =
     [''hi_get_profile'', ''hi_get_intro'', ''hi_get_relationship'', ''hi_get_preferences'', ''hi_get_memory'',
      ''hi_memory_search'', ''hi_memory_related'', ''hi_memory_visibility'', ''hi_get_workflow'', ''hi_set_profile_field'',
      ''hi_set_preference'', ''hi_set_workflow_focus'', ''hi_workflow_add_task'', ''hi_workflow_set_task_status'',
      ''hi_workflow_add_blocker'', ''hi_workflow_set_due'', ''hi_memory_add'', ''hi_memory_delete'', ''hi_memory_graph'',
      ''hi_memory_link'', ''hi_memory_graph_stats'', ''hi_memory_retention'', ''hi_memory_export'', ''hi_memory_import'',
      ''hi_set_domain'']"

fun await_response ::
  "string \<Rightarrow> string \<Rightarrow> ('w node_scheme \<Rightarrow> 'w node_scheme) list \<Rightarrow> ('w node_scheme, obj option) act" where
  "await_response actor rid [] = act_return None"
| "await_response actor rid (step # steps) =
     act_bind (on_bus (poll_response actor rid)) (\<lambda>r.
       case r of
         Answered x \<Rightarrow> act_return x
       | Waiting \<Rightarrow> act_bind (act_modify step) (\<lambda>_. await_response actor rid steps))"

definition offline_text :: "'e jarvis_env_scheme \<Rightarrow> string" where
  "offline_text env = ''HI listener is offline.'' @ newline @ ''Start it with: python3 '' @ listener_path env"

definition no_answer :: string where
  "no_answer = ''HI layer did not respond.''"

definition request_payload :: "string \<Rightarrow> json \<Rightarrow> string \<Rightarrow> obj" where
  "request_payload intent raw text =
     [(''text'', JStr (if text = [] then intent else text)), (''args'', JObj [(''raw_payload'', raw)])]"

definition response_text :: "obj \<Rightarrow> string outcome" where
  "response_text m =
     and_then (as_obj (dget_or m ''payload'' (JObj []))) (\<lambda>p. Inr (py_str (dget_or p ''text'' (JStr (py_str (JObj p))))))"

definition send_hi_request ::
  "'e jarvis_env_scheme \<Rightarrow> ('w node_scheme \<Rightarrow> 'w node_scheme) list \<Rightarrow> string \<Rightarrow> json \<Rightarrow> string \<Rightarrow> ('w node_scheme, string) act" where
  "send_hi_request env steps intent raw text =
     (if \<not> hi_listener_running env then act_return (offline_text env)
      else act_bind (on_bus (send_request (j_bus env) ''Jarvis'' intent ''Kingofyadav'' (request_payload intent raw text) ''normal''
                       (Some [(''origin'', JStr ''router.py'')]))) (\<lambda>req.
           act_bind (act_of (subscript req ''request_id'')) (\<lambda>rid.
           act_bind (await_response ''Jarvis'' (py_str rid) steps) (\<lambda>resp.
             case resp of
               None \<Rightarrow> act_return no_answer
             | Some m \<Rightarrow> act_of (response_text m)))))"

section \<open>Routing\<close>

record routed =
  r_ok :: bool
  r_intent :: string
  r_action :: string
  r_payload :: json
  r_text :: string
  r_behavior :: behavior

definition routed_as :: "bool \<Rightarrow> string \<Rightarrow> string \<Rightarrow> json \<Rightarrow> string \<Rightarrow> behavior \<Rightarrow> routed" where
  "routed_as k n a p t b = \<lparr>r_ok = k, r_intent = n, r_action = a, r_payload = p, r_text = t, r_behavior = b\<rparr>"

definition note_session :: "'e jarvis_env_scheme \<Rightarrow> obj \<Rightarrow> ('w jarvis_world_scheme, unit) act" where
  "note_session env kvs = act_iter (\<lambda>(k, v). on_profiles (\<lambda>hi. update_session_field (j_host env) hi k v)) kvs"

definition note_all :: "'e jarvis_env_scheme \<Rightarrow> obj \<Rightarrow> ('w jarvis_world_scheme, unit) act" where
  "note_all env kvs = on_profiles (\<lambda>hi. bulk_update_session (j_host env) hi kvs)"

definition record_action_event :: "'e jarvis_env_scheme \<Rightarrow> string \<Rightarrow> string \<Rightarrow> string \<Rightarrow> ('w jarvis_world_scheme, unit) act" where
  "record_action_event env action command route =
     act_modify (\<lambda>w. w\<lparr>events := append_event (j_today env) (j_now_iso env) ''Jarvis'' ''action_completed''
       (JObj [(''action'', JStr action), (''command'', JStr command), (''route'', JStr route)]) (events w)\<rparr>)"

definition last_fields :: "string \<Rightarrow> string \<Rightarrow> string \<Rightarrow> behavior \<Rightarrow> obj" where
  "last_fields n action intent b =
     [(''last_intent'', JStr n), (''last_action'', JStr action), (''last_command'', JStr intent), (''last_risk_tier'', JStr (tier (b_risk b)))]"

text \<open>The part of \<open>process_intent\<close> in the \<open>try\<close>: the action is carried out, noted and answered.\<close>

definition carry_out ::
  "'e jarvis_env_scheme \<Rightarrow> ('w jarvis_world_scheme \<Rightarrow> 'w jarvis_world_scheme) list \<Rightarrow> string \<Rightarrow> string \<Rightarrow> json \<Rightarrow> behavior \<Rightarrow>
     ('w jarvis_world_scheme, routed) act" where
  "carry_out env steps intent action payload b =
     (let n = normalize_intent intent; hi = (action \<in> set hi_intents) in
      act_bind (if hi then send_hi_request env steps action payload intent else execute_action env action payload) (\<lambda>result.
      if hi \<and> (result = no_answer \<or> startswith result ''HI listener is offline.'') then
        act_bind (note_session env (last_fields n action intent b)) (\<lambda>_. act_return (routed_as False n action payload result b))
      else
        (let text = apply_behavior_to_text env result True action b in
         act_bind (note_all env (last_fields n action intent b @ [(''device_name'', JStr (os_host env))] @
             (if text \<noteq> [] \<and> \<not> startswith text ''Refused:'' \<and> \<not> startswith text ''Unknown action:''
              then [(''last_successful_action'', JStr action)] else []))) (\<lambda>_.
         act_bind (record_action_event env action intent (if hi then ''hi'' else ''local'')) (\<lambda>_.
         act_return (routed_as True n action payload text b))))))"

definition route ::
  "'e jarvis_env_scheme \<Rightarrow> ('w jarvis_world_scheme \<Rightarrow> 'w jarvis_world_scheme) list \<Rightarrow> string \<Rightarrow> string \<Rightarrow> json \<Rightarrow> behavior \<Rightarrow>
     ('w jarvis_world_scheme, routed) act" where
  "route env steps intent action payload b =
     (let n = normalize_intent intent in
      act_catch (carry_out env steps intent action payload b)
        (\<lambda>e. act_bind (note_all env (last_fields n action intent b)) (\<lambda>_.
             act_return (routed_as False n action payload (apply_behavior_to_text env (err_text env e) False action b) b))))"

definition confirm_ttl :: int where
  "confirm_ttl = 300"

text \<open>\<open>pending_since\<close> is read with \<open>fromisoformat\<close>; a value it rejects, or a naive one, never expires.\<close>

definition expired :: "'e jarvis_env_scheme \<Rightarrow> json \<Rightarrow> bool" where
  "expired env since =
     (case since of
        JStr s \<Rightarrow> (case fromisoformat s of Some t \<Rightarrow> aware t \<and> bus_now (j_bus env) - micros t > confirm_ttl * sec | None \<Rightarrow> False)
      | _ \<Rightarrow> False)"

definition rules_now ::
  "'e jarvis_env_scheme \<Rightarrow> string \<Rightarrow> string \<Rightarrow> ('w jarvis_world_scheme, behavior) act" where
  "rules_now env intent action =
     with_profiles env (\<lambda>p.
     act_bind (on_profiles (get_session (j_host env))) (\<lambda>s.
     act_of (build_behavior_rules (skills (j_parser env)) p s intent action)))"

definition clear_pending :: "'e jarvis_env_scheme \<Rightarrow> ('w jarvis_world_scheme, unit) act" where
  "clear_pending env = on_profiles (clear_pending_confirmation (j_host env))"

definition confirm_pending ::
  "'e jarvis_env_scheme \<Rightarrow> ('w jarvis_world_scheme \<Rightarrow> 'w jarvis_world_scheme) list \<Rightarrow> string \<Rightarrow> behavior \<Rightarrow>
     ('w jarvis_world_scheme, routed) act" where
  "confirm_pending env steps intent b =
     act_bind (on_profiles (get_session (j_host env))) (\<lambda>sv.
     act_bind (act_of (as_obj sv)) (\<lambda>s.
       let pending = dget_or s ''pending_action'' (JStr []); command = dget_or s ''pending_command'' (JStr []);
           since = dget_or s ''pending_since'' (JStr []);
           failed = (\<lambda>t. routed_as False (normalize_intent intent) ''confirm'' (JStr []) t b) in
       if \<not> truthy pending then act_return (failed ''No pending action to confirm.'')
       else act_bind
         (if expired env since
          then act_catch (act_bind (clear_pending env) (\<lambda>_. act_return True)) (\<lambda>_. act_return False)
          else act_return False) (\<lambda>stop.
         if stop then act_return (failed ''Pending confirmation expired (5 min). Re-run the command.'')
         else act_bind (act_of (if truthy command then (case command of JStr c \<Rightarrow> Inr c | _ \<Rightarrow> Inl AttributeError) else Inr intent)) (\<lambda>c.
              act_bind (clear_pending env) (\<lambda>_.
              act_bind (act_of (action_text pending)) (\<lambda>a.
              act_bind (rules_now env c a) (\<lambda>b'.
              route env steps c a (dget_or s ''pending_payload'' (JStr [])) b')))))))"

definition confirmation_text :: "behavior \<Rightarrow> string" where
  "confirmation_text b = ''Confirmation required for '' @ tier (b_risk b) @
     ''-risk action. Run `confirm` to execute or `cancel` to discard.''"

definition process_intent ::
  "'e jarvis_env_scheme \<Rightarrow> ('w jarvis_world_scheme \<Rightarrow> 'w jarvis_world_scheme) list \<Rightarrow> string \<Rightarrow> string \<Rightarrow> json \<Rightarrow>
     ('w jarvis_world_scheme, routed) act" where
  "process_intent env steps intent action payload =
     (let n = normalize_intent intent in
      act_bind (rules_now env intent action) (\<lambda>b.
        if action = ''error'' then
          act_bind (note_session env [(''last_intent'', JStr n), (''last_command'', JStr intent)]) (\<lambda>_.
          act_return (routed_as False n action payload (py_str payload) b))
        else if action = ''unknown'' then
          act_bind (note_session env [(''last_intent'', JStr n), (''last_action'', JStr action), (''last_command'', JStr intent)]) (\<lambda>_.
          act_return (routed_as False n action payload
            (apply_behavior_to_text env (''Unknown intent: '' @ py_str payload) False action b) b))
        else if action = ''confirm'' then confirm_pending env steps intent b
        else if confirm_first (b_risk b) then
          act_bind (note_session env [(''pending_action'', JStr action), (''pending_payload'', payload), (''pending_command'', JStr intent),
             (''pending_since'', JStr (j_now_iso env)), (''last_intent'', JStr n), (''last_command'', JStr intent),
             (''last_risk_tier'', JStr (tier (b_risk b)))]) (\<lambda>_.
          act_return (routed_as False n ''confirmation_required'' payload (confirmation_text b) b))
        else route env steps intent action payload b))"

text \<open>The bridge: text in, answer out.\<close>

definition bridge_process ::
  "'e jarvis_env_scheme \<Rightarrow> ('w jarvis_world_scheme \<Rightarrow> 'w jarvis_world_scheme) list \<Rightarrow> string \<Rightarrow> ('w jarvis_world_scheme, routed) act" where
  "bridge_process env steps text = (case interpret_intent (j_parser env) text of (a, p) \<Rightarrow> process_intent env steps text a p)"

definition humanize_action :: "string \<Rightarrow> string" where
  "humanize_action a =
     (if a = [] then ''Command''
      else case strip (map (\<lambda>c. if code c = 95 then CHR '' '' else c) a) of [] \<Rightarrow> [] | c # s \<Rightarrow> upper_ascii c # lower s)"

definition format_result :: "routed \<Rightarrow> string" where
  "format_result r =
     (let head = [''Command: '' @ (if r_intent r = [] then ''(empty)'' else r_intent r), ''Action : '' @ humanize_action (r_action r),
                  ''Risk   : '' @ tier (b_risk (r_behavior r)), ''Mode   : '' @ response_mode (r_behavior r)] in
      join newline
        (if r_ok r then [''Command completed successfully.''] @ head @
           [''Details: '' @ (if truthy (r_payload r) then py_str (r_payload r) else ''(none)''), ''Result : '' @ r_text r]
         else [''Command failed.''] @ head @ [''Error  : '' @ r_text r]))"

end
