(* ===== verification/Automation.thy ===== *)
theory Automation
  imports Scheduler
begin

text \<open>
  Lemmas and properties of the automation daemon: which effects a pass of the scheduler can have, how
  retries and cooldowns bound the actions of a rule, and the invariant of the approval queue over
  everything that can happen to the world of the daemon.
\<close>

section \<open>Lemmas: the effects of a call\<close>

text \<open>A call only appends effects with \<open>P\<close>.\<close>

definition adds :: "(json \<times> effect \<Rightarrow> bool) \<Rightarrow> ('w auto_world_scheme, 'a) act \<Rightarrow> bool" where
  "adds P m \<longleftrightarrow> (\<forall>w r w'. m w = (r, w') \<longrightarrow> (\<exists>es. effects w' = effects w @ es \<and> (\<forall>e \<in> set es. P e)))"

named_theorems adds_intros \<open>introduction rules for the effects a call appends\<close>

lemma addsD: "adds P m \<Longrightarrow> m w = (r, w') \<Longrightarrow> \<exists>es. effects w' = effects w @ es \<and> (\<forall>e \<in> set es. P e)"
  by (auto simp: adds_def)

lemma keeps_adds: "keeps effects m \<Longrightarrow> adds P m"
  by (metis adds_def append_Nil2 empty_iff keepsD list.set(1))

lemma adds_base [adds_intros]:
  "adds P (act_return x)" "adds P (act_raise e)" "adds P (act_of r)" "adds P (act_get g)"
  by (simp_all add: keeps_adds)

lemma adds_bind [adds_intros]:
  assumes "adds P m" "\<And>x. adds P (k x)"
  shows "adds P (act_bind m k)"
  unfolding adds_def
proof (intro allI impI)
  fix w r w' assume run: "act_bind m k w = (r, w')"
  obtain r1 w1 where m: "m w = (r1, w1)" by fastforce
  obtain es where es: "effects w1 = effects w @ es" "\<forall>e \<in> set es. P e" using addsD [OF assms(1) m] by blast
  show "\<exists>es. effects w' = effects w @ es \<and> (\<forall>e \<in> set es. P e)"
  proof (cases r1)
    case (Inl e)
    then show ?thesis using run m es by (simp add: act_bind_app)
  next
    case (Inr x)
    then have "k x w1 = (r, w')" using run m by (simp add: act_bind_app)
    from addsD [OF assms(2) this] es show ?thesis by fastforce
  qed
qed

lemma adds_catch [adds_intros]:
  assumes "adds P m" "\<And>e. adds P (h e)"
  shows "adds P (act_catch m h)"
  unfolding adds_def
proof (intro allI impI)
  fix w r w' assume run: "act_catch m h w = (r, w')"
  obtain r1 w1 where m: "m w = (r1, w1)" by fastforce
  obtain es where es: "effects w1 = effects w @ es" "\<forall>e \<in> set es. P e" using addsD [OF assms(1) m] by blast
  show "\<exists>es. effects w' = effects w @ es \<and> (\<forall>e \<in> set es. P e)"
  proof (cases r1)
    case (Inl e)
    then have "h e w1 = (r, w')" using run m by (simp add: act_catch_def)
    from addsD [OF assms(2) this] es show ?thesis by fastforce
  next
    case (Inr x)
    then show ?thesis using run m es by (simp add: act_catch_def)
  qed
qed

lemma adds_emit [adds_intros]: "P (rid, e) \<Longrightarrow> adds P (emit rid e)"
  by (auto simp: adds_def emit_def)

lemma adds_weaken: "adds P m \<Longrightarrow> (\<And>e. P e \<Longrightarrow> Q e) \<Longrightarrow> adds Q m"
  unfolding adds_def by blast

lemma adds_logs [adds_intros]:
  "adds P (write_audit env rid ty st detail)" "adds P (write_failure env rid ty err n)" "adds P (save_pending items)"
  by (simp_all add: keeps_adds keeps_def write_audit_def write_failure_def save_pending_def)

lemma adds_notify:
  assumes "\<And>e. P (rid, e)"
  shows "adds P (notify env msg ch rid url)"
  by (simp add: notify_def notify_webhook_def adds_base adds_bind adds_emit assms)

lemma adds_dispatch:
  assumes a: "\<And>e. P (dget_or r ''id'' (JStr []), e)"
  shows "adds P (dispatch_action env r)"
proof -
  let ?rid = "dget_or r ''id'' (JStr [])"
  have r: "adds P (restart_service env ?rid sv sc)" for sv sc
    by (cases sc) (auto simp: restart_service_def adds_base adds_bind adds_emit adds_notify a split: script_result.split)
  have c: "adds P (run_jarvis_command env ?rid cmd)" for cmd
    by (cases cmd) (auto simp: run_jarvis_command_def adds_base adds_emit a intro!: adds_bind split: script_result.split)
  show ?thesis
    unfolding dispatch_action_def Let_def
    by (rule adds_bind) (simp_all add: adds_base adds_notify a r c)
qed

lemma keeps_dispatch:
  assumes f: "\<And>w es. f (w\<lparr>effects := es\<rparr>) = f w"
  shows "keeps f (dispatch_action env r)"
proof -
  have e: "keeps f (emit rid x)" for rid x
    unfolding emit_def by (rule keeps_modify) (rule f)
  have n: "keeps f (notify env msg ch rid url)" for msg ch rid url
    by (simp add: notify_def notify_webhook_def keeps_bind e)
  have r: "keeps f (restart_service env rid sv sc)" for rid sv sc
    by (cases sc) (auto simp: restart_service_def e n intro!: keeps_bind split: script_result.split)
  have c: "keeps f (run_jarvis_command env rid cmd)" for rid cmd
    by (cases cmd) (auto simp: run_jarvis_command_def e intro!: keeps_bind split: script_result.split)
  show ?thesis
    unfolding dispatch_action_def Let_def by (rule keeps_bind) (simp_all add: n r c)
qed

lemma adds_after_failure [adds_intros]: "adds P (after_failure env j rid ty e)"
proof -
  have "adds P (\<lambda>w. let (r, f) = g (rules_file w) in (Inr (), w\<lparr>rules_file := f\<rparr>))" for g :: "state_doc \<Rightarrow> 'x \<times> state_doc"
    by (rule keeps_adds) (simp add: keeps_def split: prod.split)
  then show ?thesis unfolding after_failure_def by (auto intro!: adds_intros)
qed

text \<open>What a firing job may do: \<open>permitted\<close> is the whole of the gates of \<open>fire\<close>.\<close>

definition permitted :: "'e auto_env_scheme \<Rightarrow> obj \<Rightarrow> bool" where
  "permitted env r \<longleftrightarrow> \<not> is_dry_run env \<and> \<not> high_risk r \<and>
     (\<exists>ctx. context_now env = Inr ctx \<and> evaluate_rule (regex env) r ctx = Inr True)"

lemma fire_effects:
  assumes "fire env j w = (r, w')"
  shows "\<exists>es. effects w' = effects w @ es \<and>
     (\<forall>e \<in> set es. fst e = dget_or (rule j) ''id'' (JStr []) \<and> permitted env (rule j) \<and> \<not> stop_file w)"
proof (cases "permitted env (rule j) \<and> \<not> stop_file w")
  case True
  have "adds (\<lambda>e. fst e = dget_or (rule j) ''id'' (JStr [])) (fire env j)"
    unfolding fire_def run_action_def add_pending_approval_def Let_def
    by (auto intro!: adds_intros adds_dispatch split: sum.split)
  from addsD [OF this assms] True show ?thesis by simp
next
  case False
  let ?a = "as_obj (dget_or (rule j) ''action'' (JObj []))"
  have keep: "keeps effects (add_pending_approval env r)" "keeps effects (write_audit env rid ty st d)" for r rid ty st d
    unfolding add_pending_approval_def save_pending_def write_audit_def Let_def
    by (auto intro!: frame_intros keeps_modify)
  have queue: "effects (snd (act_bind (add_pending_approval env (rule j)) (\<lambda>_. act_bind (write_audit env rid ty st d) (\<lambda>_. act_return x)) w)) = effects w"
    for rid ty st d and x :: job
    by (intro keeps_snd keeps_bind keep keeps_base)
  have logged: "effects (snd (act_bind (write_audit env rid ty st d) (\<lambda>_. act_return x) w)) = effects w" for rid ty st d and x :: job
    by (intro keeps_snd keeps_bind keep keeps_base)
  have "effects (snd (fire env j w)) = effects w"
  proof (cases ?a)
    case a: (Inr a)
    show ?thesis
    proof (cases "context_now env")
      case ctx: (Inr ctx)
      show ?thesis
        using False a ctx
        by (cases "evaluate_rule (regex env) (rule j) ctx") (auto simp: fire_def Let_def permitted_def queue logged)
    qed (simp add: fire_def Let_def a)
  qed (simp add: fire_def Let_def)
  then show ?thesis using assms by simp
qed

lemma keeps_stop_fire: "keeps stop_file (fire env j)"
proof -
  have d: "keeps stop_file (dispatch_action env r)" for r by (rule keeps_dispatch) simp
  have l: "keeps stop_file (write_audit env rid ty st dt)" "keeps stop_file (write_failure env rid ty er n)"
    "keeps stop_file (add_pending_approval env r)" for rid ty st dt er n r
    unfolding write_audit_def write_failure_def add_pending_approval_def save_pending_def Let_def
    by (auto intro!: frame_intros keeps_modify)
  have s: "keeps stop_file (\<lambda>w. let (r, f) = g (rules_file w) in (Inr (), w\<lparr>rules_file := f\<rparr>))" for g :: "state_doc \<Rightarrow> 'x \<times> state_doc"
    by (simp add: keeps_def split: prod.split)
  show ?thesis
    unfolding fire_def run_action_def after_failure_def Let_def
    by (auto intro!: frame_intros d l s [unfolded Let_def] split: sum.split)
qed


lemma tick_app:
  "tick env (j # js) w =
     (case (if is_due env j then fire env (mark_ran env j) else act_return j) w of
        (Inl e, w1) \<Rightarrow> (Inl e, w1)
      | (Inr j', w1) \<Rightarrow> (case tick env js w1 of (Inl e, w2) \<Rightarrow> (Inl e, w2) | (Inr js', w2) \<Rightarrow> (Inr (j' # js'), w2)))"
  by (simp add: act_bind_app split: prod.split sum.split)

lemma mark_ran_rule [simp]: "rule (mark_ran env j) = rule j" "retry_at (mark_ran env j) = retry_at j"
    "retry_count (mark_ran env j) = retry_count j" "max_retries (mark_ran env j) = max_retries j"
    "last_success (mark_ran env j) = last_success j" "cooldown (mark_ran env j) = cooldown j"
  by (simp_all add: mark_ran_def Let_def)

lemma tick_effects:
  assumes "tick env js w = (r, w')"
  shows "\<exists>es. effects w' = effects w @ es \<and> (\<forall>e \<in> set es. \<not> stop_file w \<and>
     (\<exists>j \<in> set js. fst e = dget_or (rule j) ''id'' (JStr []) \<and> is_due env j \<and> permitted env (rule j)))"
  using assms
proof (induction js arbitrary: w r)
  case (Cons j js)
  obtain r1 w1 where first: "(if is_due env j then fire env (mark_ran env j) else act_return j) w = (r1, w1)" by fastforce
  obtain es1 where es1: "effects w1 = effects w @ es1"
    "\<forall>e \<in> set es1. \<not> stop_file w \<and> fst e = dget_or (rule j) ''id'' (JStr []) \<and> is_due env j \<and> permitted env (rule j)"
  proof (cases "is_due env j")
    case True
    then have "fire env (mark_ran env j) w = (r1, w1)" using first by simp
    from fire_effects [OF this] True that show ?thesis by auto
  qed (use first that in auto)
  have stop: "stop_file w1 = stop_file w"
    using first keeps_snd [OF keeps_stop_fire, of env "mark_ran env j" w] by (auto split: if_splits)
  show ?case
  proof (cases r1)
    case (Inl e)
    then show ?thesis using Cons.prems first es1 by (auto simp: tick_app simp del: tick.simps)
  next
    case (Inr j')
    obtain r2 where "tick env js w1 = (r2, w')"
      using Cons.prems first Inr by (auto simp: tick_app simp del: tick.simps split: prod.splits sum.splits)
    from Cons.IH [OF this] stop obtain es2 where "effects w' = effects w1 @ es2"
      "\<forall>e \<in> set es2. \<not> stop_file w \<and> (\<exists>j \<in> set js. fst e = dget_or (rule j) ''id'' (JStr []) \<and> is_due env j \<and> permitted env (rule j))"
      by auto
    with es1 show ?thesis by (intro exI [of _ "es1 @ es2"]) auto
  qed
qed simp

section \<open>Properties\<close>


text \<open>Approving runs the queued action whatever the gates say: under the emergency stop and in dry-run
  mode the command is executed all the same.\<close>

theorem approval_ignores_stop:
  assumes "stop_file w" "is_dry_run env"
    and "List.find (\<lambda>p. p_rule p = JStr i) (load_pending w) = Some item"
    and "p_action item = JObj [(''type'', JStr ''command''), (''command'', JStr cmd)]" "cmd \<noteq> []"
    and "run_bridge env cmd = Exit 0 out"
  shows "effects (snd (approve_pending env i w)) = effects w @ [(JStr i, RanCommand cmd)]"
  using assms
  by (simp add: approve_pending_def act_bind_app act_catch_def dispatch_action_def run_jarvis_command_def emit_def
      dget_or_def write_audit_def save_pending_def)

definition string_min_rule :: obj where
  "string_min_rule =
     [(''id'', JStr ''r1''), (''description'', JStr ''d''), (''trigger'', JObj [(''type'', JStr ''interval''), (''seconds'', JInt 60)]),
      (''conditions'', JArr [JObj [(''type'', JStr ''health_fail_count''), (''min'', JStr ''1'')]]),
      (''action'', JObj [(''type'', JStr ''notify'')])]"

definition plain_context :: "int \<Rightarrow> rule_context" where
  "plain_context n = \<lparr>fail_count = JInt n, warn_count = JInt 0, pass_count = JInt 0, health_error = JNull,
     down_processes = [], recent_log_lines = [], state_snapshot = []\<rparr>"

lemma string_min_rule_valid: "validate_rule string_min_rule = Inr []"
  by (simp add: validate_rule_def string_min_rule_def dget_or_def trigger_errors_def action_errors_def condition_error_def
      trigger_types_def action_types_def condition_types_def risk_tiers_def err_if_def negative_def)

text \<open>A rule that passes validation can still end the scheduler: a condition whose \<open>min\<close> is a string makes the
  comparison raise outside every \<open>try\<close>, and the jobs after it never run again.\<close>

theorem valid_rule_ends_scheduler:
  assumes "context_now env = Inr (plain_context n)" "new_job env string_min_rule = Inr j" "\<not> stop_file w"
  shows "validate_rule string_min_rule = Inr [] \<and> tick env (j # js) w = (Inl TypeError, w)"
proof -
  have j: "rule j = string_min_rule" "is_due env j"
    using assms(2) by (auto simp: new_job_def string_min_rule_def dget_or_def is_due_def)
  have "evaluate_rule (regex env) string_min_rule (plain_context n) = Inl TypeError"
    by (simp add: evaluate_rule_def string_min_rule_def dget_or_def check_condition_def plain_context_def num_less_def)
  moreover have "as_obj (dget_or string_min_rule ''action'' (JObj [])) = Inr [(''type'', JStr ''notify'')]"
    by (simp add: string_min_rule_def dget_or_def)
  ultimately have "fire env (mark_ran env j) w = (Inl TypeError, w)"
    using assms(1,3) j(1) by (simp add: fire_def Let_def)
  then show ?thesis using j(2) string_min_rule_valid by (simp add: tick_app del: tick.simps)
qed


section \<open>Lemmas: retries\<close>

text \<open>The state of a job's retry counter between two passes.\<close>

definition job_ok :: "job \<Rightarrow> bool" where
  "job_ok j \<longleftrightarrow> 0 \<le> retry_count j \<and> retry_count j \<le> max 0 (max_retries j) \<and> (0 < retry_at j \<longrightarrow> 0 < retry_count j)"

lemma new_job_ok: "new_job env r = Inr j \<Longrightarrow> job_ok j \<and> rule j = r"
  by (auto simp: new_job_def job_ok_def)

lemma backoff_bounds: "0 \<le> n \<Longrightarrow> 30 \<le> backoff n \<and> backoff n \<le> 300"
proof -
  have "(1::int) \<le> 2 ^ nat n" by simp
  then show ?thesis by (simp add: backoff_def retry_base_def retry_cap_def)
qed

text \<open>What a firing job comes back as: the rule and limits as before, and the counter in range; a pending retry is
  in the future.\<close>

definition fired_as :: "'e auto_env_scheme \<Rightarrow> job \<Rightarrow> job \<Rightarrow> bool" where
  "fired_as env j j' \<longleftrightarrow> rule j' = rule j \<and> max_retries j' = max_retries j \<and> cooldown j' = cooldown j
     \<and> (job_ok j \<longrightarrow> job_ok j') \<and> (retry_at j' = 0 \<or> mono env + 30 * sec \<le> retry_at j' \<and> retry_at j' \<le> mono env + 300 * sec)"

lemma fired_as_simple [simp]:
  "fired_as env j (j\<lparr>retry_at := 0\<rparr>)" "fired_as env j (j\<lparr>retry_at := 0, retry_count := 0\<rparr>)"
  "fired_as env j (j\<lparr>retry_at := 0, last_success := t, retry_count := 0\<rparr>)"
  by (auto simp: fired_as_def job_ok_def)

lemma fired_as_retry [simp]:
  assumes "retry_count j < max_retries j"
  shows "job_ok j \<Longrightarrow> fired_as env j (j\<lparr>retry_at := mono env + backoff (retry_count j) * sec, retry_count := retry_count j + 1\<rparr>)"
  using assms backoff_bounds [of "retry_count j"] by (auto simp: fired_as_def job_ok_def sec_def)

lemma yields_fire:
  assumes "job_ok j"
  shows "yields (fired_as env j) (fire env j)"
proof -
  have ret: "yields (fired_as env j) (after_failure env (j\<lparr>retry_at := 0\<rparr>) rid ty e :: ('w auto_world_scheme, job) act)" for rid ty e
    unfolding after_failure_def
    using fired_as_retry [of j env] assms by (auto intro!: yield_intros)
  have run: "yields (fired_as env j) (run_action env (j\<lparr>retry_at := 0\<rparr>) rid ty :: ('w auto_world_scheme, job) act)" for rid ty
    unfolding run_action_def
    by (rule yields_catch) (auto intro!: yield_intros ret)
  show ?thesis
    unfolding fire_def Let_def by (auto intro!: yield_intros run split: sum.split)
qed


lemma tick_jobs:
  assumes "tick env js w = (Inr js', w')" "\<forall>j \<in> set js. job_ok j"
  shows "map rule js' = map rule js \<and> (\<forall>j \<in> set js'. job_ok j)"
  using assms
proof (induction js arbitrary: w js')
  case (Cons j js)
  from Cons.prems(1) obtain j1 w1 js1 where run:
      "(if is_due env j then fire env (mark_ran env j) else act_return j) w = (Inr j1, w1)"
      "tick env js w1 = (Inr js1, w')" "js' = j1 # js1"
    by (auto simp: act_bind_Inr)
  have "job_ok (mark_ran env j)" using Cons.prems(2) by (simp add: job_ok_def)
  from yieldsD [OF yields_fire [OF this]] run(1) Cons.prems(2) have "rule j1 = rule j \<and> job_ok j1"
    by (cases "is_due env j") (auto simp: fired_as_def job_ok_def)
  with Cons.IH [OF run(2)] Cons.prems(2) run(3) show ?case by simp
qed simp

lemma loop_jobs:
  "scheduler_loop envs js w = (Inr js', w') \<Longrightarrow> \<forall>j \<in> set js. job_ok j \<Longrightarrow>
     map rule js' = map rule js \<and> (\<forall>j \<in> set js'. job_ok j)"
proof (induction envs arbitrary: js w)
  case (Cons env envs)
  from Cons.prems(1) obtain js1 w1 where "tick env js w = (Inr js1, w1)" "scheduler_loop envs js1 w1 = (Inr js', w')"
    by (auto simp: act_bind_Inr)
  with tick_jobs [OF this(1) Cons.prems(2)] Cons.IH [OF this(2)] show ?case by simp
qed simp

lemma traverse_new_job: "traverse (new_job env) rs = Inr js \<Longrightarrow> map rule js = rs \<and> (\<forall>j \<in> set js. job_ok j)"
  by (induction rs arbitrary: js) (auto dest: new_job_ok)

text \<open>The scheduler keeps the rules it was started with. However long it runs, and whatever happens to the
  rules file meanwhile, its jobs are those of the enabled rules at the start, in the same order, and no retry
  counter ever leaves the range from 0 to the rule's limit.\<close>

theorem scheduler_keeps_rules:
  assumes "daemon_jobs env w = (Inr js, w1)" "scheduler_loop envs js w2 = (Inr js', w3)"
  shows "Inr (map rule js') = load_rules (create_default_rules_file (rules_file w))
    \<and> (\<forall>j \<in> set js'. 0 \<le> retry_count j \<and> retry_count j \<le> max 0 (max_retries j))"
proof -
  from assms(1) obtain rs where rs: "load_rules (create_default_rules_file (rules_file w)) = Inr rs"
    "traverse (new_job env) rs = Inr js"
    by (auto simp: daemon_jobs_def act_bind_Inr)
  from traverse_new_job [OF rs(2)] loop_jobs [OF assms(2)] rs(1) show ?thesis by (auto simp: job_ok_def)
qed

text \<open>The same job fired at a sequence of times.\<close>

fun fire_all :: "'e auto_env_scheme list \<Rightarrow> job \<Rightarrow> ('w auto_world_scheme, job) act" where
  "fire_all [] j = act_return j"
| "fire_all (env # envs) j = act_bind (fire env j) (fire_all envs)"

definition fails_at :: "obj \<Rightarrow> 'e auto_env_scheme \<Rightarrow> bool" where
  "fails_at r env \<longleftrightarrow> permitted env r \<and> (\<forall>w :: auto_world. \<exists>e w'. dispatch_action env r w = (Inl e, w'))"

lemma fire_failing:
  fixes w :: auto_world
  assumes "fails_at (rule j) env" "\<not> stop_file w" "is_obj (dget_or (rule j) ''action'' (JObj []))"
  obtains j' w' where "fire env j w = (Inr j', w')" "rule j' = rule j" "max_retries j' = max_retries j"
    "\<not> stop_file w'" "length (failure_log w') = Suc (length (failure_log w))"
    "if retry_count j < max_retries j then retry_count j' = retry_count j + 1 \<and> rules_file w' = rules_file w
     else retry_count j' = 0 \<and> rules_file w' = (if 0 < max_retries j
       then snd (set_rule_enabled (dget_or (rule j) ''id'' (JStr ''?'')) False (rules_file w)) else rules_file w)"
proof -
  obtain a where a: "dget_or (rule j) ''action'' (JObj []) = JObj a" using assms(3) by (cases "dget_or (rule j) ''action'' (JObj [])") auto
  obtain ctx where ctx: "context_now env = Inr ctx" "evaluate_rule (regex env) (rule j) ctx = Inr True" "\<not> is_dry_run env" "\<not> high_risk (rule j)"
    using assms(1) by (auto simp: fails_at_def permitted_def)
  obtain e w1 where d: "dispatch_action env (rule j) w = (Inl e, w1)"
    using assms(1) unfolding fails_at_def by blast
  have keep: "f w1 = f w" if "\<And>w es. f (w\<lparr>effects := es\<rparr>) = f w" for f :: "auto_world \<Rightarrow> 'b"
    using keepsD [OF keeps_dispatch d, of f] that by blast
  have k: "stop_file w1 = stop_file w" "failure_log w1 = failure_log w" "rules_file w1 = rules_file w"
    by (intro keep; simp)+
  obtain r f where f: "set_rule_enabled (dget_or (rule j) ''id'' (JStr ''?'')) False (rules_file w) = (r, f)" by fastforce
  have "\<exists>j' w'. fire env j w = (Inr j', w') \<and> rule j' = rule j \<and> max_retries j' = max_retries j
    \<and> \<not> stop_file w' \<and> length (failure_log w') = Suc (length (failure_log w))
    \<and> (if retry_count j < max_retries j then retry_count j' = retry_count j + 1 \<and> rules_file w' = rules_file w
       else retry_count j' = 0 \<and> rules_file w' = (if 0 < max_retries j
         then snd (set_rule_enabled (dget_or (rule j) ''id'' (JStr ''?'')) False (rules_file w)) else rules_file w))"
    using assms(2) k f
    by (cases "retry_count j < max_retries j"; cases "0 < max_retries j")
      (simp_all add: fire_def Let_def a ctx run_action_def act_catch_def act_bind_app d after_failure_def write_failure_def write_audit_def)
  then show thesis using that by blast
qed

lemma fire_all_failing:
  fixes w :: auto_world
  assumes "length envs = Suc n" "\<forall>env \<in> set envs. fails_at (rule j) env" "\<not> stop_file w"
    "is_obj (dget_or (rule j) ''action'' (JObj []))" "max_retries j = retry_count j + int n" "0 < max_retries j"
  shows "\<exists>j' w'. fire_all envs j w = (Inr j', w') \<and> retry_count j' = 0
     \<and> length (failure_log w') = length (failure_log w) + Suc n
     \<and> rules_file w' = snd (set_rule_enabled (dget_or (rule j) ''id'' (JStr ''?'')) False (rules_file w))"
  using assms
proof (induction n arbitrary: envs j w)
  case 0
  from 0(1) obtain env where env: "envs = [env]" by (cases envs) auto
  have "fails_at (rule j) env" using 0(2) env by simp
  from this 0(3,4) obtain j' w' where "fire env j w = (Inr j', w')" "length (failure_log w') = Suc (length (failure_log w))"
    "retry_count j' = 0" "rules_file w' = snd (set_rule_enabled (dget_or (rule j) ''id'' (JStr ''?'')) False (rules_file w))"
    by (rule fire_failing) (use 0(5,6) in auto)
  then show ?case by (simp add: env act_bind_app)
next
  case (Suc n)
  from Suc.prems(1) obtain env es where envs: "envs = env # es" "length es = Suc n" by (cases envs) auto
  have "fails_at (rule j) env" using Suc.prems(2) envs by simp
  from this Suc.prems(3,4) obtain j1 w1 where one: "fire env j w = (Inr j1, w1)" "rule j1 = rule j" "max_retries j1 = max_retries j"
    "\<not> stop_file w1" "length (failure_log w1) = Suc (length (failure_log w))"
    "retry_count j1 = retry_count j + 1" "rules_file w1 = rules_file w"
    by (rule fire_failing) (use Suc.prems(5) in auto)
  then show ?case using Suc.IH [of es j1 w1] Suc.prems envs by (auto simp: act_bind_app)
qed

text \<open>A rule whose action always fails is tried exactly \<open>max_retries + 1\<close> times, each failure is recorded, and
  then the rule is switched off in the rules file.\<close>

theorem failing_rule_switched_off:
  fixes w :: auto_world
  assumes "new_job env0 r = Inr j" "max_retries j = int n" "0 < n" "length envs = Suc n"
    and "\<forall>env \<in> set envs. fails_at r env" "\<not> stop_file w" "is_obj (dget_or r ''action'' (JObj []))"
  shows "\<exists>j' w'. fire_all envs j w = (Inr j', w') \<and> retry_count j' = 0
     \<and> length (failure_log w') = length (failure_log w) + Suc n
     \<and> rules_file w' = snd (set_rule_enabled (dget_or r ''id'' (JStr ''?'')) False (rules_file w))"
proof -
  have j: "rule j = r" "retry_count j = 0" using assms(1) by (auto simp: new_job_def)
  show ?thesis using fire_all_failing [of envs n j w] assms j by simp
qed


section \<open>The approval queue\<close>

text \<open>At most one entry per rule, and every entry is one of the high-risk rules of \<open>R\<close> with its action.\<close>

definition queue_ok :: "obj set \<Rightarrow> pending_item list \<Rightarrow> bool" where
  "queue_ok R items \<longleftrightarrow> distinct (map p_rule items) \<and>
     (\<forall>p \<in> set items. \<exists>r \<in> R. high_risk r \<and> p_rule p = dget_or r ''id'' (JStr []) \<and> p_action p = dget_or r ''action'' (JObj []))"

lemma py_eq_refl [simp]: "hashable v \<Longrightarrow> py_eq v v"
  by (cases v) (simp_all add: num_eq_def)

lemma queue_ok_filter: "queue_ok R items \<Longrightarrow> queue_ok R (filter P items)"
  by (auto simp: queue_ok_def distinct_map_filter)

definition rule_ids_ok :: "obj set \<Rightarrow> bool" where
  "rule_ids_ok R \<longleftrightarrow> (\<forall>r \<in> R. hashable (dget_or r ''id'' (JStr [])))"

lemma preserves_add_pending:
  assumes "r \<in> R" "high_risk r" "rule_ids_ok R"
  shows "preserves (\<lambda>w. queue_ok R (load_pending w)) (add_pending_approval env r)"
  unfolding preserves_def
proof (intro allI impI)
  fix w :: "'w auto_world_scheme" assume w: "queue_ok R (load_pending w)"
  have "hashable (dget_or r ''id'' (JStr []))" using assms by (auto simp: rule_ids_ok_def)
  then have "dget_or r ''id'' (JStr []) \<notin> p_rule ` set (load_pending w)"
    if "\<forall>p \<in> set (load_pending w). \<not> py_eq (p_rule p) (dget_or r ''id'' (JStr []))"
    using that py_eq_refl by fastforce
  then show "queue_ok R (load_pending (snd (add_pending_approval env r w)))"
    using w assms by (auto simp: add_pending_approval_def act_bind_app Let_def save_pending_def load_pending_def [of "_\<lparr>pending_file := _\<rparr>"]
        queue_ok_def)
qed

lemma load_pending_cong: "pending_file w = pending_file w' \<Longrightarrow> load_pending w = load_pending w'"
  by (simp add: load_pending_def)

lemma preserves_pending:
  fixes m :: "('w auto_world_scheme, 'a) act"
  assumes "keeps pending_file m"
  shows "preserves (\<lambda>w. I (load_pending w)) m"
  unfolding preserves_def
proof (intro allI impI)
  fix w :: "'w auto_world_scheme" assume "I (load_pending w)"
  moreover have "pending_file (snd (m w)) = pending_file w" by (rule keeps_snd [OF assms])
  ultimately show "I (load_pending (snd (m w)))" using load_pending_cong by metis
qed

lemma preserves_other:
  fixes I :: "pending_item list \<Rightarrow> bool"
  shows "preserves (\<lambda>w. I (load_pending w)) (dispatch_action env r)"
    "preserves (\<lambda>w. I (load_pending w)) (write_audit env rid ty st dt)"
    "preserves (\<lambda>w. I (load_pending w)) (write_failure env rid ty er n)"
    "preserves (\<lambda>w. I (load_pending w)) (after_failure env j rid ty e)"
proof -
  have a: "keeps pending_file (write_audit env rid ty st dt)" "keeps pending_file (write_failure env rid ty er n)" for rid ty st dt er n
    by (simp_all add: keeps_def write_audit_def write_failure_def)
  have s: "keeps pending_file (\<lambda>w. let (r, f) = g (rules_file w) in (Inr (), w\<lparr>rules_file := f\<rparr>))" for g :: "state_doc \<Rightarrow> 'x \<times> state_doc"
    by (simp add: keeps_def split: prod.split)
  show "preserves (\<lambda>w. I (load_pending w)) (dispatch_action env r)" by (intro preserves_pending keeps_dispatch) simp
  show "preserves (\<lambda>w. I (load_pending w)) (write_audit env rid ty st dt)"
    "preserves (\<lambda>w. I (load_pending w)) (write_failure env rid ty er n)" by (intro preserves_pending a)+
  have "keeps pending_file (after_failure env j rid ty e)"
    unfolding after_failure_def by (auto intro!: frame_intros a s [unfolded Let_def] simp: Let_def)
  then show "preserves (\<lambda>w. I (load_pending w)) (after_failure env j rid ty e)" by (rule preserves_pending)
qed

lemma preserves_fire:
  assumes "rule j \<in> R" "rule_ids_ok R"
  shows "preserves (\<lambda>w. queue_ok R (load_pending w)) (fire env j)"
  unfolding fire_def run_action_def Let_def
  by (auto intro!: preserve_intros preserves_other preserves_add_pending assms split: sum.split)

lemma preserves_tick:
  assumes "rule ` set js \<subseteq> R" "rule_ids_ok R"
  shows "preserves (\<lambda>w. queue_ok R (load_pending w)) (tick env js)"
  using assms(1)
proof (induction js)
  case (Cons j js)
  then show ?case using preserves_fire [of "mark_ran env j" R env] assms(2) by (auto intro!: preserve_intros)
qed (simp add: preserves_base)

text \<open>What can happen to the world of the daemon: passes over jobs of the rules \<open>R\<close>, and the operator's commands.\<close>

inductive auto_step :: "obj set \<Rightarrow> auto_world \<Rightarrow> auto_world \<Rightarrow> bool" for R :: "obj set" where
  pass: "rule ` set js \<subseteq> R \<Longrightarrow> auto_step R w (snd (tick (env :: auto_env) js w))"
| approve: "auto_step R w (snd (approve_pending (env :: auto_env) i w))"
| deny: "auto_step R w (snd (deny_pending (env :: auto_env) i w))"
| stop: "auto_step R w (snd (set_emergency_stop b w))"
| switch: "auto_step R w (w\<lparr>rules_file := snd (set_rule_enabled i b (rules_file w))\<rparr>)"

inductive auto_reachable :: "obj set \<Rightarrow> auto_world \<Rightarrow> bool" for R :: "obj set" where
  start: "load_pending w = [] \<Longrightarrow> auto_reachable R w"
| step: "auto_reachable R w \<Longrightarrow> auto_step R w w' \<Longrightarrow> auto_reachable R w'"

lemma preserves_save: "queue_ok R items \<Longrightarrow> preserves (\<lambda>w. queue_ok R (load_pending w)) (save_pending items)"
  by (simp add: preserves_def save_pending_def load_pending_def)

lemma preserves_get_pending:
  assumes "\<And>items. queue_ok R items \<Longrightarrow> preserves (\<lambda>w. queue_ok R (load_pending w)) (k items)"
  shows "preserves (\<lambda>w. queue_ok R (load_pending w)) (act_bind (act_get load_pending) k)"
  using assms by (auto simp: preserves_def act_bind_app)

lemma preserves_operator:
  "preserves (\<lambda>w. queue_ok R (load_pending w)) (deny_pending env i)"
  "preserves (\<lambda>w. queue_ok R (load_pending w)) (approve_pending env i)"
proof -
  show "preserves (\<lambda>w. queue_ok R (load_pending w)) (deny_pending env i)"
    unfolding deny_pending_def by (rule preserves_get_pending) (auto intro!: preserve_intros preserves_other preserves_save queue_ok_filter)
  show "preserves (\<lambda>w. queue_ok R (load_pending w)) (approve_pending env i)"
    unfolding approve_pending_def
    by (rule preserves_get_pending) (auto intro!: preserve_intros preserves_other preserves_save queue_ok_filter split: option.split)
qed

text \<open>C9: in every reachable world the approval queue holds at most one entry per rule, and every entry is a
  high-risk rule of the daemon together with the action that rule declares.\<close>

theorem approval_queue_invariant:
  assumes "auto_reachable R w" "rule_ids_ok R"
  shows "queue_ok R (load_pending w)"
  using assms(1)
proof induction
  case (step w w')
  from step.hyps(2) show ?case
  proof cases
    case (pass js env)
    show ?thesis unfolding pass(1) by (rule preservesD [OF preserves_tick [OF pass(2) assms(2)] step.IH])
  next
    case (approve env i)
    show ?thesis unfolding approve by (rule preservesD [OF preserves_operator(2) step.IH])
  next
    case (deny env i)
    show ?thesis unfolding deny by (rule preservesD [OF preserves_operator(1) step.IH])
  qed (use step.IH in \<open>auto simp: set_emergency_stop_def load_pending_def\<close>)
qed (simp add: queue_ok_def)

section \<open>Witnesses\<close>

definition clock_env :: "int \<Rightarrow> auto_env" where
  "clock_env t = \<lparr>mono = t * sec, utc_hour = 0, utc_minute = 0, utc_day = 1, utc_iso = ''now'', dry_run_var = None,
     regex = (\<lambda>_ _. Inr False), context_now = Inr (plain_context 2), run_script = (\<lambda>_. NoFile), run_bridge = (\<lambda>_. Exit 0 ''ok''),
     http_post = (\<lambda>_. Inr ()), exn_text = (\<lambda>_. ''error''), script_path = (\<lambda>s. ''/srv/'' @ s)\<rparr>"

definition idle_world :: auto_world where
  "idle_world = \<lparr>stop_file = False, rules_file = Missing, pending_file = None, audit_log = [], failure_log = [], effects = []\<rparr>"

definition every_minute :: "obj \<Rightarrow> obj" where
  "every_minute a = [(''id'', JStr ''r''), (''trigger'', JObj [(''type'', JStr ''interval''), (''seconds'', JInt 60)]),
     (''max_retries'', JInt 2), (''cooldown_seconds'', JInt 300), (''conditions'', JArr []), (''action'', JObj a)]"

definition notify_rule :: obj where
  "notify_rule = every_minute [(''type'', JStr ''notify''), (''message'', JStr ''up'')]"

definition missing_script_rule :: obj where
  "missing_script_rule = every_minute [(''type'', JStr ''restart_service''), (''script'', JStr ''x.sh'')]"

lemmas demo_rules = notify_rule_def missing_script_rule_def every_minute_def dget_or_def

definition demo_job :: "obj \<Rightarrow> job" where
  "demo_job r = \<lparr>rule = r, j_type = JStr ''interval'', interval = 60, cron_hour = 0, cron_minute = 0, max_retries = 2,
     cooldown = 300, last_run = - 60 * sec, last_success = 0, last_cron_day = -1, retry_count = 0, retry_at = 0\<rparr>"

lemma demo_new_job:
  "new_job (clock_env 0) notify_rule = Inr (demo_job notify_rule)"
  "new_job (clock_env 0) missing_script_rule = Inr (demo_job missing_script_rule)"
  by (simp_all add: new_job_def demo_rules demo_job_def clock_env_def)

lemma demo_evaluate:
  "evaluate_rule rx notify_rule ctx = Inr True" "evaluate_rule rx missing_script_rule ctx = Inr True"
  by (simp_all add: evaluate_rule_def demo_rules)

lemma demo_dispatch:
  "dispatch_action (clock_env t) notify_rule w = (Inr (), w\<lparr>effects := effects w @ [(JStr ''r'', LogNote (JStr ''up''))]\<rparr>)"
  "dispatch_action (clock_env t) missing_script_rule w = (Inl (RuntimeError ''restart script not found: /srv/x.sh''), w)"
  by (simp_all add: dispatch_action_def demo_rules notify_def restart_service_def emit_def clock_env_def act_bind_app)

lemma clock_env_simps [simp]:
  "mono (clock_env t) = t * sec" "context_now (clock_env t) = Inr (plain_context 2)" "\<not> is_dry_run (clock_env t)"
  "run_bridge (clock_env t) = (\<lambda>_. Exit 0 ''ok'')" "utc_iso (clock_env t) = ''now''"
proof -
  have "strip ''0'' \<noteq> ''1''" by code_simp
  then show "\<not> is_dry_run (clock_env t)" by (simp add: is_dry_run_def clock_env_def)
qed (simp_all add: clock_env_def)

lemma demo_rules_low: "\<not> high_risk notify_rule" "\<not> high_risk missing_script_rule"
  by (simp_all add: high_risk_def demo_rules)

lemma demo_fails: "fails_at missing_script_rule (clock_env t)"
  by (simp add: fails_at_def permitted_def demo_dispatch demo_evaluate demo_rules_low)

definition demo_audit :: obj where
  "demo_audit = [(''ts'', JStr ''now''), (''rule_id'', JStr ''r''), (''action_type'', JStr ''notify''), (''status'', JStr ''success''),
     (''detail'', JStr [])]"

lemma demo_tick:
  "tick (clock_env 1) [demo_job notify_rule] idle_world =
     (Inr [(demo_job notify_rule)\<lparr>last_run := sec, last_success := sec\<rparr>],
      idle_world\<lparr>effects := [(JStr ''r'', LogNote (JStr ''up''))], audit_log := [demo_audit]\<rparr>)"
proof -
  have due: "is_due (clock_env 1) (demo_job notify_rule)" by (simp add: is_due_def demo_job_def sec_def)
  have "dget_or notify_rule ''action'' (JObj []) = JObj [(''type'', JStr ''notify''), (''message'', JStr ''up'')]"
    "dget_or notify_rule ''id'' (JStr ''?'') = JStr ''r''"
    by (simp_all add: demo_rules)
  then have "fire (clock_env 1) (mark_ran (clock_env 1) (demo_job notify_rule)) idle_world =
     (Inr ((demo_job notify_rule)\<lparr>last_run := sec, last_success := sec\<rparr>),
      idle_world\<lparr>effects := [(JStr ''r'', LogNote (JStr ''up''))], audit_log := [demo_audit]\<rparr>)"
    by (simp add: fire_def mark_ran_def demo_job_def idle_world_def demo_evaluate demo_rules_low run_action_def act_catch_def
        act_bind_app demo_dispatch write_audit_def dget_or_def demo_audit_def Let_def)
  then show ?thesis using due by (simp add: tick_app del: tick.simps(2))
qed


definition stopped_world :: "pending_item list \<Rightarrow> auto_world" where
  "stopped_world items = idle_world\<lparr>stop_file := True, pending_file := Some items\<rparr>"

definition demo_item :: pending_item where
  "demo_item = \<lparr>p_rule = JStr ''r9'', p_description = JStr ''d'',
     p_action = JObj [(''type'', JStr ''command''), (''command'', JStr ''deploy'')], p_ts = ''now''\<rparr>"

theorem approval_ignores_stop_witness:
  "stop_file (stopped_world [demo_item])
     \<and> effects (snd (approve_pending ((clock_env 0)\<lparr>dry_run_var := Some ''1''\<rparr>) ''r9'' (stopped_world [demo_item]))) = [(JStr ''r9'', RanCommand ''deploy'')]"
proof -
  have "strip ''1'' = ''1''" by code_simp
  then have "is_dry_run ((clock_env 0)\<lparr>dry_run_var := Some ''1''\<rparr>)" by (simp add: is_dry_run_def)
  then show ?thesis
    using approval_ignores_stop [of "stopped_world [demo_item]" "(clock_env 0)\<lparr>dry_run_var := Some ''1''\<rparr>" "''r9''" demo_item "''deploy''" "''ok''"]
    by (simp add: stopped_world_def demo_item_def idle_world_def load_pending_def)
qed

theorem valid_rule_ends_scheduler_witness:
  "validate_rule string_min_rule = Inr [] \<and>
     tick (clock_env 0) [(demo_job string_min_rule)\<lparr>max_retries := 0, cooldown := 0\<rparr>, demo_job notify_rule] idle_world
       = (Inl TypeError, idle_world)"
  by (rule valid_rule_ends_scheduler [of "clock_env 0" 2])
    (simp_all add: new_job_def string_min_rule_def dget_or_def demo_job_def idle_world_def sec_def)

theorem failing_rule_switched_off_witness:
  "\<exists>j w'. fire_all [clock_env 100, clock_env 200, clock_env 300] (demo_job missing_script_rule) idle_world = (Inr j, w')
     \<and> retry_count j = 0 \<and> length (failure_log w') = 3"
  using failing_rule_switched_off [OF demo_new_job(2), of 2 "[clock_env 100, clock_env 200, clock_env 300]" idle_world]
  by (simp add: demo_fails demo_job_def [of missing_script_rule] idle_world_def)
    (auto simp: demo_rules)


definition notify_doc :: state_doc where
  "notify_doc = Doc (JArr [JObj notify_rule])"

lemma demo_jobs:
  "daemon_jobs (clock_env 0) (idle_world\<lparr>rules_file := notify_doc\<rparr>)
     = (Inr [demo_job notify_rule], idle_world\<lparr>rules_file := notify_doc\<rparr>)"
proof -
  have rules: "rule_list notify_doc = Inr [notify_rule]" "load_rules notify_doc = Inr [notify_rule]"
    by (simp_all add: rule_list_def load_rules_def load_all_rules_def notify_doc_def demo_rules)
  have "\<exists>errs. validate_rules [notify_rule] = Inr errs"
    by (simp add: Let_def validate_rules_def validate_rule_def demo_rules trigger_errors_def action_errors_def condition_error_def
      trigger_types_def action_types_def condition_types_def risk_tiers_def err_if_def negative_def)
  moreover have "create_default_rules_file notify_doc = notify_doc" by (simp add: create_default_rules_file_def notify_doc_def)
  ultimately show ?thesis by (auto simp: daemon_jobs_def act_bind_app rules demo_new_job)
qed

theorem scheduler_keeps_rules_witness:
  "\<exists>js w. scheduler_loop [clock_env 1] [demo_job notify_rule] idle_world = (Inr js, w)
     \<and> Inr (map rule js) = load_rules notify_doc"
proof -
  have run: "scheduler_loop [clock_env 1] [demo_job notify_rule] idle_world = (Inr [(demo_job notify_rule)\<lparr>last_run := sec, last_success := sec\<rparr>],
      idle_world\<lparr>effects := [(JStr ''r'', LogNote (JStr ''up''))], audit_log := [demo_audit]\<rparr>)"
    by (simp add: act_bind_app demo_tick del: tick.simps)
  from scheduler_keeps_rules [OF demo_jobs run] run show ?thesis
    by (simp add: create_default_rules_file_def notify_doc_def)
qed

definition reset_rule :: obj where
  "reset_rule = every_minute [(''type'', JStr ''command''), (''command'', JStr ''reset'')] @ [(''risk_tier'', JStr ''high'')]"

lemma reset_rule_high: "high_risk reset_rule"
  by (simp add: high_risk_def reset_rule_def demo_rules)

theorem approval_queue_invariant_witness:
  "queue_ok {reset_rule} (load_pending (snd (tick (clock_env 1) [demo_job reset_rule, demo_job reset_rule] idle_world)))
     \<and> load_pending (snd (tick (clock_env 1) [demo_job reset_rule, demo_job reset_rule] idle_world)) \<noteq> []"
proof -
  let ?js = "[demo_job reset_rule, demo_job reset_rule]"
  have "auto_reachable {reset_rule} idle_world" by (rule auto_reachable.start) (simp add: load_pending_def idle_world_def)
  moreover have "rule ` set ?js \<subseteq> {reset_rule}" by (simp add: demo_job_def)
  ultimately have "auto_reachable {reset_rule} (snd (tick (clock_env 1) ?js idle_world))" by (metis auto_step.pass auto_reachable.step)
  moreover have "rule_ids_ok {reset_rule}" by (simp add: rule_ids_ok_def reset_rule_def demo_rules)
  moreover have "load_pending (snd (tick (clock_env 1) ?js idle_world)) \<noteq> []"
  proof -
    have ev: "evaluate_rule rx reset_rule ctx = Inr True" for rx ctx by (simp add: evaluate_rule_def reset_rule_def demo_rules)
    have rd: "dget_or reset_rule ''id'' d = JStr ''r''" "dget_or reset_rule ''action'' d = JObj [(''type'', JStr ''command''), (''command'', JStr ''reset'')]" for d
      by (simp_all add: reset_rule_def demo_rules)
    show ?thesis
      by (simp add: fire_def Let_def ev reset_rule_high rd act_bind_app demo_job_def [of reset_rule] is_due_def sec_def mark_ran_def idle_world_def
        add_pending_approval_def write_audit_def save_pending_def load_pending_def)
  qed
  ultimately show ?thesis using approval_queue_invariant by blast
qed

end
