(* ===== verification/Confirmation.thy ===== *)
theory Confirmation
  imports Router Automation
begin

text \<open>
  Properties of the router: what the confirmation of high-risk actions guarantees over any history of
  requests, and which requests of the HI layer can be answered at all.
\<close>

section \<open>Lemmas: the pending action in the session\<close>

type_synonym request = "string \<times> string \<times> json"

text \<open>A field of the session as a load sees it.\<close>

definition pend :: "state_doc \<Rightarrow> string \<Rightarrow> json option" where
  "pend f k = sec_get f ''session'' k"

text \<open>Whatever is pending was asked for by a request of the history \<open>H\<close>, with the same payload and command.\<close>

definition pend_ok :: "request list \<Rightarrow> state_doc \<Rightarrow> bool" where
  "pend_ok H f \<longleftrightarrow> profiles_ok f \<and> (\<exists>v. pend f ''pending_action'' = Some v \<and>
     (truthy v \<longrightarrow> (\<exists>(i, a, p) \<in> set H. v = JStr a \<and> pend f ''pending_payload'' = Some p \<and> pend f ''pending_command'' = Some (JStr i))))"

definition pending_names :: "string list" where
  "pending_names = dkeys cleared_pending"

lemma pend_ok_profiles: "pend_ok H f \<Longrightarrow> profiles_ok f"
  by (simp add: pend_ok_def)

lemma pend_ok_same: "pend_ok H f \<Longrightarrow> profiles_ok f' \<Longrightarrow> \<forall>k \<in> set pending_names. pend f' k = pend f k \<Longrightarrow> pend_ok H f'"
  by (simp add: pend_ok_def pending_names_def cleared_pending_def)

lemma pend_ok_cleared: "profiles_ok f' \<Longrightarrow> pend f' ''pending_action'' = Some (JStr []) \<Longrightarrow> pend_ok H f'"
  by (auto simp: pend_ok_def)

lemma pend_ok_mono: "pend_ok H f \<Longrightarrow> pend_ok (H @ R) f"
  unfolding pend_ok_def by fastforce

text \<open>An update of a section: it raises and changes nothing, or overrides fields of that section.\<close>

lemma update_cases:
  assumes "profiles_ok f" "sn \<in> {''AI'', ''HI'', ''session''}" "distinct (dkeys fs)" "sn = ''AI'' \<longrightarrow> ''id'' \<notin> set (dkeys fs)"
  obtains x where "update_section env hi e sn fs f = (Inl x, f)" "\<not> hi_file_ok hi"
  | f' where "update_section env hi e sn fs f = (Inr (), f')" "profiles_ok f'" "hi_file_ok hi"
      "\<And>k. pend f' k = (if sn = ''session'' then over fs (pend f) k else pend f k)"
proof (cases "hi_file_ok hi")
  case True
  from update_ok [OF assms(1) True assms(2-4), of env e] that(2) True show thesis by (fastforce simp: pend_def [abs_def])
next
  case False
  from load_bad [OF assms(1) False, of env] obtain x where "load_profiles env hi f = (Inl x, f)" by blast
  then show thesis using that(1) False by (simp add: update_section_def)
qed

lemma load_leaves:
  assumes "profiles_ok f"
  shows "snd (load_profiles env hi f) = f"
  using load_ok [OF assms, of hi env] load_bad [OF assms, of hi env] by (cases "hi_file_ok hi") auto

lemma update_keeps_pending:
  assumes "pend_ok H f" "sn \<in> {''AI'', ''HI'', ''session''}" "distinct (dkeys fs)" "sn = ''AI'' \<longrightarrow> ''id'' \<notin> set (dkeys fs)"
    and "sn = ''session'' \<longrightarrow> set (dkeys fs) \<inter> set pending_names = {}"
  shows "pend_ok H (snd (update_section env hi e sn fs f))"
proof (rule update_cases [OF pend_ok_profiles [OF assms(1)] assms(2-4), of env hi e])
  fix f' assume f': "update_section env hi e sn fs f = (Inr (), f')" "profiles_ok f'"
    "\<And>k. pend f' k = (if sn = ''session'' then over fs (pend f) k else pend f k)"
  have "pend f' k = pend f k" if "k \<in> set pending_names" for k
  proof (cases "sn = ''session''")
    case True
    then have "map_of fs k = None" using assms(5) that by (auto simp: map_of_eq_None_iff)
    then show ?thesis by (simp add: f'(3) over_def)
  qed (simp add: f'(3))
  then show ?thesis using pend_ok_same [OF assms(1) f'(2)] f'(1) by simp
qed (use assms(1) in simp)

lemma clear_pending_ok:
  assumes "pend_ok H f"
  shows "pend_ok H (snd (clear_pending_confirmation env hi f))"
proof -
  have d: "distinct (dkeys cleared_pending)" "''session'' \<in> {''AI'', ''HI'', ''session''}" by (simp_all add: cleared_pending_def)
  show ?thesis
    unfolding clear_pending_confirmation_def
  proof (rule update_cases [OF pend_ok_profiles [OF assms] d(2,1), of env hi TypeError])
    fix f' assume f': "update_section env hi TypeError ''session'' cleared_pending f = (Inr (), f')" "profiles_ok f'"
      "\<And>k. pend f' k = (if ''session'' = ''session'' then over cleared_pending (pend f) k else pend f k)"
    have "pend f' ''pending_action'' = Some (JStr [])" by (simp add: f'(3) over_def cleared_pending_def)
    then show "pend_ok H (snd (update_section env hi TypeError ''session'' cleared_pending f))"
      using pend_ok_cleared [OF f'(2)] f'(1) by simp
  qed (use assms in simp_all)
qed

lemma reset_session_ok:
  assumes "pend_ok H f"
  shows "pend_ok H (snd (reset_session env hi f))"
proof (cases "hi_file_ok hi")
  case True
  from reset_ok [OF pend_ok_profiles [OF assms] True, of env] obtain f' where
    "reset_session env hi f = (Inr (), f')" "profiles_ok f'" "sec_get f' ''session'' = map_of default_session" by blast
  then show ?thesis using pend_ok_cleared [of f' H] by (simp add: pend_def default_session_get session_fields_def)
next
  case False
  from load_bad [OF pend_ok_profiles [OF assms] False, of env] assms show ?thesis by (auto simp: reset_session_def)
qed

section \<open>Lemmas: the calls of the router preserve it\<close>

abbreviation keeps_pending :: "request list \<Rightarrow> ('w jarvis_world_scheme, 'a) act \<Rightarrow> bool" where
  "keeps_pending H \<equiv> preserves (\<lambda>w. pend_ok H (profiles_file w))"

lemma on_profiles_app: "on_profiles m w = (fst (m (state_file w) (profiles_file w)), w\<lparr>profiles_file := snd (m (state_file w) (profiles_file w))\<rparr>)"
  by (simp add: on_profiles_def split: prod.split)

lemma pending_on_profiles:
  "(\<And>hi f. pend_ok H f \<Longrightarrow> pend_ok H (snd (m hi f))) \<Longrightarrow> keeps_pending H (on_profiles m)"
  by (simp add: preserves_def on_profiles_app)

lemma pending_frame: "keeps profiles_file m \<Longrightarrow> keeps_pending H m"
  by (erule keeps_preserves) simp

lemma pending_load [preserve_intros]:
  "keeps_pending H (on_profiles (load_profiles env))" "keeps_pending H (on_profiles (get_session env))"
proof -
  show "keeps_pending H (on_profiles (load_profiles env))"
    by (rule pending_on_profiles) (simp add: load_leaves pend_ok_profiles)
  have "snd (get_session env hi f) = f" if "profiles_ok f" for hi f
    using load_leaves [OF that, of env hi]
    by (auto simp: get_session_def get_section_def act_bind_app split: prod.splits sum.splits)
  then show "keeps_pending H (on_profiles (get_session env))"
    by (intro pending_on_profiles) (simp add: pend_ok_profiles)
qed

lemma pending_with [preserve_intros]:
  "(\<And>p. keeps_pending H (k p)) \<Longrightarrow> keeps_pending H (with_profiles env k)"
  "keeps_pending H (with_section env s g)"
  unfolding with_profiles_def with_section_def by (auto intro!: preserve_intros)

lemma pending_updates [preserve_intros]:
  "keeps_pending H (set_hi env k v)"
  "keeps_pending H (on_profiles (\<lambda>hi. update_ai_field env' hi ''name'' v))"
  "keeps_pending H (clear_pending env)"
  "keeps_pending H (on_profiles (clear_pending_confirmation env'))"
  "keeps_pending H (on_profiles (reset_session env'))"
  unfolding set_hi_def clear_pending_def update_hi_field_def update_ai_field_def
  by (auto intro!: pending_on_profiles clear_pending_ok reset_session_ok update_keeps_pending)

lemma pending_note:
  assumes "set (dkeys kvs) \<inter> set pending_names = {}"
  shows "keeps_pending H (note_session env kvs)" "distinct (dkeys kvs) \<Longrightarrow> keeps_pending H (note_all env kvs)"
proof -
  have "keeps_pending H (case x of (k, v) \<Rightarrow> on_profiles (\<lambda>hi. update_session_field (j_host env) hi k v))" if "x \<in> set kvs" for x
  proof -
    obtain k v where x: "x = (k, v)" by fastforce
    then have "k \<in> set (dkeys kvs)" using that by force
    then have "set (dkeys [(k, v)]) \<inter> set pending_names = {}" using assms by auto
    then show ?thesis
      unfolding update_session_field_def x prod.case by (intro pending_on_profiles update_keeps_pending) simp_all
  qed
  then show "keeps_pending H (note_session env kvs)" unfolding note_session_def by (intro preserves_iter)
  show "distinct (dkeys kvs) \<Longrightarrow> keeps_pending H (note_all env kvs)"
    using assms unfolding note_all_def bulk_update_session_def by (intro pending_on_profiles update_keeps_pending) auto
qed

lemma pending_local:
  "list_all (\<lambda>r. keeps_pending H (snd r)) (local_actions env payload)"
proof -
  have frame: "keeps_pending H (run_desktop_action env argv ok)" "keeps_pending H (shell_action env payload)"
    "keeps_pending H (get_memory_report env)" for argv ok
    by (auto intro!: pending_frame frame_intros keeps_modify
      simp: run_desktop_action_def shell_action_def on_runs_def get_memory_report_def on_state_def keeps_def split: json.split prod.split)
  have setting: "keeps_pending H (set_text env put what msg v)" if "\<And>x. keeps_pending H (put x)" for put what msg v
    unfolding set_text_def using that by (auto intro!: preserve_intros)
  have choice: "keeps_pending H (set_choice env k allowed refusal msg v)" for k allowed refusal msg v
    unfolding set_choice_def Let_def by (auto intro!: preserve_intros)
  show ?thesis
    unfolding local_actions_def list.pred_inject snd_conv
    by (intro conjI TrueI)
      (auto intro!: preserve_intros frame setting choice split: list.split option.split
        simp: get_ai_intro_def get_hi_intro_text_def who_am_i_def who_are_you_def greet_user_def get_relationship_report_def
         set_hi_name_def set_hi_language_def set_hi_domain_def set_ai_name_def set_intro_mode_def set_command_style_def set_mic_device_def
         set_wake_phrase_def get_preferences_report_def what_is_my_domain_def hi_identity_summary_def what_is_my_language_def with_session_def
         what_was_my_last_command_def what_was_my_last_action_def show_session_def reset_session_state_def set_response_mode_def
         get_confirmation_status_def cancel_pending_action_def open_chrome_def)
qed


lemma pending_execute: "keeps_pending H (execute_action env a payload)"
proof -
  have "keeps_pending H m" if "action_for env a payload = Some m" for m
  proof -
    have plugin: "keeps_pending H (plugin_action env a payload)"
      by (auto intro!: preserve_intros simp: plugin_action_def)
    have listed: "keeps_pending H m" if "map_of (local_actions env payload) a = Some m" for m
      using pending_local [of H env payload] map_of_SomeD [OF that] by (force simp: list_all_iff)
    show ?thesis
      using that plugin listed by (auto simp: action_for_def preserves_base split: if_splits option.splits)
  qed
  moreover have "keeps_pending H (act_modify (\<lambda>w. w\<lparr>activity_log := g w\<rparr>))" for g
    by (rule preserves_modify) simp
  ultimately show ?thesis
    unfolding execute_action_def by (auto intro!: preserve_intros split: option.split)
qed

text \<open>The steps of the other processes leave the profiles of the assistant and the programs it runs alone.\<close>

definition others :: "('w jarvis_world_scheme \<Rightarrow> 'w jarvis_world_scheme) list \<Rightarrow> bool" where
  "others steps \<longleftrightarrow> (\<forall>s \<in> set steps. \<forall>w. profiles_file (s w) = profiles_file w \<and> ran (s w) = ran w)"

lemma keeps_await:
  assumes "\<forall>s \<in> set steps. \<forall>w. f (s w) = f w" "\<And>w b. f (w\<lparr>bus := b\<rparr>) = f w"
  shows "keeps f (await_response actor rid steps)"
  using assms(1)
proof (induction steps)
  case (Cons s steps)
  have b: "keeps f (on_bus m)" for m :: "(bus_fs, 'x) act" by (simp add: keeps_def on_bus_app assms(2))
  show ?case using Cons by (auto intro!: frame_intros b keeps_modify split: poll.split)
qed simp

lemma keeps_send_hi:
  assumes "\<forall>s \<in> set steps. \<forall>w. f (s w) = f w" "\<And>w b. f (w\<lparr>bus := b\<rparr>) = f w"
  shows "keeps f (send_hi_request env steps intent raw txt)"
proof -
  have b: "keeps f (on_bus m)" for m :: "(bus_fs, 'x) act" by (simp add: keeps_def on_bus_app assms(2))
  show ?thesis unfolding send_hi_request_def by (auto intro!: frame_intros b keeps_await assms split: option.split)
qed

lemma last_fields_names [simp]:
  "dkeys (last_fields n a i b) = [''last_intent'', ''last_action'', ''last_command'', ''last_risk_tier'']"
  by (simp add: last_fields_def)

lemma names_apart:
  "set pending_names = {''pending_action'', ''pending_payload'', ''pending_command'', ''pending_since''}"
  by (simp add: pending_names_def cleared_pending_def)

lemma pending_carry_out:
  assumes "others steps"
  shows "keeps_pending H (carry_out env steps intent action payload b)"
proof -
  have hi: "keeps_pending H (send_hi_request env steps a p i)" for a p i
    by (rule pending_frame, rule keeps_send_hi) (use assms in \<open>simp_all add: others_def\<close>)
  have ev: "keeps_pending H (record_action_event env a c r)" for a c r
    unfolding record_action_event_def by (rule preserves_modify) simp
  show ?thesis
    unfolding carry_out_def Let_def
    by (auto intro!: preserve_intros hi ev pending_execute pending_note simp: names_apart)
qed

lemma pending_route: "others steps \<Longrightarrow> keeps_pending H (route env steps intent action payload b)"
  unfolding route_def Let_def
  by (auto intro!: preserve_intros pending_carry_out pending_note simp: names_apart)

lemma pending_rules [preserve_intros]: "keeps_pending H (rules_now env intent action)"
  unfolding rules_now_def by (auto intro!: preserve_intros)

lemma pending_confirm: "others steps \<Longrightarrow> keeps_pending H (confirm_pending env steps intent b)"
  unfolding confirm_pending_def Let_def by (auto intro!: preserve_intros pending_route)

lemma note_session_ok:
  assumes "profiles_ok (profiles_file w)" "hi_file_ok (state_file w)" "distinct (dkeys kvs)"
  shows "\<exists>f'. note_session env kvs w = (Inr (), w\<lparr>profiles_file := f'\<rparr>) \<and> profiles_ok f' \<and> pend f' = over kvs (pend (profiles_file w))"
  using assms
proof (induction kvs arbitrary: w)
  case Nil
  then show ?case by (intro exI [of _ "profiles_file w"]) (simp add: note_session_def over_def fun_eq_iff)
next
  case (Cons kv kvs)
  obtain k v where kv: "kv = (k, v)" by fastforce
  have s: "''session'' \<in> {''AI'', ''HI'', ''session''}" "distinct (dkeys [(k, v)])" by simp_all
  from update_ok [OF Cons.prems(1,2) s, of "j_host env" TypeError] obtain f1 where
    f1: "update_session_field (j_host env) (state_file w) k v (profiles_file w) = (Inr (), f1)" "profiles_ok f1"
      "\<And>k'. pend f1 k' = over [(k, v)] (pend (profiles_file w)) k'"
    by (auto simp: update_session_field_def pend_def [abs_def])
  let ?w = "w\<lparr>profiles_file := f1\<rparr>"
  from Cons.IH [of ?w] Cons.prems(2,3) f1(2) obtain f' where
    f': "note_session env kvs ?w = (Inr (), ?w\<lparr>profiles_file := f'\<rparr>)" "profiles_ok f'" "pend f' = over kvs (pend f1)"
    by auto
  have "k \<notin> set (dkeys kvs)" using Cons.prems(3) kv by simp
  then have "map_of kvs k = None" by (simp add: map_of_eq_None_iff)
  then have "over kvs (pend f1) = over (kv # kvs) (pend (profiles_file w))"
    using f1(3) by (auto simp: over_def kv fun_eq_iff split: option.split)
  moreover have "note_session env (kv # kvs) w = (Inr (), w\<lparr>profiles_file := f'\<rparr>)"
    using f1(1) f'(1) by (simp add: note_session_def kv on_profiles_app act_bind_app)
  ultimately show ?case using f'(2,3) by auto
qed

lemma rules_now_Inr:
  assumes "rules_now env intent action w = (Inr b, w')" "profiles_ok (profiles_file w)"
  shows "w' = w \<and> hi_file_ok (state_file w) \<and> b_risk b = get_risk_profile (skills (j_parser env)) action"
proof -
  have hi: "hi_file_ok (state_file w)"
    using assms load_bad [OF assms(2), of "state_file w" "j_host env"]
    by (cases "hi_file_ok (state_file w)") (auto simp: rules_now_def with_profiles_def act_bind_app on_profiles_app)
  from load_ok [OF assms(2) hi, of "j_host env"] obtain p where p: "load_profiles (j_host env) (state_file w) (profiles_file w) = (Inr p, profiles_file w)" by blast
  from get_session_ok [OF assms(2) hi, of "j_host env"] obtain s where "get_session (j_host env) (state_file w) (profiles_file w) = (Inr s, profiles_file w)" by blast
  with p assms(1) hi show ?thesis
    by (auto simp: rules_now_def with_profiles_def act_bind_app on_profiles_app build_behavior_rules_def Let_def split: sum.splits)
qed

lemma pending_process:
  assumes "pend_ok H (profiles_file w)" "others steps"
  shows "pend_ok (H @ [(intent, action, payload)]) (profiles_file (snd (process_intent env steps intent action payload w)))"
proof (cases "rules_now env intent action w")
  case (Pair r w1)
  show ?thesis
  proof (cases r)
    case (Inl e)
    have "pend_ok H (profiles_file w1)" using preservesD [OF pending_rules assms(1), of env intent action] Pair by simp
    then show ?thesis using Pair Inl by (simp add: process_intent_def Let_def pend_ok_mono)
  next
    case (Inr b)
    have w1: "w1 = w" "hi_file_ok (state_file w)" using rules_now_Inr [OF _ pend_ok_profiles [OF assms(1)]] Pair Inr by blast+
    let ?wait = "action \<notin> {''error'', ''unknown'', ''confirm''} \<and> confirm_first (b_risk b)"
    show ?thesis
    proof (cases ?wait)
      case True
      let ?kvs = "[(''pending_action'', JStr action), (''pending_payload'', payload), (''pending_command'', JStr intent),
             (''pending_since'', JStr (j_now_iso env)), (''last_intent'', JStr (normalize_intent intent)), (''last_command'', JStr intent),
             (''last_risk_tier'', JStr (tier (b_risk b)))]"
      from note_session_ok [OF pend_ok_profiles [OF assms(1)] w1(2), of ?kvs env] obtain f' where
        f': "note_session env ?kvs w = (Inr (), w\<lparr>profiles_file := f'\<rparr>)" "profiles_ok f'" "pend f' = over ?kvs (pend (profiles_file w))" by auto
      have "pend_ok (H @ [(intent, action, payload)]) f'"
        using f'(2,3) by (auto simp: pend_ok_def over_def)
      then show ?thesis using True Pair Inr w1 f'(1) by (auto simp: process_intent_def Let_def)
    next
      case False
      have "keeps_pending H (if action = ''error'' then
          act_bind (note_session env [(''last_intent'', JStr (normalize_intent intent)), (''last_command'', JStr intent)]) (\<lambda>_.
          act_return (routed_as False (normalize_intent intent) action payload (py_str payload) b))
        else if action = ''unknown'' then
          act_bind (note_session env [(''last_intent'', JStr (normalize_intent intent)), (''last_action'', JStr action), (''last_command'', JStr intent)]) (\<lambda>_.
          act_return (routed_as False (normalize_intent intent) action payload
            (apply_behavior_to_text env (''Unknown intent: '' @ py_str payload) False action b) b))
        else if action = ''confirm'' then confirm_pending env steps intent b
        else route env steps intent action payload b)"
        by (auto intro!: preserve_intros pending_note pending_confirm pending_route assms(2) simp: names_apart)
      from preservesD [OF this assms(1)] show ?thesis
        using False Pair Inr w1 by (auto simp: process_intent_def Let_def pend_ok_mono split: if_splits)
    qed
  qed
qed


lemma act_bind_of: "act_bind (act_of (Inr x)) f = f x"
  by (simp add: act_bind_def fun_eq_iff)

lemma ran_profiles [simp]: "keeps ran (on_profiles m)"
  by (simp add: keeps_def on_profiles_app)

lemma ran_session [frame_intros]:
  "keeps ran (note_session env kvs)" "keeps ran (note_all env kvs)" "keeps ran (clear_pending env)" "keeps ran (rules_now env i a)"
  unfolding note_session_def note_all_def clear_pending_def rules_now_def with_profiles_def
  by (auto intro!: frame_intros split: prod.split)

text \<open>A confirmation without a pending action changes nothing.\<close>

lemma confirm_none:
  assumes "pend_ok [] (profiles_file w)" "hi_file_ok (state_file w)"
  shows "confirm_pending env steps intent b w =
    (Inr (routed_as False (normalize_intent intent) ''confirm'' (JStr []) ''No pending action to confirm.'' b), w)"
proof -
  from get_session_ok [OF pend_ok_profiles [OF assms(1)] assms(2), of "j_host env"] obtain s where
    s: "get_session (j_host env) (state_file w) (profiles_file w) = (Inr (JObj s), profiles_file w)" "\<And>k. map_of s k = pend (profiles_file w) k"
    by (auto simp: pend_def)
  from assms(1) obtain v where "pend (profiles_file w) ''pending_action'' = Some v" "\<not> truthy v" by (auto simp: pend_ok_def)
  then show ?thesis by (simp add: confirm_pending_def act_bind_app on_profiles_app s(1) dget_or_def s(2) Let_def)
qed

definition expired_text :: string where
  "expired_text = ''Pending confirmation expired (5 min). Re-run the command.''"

text \<open>A confirmation with a pending action: the check of its age, then the action with the payload and command it
  was asked with.\<close>

definition check_age :: "'e jarvis_env_scheme \<Rightarrow> json \<Rightarrow> ('w jarvis_world_scheme, bool) act" where
  "check_age env since = (if expired env since
     then act_catch (act_bind (clear_pending env) (\<lambda>_. act_return True)) (\<lambda>_. act_return False) else act_return False)"

lemma confirm_run:
  assumes "pend_ok H (profiles_file w)" "hi_file_ok (state_file w)"
    and "pend (profiles_file w) ''pending_action'' = Some v" "truthy v"
  obtains i a p where "(i, a, p) \<in> set H" "v = JStr a" "pend (profiles_file w) ''pending_payload'' = Some p"
    "pend (profiles_file w) ''pending_command'' = Some (JStr i)"
    "confirm_pending env steps intent b w =
      act_bind (check_age env (case pend (profiles_file w) ''pending_since'' of Some x \<Rightarrow> x | None \<Rightarrow> JStr [])) (\<lambda>stop.
         if stop then act_return (routed_as False (normalize_intent intent) ''confirm'' (JStr []) expired_text b)
         else act_bind (clear_pending env) (\<lambda>_. act_bind (rules_now env (if i = [] then intent else i) a) (\<lambda>b'.
           route env steps (if i = [] then intent else i) a p b'))) w"
proof -
  let ?f = "profiles_file w"
  from get_session_ok [OF pend_ok_profiles [OF assms(1)] assms(2), of "j_host env"] obtain s where
    s: "get_session (j_host env) (state_file w) ?f = (Inr (JObj s), ?f)" "\<And>k. map_of s k = pend ?f k" by (auto simp: pend_def)
  have got: "act_bind (on_profiles (get_session (j_host env))) g w = g (JObj s) w" for g :: "json \<Rightarrow> ('a jarvis_world_scheme, routed) act"
    by (rule act_bind_simps(1)) (simp add: on_profiles_app s(1))
  from assms(1,3,4) obtain i a p where iap: "(i, a, p) \<in> set H" "v = JStr a" "pend ?f ''pending_payload'' = Some p"
    "pend ?f ''pending_command'' = Some (JStr i)"
    unfolding pend_ok_def by auto
  let ?c = "if i = [] then intent else i"
  have cmd: "dget_or s ''pending_command'' (JStr []) = JStr i" "dget_or s ''pending_payload'' (JStr []) = p" "dget_or s ''pending_action'' (JStr []) = v"
    "dget_or s ''pending_since'' (JStr []) = (case pend ?f ''pending_since'' of Some x \<Rightarrow> x | None \<Rightarrow> JStr [])"
    by (simp_all add: dget_or_def s(2) iap(3,4) assms(3))
  have ct: "(if truthy (JStr i) then case JStr i of JStr c \<Rightarrow> Inr c | _ \<Rightarrow> Inl AttributeError else Inr intent) = (Inr ?c :: string outcome)"
    by simp
  have at: "action_text (JStr a) = Inr a" by (simp add: action_text_def)
  have t: "truthy (JStr a)" using assms(4) iap(2) by simp
  have "confirm_pending env steps intent b w =
      act_bind (check_age env (case pend ?f ''pending_since'' of Some x \<Rightarrow> x | None \<Rightarrow> JStr [])) (\<lambda>stop.
         if stop then act_return (routed_as False (normalize_intent intent) ''confirm'' (JStr []) expired_text b)
         else act_bind (clear_pending env) (\<lambda>_. act_bind (rules_now env ?c a) (\<lambda>b'. route env steps ?c a p b'))) w"
    by (simp only: confirm_pending_def got act_bind_of as_obj.simps Let_def cmd ct iap(2) at t check_age_def expired_text_def
        not_True_eq_False if_False)
  with that iap show thesis by blast
qed

lemma age_frame [frame_intros]: "keeps ran (check_age env since)"
  unfolding check_age_def by (auto intro!: frame_intros)

lemma pending_age: "keeps_pending H (check_age env since)"
  unfolding check_age_def by (auto intro!: preserve_intros)

text \<open>A confirmation runs nothing, or it routes the pending action with the payload and command it was asked with.\<close>

lemma confirm_cases:
  assumes "confirm_pending env steps intent b w = (r, w')" "pend_ok H (profiles_file w)" "hi_file_ok (state_file w)"
  shows "ran w' = ran w \<or> (\<exists>(i, a, p) \<in> set H. pend (profiles_file w) ''pending_action'' = Some (JStr a)
     \<and> (\<exists>b' w1. ran w1 = ran w \<and> (r, w') = route env steps (if i = [] then intent else i) a p b' w1))"
proof -
  from assms(2) obtain v where v: "pend (profiles_file w) ''pending_action'' = Some v" unfolding pend_ok_def by blast
  show ?thesis
  proof (cases "truthy v")
    case False
    then have "pend_ok [] (profiles_file w)" using assms(2) v by (simp add: pend_ok_def)
    then show ?thesis using assms(1) by (simp add: confirm_none [OF _ assms(3)])
  next
    case True
    from confirm_run [OF assms(2,3) v True, of env steps intent b] obtain i a p where
      iap: "(i, a, p) \<in> set H" "v = JStr a" and run: "confirm_pending env steps intent b w =
        act_bind (check_age env (case pend (profiles_file w) ''pending_since'' of Some x \<Rightarrow> x | None \<Rightarrow> JStr [])) (\<lambda>stop.
         if stop then act_return (routed_as False (normalize_intent intent) ''confirm'' (JStr []) expired_text b)
         else act_bind (clear_pending env) (\<lambda>_. act_bind (rules_now env (if i = [] then intent else i) a) (\<lambda>b'.
           route env steps (if i = [] then intent else i) a p b'))) w" by metis
    let ?c = "if i = [] then intent else i"
    let ?M = "check_age env (case pend (profiles_file w) ''pending_since'' of Some x \<Rightarrow> x | None \<Rightarrow> JStr [])
      :: ('a jarvis_world_scheme, bool) act"
    obtain rs w1 where M: "?M w = (rs, w1)" by fastforce
    have r1: "ran w1 = ran w" using keepsD [OF age_frame M] .
    obtain r2 w2 where w2: "clear_pending env w1 = (r2, w2)" by fastforce
    have ran2: "ran w2 = ran w" using keepsD [OF ran_session(3) w2] r1 by simp
    obtain r3 w3 where w3: "rules_now env ?c a w2 = (r3, w3)" by fastforce
    have ran3: "ran w3 = ran w" using keepsD [OF ran_session(4) w3] ran2 by simp
    show ?thesis
    proof (cases "rs = Inr False \<and> r2 = Inr () \<and> (\<exists>b'. r3 = Inr b')")
      case False
      then have "ran w' = ran w" using run M w2 w3 assms(1) r1 ran2 ran3 by (cases rs; cases r2; cases r3) (auto split: if_splits)
      then show ?thesis ..
    next
      case True
      then obtain b' where "rs = Inr False" "r2 = Inr ()" "r3 = Inr b'" by blast
      then have "(r, w') = route env steps ?c a p b' w3" using run M w2 w3 assms(1) by (auto simp: act_bind_app)
      then show ?thesis using ran3 iap v by blast
    qed
  qed
qed

text \<open>After a clearing, and after a confirmation that returns, nothing is pending.\<close>

lemma clear_pending_Inr:
  assumes "clear_pending env w = (Inr (), w')" "profiles_ok (profiles_file w)"
  shows "pend_ok [] (profiles_file w')"
proof -
  have d: "distinct (dkeys cleared_pending)" "''session'' \<in> {''AI'', ''HI'', ''session''}" by (simp_all add: cleared_pending_def)
  show ?thesis
  proof (rule update_cases [OF assms(2) d(2,1), of "j_host env" "state_file w" TypeError])
    fix f' assume f': "update_section (j_host env) (state_file w) TypeError ''session'' cleared_pending (profiles_file w) = (Inr (), f')" "profiles_ok f'"
      "\<And>k. pend f' k = (if ''session'' = ''session'' then over cleared_pending (pend (profiles_file w)) k else pend (profiles_file w) k)"
    have "pend f' ''pending_action'' = Some (JStr [])" by (simp add: f'(3) over_def cleared_pending_def)
    moreover have "profiles_file w' = f'"
      using assms(1) f'(1) by (auto simp: clear_pending_def clear_pending_confirmation_def on_profiles_app)
    ultimately show ?thesis using pend_ok_cleared [OF f'(2)] by simp
  qed (use assms(1) in \<open>auto simp: clear_pending_def clear_pending_confirmation_def on_profiles_app\<close>)
qed

lemma confirm_clears:
  assumes "confirm_pending env steps intent b w = (Inr x, w')" "pend_ok H (profiles_file w)" "hi_file_ok (state_file w)" "others steps"
  shows "pend_ok [] (profiles_file w')"
proof -
  from assms(2) obtain v where v: "pend (profiles_file w) ''pending_action'' = Some v" unfolding pend_ok_def by blast
  show ?thesis
  proof (cases "truthy v")
    case False
    then have "pend_ok [] (profiles_file w)" using assms(2) v by (simp add: pend_ok_def)
    then show ?thesis using assms(1) by (simp add: confirm_none [OF _ assms(3)])
  next
    case True
    from confirm_run [OF assms(2,3) v True, of env steps intent b] obtain i a p where
      run: "confirm_pending env steps intent b w =
        act_bind (check_age env (case pend (profiles_file w) ''pending_since'' of Some x \<Rightarrow> x | None \<Rightarrow> JStr [])) (\<lambda>stop.
         if stop then act_return (routed_as False (normalize_intent intent) ''confirm'' (JStr []) expired_text b)
         else act_bind (clear_pending env) (\<lambda>_. act_bind (rules_now env (if i = [] then intent else i) a) (\<lambda>b'.
           route env steps (if i = [] then intent else i) a p b'))) w" by metis
    let ?since = "case pend (profiles_file w) ''pending_since'' of Some x \<Rightarrow> x | None \<Rightarrow> JStr []"
    obtain stop w1 where M: "check_age env ?since w = (Inr stop, w1)" using run assms(1)
      by (cases "check_age env ?since w") (auto split: sum.splits simp: act_bind_app)
    have k1: "pend_ok H (profiles_file w1)"
      using preservesD [OF pending_age assms(2), of env ?since] M by simp
    show ?thesis
    proof (cases stop)
      case True
      then have "clear_pending env w = (Inr (), w1)"
        using M by (auto simp: check_age_def act_bind_app act_catch_def split: if_splits prod.splits sum.splits)
      then show ?thesis using clear_pending_Inr pend_ok_profiles [OF assms(2)] run M True assms(1) by auto
    next
      case False
      then obtain w2 where w2: "clear_pending env w1 = (Inr (), w2)" using run M assms(1)
        by (cases "clear_pending env w1") (auto simp: act_bind_app split: sum.splits)
      have "keeps_pending [] (act_bind (rules_now env (if i = [] then intent else i) a) (\<lambda>b'.
           route env steps (if i = [] then intent else i) a p b'))"
        by (intro preserve_intros pending_route assms(4))
      from preservesD [OF this clear_pending_Inr [OF w2 pend_ok_profiles [OF k1]]]
      have "pend_ok [] (profiles_file (snd (confirm_pending env steps intent b w)))" using run M False w2 by simp
      then show ?thesis using assms(1) by simp
    qed
  qed
qed

section \<open>Properties\<close>

text \<open>A history of requests: the profiles start without a pending action, each request is processed in some
  environment, and between requests anything but the profiles file may change.\<close>

inductive history :: "request list \<Rightarrow> jarvis_world \<Rightarrow> bool" where
  start: "profiles_ok (profiles_file w) \<Longrightarrow> pend (profiles_file w) ''pending_action'' = Some (JStr []) \<Longrightarrow> history [] w"
| request: "history H w \<Longrightarrow> others steps \<Longrightarrow>
    history (H @ [(intent, action, payload)]) (snd (process_intent (env :: jarvis_env) steps intent action payload w))"
| elsewhere: "history H w \<Longrightarrow> profiles_file w' = profiles_file w \<Longrightarrow> history H w'"

lemma history_pending: "history H w \<Longrightarrow> pend_ok H (profiles_file w)"
  by (induction rule: history.induct) (simp_all add: pend_ok_cleared pending_process)

text \<open>C1: no program runs unasked. If a request runs a program, then either it is a request for an action below the
  high tier, or it confirms: then an earlier request asked for the pending action, and it is carried out with
  exactly the command and payload of that request.\<close>

theorem programs_run_are_requested:
  assumes "history H w" "others steps" "process_intent (env :: jarvis_env) steps intent action payload w = (r, w')" "ran w' \<noteq> ran w"
  shows "action \<noteq> ''confirm'' \<and> \<not> confirm_first (get_risk_profile (skills (j_parser env)) action)
    \<or> action = ''confirm'' \<and> (\<exists>(i, a, p) \<in> set H. \<exists>b w1. ran w1 = ran w \<and> (r, w') = route env steps (if i = [] then intent else i) a p b w1)"
proof -
  have pend: "pend_ok H (profiles_file w)" by (rule history_pending [OF assms(1)])
  obtain rb w1 where rules: "rules_now env intent action w = (rb, w1)" by fastforce
  show ?thesis
  proof (cases rb)
    case (Inl e)
    then have "ran w' = ran w" using assms(3) rules keepsD [OF ran_session(4) rules] by (simp add: process_intent_def Let_def)
    then show ?thesis using assms(4) by simp
  next
    case (Inr b)
    have b: "w1 = w" "hi_file_ok (state_file w)" "b_risk b = get_risk_profile (skills (j_parser env)) action"
      using rules_now_Inr [OF _ pend_ok_profiles [OF pend]] rules Inr by blast+
    have kept: "ran (snd (act_bind (note_session env kvs) (\<lambda>_. act_return x) w)) = ran w" for kvs and x :: routed
      by (intro keeps_snd keeps_bind ran_session keeps_base)
    show ?thesis
    proof (cases "action = ''confirm''")
      case True
      then have "confirm_pending env steps intent b w = (r, w')" using assms(3) rules Inr b(1) by (simp add: process_intent_def Let_def)
      from confirm_cases [OF this pend b(2)] assms(4) True show ?thesis by blast
    next
      case False
      moreover have "\<not> confirm_first (b_risk b)"
      proof
        assume "confirm_first (b_risk b)"
        then have "ran (snd (process_intent env steps intent action payload w)) = ran w"
          using False rules Inr b(1) kept by (auto simp: process_intent_def Let_def)
        then show False using assms(3,4) by simp
      qed
      ultimately show ?thesis using b(3) by simp
    qed
  qed
qed

text \<open>C23: a confirmation counts once. After any confirmation that returns, a second one (in any environment, whatever
  else happened in between) reports that nothing is pending and changes nothing.\<close>

theorem confirmation_counts_once:
  assumes "history H w" "others steps" "process_intent (env :: jarvis_env) steps intent ''confirm'' payload w = (Inr x, w1)"
    and "profiles_file w2 = profiles_file w1" "process_intent (env' :: jarvis_env) steps' intent' ''confirm'' payload' w2 = (Inr y, w3)"
  shows "\<not> r_ok y \<and> r_text y = ''No pending action to confirm.'' \<and> w3 = w2"
proof -
  have pend: "pend_ok H (profiles_file w)" by (rule history_pending [OF assms(1)])
  from assms(3) obtain b where b: "rules_now env intent ''confirm'' w = (Inr b, w)" "hi_file_ok (state_file w)"
    using rules_now_Inr [OF _ pend_ok_profiles [OF pend], of env intent "''confirm''"]
    by (cases "rules_now env intent ''confirm'' w") (auto simp: process_intent_def Let_def act_bind_app split: sum.splits)
  then have "confirm_pending env steps intent b w = (Inr x, w1)" using assms(3) by (simp add: process_intent_def Let_def)
  from confirm_clears [OF this pend b(2) assms(2)] have none: "pend_ok [] (profiles_file w2)" using assms(4) by simp
  from assms(5) obtain b' where b': "rules_now env' intent' ''confirm'' w2 = (Inr b', w2)" "hi_file_ok (state_file w2)"
    using rules_now_Inr [OF _ pend_ok_profiles [OF none], of env' intent' "''confirm''"]
    by (cases "rules_now env' intent' ''confirm'' w2") (auto simp: process_intent_def Let_def act_bind_app split: sum.splits)
  then show ?thesis
    using assms(5) confirm_none [OF none b'(2), of env' steps' intent' b'] by (auto simp: process_intent_def Let_def routed_as_def)
qed

text \<open>A confirmation that comes more than five minutes after the action was asked for runs nothing, says so, and
  discards the action; only the profiles file changes.\<close>

theorem late_confirmation_expires:
  assumes "history H w" "process_intent (env :: jarvis_env) steps intent ''confirm'' payload w = (Inr x, w')"
    and "pend (profiles_file w) ''pending_action'' = Some (JStr a)" "a \<noteq> []"
    and "pend (profiles_file w) ''pending_since'' = Some (JStr s)" "fromisoformat s = Some t" "aware t"
    and "bus_now (j_bus env) > micros t + 300 * sec"
  shows "\<not> r_ok x \<and> r_text x = expired_text \<and> w' = w\<lparr>profiles_file := profiles_file w'\<rparr>
    \<and> pend (profiles_file w') ''pending_action'' = Some (JStr [])"
proof -
  have pend: "pend_ok H (profiles_file w)" by (rule history_pending [OF assms(1)])
  from assms(2) obtain b where b: "rules_now env intent ''confirm'' w = (Inr b, w)" "hi_file_ok (state_file w)"
    using rules_now_Inr [OF _ pend_ok_profiles [OF pend], of env intent "''confirm''"]
    by (cases "rules_now env intent ''confirm'' w") (auto simp: process_intent_def Let_def act_bind_app split: sum.splits)
  then have cp: "confirm_pending env steps intent b w = (Inr x, w')" using assms(2) by (simp add: process_intent_def Let_def)
  have "truthy (JStr a)" using assms(4) by simp
  from confirm_run [OF pend b(2) assms(3) this, of env steps intent b] obtain i a' p where
    run: "confirm_pending env steps intent b w =
        act_bind (check_age env (case pend (profiles_file w) ''pending_since'' of Some x \<Rightarrow> x | None \<Rightarrow> JStr [])) (\<lambda>stop.
         if stop then act_return (routed_as False (normalize_intent intent) ''confirm'' (JStr []) expired_text b)
         else act_bind (clear_pending env) (\<lambda>_. act_bind (rules_now env (if i = [] then intent else i) a') (\<lambda>b'.
           route env steps (if i = [] then intent else i) a' p b'))) w" by metis
  have late: "expired env (JStr s)" using assms(6-8) by (simp add: expired_def confirm_ttl_def)
  have d: "distinct (dkeys cleared_pending)" "''session'' \<in> {''AI'', ''HI'', ''session''}" by (simp_all add: cleared_pending_def)
  from update_ok [OF pend_ok_profiles [OF pend] b(2) d(2,1), of "j_host env" TypeError] obtain f' where
    f': "update_section (j_host env) (state_file w) TypeError ''session'' cleared_pending (profiles_file w) = (Inr (), f')"
      "\<And>k. pend f' k = over cleared_pending (pend (profiles_file w)) k" by (auto simp: pend_def [abs_def])
  then have "clear_pending env w = (Inr (), w\<lparr>profiles_file := f'\<rparr>)"
    by (simp add: clear_pending_def clear_pending_confirmation_def on_profiles_app)
  then have "check_age env (JStr s) w = (Inr True, w\<lparr>profiles_file := f'\<rparr>)" using late by (simp add: check_age_def)
  then have "x = routed_as False (normalize_intent intent) ''confirm'' (JStr []) expired_text b" "w' = w\<lparr>profiles_file := f'\<rparr>"
    using run cp assms(5) by auto
  then show ?thesis using f'(2) by (simp add: routed_as_def over_def cleared_pending_def)
qed

section \<open>Requests the contract does not know\<close>

definition unserved_intents :: "string list" where
  "unserved_intents =
     [''hi_memory_related'', ''hi_memory_visibility'', ''hi_workflow_add_task'', ''hi_workflow_set_task_status'',
      ''hi_workflow_add_blocker'', ''hi_workflow_set_due'', ''hi_memory_delete'', ''hi_memory_graph'', ''hi_memory_link'',
      ''hi_memory_graph_stats'', ''hi_memory_retention'', ''hi_memory_export'', ''hi_memory_import'']"

lemma unserved_facts:
  "set unserved_intents \<subseteq> set hi_intents" "set unserved_intents \<inter> set intent_enum = {}"
  by (simp_all add: unserved_intents_def hi_intents_def intent_enum_def request_intents_def)

lemma high_risk_shell: "set high_risk_actions = {''shell''}"
  by (simp add: high_risk_actions_def actions_of_tier_def registry_def cmd_def)

lemma unserved_no_confirm:
  assumes "a \<in> set unserved_intents" "get_plugin_risk_tier sk a = None"
  shows "\<not> confirm_first (get_risk_profile sk a)"
  using assms high_risk_shell by (auto simp: get_risk_profile_def risk_def unserved_intents_def)

lemma build_message_unknown:
  assumes "i \<notin> set intent_enum"
  shows "build_message env ''Jarvis'' i ''Kingofyadav'' p pr rid meta = Inl (ValidationError ''intent must be one of the allowed values'')"
proof -
  have "JStr i \<notin> JStr ` set intent_enum" using assms by auto
  then show ?thesis
    by (simp add: build_message_def validate_message_def validate_dict_def required_fields_def allowed_fields_def check_def invalid_def
      expect_str_def expect_dict_def expect_enum_def actors_def dhas_def dget_or_def)
qed

lemma unlisted_process:
  assumes "a \<in> set unserved_intents" "get_plugin_risk_tier (skills (j_parser env)) a = None" "hi_listener_running env"
    and "rules_now env intent a w = (Inr b, w)" "b_risk b = get_risk_profile (skills (j_parser env)) a"
  shows "process_intent env steps intent a payload w =
    act_bind (note_all env (last_fields (normalize_intent intent) a intent b)) (\<lambda>_. act_return
      (routed_as False (normalize_intent intent) a payload (err_text env (ValidationError ''intent must be one of the allowed values'')) b)) w"
proof -
  have a: "a \<in> set hi_intents" "a \<notin> set intent_enum" "a \<noteq> ''error''" "a \<noteq> ''unknown''" "a \<noteq> ''confirm''" "a \<noteq> ''status''" "a \<noteq> ''greet_user''"
    using assms(1) unserved_facts by (auto simp: unserved_intents_def)
  have "send_hi_request env steps a payload intent w = (Inl (ValidationError ''intent must be one of the allowed values''), w)"
    using assms(3) by (simp add: send_hi_request_def on_bus_app send_request_def build_message_unknown [OF a(2)] act_bind_app act_of_def)
  then have "carry_out env steps intent a payload b w = (Inl (ValidationError ''intent must be one of the allowed values''), w)"
    using a(1) by (simp add: carry_out_def Let_def)
  then show ?thesis
    using assms(4,5) a unserved_no_confirm [OF assms(1,2)]
    by (simp add: process_intent_def Let_def route_def act_catch_def apply_behavior_to_text_def)
qed

text \<open>Thirteen commands of the registry never reach the HI layer. While the listener runs, the message of such a
  request is invalid under the contract of the bus: whatever its payload, the answer is the text of that error, no
  request is written and nothing but the session changes.\<close>

theorem unlisted_intents_never_served:
  assumes "a \<in> set unserved_intents" "get_plugin_risk_tier (skills (j_parser env)) a = None" "hi_listener_running env"
    and "profiles_ok (profiles_file w)" "process_intent (env :: jarvis_env) steps intent a payload w = (Inr x, w')"
  shows "\<not> r_ok x \<and> r_text x = err_text env (ValidationError ''intent must be one of the allowed values'')
    \<and> w' = w\<lparr>profiles_file := profiles_file w'\<rparr>"
proof -
  from assms(5) obtain b where b: "rules_now env intent a w = (Inr b, w)" "b_risk b = get_risk_profile (skills (j_parser env)) a"
    using rules_now_Inr [OF _ assms(4), of env intent a]
    by (cases "rules_now env intent a w") (auto simp: process_intent_def Let_def act_bind_app split: sum.splits)
  moreover have "w2 = w\<lparr>profiles_file := profiles_file w2\<rparr>" if "note_all env kvs w = (r, w2)" for kvs r w2
    using that by (auto simp: note_all_def on_profiles_app)
  ultimately show ?thesis
    using assms(5) unlisted_process [OF assms(1-3) b, of steps payload] by (auto simp: act_bind_app routed_as_def split: prod.splits sum.splits)
qed


section \<open>A demonstration, for the witnesses\<close>


definition profile_obj :: "obj \<Rightarrow> obj" where
  "profile_obj ses =
     [(''AI'', JObj (default_ai @ [(''id'', JStr ''ai-1''), (''created_at'', JStr ''now''), (''fingerprint'', JStr ''ai-1:Jarvis'')])),
      (''HI'', JObj default_hi), (''relationship'', JObj default_relation), (''session'', JObj (dupdate default_session ses))]"

definition demo_world :: "obj \<Rightarrow> jarvis_world" where
  "demo_world ses = \<lparr>store = empty_db, archives = [], state_file = Missing, events = [], bus = empty_bus,
     profiles_file = Doc (JObj (profile_obj ses)), ran = [], activity_log = []\<rparr>"

definition demo_env :: jarvis_env where
  "demo_env = \<lparr>j_host = test_host, j_parser = bare_env, j_shell = ls_env, j_bus = demo_bus_env, j_today = ''2026-05-01'',
     j_now_iso = ''2026-05-01T00:00:00+00:00'', outside = (\<lambda>_ _. Inr []), desktop = (\<lambda>_. Finished), which = (\<lambda>_. False),
     print_json = (\<lambda>_. []), short_status = [], help_bar = [], os_host = ''host'', hi_pid = Some ''7'', hi_probe = (\<lambda>_. Alive),
     hi_pid_age = None, listener_path = [], err_text = (\<lambda>e. case e of ValidationError m \<Rightarrow> m | _ \<Rightarrow> [])\<rparr>"


lemma ran_record [frame_intros]: "keeps ran (record_action_event env a c r)"
  unfolding record_action_event_def by (intro keeps_modify) simp

lemma route_ran:
  assumes "execute_action (env :: jarvis_env) a p (w :: jarvis_world) = (Inr t, w2)" "a \<notin> set hi_intents"
  shows "ran (snd (route env steps i a p b w)) = ran w2"
proof -
  have tail: "keeps ran (act_bind (note_all env kvs :: (jarvis_world, unit) act) (\<lambda>_. act_bind (record_action_event env a i r) (\<lambda>_. act_return x)))" for kvs r and x :: routed
    by (intro frame_intros)
  have c: "ran (snd (carry_out env steps i a p b w)) = ran w2"
    using assms keeps_snd [OF tail] by (simp add: carry_out_def Let_def split del: if_split)
  have handler: "keeps ran (act_bind (note_all env kvs :: (jarvis_world, unit) act) (\<lambda>_. act_return x))" for kvs and x :: routed
    by (intro frame_intros)
  show ?thesis
    using c keeps_snd [OF handler] by (cases "carry_out env steps i a p b w") (auto simp: route_def Let_def act_catch_def split: sum.splits)
qed

lemma shell_demo: "\<exists>w2. execute_action demo_env ''shell'' (JStr ''ls'') w = (Inr ''a.md'', w2) \<and> ran w2 = ran w @ [[''ls'']]"
proof -
  have "shlex_split (strip ''ls'') = Inr [''ls'']" "strip ''ls'' \<noteq> []" "strip ''a.md'' = ''a.md''" by code_simp+
  then have "execute_shell_command ls_env ''ls'' r = (Inr ''a.md'', r @ [[''ls'']])" for r
    by (simp add: execute_shell_command_def Let_def ls_env_def safe_commands_def run_argv_def del: strip_def)
  then show ?thesis
    by (simp add: execute_action_def action_for_def demo_env_def dhas_def bare_env_def load_plugin_commands_def local_actions_def shell_action_def
        on_runs_def act_bind_app)
qed



definition ask_fields :: obj where
  "ask_fields = [(''pending_action'', JStr ''shell''), (''pending_payload'', JStr ''ls''), (''pending_command'', JStr ''run ls''),
     (''pending_since'', JStr ''2026-05-01T00:00:00+00:00''), (''last_intent'', JStr ''run ls''), (''last_command'', JStr ''run ls''),
     (''last_risk_tier'', JStr ''high'')]"


lemma demo_load:
  "load_profiles test_host Missing (Doc (JObj (profile_obj []))) = (Inr (profile_obj []), Doc (JObj (profile_obj [])))"
  "load_profiles test_host Missing (Doc (JObj (profile_obj ask_fields))) = (Inr (profile_obj ask_fields), Doc (JObj (profile_obj ask_fields)))"
  "load_profiles test_host Missing (Doc (JObj (profile_obj (drop 4 ask_fields)))) = (Inr (profile_obj (drop 4 ask_fields)), Doc (JObj (profile_obj (drop 4 ask_fields))))"
  by code_simp+

lemma demo_hi: "dget_or (profile_obj ses) ''HI'' (JObj []) = JObj default_hi"
  "dget_or (profile_obj ses) ''session'' (JObj []) = JObj (dupdate default_session ses)"
  by (simp_all add: profile_obj_def dget_or_def)

lemma demo_mode: "dget_or default_hi ''preferred_response_mode'' (JStr ''adaptive'') = JStr ''adaptive''"
  by (simp add: default_hi_def dget_or_def)

lemma demo_rules:
  assumes "load_profiles test_host Missing (Doc (JObj (profile_obj ses))) = (Inr (profile_obj ses), Doc (JObj (profile_obj ses)))"
    and "dget_or (dupdate default_session ses) ''last_intent'' (JStr []) = JStr s" "j_host env = test_host"
  shows "\<exists>b. rules_now env i a (demo_world ses) = (Inr b, demo_world ses)"
  using assms(2,3)
  by (simp add: rules_now_def with_profiles_def get_session_def get_section_def on_profiles_app demo_world_def assms(1) demo_hi
    demo_mode build_behavior_rules_def stripped_def Let_def act_bind_app)

lemma demo_note: "profiles_file (snd (note_session demo_env ask_fields (demo_world []))) = Doc (JObj (profile_obj ask_fields))"
  by code_simp
lemma demo_clear: "clear_pending_confirmation test_host Missing (Doc (JObj (profile_obj ask_fields))) = (Inr (), Doc (JObj (profile_obj (drop 4 ask_fields))))"
  by code_simp
lemma demo_pend1:
  "pend (Doc (JObj (profile_obj ask_fields))) ''pending_action'' = Some (JStr ''shell'')" 
  by code_simp
lemma demo_pend2:
"pend (Doc (JObj (profile_obj []))) ''pending_action'' = Some (JStr [])"
  by code_simp
lemma demo_pend3:
  "pend (Doc (JObj (profile_obj ask_fields))) ''pending_since'' = Some (JStr ''2026-05-01T00:00:00+00:00'')"
  by code_simp
lemma demo_expired: "\<not> expired demo_env (JStr ''2026-05-01T00:00:00+00:00'')"
  by code_simp
lemma demo_time: "case fromisoformat ''2026-05-01T00:00:00+00:00'' of Some t \<Rightarrow> aware t \<and> micros t + 300 * sec < 2000000000 * sec | None \<Rightarrow> False"
  by code_simp


text \<open>The history of the demonstration: \<open>run ls\<close> is asked for, and is pending.\<close>

lemma demo_ok: "profiles_ok (profiles_file (demo_world []))" "hi_file_ok (state_file (demo_world ses))"
  by (simp_all add: profiles_ok_def sections_ok_def demo_world_def profile_obj_def default_session_def session_fields_def default_ai_def
      default_hi_def dget_or_def hi_file_ok_def)

lemma demo_run:
  "\<exists>b. b_risk b = risk ''high'' ''Local shell execution changes or queries the machine directly.''
    \<and> process_intent demo_env [] ''run ls'' ''shell'' (JStr ''ls'') (demo_world []) =
      (Inr (routed_as False (normalize_intent ''run ls'') ''confirmation_required'' (JStr ''ls'') (confirmation_text b) b), demo_world ask_fields)"
proof -
  from demo_rules [OF demo_load(1), of "[]" demo_env "''run ls''" "''shell''"] obtain b where
    b: "rules_now demo_env ''run ls'' ''shell'' (demo_world []) = (Inr b, demo_world [])"
    by (auto simp: default_session_def session_fields_def dget_or_def demo_env_def)
  from rules_now_Inr [OF this demo_ok(1)] have risk: "b_risk b = get_risk_profile [] ''shell''" by (simp add: demo_env_def bare_env_def)
  have high: "get_risk_profile [] ''shell'' = risk ''high'' ''Local shell execution changes or queries the machine directly.''"
    by (simp add: get_risk_profile_def get_plugin_risk_tier_def load_plugin_commands_def high_risk_shell)
  have n: "normalize_intent ''run ls'' = ''run ls''" by code_simp
  have "distinct (dkeys ask_fields)" by (simp add: ask_fields_def)
  from note_session_ok [OF demo_ok(1) demo_ok(2) this, of demo_env] obtain f' where
    "note_session demo_env ask_fields (demo_world []) = (Inr (), demo_world []\<lparr>profiles_file := f'\<rparr>)" by blast
  moreover from this have "f' = Doc (JObj (profile_obj ask_fields))" using demo_note by simp
  ultimately have asked: "note_session demo_env ask_fields (demo_world []) = (Inr (), demo_world ask_fields)" by (simp add: demo_world_def)
  then show ?thesis using b risk high
    by (intro exI [of _ b]) (simp add: process_intent_def Let_def n risk_def ask_fields_def demo_env_def)
qed

lemma demo_asked: "snd (process_intent demo_env [] ''run ls'' ''shell'' (JStr ''ls'') (demo_world [])) = demo_world ask_fields"
  using demo_run by auto

lemma demo_history: "history [(''run ls'', ''shell'', JStr ''ls'')] (demo_world ask_fields)"
proof -
  have "history [] (demo_world [])" by (rule history.start [OF demo_ok(1)]) (simp add: demo_world_def demo_pend2)
  from history.request [OF this, where steps = "[]" and env = demo_env and intent = "''run ls''" and action = "''shell''" and payload = "JStr ''ls''"]
  show ?thesis
    by (simp add: demo_asked others_def)
qed

text \<open>The confirmation then runs \<open>ls\<close>.\<close>

lemma demo_rules_confirm: "j_host env = test_host \<Longrightarrow> \<exists>b. rules_now env i a (demo_world ask_fields) = (Inr b, demo_world ask_fields)"
  by (rule demo_rules [OF demo_load(2), where s = "''run ls''"]) (simp_all add: ask_fields_def default_session_def session_fields_def dget_or_def)

lemma demo_rules_resumed:
  "j_host env = test_host \<Longrightarrow> \<exists>b. rules_now env i a (demo_world (drop 4 ask_fields)) = (Inr b, demo_world (drop 4 ask_fields))"
  by (rule demo_rules [OF demo_load(3), where s = "''run ls''"]) (simp_all add: ask_fields_def default_session_def session_fields_def dget_or_def)

lemma demo_host: "j_host demo_env = test_host"
  by (simp add: demo_env_def)

lemma demo_clear_pending: "j_host env = test_host \<Longrightarrow> clear_pending env (demo_world ask_fields) = (Inr (), demo_world (drop 4 ask_fields))"
  using demo_clear by (simp add: clear_pending_def on_profiles_app demo_world_def)

lemma demo_confirm: "ran (snd (process_intent demo_env [] ''confirm'' ''confirm'' (JStr []) (demo_world ask_fields))) = [[''ls'']]"
proof -
  let ?w = "demo_world ask_fields" and ?w' = "demo_world (drop 4 ask_fields)"
  have w: "profiles_file ?w = Doc (JObj (profile_obj ask_fields))" "ran ?w' = []" by (simp_all add: demo_world_def)
  from demo_rules_confirm [OF demo_host] obtain b where b: "rules_now demo_env ''confirm'' ''confirm'' ?w = (Inr b, ?w)" by blast
  from confirm_run [OF history_pending [OF demo_history] demo_ok(2) demo_pend1 [folded w], of demo_env "[]" "''confirm''" b]
  obtain i a p where iap: "(i, a, p) \<in> set [(''run ls'', ''shell'', JStr ''ls'')]"
    and run: "confirm_pending demo_env [] ''confirm'' b ?w =
      act_bind (check_age demo_env (case pend (profiles_file ?w) ''pending_since'' of Some x \<Rightarrow> x | None \<Rightarrow> JStr [])) (\<lambda>stop.
         if stop then act_return (routed_as False (normalize_intent ''confirm'') ''confirm'' (JStr []) expired_text b)
         else act_bind (clear_pending demo_env) (\<lambda>_. act_bind (rules_now demo_env (if i = [] then ''confirm'' else i) a) (\<lambda>b'.
           route demo_env [] (if i = [] then ''confirm'' else i) a p b'))) ?w" by (auto simp: w)
  have age: "check_age demo_env (case pend (profiles_file ?w) ''pending_since'' of Some x \<Rightarrow> x | None \<Rightarrow> JStr []) ?w = (Inr False, ?w)"
    by (simp add: w demo_pend3 check_age_def demo_expired)
  have clear: "clear_pending demo_env ?w = (Inr (), ?w')"
    by (rule demo_clear_pending [OF demo_host])
  from demo_rules_resumed [OF demo_host] obtain b' where b': "rules_now demo_env ''run ls'' ''shell'' ?w' = (Inr b', ?w')" by blast
  have "confirm_pending demo_env [] ''confirm'' b ?w = route demo_env [] ''run ls'' ''shell'' (JStr ''ls'') b' ?w'"
    using run iap by (simp add: act_bind_app age clear b')
  moreover obtain w2 where "execute_action demo_env ''shell'' (JStr ''ls'') ?w' = (Inr ''a.md'', w2)" "ran w2 = [[''ls'']]"
    using shell_demo [of ?w'] w(2) by auto
  moreover have "''shell'' \<notin> set hi_intents" by (simp add: hi_intents_def)
  ultimately show ?thesis using b by (simp add: process_intent_def Let_def route_ran)
qed

theorem programs_run_are_requested_witness:
  "\<exists>r w' b w1. process_intent demo_env [] ''confirm'' ''confirm'' (JStr []) (demo_world ask_fields) = (r, w') \<and> ran w' = [[''ls'']]
     \<and> ran w1 = [] \<and> (r, w') = route demo_env [] ''run ls'' ''shell'' (JStr ''ls'') b w1"
proof -
  have w: "ran (demo_world ask_fields) = []" by (simp add: demo_world_def)
  obtain r w' where run: "process_intent demo_env [] ''confirm'' ''confirm'' (JStr []) (demo_world ask_fields) = (r, w')" by fastforce
  then have ran: "ran w' = [[''ls'']]" using demo_confirm by simp
  from programs_run_are_requested [OF demo_history _ run] ran w run show ?thesis by (auto simp: others_def)
qed

text \<open>The same confirmation, years later.\<close>

definition late_env :: jarvis_env where
  "late_env = demo_env\<lparr>j_bus := demo_bus_env\<lparr>bus_now := 2000000000 * sec\<rparr>\<rparr>"

lemma late_confirm:
  "\<exists>b. process_intent late_env [] ''confirm'' ''confirm'' (JStr []) (demo_world ask_fields) =
     (Inr (routed_as False (normalize_intent ''confirm'') ''confirm'' (JStr []) expired_text b), demo_world (drop 4 ask_fields))"
proof -
  let ?w = "demo_world ask_fields"
  have w: "profiles_file ?w = Doc (JObj (profile_obj ask_fields))" by (simp add: demo_world_def)
  have host: "j_host late_env = test_host" by (simp add: late_env_def demo_env_def)
  from demo_rules_confirm [OF host] obtain b where b: "rules_now late_env ''confirm'' ''confirm'' ?w = (Inr b, ?w)" by blast
  from confirm_run [OF history_pending [OF demo_history] demo_ok(2) demo_pend1 [folded w], of late_env "[]" "''confirm''" b]
  obtain i a p where run: "confirm_pending late_env [] ''confirm'' b ?w =
      act_bind (check_age late_env (case pend (profiles_file ?w) ''pending_since'' of Some x \<Rightarrow> x | None \<Rightarrow> JStr [])) (\<lambda>stop.
         if stop then act_return (routed_as False (normalize_intent ''confirm'') ''confirm'' (JStr []) expired_text b)
         else act_bind (clear_pending late_env) (\<lambda>_. act_bind (rules_now late_env (if i = [] then ''confirm'' else i) a) (\<lambda>b'.
           route late_env [] (if i = [] then ''confirm'' else i) a p b'))) ?w" by (auto simp: w)
  have "expired late_env (JStr ''2026-05-01T00:00:00+00:00'')"
    using demo_time by (simp add: expired_def late_env_def confirm_ttl_def split: option.splits)
  then have "check_age late_env (case pend (profiles_file ?w) ''pending_since'' of Some x \<Rightarrow> x | None \<Rightarrow> JStr []) ?w = (Inr True, demo_world (drop 4 ask_fields))"
    by (simp add: w demo_pend3 check_age_def act_bind_app act_catch_def demo_clear_pending [OF host])
  then show ?thesis using b run by (intro exI [of _ b]) (simp add: act_bind_app process_intent_def Let_def)
qed

theorem confirmation_counts_once_witness:
  "\<exists>y. process_intent demo_env [] ''confirm'' ''confirm'' (JStr []) (demo_world (drop 4 ask_fields)) = (Inr y, demo_world (drop 4 ask_fields))
     \<and> r_text y = ''No pending action to confirm.''"
proof -
  let ?w = "demo_world (drop 4 ask_fields)"
  obtain b where first: "process_intent late_env [] ''confirm'' ''confirm'' (JStr []) (demo_world ask_fields) =
     (Inr (routed_as False (normalize_intent ''confirm'') ''confirm'' (JStr []) expired_text b), ?w)"
    using late_confirm by blast
  from demo_rules_resumed [OF demo_host] obtain b' where b': "rules_now demo_env ''confirm'' ''confirm'' ?w = (Inr b', ?w)" by blast
  have "pend_ok [] (profiles_file ?w)"
  proof (rule clear_pending_Inr [OF demo_clear_pending [OF demo_host]])
    show "profiles_ok (profiles_file (demo_world ask_fields))" using history_pending [OF demo_history] by (rule pend_ok_profiles)
  qed
  then obtain y where second: "process_intent demo_env [] ''confirm'' ''confirm'' (JStr []) ?w = (Inr y, ?w)"
    using b' by (simp add: process_intent_def Let_def act_bind_app confirm_none [OF _ demo_ok(2)])
  from confirmation_counts_once [OF demo_history _ first refl second] show ?thesis using second by (simp add: others_def)
qed

theorem late_confirmation_expires_witness:
  "\<exists>x w'. process_intent late_env [] ''confirm'' ''confirm'' (JStr []) (demo_world ask_fields) = (Inr x, w')
     \<and> r_text x = expired_text \<and> ran w' = []"
proof -
  have w: "profiles_file (demo_world ask_fields) = Doc (JObj (profile_obj ask_fields))" "ran (demo_world ask_fields) = []"
    by (simp_all add: demo_world_def)
  obtain x w' where run: "process_intent late_env [] ''confirm'' ''confirm'' (JStr []) (demo_world ask_fields) = (Inr x, w')"
    using late_confirm by blast
  obtain t where t: "fromisoformat ''2026-05-01T00:00:00+00:00'' = Some t" "aware t" "bus_now (j_bus late_env) > micros t + 300 * sec"
    using demo_time by (auto simp: late_env_def split: option.splits)
  from late_confirmation_expires [OF demo_history run demo_pend1 [folded w] _ demo_pend3 [folded w] t]
  have "r_text x = expired_text" "w' = demo_world ask_fields\<lparr>profiles_file := profiles_file w'\<rparr>" by simp_all
  moreover from this(2) have "ran w' = []" using w(2) by (metis jarvis_world.select_convs(2) jarvis_world.surjective jarvis_world.update_convs(1))
  ultimately show ?thesis using run by blast
qed

theorem unlisted_intents_never_served_witness:
  "\<exists>x w'. process_intent demo_env [] ''delete memory m'' ''hi_memory_delete'' (JObj []) (demo_world []) = (Inr x, w')
     \<and> \<not> r_ok x \<and> r_text x = ''intent must be one of the allowed values'' \<and> bus w' = empty_bus"
proof -
  let ?a = "''hi_memory_delete''" and ?w = "demo_world []"
  have u: "?a \<in> set unserved_intents" by (simp add: unserved_intents_def)
  have none: "get_plugin_risk_tier (skills (j_parser demo_env)) ?a = None"
    by (simp add: demo_env_def bare_env_def get_plugin_risk_tier_def load_plugin_commands_def)
  have on: "hi_listener_running demo_env" by code_simp
  from demo_rules [OF demo_load(1), of "[]" demo_env "''delete memory m''" ?a] obtain b where
    b: "rules_now demo_env ''delete memory m'' ?a ?w = (Inr b, ?w)"
    by (auto simp: default_session_def session_fields_def dget_or_def demo_env_def)
  have risk: "b_risk b = get_risk_profile (skills (j_parser demo_env)) ?a" using rules_now_Inr [OF b demo_ok(1)] by simp
  let ?kvs = "last_fields (normalize_intent ''delete memory m'') ?a ''delete memory m'' b"
  have "distinct (dkeys ?kvs)" "''session'' \<in> {''AI'', ''HI'', ''session''}" by simp_all
  from update_ok [OF demo_ok(1) demo_ok(2) this(2,1), where env = test_host and e = AttributeError] obtain f where
    "bulk_update_session test_host (state_file ?w) ?kvs (profiles_file ?w) = (Inr (), f)" by (auto simp: bulk_update_session_def)
  then have "note_all demo_env ?kvs ?w = (Inr (), ?w\<lparr>profiles_file := f\<rparr>)" by (simp add: note_all_def on_profiles_app demo_host)
  then obtain x where run: "process_intent demo_env [] ''delete memory m'' ?a (JObj []) ?w = (Inr x, ?w\<lparr>profiles_file := f\<rparr>)"
    using unlisted_process [OF u none on b risk, of "[]" "JObj []"] by (simp add: act_bind_app)
  from unlisted_intents_never_served [OF u none on demo_ok(1) run] run show ?thesis
    by (simp add: demo_env_def demo_world_def)
qed

end
