(* ===== verification/Web_Gate.thy ===== *)
theory Web_Gate
  imports Scheduler Clock
begin

text \<open>
  Model of the gate of the HTTP API in \<open>web/api.py\<close>: the address of a client behind a proxy, API key and
  tokens with scopes and expiry, the sliding window of the rate limit, the check of the origin, and
  the configuration these read from the environment. Times are in microseconds. A request is its peer and
  its headers, with names in lower case; a missing header reads as the empty string.
\<close>

section \<open>Requests and configuration\<close>

record request =
  peer_host :: "string option"
  headers :: "string dict"

definition header :: "request \<Rightarrow> string \<Rightarrow> string" where
  "header r k = dget_or (headers r) k []"

record web_conf =
  api_key :: string
  bridge_secret :: string
  sync_secret :: string
  live_token :: string
  main_origin :: string
  origins :: "string list"
  trusted_proxies :: "string list"
  public_intake_rpm :: int
  admin_sync_rpm :: int

definition localhost_addrs :: "string list" where
  "localhost_addrs = [''127.0.0.1'', ''::1'', ''localhost'']"

definition comma :: char where "comma = CHR '',''"

definition list_setting :: "string \<Rightarrow> string list" where
  "list_setting s = filter (\<lambda>x. x \<noteq> []) (map strip (split_char comma s))"

definition default_origins :: "string \<Rightarrow> string list" where
  "default_origins main =
     [main, ''https://jarvis.kingofyadav.in'', ''http://localhost:8081'', ''http://127.0.0.1:8081'', ''http://localhost:8080'',
      ''http://127.0.0.1:8080'']"

definition env_int_between :: "string option \<Rightarrow> int \<Rightarrow> int \<Rightarrow> int \<Rightarrow> int" where
  "env_int_between v d lo hi = min hi (max lo (case v of None \<Rightarrow> d | Some s \<Rightarrow> (case int_of_str s of None \<Rightarrow> d | Some i \<Rightarrow> i)))"

definition web_conf_of :: "(string \<Rightarrow> string option) \<Rightarrow> web_conf" where
  "web_conf_of getenv =
     (let get = (\<lambda>k d. case getenv k of None \<Rightarrow> d | Some s \<Rightarrow> s);
          main = get ''ALLOWED_ORIGIN'' ''https://kingofyadav.in'' in
      \<lparr>api_key = strip (get ''JARVIS_API_KEY'' []), bridge_secret = strip (get ''JARVIS_BRIDGE_SECRET'' []),
       sync_secret = strip (get ''JARVIS_SYNC_SECRET'' []), live_token = strip (get ''LIVE_CLASS_TOKEN'' []), main_origin = main,
       origins = list_setting (get ''ALLOWED_ORIGINS'' (join '','' (default_origins main))),
       trusted_proxies = list_setting (get ''JARVIS_TRUSTED_PROXY_ADDRS'' ''127.0.0.1,::1''),
       public_intake_rpm = env_int_between (getenv ''JARVIS_PUBLIC_INTAKE_RPM'') 12 1 120,
       admin_sync_rpm = env_int_between (getenv ''JARVIS_LOCAL_ADMIN_SYNC_RPM'') 30 1 240\<rparr>)"

section \<open>The address of the client\<close>

definition until :: "char \<Rightarrow> string \<Rightarrow> string" where
  "until c s = takeWhile (\<lambda>x. x \<noteq> c) s"

definition client_ip :: "web_conf \<Rightarrow> request \<Rightarrow> string" where
  "client_ip conf r =
     (let peer = (case peer_host r of Some h \<Rightarrow> h | None \<Rightarrow> ''unknown'');
          forwarded = strip (until comma (header r ''x-forwarded-for''));
          real = strip (header r ''x-real-ip'') in
      if peer \<in> set (trusted_proxies conf) then (if forwarded \<noteq> [] then forwarded else if real \<noteq> [] then real else peer)
      else peer)"

section \<open>The rate limit\<close>

record gate =
  rate_buckets :: "int list dict"
  token_cache :: "int \<times> obj list"

definition rate_window :: int where
  "rate_window = 60 * sec"

definition max_buckets :: nat where
  "max_buckets = 10000"

definition rate_check :: "int \<Rightarrow> string \<Rightarrow> int \<Rightarrow> ('g gate_scheme, bool) act" where
  "rate_check now ip limit = (\<lambda>g.
     let bucket = filter (\<lambda>t. t > now - rate_window) (dget_or (rate_buckets g) ip []) in
     if int (length bucket) \<ge> limit then (Inr False, g\<lparr>rate_buckets := dset ip bucket (rate_buckets g)\<rparr>)
     else
       (let b = dset ip (bucket @ [now]) (rate_buckets g);
            b' = (if length b > max_buckets then filter (\<lambda>(k, v). v \<noteq> []) b else b) in
        (Inr True, g\<lparr>rate_buckets := b'\<rparr>)))"

section \<open>Tokens\<close>

record web_env =
  w_now :: int
  w_iso :: string
  tokens_setting :: string
  tokens_file :: state_doc

definition parse_ts :: "string \<Rightarrow> int option" where
  "parse_ts v =
     map_option micros (fromisoformat (if endswith v ''Z'' then butlast v @ ''+00:00'' else v))"

text \<open>\<open>_read_json\<close>: an unreadable file reads as an empty dict.\<close>

definition read_json :: "state_doc \<Rightarrow> json" where
  "read_json f = (case f of Doc v \<Rightarrow> v | _ \<Rightarrow> JObj [])"

definition token_data :: "'e web_env_scheme \<Rightarrow> json outcome" where
  "token_data env =
     (let raw = strip (tokens_setting env) in
      if raw \<noteq> [] then Inr (case json_loads raw of None \<Rightarrow> JArr [] | Some v \<Rightarrow> v)
      else if tokens_file env \<noteq> Missing
           then and_then (as_obj (read_json (tokens_file env))) (\<lambda>d. Inr (dget_or d ''tokens'' (JArr [])))
      else Inr (JArr []))"

definition token_items :: "json list \<Rightarrow> obj list" where
  "token_items xs = filter (\<lambda>d. str_strip (dget_or d ''token'' (JStr [])) \<noteq> []) (concat (map (\<lambda>v. case v of JObj d \<Rightarrow> [d] | _ \<Rightarrow> []) xs))"

definition load_tokens :: "'e web_env_scheme \<Rightarrow> ('g gate_scheme, obj list) act" where
  "load_tokens env = (\<lambda>g.
     case token_cache g of (at, cached) \<Rightarrow>
       if cached \<noteq> [] \<and> w_now env - at < 30 * sec then (Inr cached, g)
       else
         act_bind (act_of (and_then (token_data env) (\<lambda>v.
             and_then (py_iter (case v of JObj d \<Rightarrow> dget_or d ''tokens'' (JArr []) | _ \<Rightarrow> v)) (\<lambda>xs. Inr (token_items xs))))) (\<lambda>ts.
         act_bind (act_modify (\<lambda>g. g\<lparr>token_cache := (w_now env, ts)\<rparr>)) (\<lambda>_. act_return ts)) g)"

record token_ctx =
  ctx_name :: string
  ctx_scopes :: "string list"
  ctx_rpm :: int

definition rate_limit_rpm :: int where
  "rate_limit_rpm = 60"

definition token_scopes :: "obj \<Rightarrow> string list" where
  "token_scopes item =
     filter (\<lambda>s. s \<noteq> []) (map str_strip
       (case dget_or item ''scopes'' (JArr [JStr ''read'']) of JStr s \<Rightarrow> [JStr s] | JArr xs \<Rightarrow> xs | _ \<Rightarrow> [JStr ''read'']))"

definition token_expired :: "int \<Rightarrow> obj \<Rightarrow> bool" where
  "token_expired now item =
     (let e = str_strip (dget_or item ''expires_at'' (JStr [])) in
      e \<noteq> [] \<and> (case parse_ts e of None \<Rightarrow> True | Some t \<Rightarrow> t < now))"

definition token_context :: "obj \<Rightarrow> token_ctx" where
  "token_context item =
     \<lparr>ctx_name = py_str (dget_or item ''name'' (JStr [])), ctx_scopes = token_scopes item,
      ctx_rpm = (case py_int (dget_or item ''rpm'' (JInt rate_limit_rpm)) of Inr i \<Rightarrow> max 1 (min 600 i) | Inl _ \<Rightarrow> rate_limit_rpm)\<rparr>"

definition matching_token :: "string \<Rightarrow> obj \<Rightarrow> bool" where
  "matching_token raw item = (str_strip (dget_or item ''token'' (JStr [])) = raw)"

definition token_auth :: "'e web_env_scheme \<Rightarrow> string \<Rightarrow> ('g gate_scheme, token_ctx option) act" where
  "token_auth env raw =
     act_bind (load_tokens env) (\<lambda>ts. act_return
       (case List.find (matching_token raw) ts of
          None \<Rightarrow> None
        | Some item \<Rightarrow> if token_expired (w_now env) item then None else Some (token_context item)))"

section \<open>Authorisation\<close>

record auth_ctx = token_ctx +
  ctx_ip :: string

definition full_ctx :: "string \<Rightarrow> string \<Rightarrow> auth_ctx" where
  "full_ctx name ip = \<lparr>ctx_name = name, ctx_scopes = [''full''], ctx_rpm = rate_limit_rpm, ctx_ip = ip\<rparr>"

definition with_ip :: "string \<Rightarrow> token_ctx \<Rightarrow> auth_ctx" where
  "with_ip ip c = token_ctx.extend c \<lparr>ctx_ip = ip\<rparr>"

definition bearer_of :: "string \<Rightarrow> string" where
  "bearer_of auth = (if startswith auth ''Bearer '' then strip (drop 7 auth) else [])"

definition unauthorized :: exn where
  "unauthorized = HTTPException 401 ''unauthorized''"

definition auth_context :: "web_conf \<Rightarrow> 'e web_env_scheme \<Rightarrow> request \<Rightarrow> ('g gate_scheme, auth_ctx) act" where
  "auth_context conf env r =
     (let ip = client_ip conf r; auth = header r ''authorization''; xkey = header r ''x-api-key'';
          token = (if bearer_of auth \<noteq> [] then bearer_of auth else xkey) in
      if api_key conf = [] \<and> ip \<in> set localhost_addrs then act_return (full_ctx ''localhost'' ip)
      else if api_key conf \<noteq> [] \<and> (auth = ''Bearer '' @ api_key conf \<or> xkey = api_key conf) then act_return (full_ctx ''legacy-api-key'' ip)
      else if token = [] then act_raise unauthorized
      else act_bind (token_auth env token) (\<lambda>c. case c of Some c \<Rightarrow> act_return (with_ip ip c) | None \<Rightarrow> act_raise unauthorized))"

definition has_scope :: "'c token_ctx_scheme \<Rightarrow> string \<Rightarrow> bool" where
  "has_scope c s = (''full'' \<in> set (ctx_scopes c) \<or> s \<in> set (ctx_scopes c))"

definition require_scope :: "web_conf \<Rightarrow> 'e web_env_scheme \<Rightarrow> request \<Rightarrow> string \<Rightarrow> ('g gate_scheme, auth_ctx) act" where
  "require_scope conf env r scope =
     act_bind (auth_context conf env r) (\<lambda>c.
       if has_scope c scope then act_return c else act_raise (HTTPException 403 (''missing scope: '' @ scope)))"

definition require_auth :: "web_conf \<Rightarrow> 'e web_env_scheme \<Rightarrow> request \<Rightarrow> ('g gate_scheme, string) act" where
  "require_auth conf env r = act_bind (auth_context conf env r) (\<lambda>c. act_return (ctx_ip c))"

text \<open>Websockets: the token may come as a query parameter; the peer counts as it is.\<close>

definition query_or_header_token :: "string \<Rightarrow> request \<Rightarrow> string" where
  "query_or_header_token query r =
     strip (if query \<noteq> [] then query else if header r ''x-api-key'' \<noteq> [] then header r ''x-api-key'' else bearer_of (header r ''authorization''))"

definition websocket_auth ::
  "web_conf \<Rightarrow> 'e web_env_scheme \<Rightarrow> string \<Rightarrow> request \<Rightarrow> string \<Rightarrow> ('g gate_scheme, auth_ctx option) act" where
  "websocket_auth conf env query r scope =
     (let peer = (case peer_host r of Some h \<Rightarrow> h | None \<Rightarrow> ''unknown''); token = query_or_header_token query r in
      if api_key conf = [] \<and> peer \<in> set localhost_addrs then act_return (Some (full_ctx ''localhost'' peer))
      else if api_key conf \<noteq> [] \<and> token = api_key conf then act_return (Some (full_ctx ''legacy-api-key'' peer))
      else if token = [] then act_return None
      else act_bind (token_auth env token) (\<lambda>c. act_return
        (case c of Some c \<Rightarrow> if has_scope c scope then Some (with_ip peer c) else None | None \<Rightarrow> None)))"

definition is_bridge_request :: "web_conf \<Rightarrow> request \<Rightarrow> bool" where
  "is_bridge_request conf r = (bridge_secret conf \<noteq> [] \<and> header r ''authorization'' = ''Bearer '' @ bridge_secret conf)"

definition validate_peer_secret :: "web_conf \<Rightarrow> request \<Rightarrow> unit outcome" where
  "validate_peer_secret conf r =
     (if sync_secret conf = [] \<or> header r ''x-jarvis-peer-secret'' = sync_secret conf then Inr ()
      else Inl (HTTPException 403 ''invalid peer secret''))"

section \<open>Origins\<close>

text \<open>\<open>urlparse\<close>: scheme, network location and host name, or None where it raises. Of the check of a
  bracketed address only its characters are modelled.\<close>

definition scheme_char :: "char \<Rightarrow> bool" where
  "scheme_char c = (is_ascii_alnum c \<or> code c \<in> {43, 45, 46})"

definition url_scheme :: "string \<Rightarrow> string \<times> string" where
  "url_scheme s =
     (case partition_at '':'' s of
        Some (a, b) \<Rightarrow> if a \<noteq> [] \<and> is_ascii_alnum (hd a) \<and> \<not> is_digit (hd a) \<and> list_all scheme_char a then (lower a, b) else ([], s)
      | None \<Rightarrow> ([], s))"

definition url_clean :: "string \<Rightarrow> string" where
  "url_clean s = filter (\<lambda>c. code c \<notin> {9, 10, 13}) (dropWhile (\<lambda>c. code c \<le> 32) s)"

definition after_last :: "string \<Rightarrow> string \<Rightarrow> string" where
  "after_last sep s = (case rpartition_at sep s of Some (_, b) \<Rightarrow> b | None \<Rightarrow> s)"

definition host_of :: "string \<Rightarrow> string" where
  "host_of netloc =
     (let info = after_last ''@'' netloc in
      lower (case partition_at ''['' info of Some (_, b) \<Rightarrow> until (CHR '']'') b | None \<Rightarrow> until (CHR '':'') info))"

definition brackets_ok :: "string \<Rightarrow> bool" where
  "brackets_ok netloc =
     (if CHR ''['' \<in> set netloc \<or> CHR '']'' \<in> set netloc
      then CHR ''['' \<in> set netloc \<and> CHR '']'' \<in> set netloc
        \<and> list_all (\<lambda>c. is_digit c \<or> lower_char c \<in> set ''abcdef'' \<or> c \<in> set '':.'') (host_of netloc) \<and> CHR '':'' \<in> set (host_of netloc)
      else True)"

definition urlparse :: "string \<Rightarrow> (string \<times> string \<times> string) option" where
  "urlparse s =
     (case url_scheme (url_clean s) of (scheme, rest) \<Rightarrow>
        let netloc = (if startswith rest ''//'' then takeWhile (\<lambda>c. c \<notin> set ''/?#'') (drop 2 rest) else []) in
        if brackets_ok netloc then Some (scheme, netloc, host_of netloc) else None)"

definition origin_allowed :: "web_conf \<Rightarrow> string \<Rightarrow> string \<Rightarrow> bool" where
  "origin_allowed conf origin referer =
     (let check = strip (if origin \<noteq> [] then origin else referer) in
      check = [] \<or>
      (case urlparse check of
         None \<Rightarrow> False
       | Some (scheme, netloc, host) \<Rightarrow>
           scheme \<noteq> [] \<and> netloc \<noteq> [] \<and>
           (scheme @ ''://'' @ netloc \<in> set (origins conf) \<union> {main_origin conf} \<or> host \<in> set localhost_addrs)))"

section \<open>Lemmas: the rate limit\<close>

text \<open>A sequence of checks \<open>(ip, limit, now)\<close>, and the accepted ones.\<close>

fun rate_run :: "(string \<times> int \<times> int) list \<Rightarrow> 'g gate_scheme \<Rightarrow> (string \<times> int) list \<times> 'g gate_scheme" where
  "rate_run [] g = ([], g)"
| "rate_run ((ip, limit, now) # rs) g =
     (case rate_check now ip limit g of (r, g1) \<Rightarrow>
      case rate_run rs g1 of (acc, g2) \<Rightarrow> (if r = Inr True then (ip, now) # acc else acc, g2))"

definition times_of :: "string \<Rightarrow> (string \<times> int) list \<Rightarrow> int list" where
  "times_of ip acc = map snd (filter (\<lambda>(i, t). i = ip) acc)"

definition in_window :: "int \<Rightarrow> int list \<Rightarrow> int list" where
  "in_window s ts = filter (\<lambda>t. s - rate_window < t \<and> t \<le> s) ts"

definition recent :: "int \<Rightarrow> int list \<Rightarrow> int list" where
  "recent now ts = filter (\<lambda>t. t > now - rate_window) ts"

text \<open>The buckets hold what was accepted in the window, for every address.\<close>

definition buckets_ok :: "(string \<times> int) list \<Rightarrow> int \<Rightarrow> 'g gate_scheme \<Rightarrow> bool" where
  "buckets_ok A now g \<longleftrightarrow> distinct (dkeys (rate_buckets g)) \<and>
     (\<forall>ip s. now \<le> s \<longrightarrow> recent s (dget_or (rate_buckets g) ip []) = recent s (times_of ip A)) \<and>
     (\<forall>(i, t) \<in> set A. t \<le> now)"

lemma recent_recent [simp]: "now \<le> s \<Longrightarrow> recent s (recent now ts) = recent s ts"
  by (auto simp: recent_def intro: filter_cong)

lemma recent_append [simp]: "recent s (xs @ ys) = recent s xs @ recent s ys"
  by (simp add: recent_def)

lemma recent_Nil [simp]: "recent s [] = []"
  by (simp add: recent_def)

lemma times_of_append [simp]: "times_of ip (A @ B) = times_of ip A @ times_of ip B"
  by (simp add: times_of_def)

lemma times_of_single [simp]: "times_of ip [(i, t)] = (if i = ip then [t] else [])"
  by (simp add: times_of_def)

lemma purge_get: "distinct (dkeys b) \<Longrightarrow> dget_or (filter (\<lambda>(k, v). v \<noteq> []) b) k [] = dget_or b k ([] :: int list)"
proof (induction b)
  case (Cons kv b)
  obtain k' v where kv: "kv = (k', v)" by fastforce
  have "map_of (filter (\<lambda>(k, v). v \<noteq> []) b) k = None" if "k \<notin> set (dkeys b)"
    using that by (force simp: map_of_eq_None_iff)
  then show ?case using Cons by (auto simp: dget_or_def kv map_of_eq_None_iff [THEN iffD2] split: option.splits)
qed simp

lemma distinct_purge: "distinct (dkeys b) \<Longrightarrow> distinct (dkeys (filter P b))"
  by (induction b) auto

text \<open>What one check does: it accepts when the window has room, and then records the time.\<close>

lemma rate_check_cases:
  assumes "buckets_ok A t0 g" "t0 \<le> now" "rate_check now ip limit g = (r, g')"
  obtains "r = Inr False" "buckets_ok A now g'"
  | "r = Inr True" "int (length (recent now (times_of ip A))) < limit" "buckets_ok (A @ [(ip, now)]) now g'"
proof -
  let ?b = "recent now (dget_or (rate_buckets g) ip [])"
  have b: "?b = recent now (times_of ip A)" and d: "distinct (dkeys (rate_buckets g))"
    and old: "\<And>ip s. now \<le> s \<Longrightarrow> recent s (dget_or (rate_buckets g) ip []) = recent s (times_of ip A)" and le: "\<forall>(i, t) \<in> set A. t \<le> now"
    using assms(1,2) by (auto simp: buckets_ok_def)
  show thesis
  proof (cases "int (length ?b) \<ge> limit")
    case True
    then have g': "r = Inr False" "g' = g\<lparr>rate_buckets := dset ip ?b (rate_buckets g)\<rparr>"
      using assms(3) by (simp_all add: rate_check_def recent_def Let_def)
    have "buckets_ok A now g'" using d old le b by (auto simp: buckets_ok_def g'(2))
    then show thesis using that(1) g'(1) by blast
  next
    case False
    let ?n = "dset ip (?b @ [now]) (rate_buckets g)"
    have g': "r = Inr True" "rate_buckets g' = (if length ?n > max_buckets then filter (\<lambda>(k, v). v \<noteq> []) ?n else ?n)"
      using assms(3) False by (auto simp: rate_check_def recent_def Let_def)
    have "dget_or (rate_buckets g') k [] = dget_or ?n k []" for k
      using d by (simp add: g'(2) purge_get)
    moreover have "distinct (dkeys (rate_buckets g'))" using d by (simp add: g'(2) distinct_purge)
    ultimately have "buckets_ok (A @ [(ip, now)]) now g'" using old le b by (auto simp: buckets_ok_def)
    then show thesis using that(2) g'(1) b False by simp
  qed
qed

definition window_bound :: "string \<Rightarrow> int \<Rightarrow> (string \<times> int) list \<Rightarrow> bool" where
  "window_bound ip L A \<longleftrightarrow> (\<forall>s. int (length (in_window s (times_of ip A))) \<le> L)"

lemma window_snoc:
  assumes "window_bound ip L A" "int (length (recent now (times_of ip A))) < L" "\<forall>(i, t) \<in> set A. t \<le> now"
  shows "window_bound ip L (A @ [(ip, now)])"
  unfolding window_bound_def
proof
  fix s
  let ?ts = "times_of ip A"
  show "int (length (in_window s (times_of ip (A @ [(ip, now)])))) \<le> L"
  proof (cases "s - rate_window < now \<and> now \<le> s")
    case True
    have "in_window s ?ts = filter (\<lambda>t. s - rate_window < t \<and> t \<le> s) (recent now ?ts)"
      using True by (auto simp: in_window_def recent_def intro: filter_cong)
    then have "length (in_window s ?ts) \<le> length (recent now ?ts)" by simp
    then show ?thesis using assms(2) True by (simp add: in_window_def)
  next
    case False
    then show ?thesis using assms(1) by (auto simp: window_bound_def in_window_def)
  qed
qed

lemma window_other: "window_bound ip L A \<Longrightarrow> i \<noteq> ip \<Longrightarrow> window_bound ip L (A @ [(i, t)])"
  by (simp add: window_bound_def)

lemma rate_run_bound:
  assumes "buckets_ok A t0 g" "window_bound ip L A" "sorted (t0 # map (\<lambda>x. snd (snd x)) rs)"
    and "\<forall>(i, l, t) \<in> set rs. i = ip \<longrightarrow> l \<le> L"
  shows "window_bound ip L (A @ fst (rate_run rs g))"
  using assms
proof (induction rs arbitrary: A t0 g)
  case (Cons x rs)
  obtain i l now where x: "x = (i, l, now)" by (cases x)
  obtain r g1 where r: "rate_check now i l g = (r, g1)" by fastforce
  obtain acc g2 where run: "rate_run rs g1 = (acc, g2)" by fastforce
  have now: "t0 \<le> now" "sorted (now # map (\<lambda>x. snd (snd x)) rs)" using Cons.prems(3) by (auto simp: x comp_def)
  have le: "\<forall>(i, t) \<in> set A. t \<le> now" using Cons.prems(1) now(1) by (auto simp: buckets_ok_def)
  from Cons.prems(1) now(1) r show ?case
  proof (cases rule: rate_check_cases)
    case 1
    then show ?thesis using Cons.IH [OF 1(2) Cons.prems(2) now(2)] Cons.prems(4) run by (simp add: x r)
  next
    case 2
    have "window_bound ip L (A @ [(i, now)])"
    proof (cases "i = ip")
      case True
      then have "int (length (recent now (times_of ip A))) < L" using 2(2) Cons.prems(4) by (auto simp: x)
      from window_snoc [OF Cons.prems(2) this le] show ?thesis using True by simp
    next
      case False
      then show ?thesis by (rule window_other [OF Cons.prems(2)])
    qed
    from Cons.IH [OF 2(3) this now(2)] Cons.prems(4) run show ?thesis by (simp add: x r 2(1))
  qed
qed simp

section \<open>Properties: the rate limit\<close>

text \<open>C12: however requests from any number of addresses follow each other, at most \<open>L\<close> of an address are accepted
  within any 60 seconds, if its limit is at most \<open>L\<close>.\<close>

theorem rate_limit_holds:
  assumes "rate_buckets g = []" "sorted (map (\<lambda>(_, _, t). t) rs)" "\<forall>(i, l, t) \<in> set rs. i = ip \<longrightarrow> l \<le> L" "0 \<le> L"
  shows "int (length (filter (\<lambda>(i, t). i = ip \<and> s - 60 * sec < t \<and> t \<le> s) (fst (rate_run rs g)))) \<le> L"
proof (cases rs)
  case (Cons x rs')
  have t: "map (\<lambda>(_, _, t). t) rs = map (\<lambda>x. snd (snd x)) rs" by (auto split: prod.split)
  have "buckets_ok [] (snd (snd x)) g" by (simp add: buckets_ok_def assms(1) times_of_def dget_or_def)
  moreover have "window_bound ip L []" using assms(4) by (simp add: window_bound_def times_of_def in_window_def)
  moreover have "sorted (snd (snd x) # map (\<lambda>x. snd (snd x)) rs)" using assms(2) unfolding t by (auto simp: Cons)
  ultimately have "window_bound ip L (fst (rate_run rs g))" using rate_run_bound [of "[]"] assms(3) by force
  then have "int (length (in_window s (times_of ip (fst (rate_run rs g))))) \<le> L" by (simp add: window_bound_def)
  moreover have "length (in_window s (times_of ip A)) = length (filter (\<lambda>(i, t). i = ip \<and> s - 60 * sec < t \<and> t \<le> s) A)" for A
    by (induction A) (auto simp: times_of_def in_window_def rate_window_def)
  ultimately show ?thesis by simp
qed (use assms(4) in simp)

lemma set_dset: "set (dset k v d) \<subseteq> insert (k, v) (set d)"
  by (induction d) auto

lemma rate_check_table:
  assumes "rate_check now ip l g = (r, g')" "\<forall>(k, v) \<in> set (rate_buckets g). v \<noteq> []" "1 \<le> l"
  shows "set (dkeys (rate_buckets g')) = insert ip (set (dkeys (rate_buckets g))) \<and> (\<forall>(k, v) \<in> set (rate_buckets g'). v \<noteq> [])"
proof -
  let ?b = "filter (\<lambda>t. t > now - rate_window) (dget_or (rate_buckets g) ip [])"
  define n where "n = dset ip (?b @ [now]) (rate_buckets g)"
  have keys: "set (dkeys (dset ip b (rate_buckets g))) = insert ip (set (dkeys (rate_buckets g)))" for b
    by (auto simp: dkeys_dset)
  have ne: "\<forall>(k, v) \<in> set (dset ip b (rate_buckets g)). v \<noteq> []" if "b \<noteq> []" for b
    using set_dset [of ip b "rate_buckets g"] that assms(2) by fastforce
  show ?thesis
  proof (cases "int (length ?b) \<ge> l")
    case True
    then have "?b \<noteq> []" using assms(3) by auto
    moreover have "rate_buckets g' = dset ip ?b (rate_buckets g)" using True assms(1) by (auto simp: rate_check_def)
    ultimately show ?thesis using ne keys by presburger
  next
    case False
    have n: "\<forall>(k, v) \<in> set n. v \<noteq> []" unfolding n_def by (rule ne) simp
    then have "filter (\<lambda>(k, v). v \<noteq> []) n = n" by (intro filter_True) auto
    then have "rate_buckets g' = n" using False assms(1) by (auto simp: rate_check_def Let_def n_def)
    then show ?thesis using n keys by (simp add: n_def)
  qed
qed

text \<open>The table of the limiter is never cleaned. Its purge removes the addresses with an empty bucket, and no bucket
  is ever empty: the table has an entry for every address that ever sent a request.\<close>

theorem rate_buckets_never_freed:
  assumes "rate_buckets g = []" "\<forall>(i, l, t) \<in> set rs. 1 \<le> l"
  shows "set (dkeys (rate_buckets (snd (rate_run rs g)))) = (\<lambda>(i, l, t). i) ` set rs"
proof -
  have "set (dkeys (rate_buckets (snd (rate_run rs g)))) = set (dkeys (rate_buckets g)) \<union> (\<lambda>(i, l, t). i) ` set rs"
    if "\<forall>(k, v) \<in> set (rate_buckets g). v \<noteq> []" "\<forall>(i, l, t) \<in> set rs. 1 \<le> l" for g :: "'a gate_scheme"
    using that
  proof (induction rs arbitrary: g)
    case (Cons x rs)
    obtain i l now where x: "x = (i, l, now)" by (cases x)
    obtain r g1 where r: "rate_check now i l g = (r, g1)" by fastforce
    from rate_check_table [OF r Cons.prems(1)] Cons.prems(2) have g1: "set (dkeys (rate_buckets g1)) = insert i (set (dkeys (rate_buckets g)))"
      "\<forall>(k, v) \<in> set (rate_buckets g1). v \<noteq> []" by (auto simp: x)
    from Cons.IH [OF g1(2)] Cons.prems(2) g1(1) show ?case by (cases "rate_run rs g1") (simp add: x r)
  qed simp
  from this [of g] assms show ?thesis by simp
qed

section \<open>Properties: authorisation\<close>

lemma require_scope_Inr:
  "require_scope conf env r s g = (Inr c, g') \<longleftrightarrow> auth_context conf env r g = (Inr c, g') \<and> has_scope c s"
  by (auto simp: require_scope_def act_bind_app split: prod.splits sum.splits if_splits)


text \<open>A server without a key behind its own proxy trusts a header of the client. The proxy appends the real address to
  what the client sent, and the first entry counts: \<open>X-Forwarded-For: 127.0.0.1\<close> gives every scope to anyone.\<close>

theorem forged_address_gets_every_scope:
  assumes "api_key conf = []" "peer_host r = Some p" "p \<in> set (trusted_proxies conf)"
    and "header r ''x-forwarded-for'' = ''127.0.0.1, '' @ real"
  shows "require_scope conf env r scope g = (Inr (full_ctx ''localhost'' ''127.0.0.1''), g)"
proof -
  have "until comma (header r ''x-forwarded-for'') = ''127.0.0.1''" by (simp add: assms(4) until_def comma_def)
  moreover have "strip ''127.0.0.1'' = ''127.0.0.1''" by code_simp
  ultimately have "client_ip conf r = ''127.0.0.1''" using assms(2,3) by (simp add: client_ip_def)
  then show ?thesis using assms(1) by (simp add: require_scope_def auth_context_def localhost_addrs_def has_scope_def full_ctx_def)
qed

section \<open>Witnesses\<close>

definition empty_gate :: gate where
  "empty_gate = \<lparr>rate_buckets = [], token_cache = (0, [])\<rparr>"

definition demo_conf :: "string \<Rightarrow> web_conf" where
  "demo_conf key = (web_conf_of (\<lambda>_. None))\<lparr>api_key := key\<rparr>"

definition demo_web_env :: web_env where
  "demo_web_env = \<lparr>w_now = 0, w_iso = [], tokens_setting = [], tokens_file = Doc (JObj [(''tokens'', JArr
     [JObj [(''token'', JStr ''t1''), (''scopes'', JArr [JStr ''command''])]])])\<rparr>"

theorem rate_limit_holds_witness:
  "length (filter (\<lambda>(i, t). i = ''a'' \<and> 70 * sec - 60 * sec < t \<and> t \<le> 70 * sec)
     (fst (rate_run [(''a'', 2, 0), (''a'', 2, 20 * sec), (''a'', 2, 30 * sec), (''b'', 2, 31 * sec), (''a'', 2, 70 * sec)] empty_gate))) = 2
   \<and> int (length (filter (\<lambda>(i, t). i = ''a'' \<and> 70 * sec - 60 * sec < t \<and> t \<le> 70 * sec)
     (fst (rate_run [(''a'', 2, 0), (''a'', 2, 20 * sec), (''a'', 2, 30 * sec), (''b'', 2, 31 * sec), (''a'', 2, 70 * sec)] empty_gate)))) \<le> 2"
proof -
  have "rate_buckets empty_gate = []" by (simp add: empty_gate_def)
  from rate_limit_holds [where g = empty_gate and ip = "''a''" and L = 2 and s = "70 * sec", OF this, of
    "[(''a'', 2, 0), (''a'', 2, 20 * sec), (''a'', 2, 30 * sec), (''b'', 2, 31 * sec), (''a'', 2, 70 * sec)]"]
  show ?thesis by (intro conjI) (code_simp, simp add: sec_def)
qed

theorem rate_buckets_never_freed_witness:
  "set (dkeys (rate_buckets (snd (rate_run [(''a'', 60, 0), (''b'', 60, 5000 * sec)] empty_gate)))) = {''a'', ''b''}"
  using rate_buckets_never_freed [of empty_gate "[(''a'', 60, 0), (''b'', 60, 5000 * sec)]"] by (simp add: empty_gate_def insert_commute)


theorem forged_address_gets_every_scope_witness:
  "require_scope (demo_conf []) demo_web_env
     \<lparr>peer_host = Some ''127.0.0.1'', headers = [(''x-forwarded-for'', ''127.0.0.1, 203.0.113.9'')]\<rparr> ''command'' empty_gate =
   (Inr (full_ctx ''localhost'' ''127.0.0.1''), empty_gate)"
proof -
  let ?r = "\<lparr>peer_host = Some ''127.0.0.1'', headers = [(''x-forwarded-for'', ''127.0.0.1, 203.0.113.9'')]\<rparr>"
  have "api_key (demo_conf []) = []" "''127.0.0.1'' \<in> set (trusted_proxies (demo_conf []))" by code_simp+
  from forged_address_gets_every_scope [OF this(1) _ this(2), of ?r "''203.0.113.9''" demo_web_env "''command''" empty_gate]
  show ?thesis by (simp add: header_def dget_or_def)
qed

end
