(* ===== verification/Live_Class.thy ===== *)
theory Live_Class
  imports Web_Gate
begin

text \<open>
  Model of the live class board of \<open>web/api.py\<close>: the state kept in memory and in a file, the actions of the
  teacher, the viewers, and the token that guards the board. The state is the dict of the code: an action
  changes the dict in memory step by step, so what was changed before an exception stays, and \<open>reset\<close> returns a
  new dict. Only one fresh identifier is used per request.
\<close>

section \<open>State\<close>

record live_world =
  class_state :: "obj option"
  class_file :: state_doc
  broadcasts :: "obj list"

record live_env =
  l_now :: int
  l_id :: string

definition default_class :: "'e live_env_scheme \<Rightarrow> obj" where
  "default_class env =
     [(''revision'', JInt 1), (''theme'', JStr ''dark''), (''title'', JStr ''Live Future Class''),
      (''subtitle'', JStr ''How computers, AI, and human intelligence can help people.''),
      (''status'', JStr ''Waiting for teacher''), (''teacher'', JStr ''Amit Ku Yadav''), (''room'', JStr ''Future Computer Class''),
      (''focusId'', JStr ''welcome''), (''viewers'', JObj []),
      (''blocks'', JArr [JObj [(''id'', JStr ''welcome''), (''type'', JStr ''text''),
         (''text'', JStr ''Welcome. This board updates live from the teacher terminal.''), (''createdAt'', JInt (l_now env))]]),
      (''updatedAt'', JInt (l_now env))]"

definition sanitize_text :: "json \<Rightarrow> nat \<Rightarrow> string" where
  "sanitize_text v n = take n (strip (filter (\<lambda>c. code c \<noteq> 13) (str_or v [])))"

definition mask_ip :: "string \<Rightarrow> string" where
  "mask_ip ip =
     (if ip = [] \<or> ip = ''unknown'' then ''unknown''
      else if CHR '':'' \<in> set ip then join '':'' (take 3 (split_char (CHR '':'') ip)) @ '':...''
      else case split_char (CHR ''.'') ip of
             [a, b, c, _] \<Rightarrow> a @ ''.'' @ b @ ''.'' @ c @ ''.x''
           | _ \<Rightarrow> take 8 ip @ ''...'')"

section \<open>Viewers\<close>

definition viewers_of :: "obj \<Rightarrow> obj" where
  "viewers_of s = (case jget s ''viewers'' of JObj v \<Rightarrow> v | _ \<Rightarrow> [])"

definition viewer_expired :: "int \<Rightarrow> json \<Rightarrow> bool outcome" where
  "viewer_expired now v =
     and_then (as_obj v) (\<lambda>d. and_then (py_int (py_or (dget_or d ''lastSeen'' (JInt 0)) (JInt 0))) (\<lambda>t. Inr (now - t > 70000)))"

definition keep_viewers :: "int \<Rightarrow> obj \<Rightarrow> obj outcome" where
  "keep_viewers now vs = filter_out (\<lambda>(k, v). and_then (viewer_expired now v) (\<lambda>e. Inr (\<not> e))) vs"

definition cleanup_viewers :: "'e live_env_scheme \<Rightarrow> (obj, unit) act" where
  "cleanup_viewers env =
     act_bind (act_get viewers_of) (\<lambda>vs.
     act_bind (act_of (keep_viewers (l_now env) vs)) (\<lambda>vs'.
     act_modify (dset ''viewers'' (JObj vs'))))"

definition viewer_line :: "obj \<Rightarrow> obj" where
  "viewer_line v =
     [(''id'', dget_or v ''id'' (JStr [])), (''name'', dget_or v ''name'' (JStr ''Guest Learner'')),
      (''device'', dget_or v ''device'' (JStr ''Browser'')), (''ip'', dget_or v ''ip'' (JStr ''IP hidden'')),
      (''joinedAt'', dget_or v ''joinedAt'' (JInt 0)), (''lastSeen'', dget_or v ''lastSeen'' (JInt 0))]"

text \<open>\<open>sorted(..., reverse=True)\<close>: numbers by value, strings by order, a mixture raises TypeError.\<close>

definition scaled :: "nat \<Rightarrow> json \<Rightarrow> int" where
  "scaled n v = (case num_parts v of Some (m, e) \<Rightarrow> m * 10 ^ (n - e) | None \<Rightarrow> 0)"

definition exponent_of :: "json \<Rightarrow> nat" where
  "exponent_of v = (case num_parts v of Some (m, e) \<Rightarrow> e | None \<Rightarrow> 0)"

definition sort_desc :: "('a \<Rightarrow> json) \<Rightarrow> 'a list \<Rightarrow> 'a list outcome" where
  "sort_desc f xs =
     (if length xs \<le> 1 then Inr xs
      else if list_all (\<lambda>x. is_num (f x)) xs
        then Inr (sort_by_desc (\<lambda>x. scaled (foldr max (map (exponent_of \<circ> f) xs) 0) (f x)) xs)
      else if list_all (\<lambda>x. is_str (f x)) xs then Inr (sort_by_desc (\<lambda>x. py_str (f x)) xs)
      else Inl TypeError)"

definition public_class :: "'e live_env_scheme \<Rightarrow> (obj, obj) act" where
  "public_class env =
     act_bind (cleanup_viewers env) (\<lambda>_.
     act_bind (act_get viewers_of) (\<lambda>vs.
     act_bind (act_of (sort_desc (\<lambda>v. dget_or v ''lastSeen'' (JInt 0)) (concat (map (\<lambda>(k, v). case v of JObj d \<Rightarrow> [viewer_line d] | _ \<Rightarrow> []) vs)))) (\<lambda>lines.
     act_get (dset ''viewers'' (JArr (map JObj (take 80 lines)))))))"

definition id_char :: "char \<Rightarrow> bool" where
  "id_char c = (is_alnum c \<or> c \<in> set ''_.:-'')"

definition join_viewer :: "'e live_env_scheme \<Rightarrow> obj \<Rightarrow> string \<Rightarrow> (obj, unit) act" where
  "join_viewer env body ip =
     (let raw = sanitize_text (dget_or body ''deviceId'' (JStr (l_id env))) 120;
          kept = take 120 (filter id_char raw);
          device_id = (if kept = [] then l_id env else kept);
          name = sanitize_text (dget_or body ''name'' (JStr ''Guest Learner'')) 80 in
      act_bind (act_get viewers_of) (\<lambda>vs.
      act_bind (act_of (case dget vs device_id of None \<Rightarrow> Inr (JInt (l_now env))
                          | Some v \<Rightarrow> and_then (as_obj v) (\<lambda>d. Inr (dget_or d ''joinedAt'' (JInt (l_now env)))))) (\<lambda>joined.
      act_modify (\<lambda>s. dset ''updatedAt'' (JInt (l_now env)) (dset ''viewers'' (JObj (dset device_id
        (JObj [(''id'', JStr device_id), (''name'', JStr (if name = [] then ''Guest Learner'' else name)),
               (''device'', JStr (sanitize_text (dget_or body ''device'' (JStr ''Browser'')) 120)), (''ip'', JStr (mask_ip ip)),
               (''joinedAt'', joined), (''lastSeen'', JInt (l_now env))]) vs)) s)))))"

section \<open>Loading and saving\<close>

definition text_keys :: "string list" where
  "text_keys = [''theme'', ''title'', ''subtitle'', ''status'', ''teacher'', ''room'', ''focusId'']"

definition restore_text :: "obj \<Rightarrow> string \<Rightarrow> obj \<Rightarrow> obj" where
  "restore_text s k fresh =
     (case jget s k of
        JStr t \<Rightarrow> if t = [] then fresh
                 else dset k (JStr (sanitize_text (JStr t) (if k \<in> {''title'', ''subtitle'', ''status'', ''teacher'', ''room''} then 5000 else 120))) fresh
      | _ \<Rightarrow> fresh)"

definition block_ok :: "json \<Rightarrow> bool" where
  "block_ok b = (case b of JObj d \<Rightarrow> truthy (jget d ''type'') | _ \<Rightarrow> False)"

definition restore_class :: "'e live_env_scheme \<Rightarrow> obj \<Rightarrow> obj" where
  "restore_class env s =
     (let f0 = fold (restore_text s) text_keys (default_class env);
          f1 = dset ''revision'' (JInt (case py_int (dget_or s ''revision'' (JInt 1)) of Inr i \<Rightarrow> max 1 i | Inl _ \<Rightarrow> 1)) f0;
          f2 = (case py_int (dget_or s ''updatedAt'' (JInt (l_now env))) of Inr i \<Rightarrow> dset ''updatedAt'' (JInt i) f1 | Inl _ \<Rightarrow> f1);
          f3 = (case jget s ''blocks'' of JArr bs \<Rightarrow> dset ''blocks'' (JArr (lastn 80 (filter block_ok bs))) f2 | _ \<Rightarrow> f2) in
      dset ''viewers'' (case jget s ''viewers'' of JObj v \<Rightarrow> JObj v | _ \<Rightarrow> JObj []) f3)"

definition initial_class :: "'e live_env_scheme \<Rightarrow> state_doc \<Rightarrow> obj" where
  "initial_class env f =
     (case read_json f of JObj s \<Rightarrow> if s = [] then default_class env else restore_class env s | _ \<Rightarrow> default_class env)"

text \<open>A call on the dict in memory; it is loaded first when there is none.\<close>

definition in_memory :: "'e live_env_scheme \<Rightarrow> (obj, 'a) act \<Rightarrow> ('w live_world_scheme, 'a) act" where
  "in_memory env m = (\<lambda>w. case class_state w of
     None \<Rightarrow> (case act_bind (cleanup_viewers env) (\<lambda>_. m) (initial_class env (class_file w)) of (r, s) \<Rightarrow> (r, w\<lparr>class_state := Some s\<rparr>))
   | Some s0 \<Rightarrow> (case m s0 of (r, s) \<Rightarrow> (r, w\<lparr>class_state := Some s\<rparr>)))"

definition get_live_class_state :: "'e live_env_scheme \<Rightarrow> ('w live_world_scheme, obj) act" where
  "get_live_class_state env = in_memory env (act_bind (cleanup_viewers env) (\<lambda>_. public_class env))"

section \<open>Actions of the teacher\<close>

definition blocks_of :: "obj \<Rightarrow> json list" where
  "blocks_of s = (case jget s ''blocks'' of JArr bs \<Rightarrow> bs | _ \<Rightarrow> [])"

definition add_block :: "'e live_env_scheme \<Rightarrow> string \<Rightarrow> string \<Rightarrow> obj \<Rightarrow> obj \<Rightarrow> obj" where
  "add_block env t text extra s =
     (let clean = sanitize_text (JStr text) (if t = ''code'' then 12000 else 5000);
          block = dupdate [(''id'', JStr (l_id env)), (''type'', JStr t), (''text'', JStr clean), (''createdAt'', JInt (l_now env))] extra in
      if clean = [] \<and> t \<noteq> ''divider'' then s
      else dset ''blocks'' (JArr (lastn 80 (blocks_of s @ [JObj block]))) (dset ''focusId'' (JStr (l_id env)) s))"

definition field_id :: "json \<Rightarrow> json outcome" where
  "field_id b = and_then (as_obj b) (\<lambda>d. subscript d ''id'')"

definition undo_block :: "(obj, unit) act" where
  "undo_block =
     act_bind (act_modify (\<lambda>s. dset ''blocks'' (JArr (butlast (blocks_of s))) s)) (\<lambda>_.
     act_bind (act_get blocks_of) (\<lambda>bs.
     act_bind (act_of (if bs = [] then Inr (JStr []) else field_id (last bs))) (\<lambda>i. act_modify (dset ''focusId'' i))))"

definition focus_target :: "string \<Rightarrow> json list \<Rightarrow> obj option" where
  "focus_target value bs =
     (let i = (case int_of_str value of Some i \<Rightarrow> i | None \<Rightarrow> 0);
          objs = concat (map (\<lambda>b. case b of JObj d \<Rightarrow> [d] | _ \<Rightarrow> []) bs) in
      if 1 \<le> i \<and> i \<le> int (length objs) then Some (objs ! nat (i - 1))
      else List.find (\<lambda>d. py_eq (jget d ''id'') (JStr value)) objs)"

definition focus_block :: "string \<Rightarrow> obj \<Rightarrow> obj" where
  "focus_block value s =
     (case focus_target value (blocks_of s) of
        Some d \<Rightarrow> if d = [] then s else dset ''focusId'' (dget_or d ''id'' (dget_or s ''focusId'' (JStr []))) s
      | None \<Rightarrow> s)"

definition or_kept :: "string \<Rightarrow> obj \<Rightarrow> string \<Rightarrow> string \<Rightarrow> json" where
  "or_kept value s k d = (if value \<noteq> [] then JStr value else dget_or s k (JStr d))"

definition block_actions :: "'e live_env_scheme \<Rightarrow> obj \<Rightarrow> string \<Rightarrow> (string \<times> (obj \<Rightarrow> obj)) list" where
  "block_actions env body value =
     (let text = (\<lambda>t. add_block env t value []);
          url = (\<lambda>d. [(''url'', JStr (sanitize_text (dget_or body ''url'' (JStr d)) 2000))]) in
      [(''title'', \<lambda>s. (let s1 = dset ''title'' (or_kept value s ''title'' ''Live Future Class'') s in
          if jget body ''subtitle'' \<noteq> JNull then dset ''subtitle'' (JStr (sanitize_text (jget body ''subtitle'') 500)) s1 else s1)),
       (''subtitle'', dset ''subtitle'' (JStr value)),
       (''teacher'', \<lambda>s. dset ''teacher'' (or_kept value s ''teacher'' ''Teacher'') s),
       (''room'', \<lambda>s. dset ''room'' (or_kept value s ''room'' ''Future Class'') s),
       (''status'', dset ''status'' (JStr (if value = [] then ''Live'' else value))),
       (''theme'', dset ''theme'' (JStr (if value = ''light'' then ''light'' else ''dark''))),
       (''write'', text ''text''), (''text'', text ''text''), (''w'', text ''text''),
       (''heading'', text ''heading''), (''h'', text ''heading''),
       (''code'', add_block env ''code'' value [(''language'', JStr (sanitize_text (dget_or body ''language'' (JStr ''text'')) 40))]),
       (''list'', text ''list''), (''quote'', text ''quote''), (''homework'', text ''homework''),
       (''link'', add_block env ''link'' (sanitize_text (dget_or body ''label'' (JStr value)) 500) (url value)),
       (''image'', add_block env ''image'' (sanitize_text (dget_or body ''caption'' (JStr [])) 500) (url value)),
       (''divider'', add_block env ''divider'' [] []),
       (''focus'', focus_block value),
       (''clear'', \<lambda>s. dset ''focusId'' (JStr []) (dset ''blocks'' (JArr []) s))])"

definition bump_revision :: "'e live_env_scheme \<Rightarrow> string \<Rightarrow> (obj, obj) act" where
  "bump_revision env action =
     act_bind (act_get (\<lambda>s. dget_or s ''revision'' (JInt 1))) (\<lambda>r.
     act_bind (act_of (py_int r)) (\<lambda>i.
     act_bind (act_modify (\<lambda>s. dset ''updatedAt'' (JInt (l_now env)) (dset ''revision'' (JInt (i + 1)) s))) (\<lambda>_.
     act_bind (act_modify (\<lambda>s. if action \<noteq> ''status'' then dset ''status'' (JStr ''Live now'') s else s)) (\<lambda>_.
     act_get (\<lambda>s. s)))))"

text \<open>The result is the dict the code returns: the one in memory, or for \<open>reset\<close> a new one.\<close>

definition apply_class_action :: "'e live_env_scheme \<Rightarrow> obj \<Rightarrow> (obj, obj) act" where
  "apply_class_action env body =
     (let action = lower (sanitize_text (dget_or body ''action'' (JStr [])) 40);
          value = sanitize_text (dget_or body ''value'' (dget_or body ''text'' (JStr []))) 12000 in
      if action = ''state'' then act_get (\<lambda>s. s)
      else if action = ''reset'' then act_return (default_class env)
      else if action = ''undo'' then act_bind undo_block (\<lambda>_. bump_revision env action)
      else case map_of (block_actions env body value) action of
             Some f \<Rightarrow> act_bind (act_modify f) (\<lambda>_. bump_revision env action)
           | None \<Rightarrow> act_raise (HTTPException 400 ''Unknown action''))"

definition class_token :: "request \<Rightarrow> obj \<Rightarrow> string" where
  "class_token r body =
     (let auth = header r ''authorization''; x = header r ''x-live-class-token'' in
      if startswith (lower auth) ''bearer '' then strip (drop 7 auth)
      else strip (if x \<noteq> [] then x else py_str (dget_or body ''token'' (JStr []))))"

text \<open>Saving and the broadcast of the dict \<open>d\<close>; when it is the dict in memory, the clean-up of the viewers is done there.\<close>

definition publish :: "'e live_env_scheme \<Rightarrow> bool \<Rightarrow> obj \<Rightarrow> ('w live_world_scheme, obj) act" where
  "publish env shared d =
     act_bind (act_modify (\<lambda>w. w\<lparr>class_file := Doc (JObj d)\<rparr>)) (\<lambda>_.
     act_bind (if shared then in_memory env (public_class env) else act_of (fst (public_class env d))) (\<lambda>p.
     act_bind (act_modify (\<lambda>w. w\<lparr>broadcasts := broadcasts w @ [p]\<rparr>)) (\<lambda>_.
     act_return p)))"

definition update_live_class_state :: "web_conf \<Rightarrow> 'e live_env_scheme \<Rightarrow> obj \<Rightarrow> request \<Rightarrow> ('w live_world_scheme, obj) act" where
  "update_live_class_state conf env body r =
     (let action = lower (sanitize_text (dget_or body ''action'' (JStr [])) 40);
          expected = (if live_token conf \<noteq> [] then live_token conf else api_key conf) in
      if action = ''state'' then in_memory env (act_bind (cleanup_viewers env) (\<lambda>_. public_class env))
      else if action = ''join'' then
        act_bind (in_memory env (act_bind (join_viewer env body (client_ip conf r)) (\<lambda>_. act_get (\<lambda>s. s)))) (publish env True)
      else if expected = [] then
        act_bind (in_memory env (act_return ())) (\<lambda>_. act_raise (HTTPException 503 ''LIVE_CLASS_TOKEN is not configured on the server.''))
      else if class_token r body \<noteq> expected then
        act_bind (in_memory env (act_return ())) (\<lambda>_. act_raise (HTTPException 401 ''Unauthorized live class command.''))
      else act_bind (in_memory env (apply_class_action env body)) (publish env (action \<noteq> ''reset'')))"

section \<open>The shape of the board\<close>

definition rev_ok :: "json \<Rightarrow> bool" where
  "rev_ok v = (case v of JInt r \<Rightarrow> 1 \<le> r | _ \<Rightarrow> False)"

definition blocks_ok :: "json \<Rightarrow> bool" where
  "blocks_ok v = (case v of JArr bs \<Rightarrow> length bs \<le> 80 \<and> list_all block_ok bs | _ \<Rightarrow> False)"

definition title_keys :: "string list" where
  "title_keys = [''theme'', ''title'', ''subtitle'', ''status'', ''teacher'', ''room'']"

definition board_ok :: "obj \<Rightarrow> bool" where
  "board_ok s = (blocks_ok (jget s ''blocks'') \<and> rev_ok (jget s ''revision'') \<and> is_obj (jget s ''viewers'') \<and>
     list_all (\<lambda>k. is_str (jget s k)) title_keys)"

lemma board_ok_set:
  assumes "board_ok s" "k = ''blocks'' \<Longrightarrow> blocks_ok v" "k = ''revision'' \<Longrightarrow> rev_ok v" "k = ''viewers'' \<Longrightarrow> is_obj v"
    "k \<in> set title_keys \<Longrightarrow> is_str v"
  shows "board_ok (dset k v s)"
  using assms by (auto simp: board_ok_def title_keys_def split: if_splits)

lemma board_ok_free:
  "board_ok s \<Longrightarrow> board_ok (dset ''focusId'' v s)" "board_ok s \<Longrightarrow> board_ok (dset ''updatedAt'' v s)"
  by (rule board_ok_set; simp add: title_keys_def)+

lemma board_ok_typed:
  "board_ok s \<Longrightarrow> blocks_ok v \<Longrightarrow> board_ok (dset ''blocks'' v s)"
  "board_ok s \<Longrightarrow> rev_ok v \<Longrightarrow> board_ok (dset ''revision'' v s)"
  "board_ok s \<Longrightarrow> is_obj v \<Longrightarrow> board_ok (dset ''viewers'' v s)"
  by (rule board_ok_set; simp add: title_keys_def)+

lemma board_ok_title: "board_ok s \<Longrightarrow> k \<in> set title_keys \<Longrightarrow> is_str v \<Longrightarrow> board_ok (dset k v s)"
  by (rule board_ok_set) (auto simp: title_keys_def)

lemma title_keysI:
  "''theme'' \<in> set title_keys" "''title'' \<in> set title_keys" "''subtitle'' \<in> set title_keys" "''status'' \<in> set title_keys"
  "''teacher'' \<in> set title_keys" "''room'' \<in> set title_keys"
  by (simp_all add: title_keys_def)

lemmas board_intros = board_ok_free board_ok_typed board_ok_title [OF _ title_keysI(1)] board_ok_title [OF _ title_keysI(2)]
  board_ok_title [OF _ title_keysI(3)] board_ok_title [OF _ title_keysI(4)] board_ok_title [OF _ title_keysI(5)]
  board_ok_title [OF _ title_keysI(6)]

lemma board_ok_blocks: "board_ok s \<Longrightarrow> jget s ''blocks'' = JArr (blocks_of s) \<and> length (blocks_of s) \<le> 80 \<and> list_all block_ok (blocks_of s)"
  by (auto simp: board_ok_def blocks_ok_def blocks_of_def split: json.splits)

lemma board_ok_default: "board_ok (default_class env)"
  by (simp add: board_ok_def default_class_def dget_or_def blocks_ok_def block_ok_def rev_ok_def title_keys_def)

lemma board_ok_restore_text: "board_ok (restore_text d k s)" if "k \<in> set text_keys" "board_ok s"
proof -
  have "k = ''focusId'' \<or> k \<in> set title_keys" using that(1) by (auto simp: text_keys_def title_keys_def)
  then have "board_ok (dset k (JStr v) s)" for v
    using that(2) by (auto intro: board_ok_free board_ok_title)
  then show ?thesis using that(2) unfolding restore_text_def by (simp del: insert_iff split: json.split)
qed

lemma board_ok_fold: "board_ok s \<Longrightarrow> set ks \<subseteq> set text_keys \<Longrightarrow> board_ok (fold (restore_text d) ks s)"
  by (induction ks arbitrary: s) (simp_all add: board_ok_restore_text)

lemma list_all_filter: "list_all P (filter P xs)"
  by (simp add: list_all_iff)

lemma list_all_lastn: "list_all P xs \<Longrightarrow> list_all P (lastn n xs)"
  using set_lastn_subset [of n xs] by (auto simp: list_all_iff)

lemma board_ok_initial: "board_ok (initial_class env f)"
proof -
  have kept: "blocks_ok (JArr (lastn 80 (filter block_ok bs)))" for bs
    by (simp add: blocks_ok_def list_all_lastn list_all_filter)
  have "rev_ok (JInt (max 1 i))" "rev_ok (JInt 1)" for i by (simp_all add: rev_ok_def)
  with kept have "board_ok (restore_class env s)" for s
    unfolding restore_class_def Let_def
    by (intro board_intros) (auto simp only: is_obj.simps split: json.split sum.split intro!: board_intros board_ok_fold board_ok_default)
  then show ?thesis by (auto simp: initial_class_def board_ok_default split: json.split)
qed

lemma board_ok_viewers: "preserves board_ok (cleanup_viewers env)" "preserves board_ok (public_class env)"
  "preserves board_ok (join_viewer env body ip)"
  unfolding cleanup_viewers_def public_class_def join_viewer_def Let_def
  by (intro preserve_intros preserves_modify board_intros; simp)+

lemma board_ok_undo: "preserves board_ok undo_block"
proof -
  have "board_ok (dset ''blocks'' (JArr (butlast (blocks_of s))) s)" if "board_ok s" for s
    using board_ok_blocks [OF that] that
    by (intro board_intros) (auto simp: blocks_ok_def list_all_iff dest: in_set_butlastD)
  then have "preserves board_ok (act_modify (\<lambda>s. dset ''blocks'' (JArr (butlast (blocks_of s))) s))"
    by (rule preserves_modify)
  moreover have "preserves board_ok (act_modify (dset ''focusId'' i))" for i
    by (rule preserves_modify) (rule board_ok_free)
  ultimately show ?thesis unfolding undo_block_def by (intro preserves_bind preserves_base)
qed

lemma board_ok_bump: "preserves board_ok (bump_revision env action)"
proof -
  have "board_ok (snd (bump_revision env action s))" if ok: "board_ok s" for s
  proof -
    from ok obtain r where r: "jget s ''revision'' = JInt r" "1 \<le> r"
      by (auto simp: board_ok_def rev_ok_def split: json.splits)
    then have "dget_or s ''revision'' (JInt 1) = JInt r" by (simp add: dget_or_def split: option.splits)
    with r ok show ?thesis
      by (simp add: bump_revision_def act_bind_app rev_ok_def) (auto intro!: board_intros simp: rev_ok_def)
  qed
  then show ?thesis by (simp add: preserves_def)
qed

lemma board_ok_add:
  assumes "board_ok s" "t \<noteq> []" "\<not> dhas extra ''type''"
  shows "board_ok (add_block env t text extra s)"
proof -
  have type: "map_of (dupdate d e) k = map_of d k" if "\<not> dhas e k" for d e :: obj and k
    using that by (induction d e rule: dupdate.induct) (auto simp: dhas_def split: if_splits)
  have "block_ok (JObj (dupdate [(''id'', i), (''type'', JStr t), (''text'', c), (''createdAt'', n)] extra))" for i c n
    using assms(2) by (simp add: block_ok_def dget_or_def type [OF assms(3)])
  then have "blocks_ok (JArr (lastn 80 (blocks_of s @ [JObj (dupdate [(''id'', i), (''type'', JStr t), (''text'', c), (''createdAt'', n)] extra)])))" for i c n
    using board_ok_blocks [OF assms(1)] by (simp add: blocks_ok_def list_all_lastn)
  then show ?thesis unfolding add_block_def Let_def
    using assms(1) by (auto intro!: board_intros)
qed

lemma board_ok_or_kept: "board_ok s \<Longrightarrow> k \<in> set title_keys \<Longrightarrow> is_str (or_kept value s k d)"
  by (auto simp: or_kept_def board_ok_def list_all_iff dget_or_def split: option.splits)

lemma board_ok_actions:
  assumes "board_ok s" "(a, f) \<in> set (block_actions env body value)"
  shows "board_ok (f s)"
proof -
  have kept: "is_str (or_kept value s k d)" if "k \<in> set title_keys" for k d
    using assms(1) that by (rule board_ok_or_kept)
  have empty: "blocks_ok (JArr [])" by (simp add: blocks_ok_def)
  from assms(2) show ?thesis
    unfolding block_actions_def Let_def list.set insert_iff prod.inject empty_iff
    apply (elim disjE FalseE conjE; hypsubst)
    using assms(1) kept empty
    by (simp_all add: dhas_def focus_block_def title_keysI board_intros board_ok_add split: option.split)
qed

lemma board_ok_apply: "preserves board_ok (apply_class_action env body)"
proof -
  have step: "preserves board_ok (act_bind (act_modify f) (\<lambda>_. bump_revision env a))"
    if "map_of (block_actions env body v) b = Some f" for f a b v
    using board_ok_actions [OF _ map_of_SomeD [OF that]]
    by (intro preserve_intros preserves_modify board_ok_bump) 
  show ?thesis unfolding apply_class_action_def Let_def
    by (auto intro!: preserve_intros board_ok_undo board_ok_bump step split: option.split)
qed

definition class_ok :: "'w live_world_scheme \<Rightarrow> bool" where
  "class_ok w = (case class_state w of None \<Rightarrow> True | Some s \<Rightarrow> board_ok s)"

lemma class_ok_in_memory: "preserves board_ok m \<Longrightarrow> preserves class_ok (in_memory env m)"
  using preserves_bind [OF board_ok_viewers(1), of "\<lambda>_. m" env]
  by (auto simp: preserves_def class_ok_def in_memory_def board_ok_initial split: option.split prod.split) (metis snd_conv board_ok_initial)+

lemma class_ok_publish: "preserves class_ok (publish env b d)"
  unfolding publish_def
  by (cases b; simp; intro preserve_intros class_ok_in_memory board_ok_viewers preserves_modify; simp add: class_ok_def)

lemma class_ok_update: "preserves class_ok (update_live_class_state conf env body r)"
  unfolding update_live_class_state_def Let_def
  by (simp; intro conjI impI; intro preserve_intros class_ok_in_memory class_ok_publish board_ok_viewers board_ok_apply)

lemma class_ok_get: "preserves class_ok (get_live_class_state env)"
  unfolding get_live_class_state_def by (intro preserve_intros class_ok_in_memory board_ok_viewers)

text \<open>The requests a server gets, in order; an answer or an exception ends one request, not the server.\<close>

datatype class_call = Read | Send obj request

fun serve_class :: "web_conf \<Rightarrow> (live_env \<times> class_call) list \<Rightarrow> 'w live_world_scheme \<Rightarrow> 'w live_world_scheme" where
  "serve_class conf [] w = w"
| "serve_class conf ((env, c) # cs) w =
     serve_class conf cs (snd ((case c of Read \<Rightarrow> get_live_class_state env | Send b r \<Rightarrow> update_live_class_state conf env b r) w))"

lemma class_ok_serve: "class_ok w \<Longrightarrow> class_ok (serve_class conf cs w)"
  by (induction conf cs w rule: serve_class.induct)
    (auto split: class_call.split simp: preservesD [OF class_ok_get] preservesD [OF class_ok_update])

text \<open>C24: the board has its type at all times. Whatever the file held when the server started and whatever requests it got,
  authorised or not, failed or not, the board in memory has at most 80 blocks, each with a type, a revision of at least one,
  a table of viewers, and texts in its title fields.\<close>

theorem class_board_typed:
  assumes "class_state w = None" "class_state (serve_class conf cs w) = Some s"
  shows "(\<exists>bs. jget s ''blocks'' = JArr bs \<and> length bs \<le> 80 \<and> list_all block_ok bs) \<and> (\<exists>r \<ge> 1. jget s ''revision'' = JInt r)
    \<and> is_obj (jget s ''viewers'') \<and> list_all (\<lambda>k. is_str (jget s k)) title_keys"
proof -
  have "class_ok w" by (simp add: class_ok_def assms(1))
  then have "class_ok (serve_class conf cs w)" by (rule class_ok_serve)
  then have "board_ok s" by (simp add: class_ok_def assms(2))
  then show ?thesis by (auto simp: board_ok_def blocks_ok_def rev_ok_def split: json.splits)
qed

section \<open>Who may change the board\<close>

lemma keeps_viewers:
  "k \<noteq> ''viewers'' \<Longrightarrow> keeps (\<lambda>s. map_of s k) (cleanup_viewers env)" "k \<noteq> ''viewers'' \<Longrightarrow> keeps (\<lambda>s. map_of s k) (public_class env)"
  "k \<noteq> ''viewers'' \<Longrightarrow> k \<noteq> ''updatedAt'' \<Longrightarrow> keeps (\<lambda>s. map_of s k) (join_viewer env body ip)"
  by (auto simp: cleanup_viewers_def public_class_def join_viewer_def Let_def intro!: frame_intros keeps_modify)

definition on_board :: "string \<Rightarrow> 'w live_world_scheme \<Rightarrow> json option" where
  "on_board k w = (case class_state w of None \<Rightarrow> None | Some s \<Rightarrow> map_of s k)"

lemma on_board_in_memory:
  assumes "keeps (\<lambda>s. map_of s k) m" "class_state w = Some s"
  shows "on_board k (snd (in_memory env m w)) = on_board k w \<and> class_state (snd (in_memory env m w)) \<noteq> None"
  using assms(1) by (auto simp: on_board_def in_memory_def assms(2) keeps_def split: prod.split) (metis snd_conv)

text \<open>C11: without the token nobody changes what the class sees. A request that does not carry the token (or reaches a
  server that has none) leaves every field of the board but the viewers and the time of the last update as it was.\<close>

theorem class_needs_token:
  fixes w :: "'w live_world_scheme"
  assumes "class_state w = Some s" "k \<notin> {''viewers'', ''updatedAt''}"
    and "expected = (if live_token conf \<noteq> [] then live_token conf else api_key conf)"
    and "expected = [] \<or> class_token r body \<noteq> expected"
  shows "on_board k (snd (update_live_class_state conf env body r w)) = on_board k w"
proof -
  define I where "I = (\<lambda>w' :: 'w live_world_scheme. class_state w' \<noteq> None \<and> on_board k w' = on_board k w)"
  have mem: "preserves I (in_memory env m)" if "keeps (\<lambda>s. map_of s k) m" for m :: "(obj, 'x) act"
    using on_board_in_memory [OF that] by (force simp: preserves_def I_def)
  have keys: "k \<noteq> ''viewers''" "k \<noteq> ''updatedAt''" using assms(2) by auto
  have pub: "preserves I (publish env True d)" for d
    unfolding publish_def if_True
    by (intro preserve_intros mem keeps_viewers keys preserves_modify) (simp_all add: I_def on_board_def)
  have "preserves I (update_live_class_state conf env body r)"
    unfolding update_live_class_state_def Let_def assms(3) [symmetric]
    using assms(4)
    by (auto intro!: preserve_intros mem pub frame_intros keeps_viewers keys)
  moreover have "I w" by (simp add: I_def assms(1))
  ultimately show ?thesis by (auto simp: I_def dest: preservesD)
qed

section \<open>Reset\<close>

lemma public_class_fields:
  assumes "public_class env s = (Inr p, s')" "k \<noteq> ''viewers''"
  shows "map_of p k = map_of s k"
proof -
  from assms(1) obtain t ls where clean: "cleanup_viewers env s = (Inr (), t)" and p: "p = dset ''viewers'' (JArr ls) t"
    by (auto simp: public_class_def act_bind_Inr)
  from keepsD [OF keeps_viewers(1) [OF assms(2)] clean] show ?thesis using assms(2) by (simp add: p)
qed

lemma get_class_fields:
  assumes "class_state w = Some s" "get_live_class_state env w = (Inr p, w')" "k \<noteq> ''viewers''"
  shows "map_of p k = map_of s k"
proof -
  from assms(2) obtain t s' where "cleanup_viewers env s = (Inr (), t)" "public_class env t = (Inr p, s')"
    by (auto simp: get_live_class_state_def in_memory_def assms(1) act_bind_Inr split: prod.splits)
  with public_class_fields [OF _ assms(3)] keepsD [OF keeps_viewers(1) [OF assms(3)]] show ?thesis by metis
qed

text \<open>A reset is not one. The teacher's \<open>reset\<close> is answered with a fresh board, which is sent to the viewers and saved,
  but the board in memory stays the old one, and the next request shows it again.\<close>

theorem reset_is_forgotten:
  assumes "class_state w = Some s" "dget body ''action'' = Some (JStr ''reset'')"
    and "class_token r body = live_token conf" "live_token conf \<noteq> []"
    and "get_live_class_state env' (snd (update_live_class_state conf env body r w)) = (Inr p, w')"
  shows "class_file (snd (update_live_class_state conf env body r w)) = Doc (JObj (default_class env))
    \<and> (\<forall>k. k \<noteq> ''viewers'' \<longrightarrow> dget p k = dget s k)"
proof -
  have act: "dget_or body ''action'' (JStr []) = JStr ''reset''" by (simp add: dget_or_def assms(2))
  have low: "lower (sanitize_text (JStr ''reset'') 40) = ''reset''" by code_simp
  let ?w = "snd (update_live_class_state conf env body r w)"
  have same: "w\<lparr>class_state := Some s\<rparr> = w" using assms(1) by (cases w) simp
  have "update_live_class_state conf env body r w = publish env False (default_class env) w"
    using assms(1,3,4)
    by (simp add: update_live_class_state_def apply_class_action_def act low in_memory_def act_bind_app same)
  then have upd: "class_state ?w = Some s" "class_file ?w = Doc (JObj (default_class env))"
    using assms(1) by (simp_all add: publish_def act_bind_app split: prod.split sum.split)
  show ?thesis using upd(2) get_class_fields [OF upd(1) assms(5)] by blast
qed

section \<open>Witnesses\<close>

definition demo_live_env :: live_env where
  "demo_live_env = \<lparr>l_now = 1000, l_id = ''b1''\<rparr>"

definition demo_board :: obj where
  "demo_board = dset ''title'' (JStr ''Loops'') (default_class demo_live_env)"

definition live_conf :: web_conf where
  "live_conf = (demo_conf [])\<lparr>live_token := ''t''\<rparr>"

definition ask :: "string \<Rightarrow> request" where
  "ask token = \<lparr>peer_host = Some ''10.0.0.1'', headers = [(''x-live-class-token'', token)]\<rparr>"

definition demo_live :: "obj option \<Rightarrow> live_world" where
  "demo_live s = \<lparr>class_state = s, class_file = Missing, broadcasts = []\<rparr>"

theorem class_board_typed_witness:
  "case class_state (serve_class live_conf [(demo_live_env, Send [(''action'', JStr ''write''), (''text'', JStr ''x = 1'')] (ask ''t'')),
      (demo_live_env, Read)] (demo_live None)) of None \<Rightarrow> False
    | Some s \<Rightarrow> \<exists>bs. jget s ''blocks'' = JArr bs \<and> length bs = 2 \<and> length bs \<le> 80"
proof -
  let ?w = "serve_class live_conf [(demo_live_env, Send [(''action'', JStr ''write''), (''text'', JStr ''x = 1'')] (ask ''t'')),
      (demo_live_env, Read)] (demo_live None)"
  have "case class_state ?w of None \<Rightarrow> False | Some s \<Rightarrow> length (blocks_of s) = 2" by code_simp
  then obtain s where s: "class_state ?w = Some s" "length (blocks_of s) = 2" by (auto split: option.splits)
  from class_board_typed [OF _ s(1)] s show ?thesis by (auto simp: demo_live_def blocks_of_def)
qed

theorem class_needs_token_witness:
  "on_board ''title'' (snd (update_live_class_state live_conf demo_live_env [(''action'', JStr ''clear'')] (ask ''wrong'')
      (demo_live (Some demo_board)))) = Some (JStr ''Loops'')"
proof -
  have "live_token live_conf \<noteq> []" "class_token (ask ''wrong'') [(''action'', JStr ''clear'')] \<noteq> live_token live_conf"
    "on_board ''title'' (demo_live (Some demo_board)) = Some (JStr ''Loops'')"
    by code_simp+
  with class_needs_token [of "demo_live (Some demo_board)" demo_board "''title''" "live_token live_conf" live_conf
    "ask ''wrong''" "[(''action'', JStr ''clear'')]" demo_live_env]
  show ?thesis by (simp add: demo_live_def)
qed

theorem reset_is_forgotten_witness:
  "let w = snd (update_live_class_state live_conf demo_live_env [(''action'', JStr ''reset'')] (ask ''t'') (demo_live (Some demo_board)))
   in class_file w = Doc (JObj (default_class demo_live_env))
     \<and> (\<exists>p w'. get_live_class_state demo_live_env w = (Inr p, w') \<and> dget p ''title'' = Some (JStr ''Loops''))"
proof -
  let ?w = "snd (update_live_class_state live_conf demo_live_env [(''action'', JStr ''reset'')] (ask ''t'') (demo_live (Some demo_board)))"
  have "case get_live_class_state demo_live_env ?w of (Inr p, w') \<Rightarrow> True | (Inl e, w') \<Rightarrow> False" by code_simp
  then obtain p w' where get: "get_live_class_state demo_live_env ?w = (Inr p, w')" by (auto split: prod.splits sum.splits)
  have "class_token (ask ''t'') [(''action'', JStr ''reset'')] = live_token live_conf" "live_token live_conf \<noteq> []"
    "dget demo_board ''title'' = Some (JStr ''Loops'')"
    by code_simp+
  with reset_is_forgotten [OF _ _ _ _ get, of demo_board] get show ?thesis by (simp add: demo_live_def Let_def)
qed

end
