(* ===== verification/PyDump.thy ===== *)
theory PyDump
  imports PyJson
begin

text \<open>
  \<open>json.dumps(x, ensure_ascii=False)\<close> with the default separators, and the proof that the parser of theory
  \<open>PyJson\<close> reads back what it writes. A value is \<open>dumpable\<close> when its dicts have no duplicate keys and its
  floats are in the normal form of theory \<open>PyValue\<close>.
\<close>

section \<open>The printer\<close>

definition dump_char :: "char \<Rightarrow> string" where
  "dump_char c =
     (let n = code c; b = char_of (92::nat) in
      if n = 34 \<or> n = 92 then [b, c]
      else if n = 10 then [b, CHR ''n''] else if n = 13 then [b, CHR ''r''] else if n = 9 then [b, CHR ''t'']
      else if n = 8 then [b, CHR ''b''] else if n = 12 then [b, CHR ''f'']
      else if n < 32 then [b, CHR ''u'', CHR ''0'', CHR ''0'', hex_digit (n div 16), hex_digit (n mod 16)]
      else [c])"

definition quote_char :: char where
  "quote_char = char_of (34::nat)"

definition dump_str :: "string \<Rightarrow> string" where
  "dump_str s = quote_char # concat (map dump_char s) @ [quote_char]"

fun json_dumps :: "json \<Rightarrow> string" where
  "json_dumps JNull = ''null''"
| "json_dumps (JBool b) = (if b then ''true'' else ''false'')"
| "json_dumps (JInt i) = show_int i"
| "json_dumps (JDec m e) = show_dec m e"
| "json_dumps (JStr s) = dump_str s"
| "json_dumps (JArr xs) = ''['' @ join '', '' (map json_dumps xs) @ '']''"
| "json_dumps (JObj d) = ''{'' @ join '', '' (map (\<lambda>p. dump_str (fst p) @ '': '' @ json_dumps (snd p)) d) @ ''}''"

fun dumpable :: "json \<Rightarrow> bool" where
  "dumpable (JDec m e) = (1 \<le> e \<and> (e = 1 \<or> m mod 10 \<noteq> 0))"
| "dumpable (JArr xs) = list_all dumpable xs"
| "dumpable (JObj d) = (distinct (map fst d) \<and> list_all (\<lambda>p. dumpable (snd p)) d)"
| "dumpable _ = True"

section \<open>Strings are read back\<close>

lemma code_less_256: "code c < 256"
  by (simp add: code_def)

lemma char_of_code [simp]: "char_of (code c) = c"
  by (simp add: code_def)

lemma hex_val_digit: "n < 16 \<Longrightarrow> hex_val (hex_digit n) = Some n"
  by (auto simp: hex_val_def hex_digit_def digit_char_def Let_def)

lemma parse_chars_short:
  assumes "code c \<noteq> 117" "simple_escape c = Some k"
  shows "parse_chars (char_of (92::nat) # c # s) = map_option (\<lambda>(cs, q). (k # cs, q)) (parse_chars s)"
  using assms by simp

lemma parse_chars_hex:
  assumes "n < 256"
  shows "parse_chars (char_of (92::nat) # CHR ''u'' # CHR ''0'' # CHR ''0'' # hex_digit (n div 16) # hex_digit (n mod 16) # s) =
    map_option (\<lambda>(cs, q). (char_of n # cs, q)) (parse_chars s)"
proof -
  have "n div 16 < 16" using assms by linarith
  then have "hex_val (hex_digit (n div 16)) = Some (n div 16)" "hex_val (hex_digit (n mod 16)) = Some (n mod 16)"
    by (simp_all add: hex_val_digit)
  moreover have "hex_val (CHR ''0'') = Some 0" "code (CHR ''u'') = 117" by code_simp+
  ultimately show ?thesis by simp
qed

lemma short_escapes:
  "simple_escape (CHR ''n'') = Some (char_of (10::nat))" "simple_escape (CHR ''r'') = Some (char_of (13::nat))"
  "simple_escape (CHR ''t'') = Some (char_of (9::nat))" "simple_escape (CHR ''b'') = Some (char_of (8::nat))"
  "simple_escape (CHR ''f'') = Some (char_of (12::nat))"
  "code (CHR ''n'') \<noteq> 117" "code (CHR ''r'') \<noteq> 117" "code (CHR ''t'') \<noteq> 117" "code (CHR ''b'') \<noteq> 117" "code (CHR ''f'') \<noteq> 117"
  by code_simp+

lemma parse_chars_dump: "parse_chars (dump_char c @ s) = map_option (\<lambda>(cs, q). (c # cs, q)) (parse_chars s)"
proof -
  have c: "code c = n \<Longrightarrow> char_of n = c" for n by (metis char_of_code)
  consider "code c = 34 \<or> code c = 92" | "code c \<in> {10, 13, 9, 8, 12}" | "code c \<notin> {10, 13, 9, 8, 12}" "code c < 32"
    | "code c \<noteq> 34" "code c \<noteq> 92" "32 \<le> code c" by force
  then show ?thesis
  proof cases
    case 1
    then have "dump_char c = [char_of (92::nat), c]" by (simp add: dump_char_def Let_def)
    moreover have "code c \<noteq> 117" "simple_escape c = Some c" using 1 by (auto simp: simple_escape_def Let_def)
    ultimately show ?thesis by (simp only: append.simps) (rule parse_chars_short)
  next
    case 2
    then show ?thesis
      by (elim insertE emptyE) (simp_all only: dump_char_def Let_def append.simps parse_chars_short short_escapes c, simp_all add: c parse_chars_short short_escapes del: parse_chars.simps)
  next
    case 3
    then show ?thesis using parse_chars_hex [OF code_less_256, of c s]
      by (simp add: dump_char_def Let_def del: parse_chars.simps)
  next
    case 4
    then show ?thesis by (simp add: dump_char_def Let_def)
  qed
qed

lemma parse_chars_dump_str: "parse_chars (concat (map dump_char s) @ quote_char # r) = Some (s, r)"
proof (induction s)
  case Nil
  then show ?case by (simp add: quote_char_def)
next
  case (Cons c s)
  then show ?case by (simp add: parse_chars_dump del: parse_chars.simps)
qed

section \<open>Numbers are read back\<close>

text \<open>The rest of the text does not go on with the number.\<close>

definition number_ends :: "string \<Rightarrow> bool" where
  "number_ends r = (case r of [] \<Rightarrow> True | c # _ \<Rightarrow> \<not> is_digit c \<and> code c \<notin> {46, 101, 69})"

lemma span_digits_append:
  "list_all is_digit ds \<Longrightarrow> (case r of [] \<Rightarrow> True | c # _ \<Rightarrow> \<not> is_digit c) \<Longrightarrow> span_digits (ds @ r) = (ds, r)"
  by (auto simp: span_digits_def list_all_iff split: list.splits intro: takeWhile_append2 [THEN trans])

lemma show_digits_no_zero: "0 \<le> n \<Longrightarrow> show_digits n = c # d # ds \<Longrightarrow> code c \<noteq> 48"
proof (induction n arbitrary: d ds rule: show_digits.induct)
  case (1 n)
  then have big: "\<not> n < 10" by (subst (asm) show_digits.simps) (auto split: if_splits)
  then have eq: "show_digits (n div 10) @ [digit_char (nat (n mod 10))] = c # d # ds"
    using "1.prems"(2) by (subst (asm) show_digits.simps) simp
  show ?case
  proof (cases "show_digits (n div 10)")
    case Nil
    then show ?thesis by simp
  next
    case (Cons c' t)
    with eq have c': "c' = c" by simp
    show ?thesis
    proof (cases t)
      case (Cons e u)
      then show ?thesis using "1.IH" [OF big] \<open>show_digits (n div 10) = c' # t\<close> c' "1.prems"(1) by auto
    next
      case Nil
      then have one: "show_digits (n div 10) = [c]" using Cons c' by simp
      then have "n div 10 = int (digit_val c)"
        using dec_value_show_digits [of "n div 10"] "1.prems"(1) by simp
      moreover have "1 \<le> n div 10" using big by linarith
      ultimately show ?thesis by (auto simp: digit_val_def)
    qed
  qed
qed

lemma parse_exponent_ends: "number_ends r \<Longrightarrow> parse_exponent r = None"
  by (auto simp: parse_exponent_def number_ends_def split: list.splits)

text \<open>What \<open>parse_number\<close> does after the integer part \<open>ds\<close>, and the optional fraction.\<close>

definition fraction :: "string \<Rightarrow> string \<times> string" where
  "fraction r1 = (case r1 of c # u \<Rightarrow> (if code c = 46 \<and> fst (span_digits u) \<noteq> [] then span_digits u else ([], r1)) | [] \<Rightarrow> ([], r1))"

lemma parse_number_plain:
  assumes digits: "list_all is_digit ds" "ds \<noteq> []" "\<And>c d ds'. ds = c # d # ds' \<Longrightarrow> code c \<noteq> 48"
    and rest: "case r1 of [] \<Rightarrow> True | c # _ \<Rightarrow> \<not> is_digit c"
    and frac: "fraction r1 = (fs, r2)" "number_ends r2"
  shows "parse_number ((if neg then ''-'' else []) @ ds @ r1) =
    (let m = (if neg then - 1 else 1) * dec_value (ds @ fs) in
     if fs = [] then Some (JInt m, r2) else Some (norm_dec (length fs) m (length fs), r2))"
proof -
  obtain c t where ds: "ds = c # t" using digits(2) by (cases ds) auto
  then have "is_digit c" using digits(1) by simp
  then have c: "code c \<noteq> 45" by (auto simp: is_digit_def)
  have minus: "code (CHR ''-'') = 45" by code_simp
  have span: "span_digits (c # t @ r1) = (c # t, r1)"
    using span_digits_append [OF digits(1) rest] by (simp add: ds)
  have zero: "t = [] \<or> code c \<noteq> 48" using digits(3) by (cases t) (auto simp: ds)
  have frac': "(case r1 of c # u \<Rightarrow> (if code c = 46 \<and> fst (span_digits u) \<noteq> [] then span_digits u else ([], r1)) | [] \<Rightarrow> ([], r1)) = (fs, r2)"
    using frac(1) by (simp add: fraction_def)
  have pick: "(case t of [] \<Rightarrow> (c # t, r1) | y # z \<Rightarrow> if code c = 48 then ([c], q) else (c # t, r1)) = (c # t, r1)" for q
    using zero by (cases t) auto
  show ?thesis
    by (cases neg) (simp_all only: parse_number_def ds append.simps list.case c minus span pick frac' parse_exponent_ends [OF frac(2)]
      Let_def prod.case option.case if_True if_False simp_thms list.distinct)
qed

lemma show_digits_parse:
  "0 \<le> n \<Longrightarrow> list_all is_digit (show_digits n) \<and> show_digits n \<noteq> [] \<and> (\<forall>c d ds. show_digits n = c # d # ds \<longrightarrow> code c \<noteq> 48)"
  using show_digits_no_zero show_digits_digits by auto

lemma fraction_ends: "number_ends r \<Longrightarrow> fraction r = ([], r)"
  by (auto simp: fraction_def number_ends_def split: list.split)

lemma ends_not_digit: "number_ends r \<Longrightarrow> (case r of [] \<Rightarrow> True | c # _ \<Rightarrow> \<not> is_digit c)"
  by (auto simp: number_ends_def split: list.split)

lemma parse_show_int:
  assumes "number_ends r"
  shows "parse_number (show_int i @ r) = Some (JInt i, r)"
proof -
  have "0 \<le> \<bar>i\<bar>" by simp
  note sd = show_digits_parse [OF this]
  have "parse_number ((if i < 0 then ''-'' else []) @ show_digits \<bar>i\<bar> @ r) = Some (JInt i, r)"
    using sd by (subst parse_number_plain [OF _ _ _ ends_not_digit [OF assms] fraction_ends [OF assms] assms]) (auto simp: Let_def)
  then show ?thesis by (simp add: show_int_def split: if_splits)
qed

lemma norm_dec_canonical: "1 \<le> e \<Longrightarrow> e = 1 \<or> m mod 10 \<noteq> 0 \<Longrightarrow> norm_dec k m e = JDec m e"
  by (cases k) auto

lemma show_dec_shape:
  obtains xs ys where "show_dec m e = (if m < 0 then ''-'' else []) @ xs @ CHR ''.'' # ys" "list_all is_digit (xs @ ys)"
    "xs \<noteq> []" "length ys = e" "dec_value (xs @ ys) = \<bar>m\<bar>" "\<And>c d u. xs = c # d # u \<Longrightarrow> code c \<noteq> 48"
proof -
  define ds where "ds = show_digits \<bar>m\<bar>"
  define ds' where "ds' = replicate (Suc e - length ds) (CHR ''0'') @ ds"
  define k where "k = length ds' - e"
  have zero: "is_digit (CHR ''0'')" by code_simp
  have sd: "list_all is_digit ds" "ds \<noteq> []" "\<And>c d u. ds = c # d # u \<Longrightarrow> code c \<noteq> 48"
    using show_digits_parse [of "\<bar>m\<bar>"] by (auto simp: ds_def)
  have all: "list_all is_digit ds'" using sd(1) zero by (auto simp: ds'_def list_all_iff)
  have k: "1 \<le> k" "k + e = length ds'" using sd(2) by (cases ds; simp add: k_def ds'_def; fail)+
  have head: "code c \<noteq> 48" if "take k ds' = c # d # u" for c d u
  proof -
    from that have "2 \<le> length (take k ds')" by simp
    then have "2 \<le> k" by simp
    then have "Suc e - length ds = 0" by (auto simp: k_def ds'_def)
    then have "ds' = ds" by (simp add: ds'_def)
    then have "ds = c # d # u @ drop k ds'" using that by (metis append_Cons append_take_drop_id)
    then show ?thesis by (rule sd(3))
  qed
  have val: "dec_value ds' = \<bar>m\<bar>"
  proof -
    have "dec_value (replicate n (CHR ''0'') @ ds) = dec_value ds" for n
      by (induction n) (simp_all add: dec_value_def digit_val_def code_def)
    then show ?thesis by (simp add: ds'_def) (simp add: ds_def)
  qed
  show ?thesis
  proof (rule that [of "take k ds'" "drop k ds'"])
    show "show_dec m e = (if m < 0 then ''-'' else []) @ take k ds' @ CHR ''.'' # drop k ds'"
      by (simp only: show_dec_def Let_def ds_def ds'_def k_def append.simps)
    show "take k ds' \<noteq> []" using k sd(2) by (auto simp: ds'_def)
    show "length (drop k ds') = e" using k by simp
  qed (use all head val in auto)
qed

lemma parse_show_dec:
  assumes "number_ends r" "1 \<le> e" "e = 1 \<or> m mod 10 \<noteq> 0"
  shows "parse_number (show_dec m e @ r) = Some (JDec m e, r)"
proof -
  from show_dec_shape [of m e] obtain xs ys where
    xy: "show_dec m e = (if m < 0 then ''-'' else []) @ xs @ CHR ''.'' # ys" "list_all is_digit (xs @ ys)"
    "xs \<noteq> []" "length ys = e" "dec_value (xs @ ys) = \<bar>m\<bar>" "\<And>c d u. xs = c # d # u \<Longrightarrow> code c \<noteq> 48" by metis
  have dot: "code (CHR ''.'') = 46" "\<not> is_digit (CHR ''.'')" by code_simp+
  have "ys \<noteq> []" using xy(4) assms(2) by auto
  then have frac: "fraction (CHR ''.'' # ys @ r) = (ys, r)"
    using span_digits_append [OF _ ends_not_digit [OF assms(1)], of ys] dot xy(2) by (simp add: fraction_def)
  have "parse_number ((if m < 0 then ''-'' else []) @ xs @ CHR ''.'' # ys @ r) = Some (JDec m e, r)"
    by (subst parse_number_plain [OF _ xy(3) xy(6) _ frac assms(1)])
      (use xy(2,4,5) dot \<open>ys \<noteq> []\<close> norm_dec_canonical [OF assms(2,3)] in \<open>auto simp: Let_def\<close>)
  then show ?thesis by (simp add: xy(1))
qed

section \<open>Values are read back\<close>

lemma skip_ws_id: "s \<noteq> [] \<Longrightarrow> code (hd s) \<notin> {32, 9, 10, 13} \<Longrightarrow> skip_ws s = s"
  by (cases s) (simp_all add: skip_ws_def)

text \<open>The texts of values start with neither a space nor a closing bracket.\<close>

definition starts_value :: "string \<Rightarrow> bool" where
  "starts_value s = (s \<noteq> [] \<and> code (hd s) \<notin> {32, 9, 10, 13, 93, 125, 44, 58})"

definition starts_number :: "string \<Rightarrow> bool" where
  "starts_number s = (s \<noteq> [] \<and> (code (hd s) = 45 \<or> is_digit (hd s)))"

lemma starts_number_append: "starts_number s \<Longrightarrow> starts_number (s @ r)"
  by (simp add: starts_number_def)

lemma starts_digits: "list_all is_digit ds \<Longrightarrow> ds \<noteq> [] \<Longrightarrow> starts_number (ds @ s)"
  by (cases ds) (simp_all add: starts_number_def)

lemma starts_minus: "starts_number (CHR ''-'' # s)"
  by (simp add: starts_number_def code_def)

lemma starts_show_int: "starts_number (show_int i)"
  using starts_digits [OF show_digits_digits show_digits_nonempty, of _ "[]"] by (simp add: show_int_def starts_minus)

lemma starts_show_dec: "starts_number (show_dec m e)"
proof -
  from show_dec_shape [of m e] obtain xs ys where
    xy: "show_dec m e = (if m < 0 then ''-'' else []) @ xs @ CHR ''.'' # ys" "list_all is_digit (xs @ ys)" "xs \<noteq> []" by metis
  then have "starts_number (xs @ CHR ''.'' # ys)" by (intro starts_digits) auto
  then show ?thesis by (simp add: xy(1) starts_minus)
qed

lemma starts_number_value: "starts_number s \<Longrightarrow> starts_value s"
  by (auto simp: starts_number_def starts_value_def is_digit_def)

lemma starts_value_append: "starts_value s \<Longrightarrow> starts_value (s @ r)"
  by (simp add: starts_value_def)

lemma starts_dumps: "starts_value (json_dumps v @ s)"
  by (rule starts_value_append, cases v)
    (simp_all add: starts_show_int starts_show_dec starts_number_value, simp_all add: starts_value_def code_def dump_str_def quote_char_def)

lemma skip_ws_starts: "starts_value s \<Longrightarrow> skip_ws s = s"
  by (rule skip_ws_id) (auto simp: starts_value_def)

lemma skip_ws_dumps [simp]: "skip_ws (json_dumps v @ s) = json_dumps v @ s"
  by (rule skip_ws_starts) (rule starts_dumps)

lemma skip_ws_space [simp]: "skip_ws (CHR '' '' # s) = skip_ws s"
  by (simp add: skip_ws_def code_def)

lemma code_marks [simp]:
  "code (CHR '','') = 44" "code (CHR '']'') = 93" "code (CHR ''}'') = 125" "code (CHR '':'') = 58" "code (CHR ''['') = 91" "code (CHR ''{'') = 123"
  by code_simp+

lemma skip_ws_mark [simp]: "code c \<notin> {32, 9, 10, 13} \<Longrightarrow> skip_ws (c # s) = c # s"
  by (simp add: skip_ws_def)

lemma parse_string_value:
  "parse_value (Suc n) (dump_str s @ r) = Some (JStr s, r)"
  using parse_chars_dump_str [of s r] by (simp add: dump_str_def) (simp add: quote_char_def)

lemma parse_number_value:
  assumes "starts_number s" "parse_number (s @ r) = Some x"
  shows "parse_value (Suc n) (s @ r) = Some x"
proof -
  obtain c t where s: "s = c # t" "code c = 45 \<or> is_digit c" using assms(1) by (cases s) (auto simp: starts_number_def)
  then have "code c \<noteq> 34" "code c \<noteq> 123" "code c \<noteq> 91" by (auto simp: is_digit_def)
  then show ?thesis using s assms(2) by simp
qed

lemma parse_literals:
  "parse_value (Suc n) (''null'' @ r) = Some (JNull, r)" "parse_value (Suc n) (''true'' @ r) = Some (JBool True, r)"
  "parse_value (Suc n) (''false'' @ r) = Some (JBool False, r)"
  by (simp_all add: parse_literal_def startswith_def code_def is_digit_def)

text \<open>The rest after a value: nothing, a comma or a closing bracket.\<close>

definition value_ends :: "string \<Rightarrow> bool" where
  "value_ends r = (case r of [] \<Rightarrow> True | c # _ \<Rightarrow> code c \<in> {44, 93, 125})"

lemma value_ends_number: "value_ends r \<Longrightarrow> number_ends r"
  by (auto simp: value_ends_def number_ends_def is_digit_def split: list.splits)

lemma value_ends_marks [simp]: "value_ends (CHR '','' # r)" "value_ends (CHR '']'' # r)" "value_ends (CHR ''}'' # r)" "value_ends []"
  by (simp_all add: value_ends_def)

definition read_back :: "json \<Rightarrow> bool" where
  "read_back v \<longleftrightarrow> (\<forall>n r. length (json_dumps v) \<le> n \<longrightarrow> value_ends r \<longrightarrow> parse_value n (json_dumps v @ r) = Some (v, r))"

lemma read_backD: "read_back v \<Longrightarrow> length (json_dumps v) \<le> n \<Longrightarrow> value_ends r \<Longrightarrow> parse_value n (json_dumps v @ r) = Some (v, r)"
  by (simp add: read_back_def)

lemma dumps_nonempty [simp]: "json_dumps v \<noteq> []"
  using starts_dumps [of v "[]"] by (auto simp: starts_value_def)

lemma read_back_atom:
  assumes "\<And>n r. value_ends r \<Longrightarrow> parse_value (Suc n) (json_dumps v @ r) = Some (v, r)"
  shows "read_back v"
proof -
  have "\<exists>k. n = Suc k" if "length (json_dumps v) \<le> n" for n
    using that dumps_nonempty [of v] by (cases n) auto
  then show ?thesis using assms unfolding read_back_def by metis
qed

lemma read_items:
  assumes "xs \<noteq> []" "\<And>x. x \<in> set xs \<Longrightarrow> read_back x" "length (join '', '' (map json_dumps xs)) < n"
  shows "parse_items n (join '', '' (map json_dumps xs) @ CHR '']'' # r) = Some (xs, r)"
  using assms
proof (induction xs arbitrary: n)
  case (Cons x xs)
  from Cons.prems(3) obtain k where n: "n = Suc k" by (cases n) auto
  show ?case
  proof (cases xs)
    case Nil
    then show ?thesis using Cons.prems n read_backD [of x k "CHR '']'' # r"] by simp
  next
    case (Cons y ys)
    then have step: "join '', '' (map json_dumps (x # xs)) = json_dumps x @ '', '' @ join '', '' (map json_dumps xs)" by simp
    have len: "length (json_dumps x) + 2 + length (join '', '' (map json_dumps xs)) < Suc k"
      using Cons.prems(3) unfolding step n by simp
    have "parse_value k (json_dumps x @ CHR '','' # q) = Some (x, CHR '','' # q)" for q
      by (rule read_backD) (use Cons.prems(2) len in simp_all)
    moreover have "parse_items k (CHR '' '' # join '', '' (map json_dumps xs) @ CHR '']'' # r) = Some (xs, r)"
    proof -
      have "parse_items k (join '', '' (map json_dumps xs) @ CHR '']'' # r) = Some (xs, r)"
        by (rule Cons.IH) (use Cons Cons.prems(2) len in simp_all)
      then show ?thesis by (cases k) simp_all
    qed
    ultimately show ?thesis unfolding step n by (simp del: join.simps)
  qed
qed simp

definition dump_pair :: "string \<times> json \<Rightarrow> string" where
  "dump_pair p = dump_str (fst p) @ '': '' @ json_dumps (snd p)"

lemma skip_ws_dump_str [simp]: "skip_ws (dump_str s @ r) = dump_str s @ r"
  using skip_ws_dumps [of "JStr s" r] by simp

lemma parse_pair:
  assumes "read_back v" "length (json_dumps v) \<le> k" "value_ends r" "r = e # w" "code e \<notin> {32, 9, 10, 13}"
  shows "parse_pairs (Suc k) (dump_pair (s, v) @ r) =
    (if code e = 125 then Some ([(s, v)], w) else if code e = 44 then map_option (\<lambda>(ps, z). ((s, v) # ps, z)) (parse_pairs k w) else None)"
proof -
  have str: "dump_str s @ CHR '':'' # CHR '' '' # json_dumps v @ r =
      quote_char # (concat (map dump_char s) @ quote_char # CHR '':'' # CHR '' '' # json_dumps v @ r)"
    by (simp add: dump_str_def)
  have pair: "dump_pair (s, v) @ r = dump_str s @ CHR '':'' # CHR '' '' # json_dumps v @ r" by (simp add: dump_pair_def)
  have quote: "code quote_char = 34" by (simp add: quote_char_def)
  have "skip_ws (dump_pair (s, v) @ r) = dump_pair (s, v) @ r" unfolding pair by simp
  then show ?thesis unfolding parse_pairs.simps(2) pair str
    using read_backD [OF assms(1-3)] assms(4,5) by (simp add: quote parse_chars_dump_str)
qed

lemma read_pairs:
  assumes "d \<noteq> []" "\<And>p. p \<in> set d \<Longrightarrow> read_back (snd p)" "length (join '', '' (map dump_pair d)) < n"
  shows "parse_pairs n (join '', '' (map dump_pair d) @ CHR ''}'' # r) = Some (d, r)"
  using assms
proof (induction d arbitrary: n)
  case (Cons p d)
  obtain s v where p: "p = (s, v)" by (cases p)
  from Cons.prems(3) obtain k where n: "n = Suc k" by (cases n) auto
  have v: "read_back v" using Cons.prems(2) [of p] by (simp add: p)
  show ?case
  proof (cases d)
    case Nil
    then show ?thesis using Cons.prems(3) v n parse_pair [of v k "CHR ''}'' # r" "CHR ''}''" r s]
      by (simp add: p) (simp add: dump_pair_def)
  next
    case (Cons q e)
    then have step: "join '', '' (map dump_pair (p # d)) = dump_pair p @ '', '' @ join '', '' (map dump_pair d)" by simp
    have len: "length (json_dumps v) + 2 + length (join '', '' (map dump_pair d)) < Suc k"
      using Cons.prems(3) unfolding step n by (simp add: p dump_pair_def)
    have "parse_pairs k (join '', '' (map dump_pair d) @ CHR ''}'' # r) = Some (d, r)"
      by (rule Cons.IH) (use Cons Cons.prems(2) len in simp_all)
    then have "parse_pairs k (CHR '' '' # join '', '' (map dump_pair d) @ CHR ''}'' # r) = Some (d, r)" by (cases k) simp_all
    then show ?thesis unfolding step n
      using parse_pair [OF v, of k "CHR '','' # CHR '' '' # join '', '' (map dump_pair d) @ CHR ''}'' # r"] len p by simp
  qed
qed simp

lemma read_back_dumpable: "dumpable v \<Longrightarrow> read_back v"
proof (induction v rule: json_dumps.induct)
  case (6 xs)
  have items: "\<And>x. x \<in> set xs \<Longrightarrow> read_back x" using 6 by (simp add: list_all_iff)
  show ?case unfolding read_back_def
  proof (intro allI impI)
    fix n r assume len: "length (json_dumps (JArr xs)) \<le> n" and r: "value_ends r"
    then obtain k where n: "n = Suc k" by (cases n) auto
    show "parse_value n (json_dumps (JArr xs) @ r) = Some (JArr xs, r)"
    proof (cases xs)
      case Nil
      then show ?thesis by (simp add: n)
    next
      case (Cons x ys)
      define body where "body = join '', '' (map json_dumps xs)"
      have "starts_value (body @ CHR '']'' # r)"
        using starts_dumps by (cases ys) (simp_all add: body_def Cons)
      then obtain c t where ct: "body @ CHR '']'' # r = c # t" "code c \<noteq> 93" "skip_ws (c # t) = c # t"
        by (cases "body @ CHR '']'' # r") (auto simp: starts_value_def)
      have "parse_items k (body @ CHR '']'' # r) = Some (xs, r)"
        unfolding body_def by (rule read_items) (use len n items Cons in \<open>auto simp: body_def\<close>)
      then have "parse_value (Suc k) (CHR ''['' # body @ CHR '']'' # r) = Some (JArr xs, r)" using ct by simp
      then show ?thesis by (simp add: n body_def)
    qed
  qed
next
  case (7 d)
  have vals: "\<And>p. p \<in> set d \<Longrightarrow> read_back (snd p)" using 7 by (simp add: list_all_iff)
  have dumps: "json_dumps (JObj d) = CHR ''{'' # join '', '' (map dump_pair d) @ ''}''"
    by (simp add: dump_pair_def [abs_def])
  show ?case unfolding read_back_def
  proof (intro allI impI)
    fix n r assume len: "length (json_dumps (JObj d)) \<le> n" and r: "value_ends r"
    then obtain k where n: "n = Suc k" by (cases n) auto
    show "parse_value n (json_dumps (JObj d) @ r) = Some (JObj d, r)"
    proof (cases d)
      case Nil
      then show ?thesis by (simp add: n)
    next
      case (Cons p e)
      define body where "body = join '', '' (map dump_pair d)"
      have "starts_value (body @ CHR ''}'' # r)"
        by (cases e) (simp_all add: body_def Cons dump_pair_def dump_str_def quote_char_def starts_value_def)
      then obtain c t where ct: "body @ CHR ''}'' # r = c # t" "code c \<noteq> 125" "skip_ws (c # t) = c # t"
        by (cases "body @ CHR ''}'' # r") (auto simp: starts_value_def)
      have "parse_pairs k (body @ CHR ''}'' # r) = Some (d, r)"
        unfolding body_def by (rule read_pairs) (use len n vals Cons dumps in \<open>auto simp: body_def\<close>)
      moreover have "dupdate [] d = d" using dupdate_append_fresh [of "[]" d] "7.prems" by simp
      ultimately have "parse_value (Suc k) (CHR ''{'' # body @ CHR ''}'' # r) = Some (JObj d, r)" using ct by simp
      then show ?thesis by (simp add: n body_def dumps del: json_dumps.simps)
    qed
  qed
qed (rule read_back_atom; simp add: parse_literals [unfolded append.simps] parse_string_value
  parse_number_value [OF starts_show_int parse_show_int] parse_number_value [OF starts_show_dec parse_show_dec] value_ends_number
  del: parse_value.simps)+

text \<open>\<open>json.loads(json.dumps(v)) == v\<close>\<close>

lemma json_loads_dumps: "dumpable v \<Longrightarrow> json_loads (json_dumps v) = Some v"
  using read_backD [OF read_back_dumpable, of v "Suc (2 * length (json_dumps v))" "[]"] skip_ws_dumps [of v "[]"]
  by (simp add: json_loads_def skip_ws_def del: skip_ws_dumps)

end
