(* ===== verification/Public_Records.thy ===== *)
theory Public_Records
  imports Web_Gate PyDump
begin

text \<open>
  Model of \<open>shared/public_intake.py\<close> and \<open>shared/local_admin_registry.py\<close>, the logs of what visitors send, and of their
  endpoints in \<open>web/api.py\<close>. A log is its text, or None when there is no file; a record is one line of JSON. The identifier,
  the time and the digest of an address are of the environment, and so is the ellipsis, whose code point is outside the
  range of the model.
\<close>

section \<open>Logs of JSON lines\<close>

definition newline :: char where
  "newline = char_of (10::nat)"

text \<open>Where \<open>str.splitlines\<close> ends a line, for the code points of the model.\<close>

definition line_break :: "char \<Rightarrow> bool" where
  "line_break c = (code c \<in> {10, 11, 12, 13, 28, 29, 30, 133})"

function splitlines :: "string \<Rightarrow> string list" where
  "splitlines [] = []"
| "splitlines (c # s) =
     (if line_break c then [] # splitlines (case s of d # t \<Rightarrow> if code c = 13 \<and> code d = 10 then t else s | [] \<Rightarrow> [])
      else (case splitlines s of [] \<Rightarrow> [[c]] | l # ls \<Rightarrow> (c # l) # ls))"
  by pat_completeness auto
termination by (relation "measure length") (auto split: list.split)

type_synonym log_file = "string option"

definition append_record :: "obj \<Rightarrow> log_file \<Rightarrow> log_file" where
  "append_record r f = Some ((case f of None \<Rightarrow> [] | Some t \<Rightarrow> t) @ json_dumps (JObj r) @ [newline])"

text \<open>\<open>read_text().splitlines()[-max(1, limit):]\<close>, the lines that are no JSON left out.\<close>

definition log_items :: "int \<Rightarrow> log_file \<Rightarrow> json list" where
  "log_items limit f =
     (case f of None \<Rightarrow> [] | Some t \<Rightarrow> List.map_filter json_loads (lastn (nat (max 1 limit)) (splitlines t)))"

definition clean_text :: "nat \<Rightarrow> string \<Rightarrow> string" where
  "clean_text n s = take n (strip s)"

record record_env =
  r_ts :: string
  r_id :: string
  r_digest :: "string \<Rightarrow> string"
  r_ellipsis :: string

section \<open>Enquiries and access requests\<close>

definition client_hash :: "'e record_env_scheme \<Rightarrow> string \<Rightarrow> string" where
  "client_hash env ip = (if strip ip = [] then ''unknown'' else take 16 (r_digest env (strip ip)))"

record enquiry =
  q_name :: string
  q_email :: string
  q_subject :: string
  q_message :: string
  q_page :: string

definition enquiry_record :: "'e record_env_scheme \<Rightarrow> enquiry \<Rightarrow> string \<Rightarrow> string \<Rightarrow> obj" where
  "enquiry_record env q ip source =
     [(''ts'', JStr (r_ts env)), (''request_id'', JStr (r_id env)), (''kind'', JStr ''enquiry''), (''status'', JStr ''new''),
      (''source'', JStr source), (''client'', JStr (client_hash env ip)), (''page'', JStr (clean_text 500 (q_page q))),
      (''name'', JStr (clean_text 120 (q_name q))), (''email'', JStr (clean_text 160 (q_email q))),
      (''subject'', JStr (clean_text 160 (q_subject q))), (''message'', JStr (clean_text 4000 (q_message q)))]"

record signup =
  s_name :: string
  s_email :: string
  s_handle :: string
  s_reason :: string
  s_message :: string
  s_page :: string

definition signup_record :: "'e record_env_scheme \<Rightarrow> signup \<Rightarrow> string \<Rightarrow> string \<Rightarrow> obj" where
  "signup_record env q ip source =
     [(''ts'', JStr (r_ts env)), (''request_id'', JStr (r_id env)), (''kind'', JStr ''signup''), (''status'', JStr ''new''),
      (''source'', JStr source), (''client'', JStr (client_hash env ip)), (''page'', JStr (clean_text 500 (s_page q))),
      (''name'', JStr (clean_text 120 (s_name q))), (''email'', JStr (clean_text 160 (s_email q))),
      (''handle'', JStr (clean_text 120 (s_handle q))), (''reason'', JStr (clean_text 160 (s_reason q))),
      (''message'', JStr (clean_text 4000 (s_message q)))]"

definition read_public_intake :: "int \<Rightarrow> string option \<Rightarrow> log_file \<Rightarrow> json list outcome" where
  "read_public_intake limit kind f =
     (let items = log_items limit f in
      case kind of
        Some k \<Rightarrow> if k = [] then Inr (rev items)
          else and_then (filter_out (\<lambda>v. and_then (as_obj v) (\<lambda>d. Inr (jget d ''kind'' = JStr k))) items) (\<lambda>xs. Inr (rev xs))
      | None \<Rightarrow> Inr (rev items))"

record intake_summary =
  i_count :: nat
  i_enquiries :: nat
  i_signups :: nat
  i_latest :: json
  i_items :: "json list"

definition get_public_intake_summary :: "int \<Rightarrow> log_file \<Rightarrow> intake_summary outcome" where
  "get_public_intake_summary limit f =
     and_then (read_public_intake limit None f) (\<lambda>items.
     and_then (traverse as_obj items) (\<lambda>ds.
       Inr \<lparr>i_count = length items, i_enquiries = length (filter (\<lambda>d. jget d ''kind'' = JStr ''enquiry'') ds),
            i_signups = length (filter (\<lambda>d. jget d ''kind'' = JStr ''signup'') ds),
            i_latest = (case items of [] \<Rightarrow> JObj [] | x # _ \<Rightarrow> x), i_items = items\<rparr>))"

section \<open>The registry of local administrators\<close>

definition session_key :: "string \<Rightarrow> string \<Rightarrow> string \<Rightarrow> string" where
  "session_key username device ip =
     (let d = clean_text 120 device; c = clean_text 120 ip;
          anchor = (if d \<noteq> [] then d else if c \<noteq> [] then c else ''unknown'') in
      lower (clean_text 120 username) @ ''::'' @ anchor)"

record admin_body =
  a_username :: string
  a_hash :: string
  a_salt :: string
  a_version :: string
  a_action :: string
  a_source :: string
  a_page :: string
  a_device :: string
  a_agent :: string

definition or_text :: "string \<Rightarrow> string \<Rightarrow> string" where
  "or_text s d = (if s = [] then d else s)"

definition admin_record :: "'e record_env_scheme \<Rightarrow> admin_body \<Rightarrow> string \<Rightarrow> obj" where
  "admin_record env b ip =
     (let h = clean_text 4000 (a_hash b) in
     [(''ts'', JStr (r_ts env)), (''request_id'', JStr (r_id env)), (''kind'', JStr ''local_admin_user''),
      (''action'', JStr (or_text (clean_text 24 (a_action b)) ''signup'')), (''source'', JStr (or_text (clean_text 64 (a_source b)) ''web'')),
      (''username'', JStr (lower (clean_text 120 (a_username b)))), (''session_key'', JStr (session_key (a_username b) (a_device b) ip)),
      (''hash_version'', JStr (or_text (clean_text 64 (a_version b)) ''legacy'')), (''password_hash'', JStr h),
      (''password_hash_preview'', JStr (take 16 h @ (if length h > 16 then r_ellipsis env else []))),
      (''password_hash_length'', JInt (int (length h))), (''password_salt'', JStr (clean_text 4000 (a_salt b))),
      (''has_salt'', JBool (strip (a_salt b) \<noteq> [])), (''page'', JStr (clean_text 500 (a_page b))),
      (''client'', JStr (clean_text 120 ip)), (''device_id'', JStr (clean_text 120 (a_device b))),
      (''user_agent'', JStr (clean_text 500 (a_agent b))), (''status'', JStr ''active'')])"

definition read_local_admin_users :: "int \<Rightarrow> log_file \<Rightarrow> obj list outcome" where
  "read_local_admin_users limit f =
     and_then (traverse as_obj (log_items limit f)) (\<lambda>ds. Inr (filter (\<lambda>d. jget d ''kind'' = JStr ''local_admin_user'') ds))"

text \<open>The key an event is filed under; None for an event that is skipped.\<close>

definition event_key :: "obj \<Rightarrow> string option" where
  "event_key e =
     (let key = strip (str_or (jget e ''session_key'') []); name = strip (str_or (jget e ''username'') []) in
      if key \<noteq> [] then Some key
      else if name = [] then None
      else Some (session_key name (str_or (jget e ''device_id'') []) (str_or (jget e ''client'') [])))"

definition file_event :: "obj \<Rightarrow> obj dict \<Rightarrow> obj dict" where
  "file_event e m = (case event_key e of None \<Rightarrow> m | Some k \<Rightarrow> dset k e m)"

record admin_users =
  u_count :: nat
  u_active :: nat
  u_latest :: obj
  u_items :: "obj list"
  u_events :: "obj list"

definition get_local_admin_users :: "int \<Rightarrow> log_file \<Rightarrow> admin_users outcome" where
  "get_local_admin_users limit f =
     and_then (read_local_admin_users limit f) (\<lambda>events.
       let users = sort_by_desc (\<lambda>d. str_or (jget d ''ts'') []) (map snd (fold file_event events [])) in
       Inr \<lparr>u_count = length users, u_active = length (filter (\<lambda>d. jget d ''status'' = JStr ''active'') users),
            u_latest = (case users of [] \<Rightarrow> [] | u # _ \<Rightarrow> u), u_items = users, u_events = rev events\<rparr>)"

definition clear_local_admin_users :: "log_file \<Rightarrow> log_file" where
  "clear_local_admin_users f = None"

section \<open>The endpoints\<close>

record web_world = gate +
  intake_log :: log_file
  registry_log :: log_file
  chat_log :: log_file

record form_env = web_env + 
  f_record :: record_env

definition over_limit :: "int \<Rightarrow> exn" where
  "over_limit n = HTTPException 429 (''rate limit exceeded '' @ show_int n @ '' rpm'')"

definition public_form_guard :: "web_conf \<Rightarrow> 'e web_env_scheme \<Rightarrow> request \<Rightarrow> ('g gate_scheme, string) act" where
  "public_form_guard conf env r =
     (let ip = client_ip conf r in
      act_bind (rate_check (w_now env) ip (public_intake_rpm conf)) (\<lambda>ok.
        if ok then act_return ip else act_raise (over_limit (public_intake_rpm conf))))"

record accepted =
  acc_kind :: string
  acc_id :: string
  acc_ts :: string

definition submit_intake :: "obj \<Rightarrow> ('w web_world_scheme, unit) act" where
  "submit_intake rec = act_modify (\<lambda>w. w\<lparr>intake_log := append_record rec (intake_log w)\<rparr>)"

definition public_enquiry :: "web_conf \<Rightarrow> 'e form_env_scheme \<Rightarrow> enquiry \<Rightarrow> request \<Rightarrow> ('w web_world_scheme, accepted) act" where
  "public_enquiry conf env q r =
     act_bind (public_form_guard conf env r) (\<lambda>ip.
       if strip (q_name q) = [] \<or> strip (q_email q) = [] \<or> strip (q_subject q) = [] \<or> strip (q_message q) = []
       then act_raise (HTTPException 400 ''name, email, subject, and message are required'')
       else act_bind (submit_intake (enquiry_record (f_record env) q ip ''web-api'')) (\<lambda>_.
              act_return \<lparr>acc_kind = ''enquiry'', acc_id = r_id (f_record env), acc_ts = r_ts (f_record env)\<rparr>))"

definition public_signup :: "web_conf \<Rightarrow> 'e form_env_scheme \<Rightarrow> signup \<Rightarrow> request \<Rightarrow> ('w web_world_scheme, accepted) act" where
  "public_signup conf env q r =
     act_bind (public_form_guard conf env r) (\<lambda>ip.
       if strip (s_name q) = [] \<or> strip (s_email q) = []
       then act_raise (HTTPException 400 ''name and email are required'')
       else act_bind (submit_intake (signup_record (f_record env) q ip ''web-api'')) (\<lambda>_.
              act_return \<lparr>acc_kind = ''signup'', acc_id = r_id (f_record env), acc_ts = r_ts (f_record env)\<rparr>))"

record intake_stats =
  st_enquiries :: nat
  st_signups :: nat
  st_total :: nat
  st_chat :: nat

definition get_intake_stats :: "'w web_world_scheme \<Rightarrow> intake_stats outcome" where
  "get_intake_stats w =
     and_then (get_public_intake_summary 2000 (intake_log w)) (\<lambda>s.
       Inr \<lparr>st_enquiries = i_enquiries s, st_signups = i_signups s, st_total = i_count s,
            st_chat = (case chat_log w of None \<Rightarrow> 0 | Some t \<Rightarrow> length (splitlines t))\<rparr>)"

definition limited :: "int \<Rightarrow> int \<Rightarrow> 'a outcome \<Rightarrow> 'a outcome" where
  "limited most n x = (if n < 1 \<or> n > most then Inl (HTTPException 400 (''limit must be between 1 and '' @ show_int most)) else x)"

definition public_intake_inbox :: "web_conf \<Rightarrow> 'e web_env_scheme \<Rightarrow> request \<Rightarrow> int \<Rightarrow> ('w web_world_scheme, intake_summary) act" where
  "public_intake_inbox conf env r limit =
     act_bind (require_scope conf env r ''read'') (\<lambda>_. \<lambda>w. (limited 500 limit (get_public_intake_summary limit (intake_log w)), w))"

definition local_admin_sync :: "web_conf \<Rightarrow> 'e form_env_scheme \<Rightarrow> admin_body \<Rightarrow> request \<Rightarrow> ('w web_world_scheme, obj) act" where
  "local_admin_sync conf env b r =
     (let ip = client_ip conf r; name = lower (strip (a_username b)) in
      act_bind (rate_check (w_now env) ip (admin_sync_rpm conf)) (\<lambda>ok.
        if \<not> ok then act_raise (over_limit (admin_sync_rpm conf))
        else if \<not> origin_allowed conf (strip (header r ''origin'')) (strip (header r ''referer'')) then act_raise (HTTPException 403 ''origin not allowed'')
        else if name = [] then act_raise (HTTPException 400 ''username is required'')
        else if strip (a_hash b) = [] then act_raise (HTTPException 400 ''passwordHash is required'')
        else (let rec = admin_record (f_record env) (b\<lparr>a_username := name\<rparr>) ip in
          act_bind (act_modify (\<lambda>w. w\<lparr>registry_log := append_record rec (registry_log w)\<rparr>)) (\<lambda>_. act_return rec))))"

definition local_admin_users :: "web_conf \<Rightarrow> 'e web_env_scheme \<Rightarrow> request \<Rightarrow> int \<Rightarrow> ('w web_world_scheme, admin_users) act" where
  "local_admin_users conf env r limit =
     act_bind (require_scope conf env r ''read'') (\<lambda>_. \<lambda>w. (limited 1000 limit (get_local_admin_users limit (registry_log w)), w))"

section \<open>Lemmas: a log is read back\<close>

definition nel :: char where
  "nel = char_of (133::nat)"

lemma code_newline [simp]: "code newline = 10"
  by (simp add: newline_def)

lemma splitlines_line:
  "list_all (\<lambda>c. \<not> line_break c) t \<Longrightarrow> splitlines (t @ newline # s) = t # splitlines s"
  by (induction t) (auto simp: line_break_def split: list.split)

lemma code_Char: "code (Char b0 b1 b2 b3 b4 b5 b6 b7) = of_char (Char b0 b1 b2 b3 b4 b5 b6 b7)"
  by (rule code_def)

lemma hex_digit_code: "n < 16 \<Longrightarrow> 32 \<le> code (hex_digit n)"
  by (auto simp: hex_digit_def digit_char_def)

lemma dump_char_code: "c \<in> set (dump_char k) \<Longrightarrow> 32 \<le> code c"
proof -
  have "code k div 16 < 16" using code_less_256 [of k] by linarith
  then show "c \<in> set (dump_char k) \<Longrightarrow> 32 \<le> code c"
    by (auto simp: dump_char_def Let_def hex_digit_code code_Char split: if_splits)
qed

lemma dump_str_code: "c \<in> set (dump_str k) \<Longrightarrow> 32 \<le> code c"
  by (auto simp: dump_str_def quote_char_def dump_char_code)

lemma set_join: "set (join sep xs) \<subseteq> set sep \<union> (\<Union>x \<in> set xs. set x)"
  by (induction sep xs rule: join.induct) auto

lemma join_chars:
  "(\<And>c. c \<in> set sep \<Longrightarrow> P c) \<Longrightarrow> (\<And>x c. x \<in> set xs \<Longrightarrow> c \<in> set x \<Longrightarrow> P c) \<Longrightarrow> c \<in> set (join sep xs) \<Longrightarrow> P c"
  using set_join [of sep xs] by blast

lemma digits_code: "list_all is_digit ds \<Longrightarrow> c \<in> set ds \<Longrightarrow> 32 \<le> code c"
  by (auto simp: list_all_iff is_digit_def)

lemma show_int_code: "c \<in> set (show_int i) \<Longrightarrow> 32 \<le> code c"
  using digits_code [OF show_digits_digits] by (auto simp: show_int_def code_Char split: if_splits)

lemma show_dec_code: "c \<in> set (show_dec m e) \<Longrightarrow> 32 \<le> code c"
proof -
  from show_dec_shape [of m e] obtain xs ys where
    xy: "show_dec m e = (if m < 0 then ''-'' else []) @ xs @ CHR ''.'' # ys" "list_all is_digit (xs @ ys)" by metis
  then show "c \<in> set (show_dec m e) \<Longrightarrow> 32 \<le> code c"
    using digits_code [OF xy(2)] by (auto simp: xy(1) code_Char split: if_splits)
qed

lemma json_dumps_code: "c \<in> set (json_dumps v) \<Longrightarrow> 32 \<le> code c"
proof (induction v arbitrary: c rule: json_dumps.induct)
  case (6 xs)
  have "32 \<le> code c" if "c \<in> set (join '', '' (map json_dumps xs))" for c
    by (rule join_chars [OF _ _ that]) (auto simp: code_Char dest: "6.IH")
  then show ?case using "6.prems" by (auto simp: code_Char)
next
  case (7 d)
  have ih: "(a, b) \<in> set d \<Longrightarrow> c \<in> set (json_dumps b) \<Longrightarrow> 32 \<le> code c" for a b c
    using "7.IH" [of "(a, b)" c] by simp
  have "32 \<le> code c" if "c \<in> set (join '', '' (map (\<lambda>p. dump_str (fst p) @ '': '' @ json_dumps (snd p)) d))" for c
    by (rule join_chars [OF _ _ that]) (auto simp: code_Char dump_str_code dest: ih)
  then show ?case using "7.prems" by (auto simp: code_Char)
qed (auto simp: show_int_code show_dec_code dump_str_code code_Char split: if_splits)

lemma dumps_one_line: "nel \<notin> set (json_dumps v) \<Longrightarrow> list_all (\<lambda>c. \<not> line_break c) (json_dumps v)"
proof -
  have "c = nel" if "code c = 133" for c using that by (metis char_of_code nel_def)
  then show "nel \<notin> set (json_dumps v) \<Longrightarrow> list_all (\<lambda>c. \<not> line_break c) (json_dumps v)"
    using json_dumps_code [of _ v] by (fastforce simp: list_all_iff line_break_def)
qed

text \<open>Records that stay on one line and are read back as they are.\<close>

definition record_ok :: "obj \<Rightarrow> bool" where
  "record_ok r = (dumpable (JObj r) \<and> nel \<notin> set (json_dumps (JObj r)))"

definition log_of :: "obj list \<Rightarrow> log_file" where
  "log_of rs = fold append_record rs None"

lemma append_record_text:
  "fold append_record rs (Some t) = Some (t @ concat (map (\<lambda>r. json_dumps (JObj r) @ [newline]) rs))"
  by (induction rs arbitrary: t) (simp_all add: append_record_def)

lemma log_of_text: "rs \<noteq> [] \<Longrightarrow> log_of rs = Some (concat (map (\<lambda>r. json_dumps (JObj r) @ [newline]) rs))"
  by (cases rs) (simp_all add: log_of_def append_record_def append_record_text)

lemma log_of_snoc: "append_record r (log_of rs) = log_of (rs @ [r])"
  by (simp add: log_of_def)

lemma splitlines_log:
  "list_all record_ok rs \<Longrightarrow> splitlines (concat (map (\<lambda>r. json_dumps (JObj r) @ [newline]) rs)) = map (\<lambda>r. json_dumps (JObj r)) rs"
  by (induction rs) (simp_all add: splitlines_line dumps_one_line record_ok_def del: json_dumps.simps)

lemma map_filter_log:
  "list_all record_ok rs \<Longrightarrow> List.map_filter json_loads (map (\<lambda>r. json_dumps (JObj r)) rs) = map JObj rs"
  by (induction rs) (simp_all add: map_filter_simps record_ok_def json_loads_dumps del: json_dumps.simps)

lemma map_lastn: "map f (lastn n xs) = lastn n (map f xs)"
  by (simp add: lastn_def drop_map)

lemma lastn_ok: "list_all P xs \<Longrightarrow> list_all P (lastn n xs)"
  using set_lastn_subset [of n xs] by (auto simp: list_all_iff)

text \<open>What was appended is read back: the last \<open>limit\<close> records, in order.\<close>

lemma log_items_log_of:
  assumes "list_all record_ok rs"
  shows "log_items limit (log_of rs) = map JObj (lastn (nat (max 1 limit)) rs)"
proof (cases "rs = []")
  case True
  then show ?thesis by (simp add: log_of_def log_items_def lastn_def)
next
  case False
  have "log_items limit (log_of rs) = List.map_filter json_loads (lastn (nat (max 1 limit)) (map (\<lambda>r. json_dumps (JObj r)) rs))"
    using splitlines_log [OF assms] by (simp add: log_items_def log_of_text [OF False])
  then show ?thesis using map_filter_log [OF lastn_ok [OF assms]] by (simp add: map_lastn [symmetric] del: json_dumps.simps)
qed

section \<open>Properties: the inbox\<close>

text \<open>Whatever was submitted: the records of the endpoints are dicts without duplicate keys.\<close>

lemma submitted_dumpable:
  "dumpable (JObj (enquiry_record env q ip src))" "dumpable (JObj (signup_record env p ip src))" "dumpable (JObj (admin_record env b ip))"
  by (simp_all add: enquiry_record_def signup_record_def admin_record_def Let_def)

lemma submitted_dicts: "traverse as_obj (rev (map JObj xs)) = Inr (rev xs)"
  using traverse_as_obj [of "rev xs"] by (simp add: rev_map)

lemma intake_of_log:
  assumes "list_all record_ok rs"
  shows "get_public_intake_summary limit (log_of rs) =
    (let shown = rev (lastn (nat (max 1 limit)) rs) in
     Inr \<lparr>i_count = length shown, i_enquiries = length (filter (\<lambda>d. jget d ''kind'' = JStr ''enquiry'') shown),
       i_signups = length (filter (\<lambda>d. jget d ''kind'' = JStr ''signup'') shown),
       i_latest = (case shown of [] \<Rightarrow> JObj [] | d # _ \<Rightarrow> JObj d), i_items = map JObj shown\<rparr>)"
  by (simp add: get_public_intake_summary_def read_public_intake_def log_items_log_of [OF assms] submitted_dicts Let_def rev_map [symmetric]
      split: list.split)


text \<open>The condition is needed: a message with such a separator is accepted, and its record is lost.\<close>

definition demo_record_env :: record_env where
  "demo_record_env = \<lparr>r_ts = ''2026-01-01T00:00:00+00:00'', r_id = ''r1'', r_digest = (\<lambda>s. s), r_ellipsis = ''..''\<rparr>"

lemma separator_loses_enquiry:
  "log_items 100 (append_record (enquiry_record demo_record_env
     \<lparr>q_name = ''A'', q_email = ''a'', q_subject = ''s'', q_message = ''x'' @ [nel] @ ''y'', q_page = []\<rparr> ''ip'' ''web-api'') None) = []"
  by code_simp

section \<open>Properties: the registry\<close>

lemma file_event_get:
  "map_of (fold file_event es m) k =
    (case filter (\<lambda>e. event_key e = Some k) es of [] \<Rightarrow> map_of m k | xs \<Rightarrow> Some (last xs))"
proof (induction es arbitrary: m)
  case (Cons e es)
  show ?case by (cases "event_key e") (auto simp: Cons.IH file_event_def [of e] split: list.split)
qed simp

definition filed :: "obj dict \<Rightarrow> bool" where
  "filed m \<longleftrightarrow> distinct (dkeys m) \<and> list_all (\<lambda>(k, e). event_key e = Some k) m"

lemma filed_dset: "filed m \<Longrightarrow> event_key e = Some k \<Longrightarrow> filed (dset k e m)"
proof -
  have "list_all (\<lambda>(k, e). event_key e = Some k) (dset k e m)" if "list_all (\<lambda>(k, e). event_key e = Some k) m" "event_key e = Some k"
    using that by (induction m) auto
  then show "filed m \<Longrightarrow> event_key e = Some k \<Longrightarrow> filed (dset k e m)" by (simp add: filed_def)
qed

lemma filed_fold: "filed m \<Longrightarrow> filed (fold file_event es m)"
  by (induction es arbitrary: m) (simp_all add: file_event_def filed_dset split: option.split)

lemma filed_unique:
  "filed m \<Longrightarrow> filter (\<lambda>e. event_key e = Some k) (map snd m) = (case map_of m k of None \<Rightarrow> [] | Some e \<Rightarrow> [e])"
proof (induction m)
  case (Cons p m)
  obtain k' e where p: "p = (k', e)" by (cases p)
  from Cons.prems have m: "filed m" "event_key e = Some k'" "k' \<notin> set (dkeys m)" by (auto simp: filed_def p)
  show ?case
  proof (cases "k' = k")
    case True
    have "filter (\<lambda>e. event_key e = Some k) (map snd m) = []"
      using Cons.IH [OF m(1)] m(3) True by (simp add: map_of_eq_None_iff [THEN iffD2])
    then show ?thesis using True m(2) by (simp add: p)
  next
    case False
    then show ?thesis using Cons.IH [OF m(1)] m(2) by (simp add: p)
  qed
qed simp

lemma filter_sort_by_desc: "filter P (sort_by_desc f xs) = sort_by_desc f (filter P xs)"
  by (simp add: sort_by_desc_def rev_filter [symmetric] filter_sort)

lemma sort_by_desc_short: "sort_by_desc f [] = []" "sort_by_desc f [x] = [x]"
  by (simp_all add: sort_by_desc_def)

text \<open>C10: the registry shows the last event of every session. Whatever the log holds, as long as it is read at all, the items
  with a given session key are exactly the last event filed under that key, and an event no key can be made of is in none.\<close>

theorem registry_shows_last_events:
  assumes "get_local_admin_users limit f = Inr u"
  shows "filter (\<lambda>e. event_key e = Some k) (u_items u) =
      (case filter (\<lambda>e. event_key e = Some k) (rev (u_events u)) of [] \<Rightarrow> [] | xs \<Rightarrow> [last xs])
    \<and> u_count u = card (event_key ` {e \<in> set (u_events u). event_key e \<noteq> None})"
proof -
  from assms obtain events where ev: "u_events u = rev events" and
    items: "u_items u = sort_by_desc (\<lambda>d. str_or (jget d ''ts'') []) (map snd (fold file_event events []))" "u_count u = length (u_items u)"
    by (auto simp: get_local_admin_users_def Let_def)
  let ?m = "fold file_event events []"
  have filed: "filed ?m" by (rule filed_fold) (simp add: filed_def)
  have last: "filter (\<lambda>e. event_key e = Some k) (u_items u) =
      (case filter (\<lambda>e. event_key e = Some k) (rev (u_events u)) of [] \<Rightarrow> [] | xs \<Rightarrow> [last xs])"
    unfolding items filter_sort_by_desc filed_unique [OF filed] file_event_get
    by (auto simp: ev sort_by_desc_short split: list.split)
  have "set (dkeys ?m) = {k. map_of ?m k \<noteq> None}" by (auto simp: map_of_eq_None_iff)
  also have "\<dots> = {k. \<exists>e \<in> set events. event_key e = Some k}"
    by (auto simp: file_event_get filter_empty_conv split: list.split)
  finally have "Some ` set (dkeys ?m) = event_key ` {e \<in> set events. event_key e \<noteq> None}" by force
  moreover have "card (Some ` set (dkeys ?m)) = card (set (dkeys ?m))" by (rule card_image) simp
  moreover have "card (set (dkeys ?m)) = length ?m"
    using filed distinct_card [of "dkeys ?m"] by (simp only: filed_def length_map)
  ultimately have "u_count u = card (event_key ` {e \<in> set (u_events u). event_key e \<noteq> None})" by (simp add: items ev)
  with last show ?thesis by blast
qed

section \<open>Witnesses\<close>

definition demo_form_env :: form_env where
  "demo_form_env = web_env.extend demo_web_env \<lparr>f_record = demo_record_env\<rparr>"

definition demo_web_world :: web_world where
  "demo_web_world = gate.extend empty_gate \<lparr>intake_log = None, registry_log = None, chat_log = None\<rparr>"

definition visitor :: request where
  "visitor = \<lparr>peer_host = Some ''203.0.113.9'', headers = []\<rparr>"

definition demo_enquiry :: enquiry where
  "demo_enquiry = \<lparr>q_name = ''Ann'', q_email = ''a@b.c'', q_subject = ''hi'', q_message = '' hello '', q_page = []\<rparr>"


definition demo_admin :: "string \<Rightarrow> string \<Rightarrow> obj" where
  "demo_admin name h = [(''kind'', JStr ''local_admin_user''), (''username'', JStr name), (''password_hash'', JStr h)]"

theorem registry_shows_last_events_witness:
  "\<exists>u. get_local_admin_users 500 (log_of [demo_admin ''ann'' ''h1'', demo_admin ''bob'' ''h2'', demo_admin ''Ann'' ''h3'']) = Inr u
     \<and> filter (\<lambda>e. event_key e = Some ''ann::unknown'') (u_items u) = [demo_admin ''Ann'' ''h3''] \<and> u_count u = 2"
proof -
  let ?es = "[demo_admin ''ann'' ''h1'', demo_admin ''bob'' ''h2'', demo_admin ''Ann'' ''h3'']"
  have "record_ok (demo_admin ''ann'' ''h1'')" "record_ok (demo_admin ''bob'' ''h2'')" "record_ok (demo_admin ''Ann'' ''h3'')"
    by code_simp+
  then have "list_all record_ok ?es" by simp
  from log_items_log_of [OF this, of 500] have items: "log_items 500 (log_of ?es) = map JObj ?es" by simp
  have kind: "jget (demo_admin n h) ''kind'' = JStr ''local_admin_user''" for n h
    by (simp add: demo_admin_def dget_or_def)
  have ev: "read_local_admin_users 500 (log_of ?es) = Inr ?es"
    unfolding read_local_admin_users_def items traverse_as_obj by (simp add: kind)
  obtain u where u: "get_local_admin_users 500 (log_of ?es) = Inr u" by (simp add: get_local_admin_users_def ev Let_def)
  then have events: "u_events u = rev ?es" by (auto simp: get_local_admin_users_def ev Let_def)
  have keys: "event_key (demo_admin ''ann'' ''h1'') = Some ''ann::unknown''" "event_key (demo_admin ''bob'' ''h2'') = Some ''bob::unknown''"
    "event_key (demo_admin ''Ann'' ''h3'') = Some ''ann::unknown''"
    by code_simp+
  have "{e \<in> set ?es. event_key e \<noteq> None} = set ?es" using keys by auto
  then have "event_key ` {e \<in> set ?es. event_key e \<noteq> None} = {Some ''ann::unknown'', Some ''bob::unknown''}"
    by (simp add: keys insert_commute)
  then have "event_key ` {e \<in> set (u_events u). event_key e \<noteq> None} = {Some ''ann::unknown'', Some ''bob::unknown''}"
    unfolding events set_rev .
  with registry_shows_last_events [OF u, of "''ann::unknown''"] have "u_count u = 2"
    "filter (\<lambda>e. event_key e = Some ''ann::unknown'') (u_items u) = [demo_admin ''Ann'' ''h3'']"
    by (simp_all add: events keys)
  with u show ?thesis by blast
qed

end
