(* ===== verification/Device_Sync.thy ===== *)
theory Device_Sync
  imports Memory_Store Rules
begin

text \<open>
  Model of \<open>shared/device_sync.py\<close>, of \<open>run_sync_cycle\<close> in \<open>scripts/sync_agent.py\<close> and of the sync actions of
  \<open>Jarvis/actions.py\<close>: the registry of peers, what is shared with them, merging what they send, and one round of
  synchronisation. The answer of a peer is a parameter: any function of the calls made so far. The log of the module is
  only written and is left out. The arrow and the dash of two messages are outside the characters of the model and come from the
  environment.
\<close>

section \<open>State and environment\<close>

record http_call =
  hc_method :: string
  hc_url :: string
  hc_headers :: "string dict"
  hc_body :: "obj option"

record sync_world = mem_store +
  peers_file :: state_doc
  sync_state_file :: state_doc
  http_calls :: "http_call list"

record sync_env = host_env +
  share_level :: string
  own_key :: string
  http_answer :: "http_call list \<Rightarrow> json outcome"
  s_err_text :: "exn \<Rightarrow> string"
  s_arrow :: string
  s_dash :: string

definition share_level_of :: "string option \<Rightarrow> string" where
  "share_level_of v = lower (strip (case v of None \<Rightarrow> ''public'' | Some s \<Rightarrow> s))"

text \<open>\<open>json.loads(path.read_text())\<close> with a default for every failure.\<close>

definition doc_or :: "json \<Rightarrow> state_doc \<Rightarrow> json" where
  "doc_or d f = (case f of Doc v \<Rightarrow> v | _ \<Rightarrow> d)"

lemma doc_or_Doc [simp]: "doc_or d (Doc v) = v"
  by (simp add: doc_or_def)

definition rstrip_slash :: "string \<Rightarrow> string" where
  "rstrip_slash = rstrip_by (\<lambda>c. c = CHR ''/'')"

text \<open>A method of \<open>str\<close> on a value.\<close>

fun the_str :: "json \<Rightarrow> string outcome" where
  "the_str (JStr s) = Inr s"
| "the_str _ = Inl AttributeError"

section \<open>Peers\<close>

definition load_peers :: "('w sync_world_scheme, json) act" where
  "load_peers = act_get (\<lambda>w. doc_or (JArr []) (peers_file w))"

definition save_peers :: "json \<Rightarrow> ('w sync_world_scheme, unit) act" where
  "save_peers v = act_modify (\<lambda>w. w\<lparr>peers_file := Doc v\<rparr>)"

definition dicts_of :: "json \<Rightarrow> obj list outcome" where
  "dicts_of v = and_then (py_iter v) (traverse as_obj)"

definition new_peer :: "'e sync_env_scheme \<Rightarrow> string \<Rightarrow> string \<Rightarrow> bool \<Rightarrow> string \<Rightarrow> obj" where
  "new_peer env url label trusted secret =
     [(''id'', JStr (take 12 (fresh_uuid env))), (''url'', JStr url), (''label'', JStr (if label = [] then url else label)),
      (''trusted'', JBool trusted), (''added_at'', JStr (now_iso env)), (''last_sync'', JNull), (''last_sync_status'', JNull)]
     @ (if secret = [] then [] else [(''peer_secret'', JStr secret)])"

definition update_peer :: "'e sync_env_scheme \<Rightarrow> string \<Rightarrow> bool \<Rightarrow> string \<Rightarrow> obj \<Rightarrow> obj" where
  "update_peer env label trusted secret p =
     (let p1 = dset ''trusted'' (JBool trusted) (dset ''label'' (if label \<noteq> [] then JStr label else dget_or p ''label'' (JStr [])) p);
          p2 = (if secret = [] then p1 else dset ''peer_secret'' (JStr secret) p1) in
      dset ''updated_at'' (JStr (now_iso env)) p2)"

text \<open>The list of peers is read up to the first one with the address.\<close>

fun find_peer :: "string \<Rightarrow> json list \<Rightarrow> obj option outcome" where
  "find_peer url [] = Inr None"
| "find_peer url (v # vs) = and_then (as_obj v) (\<lambda>p. if jget p ''url'' = JStr url then Inr (Some p) else find_peer url vs)"

definition is_peer :: "string \<Rightarrow> json \<Rightarrow> bool" where
  "is_peer url v = (case v of JObj p \<Rightarrow> jget p ''url'' = JStr url | _ \<Rightarrow> False)"

definition add_peer :: "'e sync_env_scheme \<Rightarrow> string \<Rightarrow> string \<Rightarrow> bool \<Rightarrow> string \<Rightarrow> ('w sync_world_scheme, obj) act" where
  "add_peer env url0 label trusted secret =
     (let url = rstrip_slash (strip url0) in
      if url = [] then act_raise (ValueError ''Peer URL is required'')
      else act_bind load_peers (\<lambda>v.
        act_bind (act_of (and_then (py_iter v) (find_peer url))) (\<lambda>found.
        case found of
          Some p \<Rightarrow> (let q = update_peer env label trusted secret p in
            act_bind (save_peers (JArr (update_first (is_peer url) (\<lambda>_. JObj q) (case v of JArr vs \<Rightarrow> vs | _ \<Rightarrow> []))))
              (\<lambda>_. act_return q))
        | None \<Rightarrow> (case v of
            JArr vs \<Rightarrow> (let q = new_peer env url label trusted secret in
              act_bind (save_peers (JArr (vs @ [JObj q]))) (\<lambda>_. act_return q))
          | _ \<Rightarrow> act_raise AttributeError))))"

definition remove_peer :: "string \<Rightarrow> ('w sync_world_scheme, bool) act" where
  "remove_peer key =
     act_bind load_peers (\<lambda>v.
     act_bind (act_of (py_len v)) (\<lambda>n.
     act_bind (act_of (dicts_of v)) (\<lambda>ps.
       let rest = filter (\<lambda>p. jget p ''url'' \<noteq> JStr key \<and> jget p ''id'' \<noteq> JStr key) ps in
       if length rest < n then act_bind (save_peers (JArr (map JObj rest))) (\<lambda>_. act_return True) else act_return False)))"

section \<open>Calls to a peer\<close>

definition peer_headers :: "'e sync_env_scheme \<Rightarrow> obj \<Rightarrow> string dict outcome" where
  "peer_headers env p =
     (let base = [(''Accept'', ''application/json'')] @ (if own_key env = [] then [] else [(''X-API-Key'', own_key env)]) in
      if p = [] then Inr base
      else and_then (the_str (dget_or p ''peer_secret'' (JStr []))) (\<lambda>s.
        Inr (base @ (if strip s = [] then [] else [(''X-Jarvis-Peer-Secret'', strip s)]))))"

definition http_send :: "'e sync_env_scheme \<Rightarrow> http_call \<Rightarrow> ('w sync_world_scheme, json) act" where
  "http_send env c =
     act_bind (act_modify (\<lambda>w. w\<lparr>http_calls := http_calls w @ [c]\<rparr>)) (\<lambda>_.
     act_bind (act_get http_calls) (\<lambda>cs. act_of (http_answer env cs)))"

definition http_get :: "'e sync_env_scheme \<Rightarrow> string \<Rightarrow> obj \<Rightarrow> ('w sync_world_scheme, json) act" where
  "http_get env url p =
     act_bind (act_of (peer_headers env p)) (\<lambda>h.
       http_send env \<lparr>hc_method = ''GET'', hc_url = url, hc_headers = h, hc_body = None\<rparr>)"

definition http_post :: "'e sync_env_scheme \<Rightarrow> string \<Rightarrow> obj \<Rightarrow> obj \<Rightarrow> ('w sync_world_scheme, json) act" where
  "http_post env url body p =
     act_bind (act_of (peer_headers env p)) (\<lambda>h.
       http_send env \<lparr>hc_method = ''POST'', hc_url = url, hc_headers = h @ [(''Content-Type'', ''application/json'')], hc_body = Some body\<rparr>)"

section \<open>What is shared\<close>

text \<open>Comparing a naive time with an aware one raises TypeError.\<close>

definition created_after :: "stamp \<Rightarrow> mem_row \<Rightarrow> bool outcome" where
  "created_after d r =
     (case fromisoformat (strip_zulu (row_created r)) of
        None \<Rightarrow> Inl (ValueError ''Invalid isoformat string'')
      | Some t \<Rightarrow> if aware t = aware d then Inr (micros d < micros t) else Inl TypeError)"

definition since_filter :: "json \<Rightarrow> mem_row list \<Rightarrow> mem_row list outcome" where
  "since_filter since rows =
     and_then (the_str since) (\<lambda>s.
       case fromisoformat (strip_zulu s) of
         None \<Rightarrow> Inl (ValueError ''Invalid isoformat string'')
       | Some d \<Rightarrow> filter_out (created_after d) rows)"

definition shareable_memories :: "'e sync_env_scheme \<Rightarrow> json \<Rightarrow> memdb \<Rightarrow> mem_row list" where
  "shareable_memories env since db =
     (if share_level env = ''none'' then []
      else (let rows = list_memories 500 (if share_level env = ''public'' then Some ''public'' else None) db in
        if truthy since then (case since_filter since rows of Inl _ \<Rightarrow> rows | Inr xs \<Rightarrow> xs) else rows))"

definition local_manifest :: "'e sync_env_scheme \<Rightarrow> obj \<Rightarrow> ('w sync_world_scheme, obj) act" where
  "local_manifest env reg =
     act_bind (act_of (as_obj (dget_or reg ''inventory'' (JObj [])))) (\<lambda>inv.
     act_bind (act_of (as_obj (dget_or inv ''identity'' (JObj [])))) (\<lambda>idn.
     act_bind (act_get (\<lambda>w. doc_or (JObj []) (sync_state_file w))) (\<lambda>v.
     act_bind (act_of (as_obj v)) (\<lambda>st. act_return
       [(''device_id'', dget_or inv ''fingerprint'' (JStr (hostname env))), (''label'', dget_or reg ''label'' (JStr (hostname env))),
        (''hostname'', dget_or idn ''hostname'' (JStr (hostname env))), (''api_version'', JStr ''5.0''), (''share_level'', JStr (share_level env)),
        (''last_sync'', jget st ''last_sync''), (''memory_count'', dget_or st ''memory_count'' (JInt 0)), (''ts'', JStr (now_iso env))]))))"

section \<open>Merging what a peer sends\<close>

definition incoming_entry :: "string \<Rightarrow> obj \<Rightarrow> obj" where
  "incoming_entry label m =
     ddel ''relation'' (ddel ''score'' (dsetdefault ''visibility'' (JStr ''private'') (dsetdefault ''source'' (JStr (''sync:'' @ label)) m)))"

fun merge_incoming :: "'e sync_env_scheme \<Rightarrow> string \<Rightarrow> json list \<Rightarrow> nat \<Rightarrow> nat \<Rightarrow> memdb \<Rightarrow> (nat \<times> nat) \<times> memdb" where
  "merge_incoming env label [] imported skipped db = ((imported, skipped), db)"
| "merge_incoming env label (v # vs) imported skipped db =
     (case v of
        JObj m \<Rightarrow>
          (let e = incoming_entry label m; (i, db') = upsert_memory env True e db; orig = py_str (dget_or e ''id'' (JStr [])) in
           if orig \<noteq> [] \<and> i \<noteq> orig then merge_incoming env label vs imported (Suc skipped) db'
           else merge_incoming env label vs (Suc imported) skipped db')
      | _ \<Rightarrow> merge_incoming env label vs imported (Suc skipped) db)"

section \<open>One peer\<close>

text \<open>The \<open>result\<close> dict of the call is kept beside the world: what was put there before an exception stays.\<close>

definition on_world :: "('w, 'a) act \<Rightarrow> (obj \<times> 'w, 'a) act" where
  "on_world m = (\<lambda>(r, w). case m w of (x, w') \<Rightarrow> (x, (r, w')))"

definition set_result :: "string \<Rightarrow> json \<Rightarrow> (obj \<times> 'w, unit) act" where
  "set_result k v = act_modify (\<lambda>(r, w). (dset k v r, w))"

definition pull_from :: "'e sync_env_scheme \<Rightarrow> obj \<Rightarrow> string \<Rightarrow> json \<Rightarrow> json \<Rightarrow> (obj \<times> 'w sync_world_scheme, unit) act" where
  "pull_from env p url label last_sync =
     act_bind (on_world (http_get env (url @ ''/api/sync/pull-memories'' @ (if truthy last_sync then ''?since='' @ py_str last_sync else [])) p)) (\<lambda>v.
     act_bind (act_of (as_obj v)) (\<lambda>d.
       let incoming = dget_or d ''memories'' (JArr []) in
       if truthy incoming then
         act_bind (act_of (py_iter incoming)) (\<lambda>xs.
         act_bind (on_world (lift_db (merge_incoming env (py_str label) xs 0 0))) (\<lambda>(imported, _).
           set_result ''pulled'' (JInt (int imported))))
       else act_return ()))"

definition push_to :: "'e sync_env_scheme \<Rightarrow> obj \<Rightarrow> string \<Rightarrow> json \<Rightarrow> (obj \<times> 'w sync_world_scheme, unit) act" where
  "push_to env p url last_push =
     act_bind (on_world (act_get (\<lambda>w. shareable_memories env last_push (store w)))) (\<lambda>rows.
       if rows = [] then act_return ()
       else
         act_bind (on_world (http_post env (url @ ''/api/sync/push-memories'')
           [(''memories'', JArr (map (\<lambda>r. JObj (row_to_memory r)) rows)), (''source_label'', JStr (hostname env))] p)) (\<lambda>v.
         act_bind (act_of (as_obj v)) (\<lambda>d. set_result ''pushed'' (dget_or d ''imported'' (JInt 0)))))"

definition sync_body :: "'e sync_env_scheme \<Rightarrow> obj \<Rightarrow> string \<Rightarrow> json \<Rightarrow> (obj \<times> 'w sync_world_scheme, unit) act" where
  "sync_body env p url label =
     act_bind (on_world (http_get env (url @ ''/api/sync/manifest'') p)) (\<lambda>v.
     act_bind (act_of (as_obj v)) (\<lambda>manifest.
     act_bind (pull_from env p url label (jget manifest ''last_sync'')) (\<lambda>_.
     act_bind (on_world (act_get (\<lambda>w. doc_or (JObj []) (sync_state_file w)))) (\<lambda>sv.
     act_bind (act_of (as_obj sv)) (\<lambda>st.
       let key = ''last_push_'' @ py_str (dget_or p ''id'' (JStr url)) in
       act_bind (push_to env p url (jget st key)) (\<lambda>_.
       act_bind (on_world (act_modify (\<lambda>w. w\<lparr>sync_state_file := Doc (JObj
          (dset ''memory_count'' (JInt (int (length (shareable_memories env JNull (store w)))))
            (dset key (JStr (now_iso env)) (dset ''last_sync'' (JStr (now_iso env)) st))))\<rparr>))) (\<lambda>_.
       act_bind (set_result ''ok'' (JBool True)) (\<lambda>_.
         set_result ''peer_manifest'' (JObj [(''device_id'', jget manifest ''device_id''), (''label'', jget manifest ''label''),
           (''share_level'', dget_or manifest ''share_level'' (JStr ''public''))])))))))))"

definition sync_with_peer :: "'e sync_env_scheme \<Rightarrow> obj \<Rightarrow> ('w sync_world_scheme, obj) act" where
  "sync_with_peer env p =
     act_bind (act_of (the_str (dget_or p ''url'' (JStr [])))) (\<lambda>u.
       let url = rstrip_slash u; label = dget_or p ''label'' (JStr url);
           r0 = [(''peer_url'', JStr url), (''peer_label'', label), (''ts'', JStr (now_iso env)), (''ok'', JBool False),
                 (''pulled'', JInt 0), (''pushed'', JInt 0), (''error'', JNull)] in
       (\<lambda>w. case act_catch (sync_body env p url label) (\<lambda>e. set_result ''error'' (JStr (s_err_text env e))) (r0, w) of
              (_, (r, w')) \<Rightarrow> (Inr r, w')))"

section \<open>All peers\<close>

definition mark_peer :: "obj \<Rightarrow> obj \<Rightarrow> obj \<Rightarrow> obj" where
  "mark_peer peer r p =
     (if py_eq (jget p ''id'') (jget peer ''id'')
      then dset ''last_sync_status'' (JStr (if truthy (jget r ''ok'') then ''ok'' else ''error'')) (dset ''last_sync'' (jget r ''ts'') p) else p)"

fun sync_each :: "'e sync_env_scheme \<Rightarrow> obj list \<Rightarrow> ('w sync_world_scheme, obj list) act" where
  "sync_each env [] = act_return []"
| "sync_each env (p # ps) =
     act_bind (sync_with_peer env p) (\<lambda>r.
     act_bind load_peers (\<lambda>v.
     act_bind (act_of (dicts_of v)) (\<lambda>all.
     act_bind (save_peers (if all = [] then v else JArr (map (\<lambda>q. JObj (mark_peer p r q)) all))) (\<lambda>_.
     act_bind (sync_each env ps) (\<lambda>rs. act_return (r # rs))))))"

text \<open>\<open>sum(...)\<close> over values that may be no numbers.\<close>

definition py_sum :: "json list \<Rightarrow> json outcome" where
  "py_sum vs =
     (if list_all is_int vs then Inr (JInt (sum_list (map (\<lambda>v. case num_parts v of Some (m, _) \<Rightarrow> m | None \<Rightarrow> 0) vs)))
      else if list_all is_num vs then
        (let top_e = foldr max (map (\<lambda>v. case num_parts v of Some (_, e) \<Rightarrow> e | None \<Rightarrow> 0) vs) 0 in
         Inr (norm_dec top_e (sum_list (map (\<lambda>v. case num_parts v of Some (m, e) \<Rightarrow> m * 10 ^ (top_e - e) | None \<Rightarrow> 0) vs)) top_e))
      else Inl TypeError)"

definition sync_report :: "obj list \<Rightarrow> obj outcome" where
  "sync_report rs =
     (let ok_count = length (filter (\<lambda>r. truthy (jget r ''ok'')) rs) in
      and_then (py_sum (map (\<lambda>r. dget_or r ''pulled'' (JInt 0)) rs)) (\<lambda>pulled.
      and_then (py_sum (map (\<lambda>r. dget_or r ''pushed'' (JInt 0)) rs)) (\<lambda>pushed.
        Inr [(''ok'', JBool (ok_count = length rs)), (''peers_synced'', JInt (int ok_count)), (''peers_failed'', JInt (int (length rs - ok_count))),
             (''total_pulled'', pulled), (''total_pushed'', pushed), (''results'', JArr (map JObj rs))])))"

definition sync_all_peers :: "'e sync_env_scheme \<Rightarrow> ('w sync_world_scheme, obj) act" where
  "sync_all_peers env =
     act_bind load_peers (\<lambda>v.
     act_bind (act_of (dicts_of v)) (\<lambda>all.
       let peers = filter (\<lambda>p. truthy (dget_or p ''trusted'' (JBool True))) all in
       if peers = [] then act_return [(''ok'', JBool True), (''peers_synced'', JInt 0), (''results'', JArr []), (''message'', JStr ''No peers registered'')]
       else act_bind (sync_each env peers) (\<lambda>rs. act_of (sync_report rs))))"

text \<open>One cycle of the agent.\<close>

definition run_sync_cycle :: "'e sync_env_scheme \<Rightarrow> ('w sync_world_scheme, obj) act" where
  "run_sync_cycle env =
     act_catch
       (act_bind load_peers (\<lambda>v.
          if \<not> truthy v then act_return [(''ok'', JBool True), (''peers_synced'', JInt 0), (''message'', JStr ''no peers'')]
          else
            act_bind (sync_all_peers env) (\<lambda>r.
            act_bind (act_of (subscript r ''peers_synced'')) (\<lambda>_.
            act_bind (act_of (py_len v)) (\<lambda>_.
            act_bind (act_of (subscript r ''total_pulled'')) (\<lambda>_.
            act_bind (act_of (subscript r ''total_pushed'')) (\<lambda>_. act_return r)))))))
       (\<lambda>e. act_return [(''ok'', JBool False), (''error'', JStr (s_err_text env e))])"

definition check_peer_health :: "'e sync_env_scheme \<Rightarrow> int \<Rightarrow> string \<Rightarrow> ('w sync_world_scheme, obj) act" where
  "check_peer_health env latency_ms url0 =
     (let url = rstrip_slash (strip url0) in
      act_catch
        (act_bind (http_get env (url @ ''/api/health'') []) (\<lambda>v.
         act_bind (act_of (as_obj v)) (\<lambda>d.
           act_return [(''ok'', dget_or d ''ok'' (JBool False)), (''reachable'', JBool True), (''latency_ms'', JInt latency_ms), (''url'', JStr url)])))
        (\<lambda>e. act_return [(''ok'', JBool False), (''reachable'', JBool False), (''error'', JStr (s_err_text env e)), (''url'', JStr url)]))"

definition state_summary :: "'e sync_env_scheme \<Rightarrow> state_doc \<Rightarrow> obj" where
  "state_summary env f =
     (let end_part = [(''device'', JStr (hostname env)), (''ts'', JStr (now_iso env))] in
      case (case f of Doc v \<Rightarrow>
          and_then (as_obj v) (\<lambda>s.
          and_then (as_obj (dget_or s ''workflow'' (JObj []))) (\<lambda>wf.
          and_then (dicts_of (dget_or wf ''tasks'' (JArr []))) (\<lambda>ts.
          and_then (filter_out (\<lambda>t. in_str_set [''todo'', ''doing''] (jget t ''status'')) ts) (\<lambda>active.
            Inr [(''current_focus'', dget_or wf ''current_focus'' (JStr [])),
                 (''active_tasks'', JArr (map (\<lambda>t. JObj [(''id'', jget t ''id''), (''title'', jget t ''title''), (''status'', jget t ''status'')]) active))]))))
        | _ \<Rightarrow> Inl FileNotFoundError) of
        Inr d \<Rightarrow> d @ end_part
      | Inl _ \<Rightarrow> end_part)"

definition get_sync_status :: "'e sync_env_scheme \<Rightarrow> ('w sync_world_scheme, obj) act" where
  "get_sync_status env =
     act_bind load_peers (\<lambda>v.
     act_bind (act_get (\<lambda>w. doc_or (JObj []) (sync_state_file w))) (\<lambda>sv.
     act_bind (act_of (py_len v)) (\<lambda>n.
     act_bind (act_of (dicts_of v)) (\<lambda>ps.
     act_bind (act_of (as_obj sv)) (\<lambda>st. act_return
       [(''peer_count'', JInt (int n)), (''trusted_peers'', JArr (map JObj (filter (\<lambda>p. truthy (jget p ''trusted'')) ps))),
        (''last_sync'', jget st ''last_sync''), (''memory_count'', dget_or st ''memory_count'' (JInt 0)), (''share_level'', JStr (share_level env))])))))"

section \<open>The actions of the command line\<close>

definition or_never :: "json \<Rightarrow> string" where
  "or_never v = py_str (py_or v (JStr ''never''))"

definition run_sync_now :: "'e sync_env_scheme \<Rightarrow> ('w sync_world_scheme, string) act" where
  "run_sync_now env =
     act_bind (sync_all_peers env) (\<lambda>r.
       if jget r ''message'' = JStr ''no peers'' then act_return ''No sync peers registered. Add peers with: add sync peer <url>''
       else
         act_bind (act_of (subscript r ''peers_synced'')) (\<lambda>n.
         act_bind (act_of (subscript r ''total_pulled'')) (\<lambda>a.
         act_bind (act_of (subscript r ''total_pushed'')) (\<lambda>b.
           act_return (''Sync complete: '' @ py_str n @ '' peer(s) ok, '' @ py_str (dget_or r ''peers_failed'' (JInt 0)) @ '' failed. Pulled ''
             @ py_str a @ '', pushed '' @ py_str b @ ''.'')))))"

definition peer_line :: "'e sync_env_scheme \<Rightarrow> obj \<Rightarrow> string" where
  "peer_line env p =
     ''  ['' @ (if truthy (jget p ''trusted'') then ''trusted'' else ''untrusted'') @ ''] '' @ py_str (dget_or p ''label'' (JStr ''?''))
       @ '' '' @ s_dash env @ '' '' @ py_str (jget p ''url'') @ '' (last sync: '' @ or_never (jget p ''last_sync'') @ '')''"

definition list_sync_peers :: "'e sync_env_scheme \<Rightarrow> ('w sync_world_scheme, string) act" where
  "list_sync_peers env =
     act_bind load_peers (\<lambda>v.
       if \<not> truthy v then act_return ''No sync peers registered. Use: add sync peer <url> [label]''
       else act_bind (act_of (dicts_of v)) (\<lambda>ps.
         act_return (join [char_of (10::nat)] ([''Registered Sync Peers'', ''---------------------''] @ map (peer_line env) ps))))"

definition add_sync_peer :: "'e sync_env_scheme \<Rightarrow> string \<Rightarrow> ('w sync_world_scheme, string) act" where
  "add_sync_peer env payload =
     (case split_ws payload of
        [] \<Rightarrow> act_return ''Usage: add sync peer <url> [label]''
      | url # _ \<Rightarrow>
          (let label = dropWhile is_space (drop (length url) (strip payload)) in
           act_catch
             (act_bind (add_peer env url label True []) (\<lambda>p.
                act_return (''Peer registered: '' @ py_str (dget_or p ''label'' (JStr url)) @ '' '' @ s_arrow env @ '' '' @ url)))
             (\<lambda>e. act_return (''Failed to add peer: '' @ s_err_text env e))))"

definition remove_sync_peer :: "string \<Rightarrow> ('w sync_world_scheme, string) act" where
  "remove_sync_peer payload =
     (let k = strip payload in
      if k = [] then act_return ''Usage: remove sync peer <url_or_id>''
      else act_bind (remove_peer k) (\<lambda>ok. act_return ((if ok then ''Peer removed: '' else ''Peer not found: '') @ k)))"

section \<open>What leaves the device\<close>

text \<open>A predicate on the calls that is kept when every added call has it.\<close>

definition calls_ok :: "(http_call \<Rightarrow> bool) \<Rightarrow> 'w sync_world_scheme \<Rightarrow> bool" where
  "calls_ok P w = list_all P (http_calls w)"

lemma on_world_preserves [preserve_intros]: "preserves I m \<Longrightarrow> preserves (\<lambda>(r, w). I w) (on_world m)"
  by (auto simp: preserves_def on_world_def split: prod.split) 

lemma set_result_preserves [preserve_intros]: "preserves (\<lambda>(r, w). I w) (set_result k v)"
  by (auto simp: preserves_def set_result_def)

lemma calls_ok_modify:
  "(\<And>w. http_calls (f w) = http_calls w) \<Longrightarrow> preserves (calls_ok P) (act_modify f)"
  by (simp add: preserves_def calls_ok_def)

lemma calls_ok_send: "P c \<Longrightarrow> preserves (calls_ok P) (http_send env c)"
  unfolding http_send_def by (intro preserve_intros preserves_modify) (simp add: calls_ok_def)

lemma calls_ok_get:
  "(\<And>h. P \<lparr>hc_method = ''GET'', hc_url = url, hc_headers = h, hc_body = None\<rparr>) \<Longrightarrow> preserves (calls_ok P) (http_get env url p)"
  unfolding http_get_def by (intro preserve_intros calls_ok_send) blast

lemma calls_ok_post:
  "(\<And>h. P \<lparr>hc_method = ''POST'', hc_url = url, hc_headers = h, hc_body = Some b\<rparr>) \<Longrightarrow> preserves (calls_ok P) (http_post env url b p)"
  unfolding http_post_def by (intro preserve_intros calls_ok_send) blast

lemma calls_ok_lift_db: "preserves (calls_ok P) (lift_db f)"
  by (auto simp: preserves_def calls_ok_def lift_db_def Let_def split: prod.split)

lemma calls_ok_peers: "preserves (calls_ok P) load_peers" "preserves (calls_ok P) (save_peers v)"
  unfolding load_peers_def save_peers_def by (intro preserve_intros calls_ok_modify; simp)+

text \<open>The memories in the body of a call are public.\<close>

definition public_memory :: "json \<Rightarrow> bool" where
  "public_memory v = (case v of JObj d \<Rightarrow> jget d ''visibility'' = JStr ''public'' | _ \<Rightarrow> False)"

definition shares_public :: "http_call \<Rightarrow> bool" where
  "shares_public c = (case hc_body c of None \<Rightarrow> True
     | Some b \<Rightarrow> (case jget b ''memories'' of JArr vs \<Rightarrow> list_all public_memory vs | _ \<Rightarrow> False))"

lemma shareable_subset: "set (shareable_memories env since db) \<subseteq> set (shareable_memories env JNull db)"
  by (auto simp: shareable_memories_def since_filter_def Let_def filter_out_Inr split: sum.splits option.splits)

lemma shareable_public:
  "share_level env = ''public'' \<Longrightarrow> r \<in> set (shareable_memories env since db) \<Longrightarrow> row_visibility r = ''public''"
  using shareable_subset [of env since db]
  by (auto simp: shareable_memories_def list_memories_def visible_rows_def dest!: in_set_takeD)

lemma preserves_bind_yields:
  "yields Q m \<Longrightarrow> preserves I m \<Longrightarrow> (\<And>x. Q x \<Longrightarrow> preserves I (k x)) \<Longrightarrow> preserves I (act_bind m k)"
  by (force simp: preserves_def yields_def act_bind_app split: prod.split sum.split)

lemma yields_world_get: "(\<And>w. Q (f w)) \<Longrightarrow> yields Q (on_world (act_get f))"
  by (auto simp: yields_def on_world_def)

lemma push_public:
  assumes "share_level env \<in> {''public'', ''none''}"
  shows "preserves (\<lambda>(r, w :: 'w sync_world_scheme). calls_ok shares_public w) (push_to env p url last_push)"
proof -
  let ?I = "\<lambda>(r :: obj, w :: 'w sync_world_scheme). calls_ok shares_public w"
  have post: "preserves ?I (on_world (http_post env u [(''memories'', JArr (map (\<lambda>r. JObj (row_to_memory r)) xs)), (''source_label'', l)] p))"
    if "\<forall>r \<in> set xs. row_visibility r = ''public''" for xs u l
    by (intro preserve_intros calls_ok_post)
      (use that in \<open>auto simp: shares_public_def dget_or_def list_all_iff public_memory_def row_to_memory_def\<close>)
  have rows: "yields (\<lambda>xs. \<forall>r \<in> set xs. row_visibility r = ''public'')
      (on_world (act_get (\<lambda>w :: 'w sync_world_scheme. shareable_memories env last_push (store w))))"
    using assms shareable_public [of env] by (intro yields_world_get) (auto simp: shareable_memories_def)
  show ?thesis unfolding push_to_def
    by (rule preserves_bind_yields [OF rows]) (auto intro!: preserve_intros post simp: Let_def)
qed

lemma result_preserves:
  assumes "preserves (\<lambda>(r :: obj, w). I w) b"
  shows "preserves I (\<lambda>w. case b (r0, w) of (x, (r, w')) \<Rightarrow> (Inr r, w'))"
  unfolding preserves_def
proof (intro allI impI)
  fix w assume "I w"
  then have "case snd (b (r0, w)) of (r, w) \<Rightarrow> I w" using assms by (auto simp: preserves_def)
  then show "I (snd (case b (r0, w) of (x, (r, w')) \<Rightarrow> (Inr r, w')))" by (auto split: prod.splits)
qed

lemma pull_calls: "(\<And>c. hc_body c = None \<Longrightarrow> P c) \<Longrightarrow> preserves (\<lambda>(r, w). calls_ok P w) (pull_from env p url label t)"
  unfolding pull_from_def Let_def
  by (auto intro!: preserve_intros calls_ok_get calls_ok_lift_db split: prod.split)

lemma sync_peer_public:
  assumes "share_level env \<in> {''public'', ''none''}"
  shows "preserves (calls_ok shares_public :: 'w sync_world_scheme \<Rightarrow> bool) (sync_with_peer env p)"
proof -
  let ?I = "\<lambda>(r :: obj, w :: 'w sync_world_scheme). calls_ok shares_public w"
  have get: "shares_public c" if "hc_body c = None" for c using that by (simp add: shares_public_def)
  have save: "preserves ?I (on_world (act_modify (\<lambda>w. w\<lparr>sync_state_file := f w\<rparr>)))" for f
    by (intro preserve_intros calls_ok_modify) simp
  have body: "preserves ?I (act_catch (sync_body env p u l) (\<lambda>e. set_result ''error'' (JStr (s_err_text env e))))" for u l
    unfolding sync_body_def Let_def
    by (intro preserve_intros calls_ok_get push_public [OF assms] pull_calls save) (simp_all add: get)
  show ?thesis unfolding sync_with_peer_def Let_def
    by (intro preserve_intros result_preserves body)
qed

lemma sync_each_calls:
  "(\<And>p. preserves (calls_ok P :: 'w sync_world_scheme \<Rightarrow> bool) (sync_with_peer env p)) \<Longrightarrow> preserves (calls_ok P :: 'w sync_world_scheme \<Rightarrow> bool) (sync_each env ps)"
  by (induction ps) (auto intro!: preserve_intros calls_ok_peers)

lemma sync_all_calls:
  "(\<And>p. preserves (calls_ok P :: 'w sync_world_scheme \<Rightarrow> bool) (sync_with_peer env p)) \<Longrightarrow> preserves (calls_ok P :: 'w sync_world_scheme \<Rightarrow> bool) (sync_all_peers env)"
  unfolding sync_all_peers_def Let_def by (auto intro!: preserve_intros calls_ok_peers sync_each_calls)

lemma cycle_calls:
  "(\<And>p. preserves (calls_ok P :: 'w sync_world_scheme \<Rightarrow> bool) (sync_with_peer env p)) \<Longrightarrow> preserves (calls_ok P :: 'w sync_world_scheme \<Rightarrow> bool) (run_sync_cycle env)"
  unfolding run_sync_cycle_def by (auto intro!: preserve_intros calls_ok_peers sync_all_calls)

text \<open>C6: with the default level only public memories leave the device. Whatever the peers answer, every memory in a call a
  cycle of the agent makes is marked public; with the level \<open>none\<close> as well.\<close>

theorem only_public_memories_leave:
  assumes "share_level env \<in> {''public'', ''none''}" "http_calls w = []"
  shows "list_all shares_public (http_calls (snd (run_sync_cycle env w)))"
  using preservesD [OF cycle_calls [OF sync_peer_public [OF assms(1)]], of w] assms(2) by (simp add: calls_ok_def)

lemma list_memories_all: "length (memories db) \<le> 200 \<Longrightarrow> set (list_memories 500 None db) = set (memories db)"
  by (simp add: list_memories_def visible_rows_def clamp_def)

text \<open>Any other level shares everything. The level \<open>shared\<close> of the documentation, or a misspelt one, exports every memory of a
  store of at most 200, the private ones too, to every trusted peer.\<close>

theorem other_levels_share_private:
  assumes "share_level env \<notin> {''public'', ''none''}" "length (memories db) \<le> 200"
  shows "set (shareable_memories env JNull db) = set (memories db)"
  using assms by (simp add: shareable_memories_def list_memories_all)

text \<open>One memory with a time that does not compare makes every push a full one. If the time of one of the listed memories
  does not parse, or has a zone when the time of the last push has none (or the reverse), the filter is given up.\<close>

theorem one_bad_time_shares_all_again:
  assumes "fromisoformat (strip_zulu s) = Some d" "share_level env = ''public''"
    and "r \<in> set (list_memories 500 (Some ''public'') db)"
    and "case fromisoformat (strip_zulu (row_created r)) of None \<Rightarrow> True | Some t \<Rightarrow> aware t \<noteq> aware d"
  shows "shareable_memories env (JStr s) db = shareable_memories env JNull db"
proof -
  have "\<not> (created_after d r = Inr True \<or> created_after d r = Inr False)"
    using assms(4) by (auto simp: created_after_def split: option.splits)
  then have "filter_out (created_after d) (list_memories 500 (Some ''public'') db) \<noteq> Inr xs" for xs
    using assms(3) filter_out_Inr [of "created_after d" "list_memories 500 (Some ''public'') db" xs] by blast
  then obtain e where "filter_out (created_after d) (list_memories 500 (Some ''public'') db) = Inl e"
    by (cases "filter_out (created_after d) (list_memories 500 (Some ''public'') db)") auto
  then show ?thesis using assms(1,2) by (simp add: shareable_memories_def since_filter_def Let_def)
qed

section \<open>What a peer can do\<close>

lemma merge_ok: "memdb_ok db \<Longrightarrow> memdb_ok (snd (merge_incoming env label vs a b db))"
proof (induction vs arbitrary: a b db)
  case (Cons v vs)
  then show ?case by (cases v) (simp_all add: Let_def case_prod_unfold upsert_ok)
qed simp

lemma merge_counts:
  "fst (merge_incoming env label vs a b db) = (x, y) \<Longrightarrow> x + y = a + b + length vs"
  by (induction vs arbitrary: a b db) (auto simp: Let_def split: json.splits prod.splits if_splits)

definition store_ok :: "'w sync_world_scheme \<Rightarrow> bool" where
  "store_ok w = memdb_ok (store w)"

lemma store_ok_keeps: "keeps store m \<Longrightarrow> preserves store_ok m"
  by (simp add: preserves_def keeps_def store_ok_def)

lemma keeps_store: "keeps store (http_get env u p)" "keeps store (http_post env u b p)" "keeps store load_peers" "keeps store (save_peers v)"
  unfolding http_get_def http_post_def http_send_def load_peers_def save_peers_def
  by (intro frame_intros keeps_modify; simp)+

lemmas store_steps = keeps_store [THEN store_ok_keeps]

lemma merge_store: "preserves store_ok (lift_db (merge_incoming env label vs a b))"
  by (simp add: preserves_def store_ok_def lift_db_def Let_def case_prod_unfold merge_ok)

lemma sync_peer_store: "preserves (store_ok :: 'w sync_world_scheme \<Rightarrow> bool) (sync_with_peer env p)"
proof -
  let ?I = "\<lambda>(r :: obj, w :: 'w sync_world_scheme). store_ok w"
  have save: "preserves ?I (on_world (act_modify (\<lambda>w. w\<lparr>sync_state_file := f w\<rparr>)))" for f
    by (intro preserve_intros store_ok_keeps keeps_modify) simp
  have pull: "preserves ?I (pull_from env p u l t)" for u l t
    unfolding pull_from_def Let_def by (auto intro!: preserve_intros store_steps merge_store split: prod.split)
  have push: "preserves ?I (push_to env p u t)" for u t
    unfolding push_to_def by (auto intro!: preserve_intros store_steps)
  have body: "preserves ?I (act_catch (sync_body env p u l) (\<lambda>e. set_result ''error'' (JStr (s_err_text env e))))" for u l
    unfolding sync_body_def Let_def by (intro preserve_intros store_steps push pull save)
  show ?thesis unfolding sync_with_peer_def Let_def
    by (intro preserve_intros result_preserves body)
qed

lemma sync_each_store: "preserves store_ok (sync_each env ps)"
  by (induction ps) (auto simp del: act_simps intro!: preserve_intros store_steps sync_peer_store)

text \<open>C27: no peer breaks the store. Whatever peers answer to the calls of a cycle, the tables stay consistent: identifiers
  unique, no connection to a missing memory, importance and visibility in their ranges.\<close>

theorem sync_keeps_store_consistent:
  assumes "memdb_ok (store w)"
  shows "memdb_ok (store (snd (run_sync_cycle env w)))"
proof -
  have "preserves store_ok (run_sync_cycle env)"
    unfolding run_sync_cycle_def sync_all_peers_def Let_def
    by (auto intro!: preserve_intros store_steps sync_each_store)
  then show ?thesis using assms by (auto simp: store_ok_def dest: preservesD)
qed

section \<open>No trusted peer\<close>

text \<open>With registered peers none of which is trusted, the report lacks the totals its callers read: the action \<open>sync now\<close> raises
  KeyError, and the agent reports a failed cycle; nothing is sent.\<close>

theorem no_trusted_peer_is_an_error:
  assumes "peers_file w = Doc (JArr (map JObj ps))" "ps \<noteq> []" "list_all (\<lambda>p. \<not> truthy (dget_or p ''trusted'' (JBool True))) ps"
  shows "run_sync_now env w = (Inl (KeyError ''total_pulled''), w)
    \<and> run_sync_cycle env w = (Inr [(''ok'', JBool False), (''error'', JStr (s_err_text env (KeyError ''total_pulled'')))], w)"
proof -
  have none: "filter (\<lambda>p. truthy (dget_or p ''trusted'' (JBool True))) ps = []"
    using assms(3) by (simp add: list_all_iff filter_empty_conv)
  have all: "sync_all_peers env w =
      (Inr [(''ok'', JBool True), (''peers_synced'', JInt 0), (''results'', JArr []), (''message'', JStr ''No peers registered'')], w)"
    by (simp add: sync_all_peers_def load_peers_def act_bind_app doc_or_def assms(1) dicts_of_def none)
  then show ?thesis using assms(1,2)
    by (simp add: run_sync_now_def run_sync_cycle_def load_peers_def act_bind_app act_catch_def doc_or_def subscript_def dget_or_def)
qed

section \<open>The registry as a map\<close>

text \<open>The abstract registry: from addresses to peers. The file holds it when it lists dicts with different addresses.\<close>

definition peer_map :: "obj list \<Rightarrow> json \<Rightarrow> obj option" where
  "peer_map ps = map_of (map (\<lambda>p. (jget p ''url'', p)) ps)"

definition registry_of :: "state_doc \<Rightarrow> obj list \<Rightarrow> bool" where
  "registry_of f ps \<longleftrightarrow> doc_or (JArr []) f = JArr (map JObj ps) \<and> distinct (map (\<lambda>p. jget p ''url'') ps)"

lemma find_peer_list: "find_peer url (map JObj ps) = Inr (List.find (\<lambda>p. jget p ''url'' = JStr url) ps)"
  by (induction ps) auto

lemma find_peer_map: "List.find (\<lambda>p. jget p ''url'' = JStr url) ps = peer_map ps (JStr url)"
  by (induction ps) (auto simp: peer_map_def)

lemma update_first_peer: "update_first (is_peer url) (\<lambda>_. JObj q) (map JObj ps) = map JObj (update_first (\<lambda>p. jget p ''url'' = JStr url) (\<lambda>_. q) ps)"
  by (induction ps) (auto simp: is_peer_def)

lemma peer_map_update:
  assumes "peer_map ps (JStr url) = Some p" "jget q ''url'' = JStr url"
  shows "peer_map (update_first (\<lambda>p. jget p ''url'' = JStr url) (\<lambda>_. q) ps) = (peer_map ps)(JStr url \<mapsto> q)"
  using assms(1)
proof (induction ps)
  case (Cons p' ps)
  show ?case
  proof (cases "jget p' ''url'' = JStr url")
    case True
    then show ?thesis using assms(2) by (auto simp: peer_map_def)
  next
    case False
    then have "peer_map ps (JStr url) = Some p" using Cons.prems by (simp add: peer_map_def)
    from Cons.IH [OF this] False show ?thesis by (auto simp: peer_map_def fun_upd_twist)
  qed
qed (simp add: peer_map_def)

lemma peer_map_snoc: "peer_map ps u = None \<Longrightarrow> jget q ''url'' = u \<Longrightarrow> peer_map (ps @ [q]) = (peer_map ps)(u \<mapsto> q)"
  by (auto simp: peer_map_def map_add_def fun_eq_iff split: option.split)

lemma update_peer_url: "jget (update_peer env label trusted secret p) ''url'' = jget p ''url''"
  by (simp add: update_peer_def Let_def)

lemma peer_map_url: "peer_map ps u = Some p \<Longrightarrow> jget p ''url'' = u"
  by (auto simp: peer_map_def dest: map_of_SomeD)

text \<open>Adding a peer is an update of the map at its address.\<close>

lemma add_peer_refines:
  assumes "registry_of (peers_file w) ps" "rstrip_slash (strip url0) = url" "url \<noteq> []"
  shows "\<exists>q w' ps'. add_peer env url0 label trusted secret w = (Inr q, w') \<and> registry_of (peers_file w') ps'
    \<and> peer_map ps' = (peer_map ps)(JStr url \<mapsto> q) \<and> jget q ''trusted'' = JBool trusted"
proof -
  have doc: "doc_or (JArr []) (peers_file w) = JArr (map JObj ps)" and dist: "distinct (map (\<lambda>p. jget p ''url'') ps)"
    using assms(1) by (simp_all add: registry_of_def)
  note run = add_peer_def load_peers_def save_peers_def act_bind_app doc find_peer_list find_peer_map assms(2,3) Let_def
  show ?thesis
  proof (cases "peer_map ps (JStr url)")
    case (Some p)
    let ?q = "update_peer env label trusted secret p"
    let ?ps = "update_first (\<lambda>p. jget p ''url'' = JStr url) (\<lambda>_. ?q) ps"
    have url: "jget ?q ''url'' = JStr url" using peer_map_url [OF Some] by (simp add: update_peer_url)
    have "distinct (map (\<lambda>p. jget p ''url'') ?ps)" using dist url by (subst map_update_first_inv) simp_all
    moreover have "jget ?q ''trusted'' = JBool trusted" by (simp add: update_peer_def Let_def)
    ultimately show ?thesis
      using Some peer_map_update [OF Some url] by (simp add: run update_first_peer registry_of_def) blast
  next
    case None
    let ?q = "new_peer env url label trusted secret"
    have url: "jget ?q ''url'' = JStr url" and trust: "jget ?q ''trusted'' = JBool trusted" by (simp_all add: new_peer_def dget_or_def)
    have "JStr url \<notin> set (map (\<lambda>p. jget p ''url'') ps)"
      using None by (simp add: peer_map_def map_of_eq_None_iff image_image)
    then have "distinct (map (\<lambda>p. jget p ''url'') (ps @ [?q]))" using dist url by simp
    then have "registry_of (Doc (JArr (map JObj ps @ [JObj ?q]))) (ps @ [?q])" by (simp add: registry_of_def)
    moreover have "add_peer env url0 label trusted secret w = (Inr ?q, w\<lparr>peers_file := Doc (JArr (map JObj ps @ [JObj ?q]))\<rparr>)"
      using None by (simp add: run)
    ultimately show ?thesis using trust peer_map_snoc [OF None url] by fastforce
  qed
qed

definition without_peer :: "string \<Rightarrow> (json \<Rightarrow> obj option) \<Rightarrow> json \<Rightarrow> obj option" where
  "without_peer k m u = (case m u of None \<Rightarrow> None
     | Some p \<Rightarrow> if u = JStr k \<or> jget p ''id'' = JStr k then None else Some p)"

lemma peer_map_filter:
  assumes "distinct (map (\<lambda>p. jget p ''url'') ps)"
  shows "peer_map (filter (\<lambda>p. jget p ''url'' \<noteq> JStr k \<and> jget p ''id'' \<noteq> JStr k) ps) = without_peer k (peer_map ps)"
  using assms
proof (induction ps)
  case (Cons p ps)
  have "peer_map ps (jget p ''url'') = None"
    using Cons.prems by (simp add: peer_map_def map_of_eq_None_iff image_image)
  then show ?case using Cons by (auto simp: peer_map_def without_peer_def fun_eq_iff)
qed (simp add: peer_map_def without_peer_def fun_eq_iff)

text \<open>C26: the file of peers implements a map from addresses to peers. Adding a peer under an address, with or without spaces and
  closing slashes, is one update of the map, whether the address is new or not; removing a key drops the peers with that
  address or identifier and reports whether there was one. Both keep the file a registry.\<close>

theorem peer_registry_is_a_map:
  assumes "registry_of (peers_file w) ps" "rstrip_slash (strip url0) = url" "url \<noteq> []"
  shows "(\<exists>q w' ps'. add_peer env url0 label trusted secret w = (Inr q, w') \<and> registry_of (peers_file w') ps'
      \<and> peer_map ps' = (peer_map ps)(JStr url \<mapsto> q))
    \<and> (\<exists>w' ps'. remove_peer k w = (Inr (without_peer k (peer_map ps) \<noteq> peer_map ps), w') \<and> registry_of (peers_file w') ps'
      \<and> peer_map ps' = without_peer k (peer_map ps))"
proof -
  have doc: "doc_or (JArr []) (peers_file w) = JArr (map JObj ps)" and dist: "distinct (map (\<lambda>p. jget p ''url'') ps)"
    using assms(1) by (simp_all add: registry_of_def)
  let ?rest = "filter (\<lambda>p. jget p ''url'' \<noteq> JStr k \<and> jget p ''id'' \<noteq> JStr k) ps"
  have sub: "distinct (map (\<lambda>p. jget p ''url'') ?rest)" using dist by (rule distinct_map_filter)
  have "length ?rest < length ps \<longleftrightarrow> without_peer k (peer_map ps) \<noteq> peer_map ps"
  proof
    assume shorter: "length ?rest < length ps"
    have "\<not> (\<forall>p \<in> set ps. jget p ''url'' \<noteq> JStr k \<and> jget p ''id'' \<noteq> JStr k)"
    proof
      assume "\<forall>p \<in> set ps. jget p ''url'' \<noteq> JStr k \<and> jget p ''id'' \<noteq> JStr k"
      then have "?rest = ps" by (rule filter_True)
      with shorter show False by (metis less_irrefl)
    qed
    then obtain p where p: "p \<in> set ps" "jget p ''url'' = JStr k \<or> jget p ''id'' = JStr k" by blast
    then have "peer_map ps (jget p ''url'') = Some p" using dist by (force simp: peer_map_def comp_def intro: map_of_is_SomeI)
    then have "without_peer k (peer_map ps) (jget p ''url'') \<noteq> peer_map ps (jget p ''url'')" using p(2) by (auto simp: without_peer_def)
    then show "without_peer k (peer_map ps) \<noteq> peer_map ps" by metis
  next
    assume "without_peer k (peer_map ps) \<noteq> peer_map ps"
    then have "?rest \<noteq> ps" using peer_map_filter [OF dist, of k] by metis
    then show "length ?rest < length ps" by (metis (no_types, lifting) filter_id_conv length_filter_less)
  qed
  note changed = this
  have run: "remove_peer k w = (if length ?rest < length ps then (Inr True, w\<lparr>peers_file := Doc (JArr (map JObj ?rest))\<rparr>) else (Inr False, w))"
    by (simp add: remove_peer_def load_peers_def save_peers_def act_bind_app dicts_of_def doc Let_def)
  have "\<exists>w' ps'. remove_peer k w = (Inr (without_peer k (peer_map ps) \<noteq> peer_map ps), w') \<and> registry_of (peers_file w') ps'
      \<and> peer_map ps' = without_peer k (peer_map ps)"
  proof (cases "length ?rest < length ps")
    case True
    then show ?thesis using changed peer_map_filter [OF dist, of k] sub
      by (intro exI [of _ "w\<lparr>peers_file := Doc (JArr (map JObj ?rest))\<rparr>"] exI [of _ ?rest]) (simp add: run registry_of_def)
  next
    case False
    then show ?thesis using changed assms(1) by (intro exI [of _ w] exI [of _ ps]) (simp add: run)
  qed
  then show ?thesis using add_peer_refines [OF assms, of env label trusted secret] by blast
qed

section \<open>Witnesses\<close>

definition demo_sync_env :: "string \<Rightarrow> sync_env" where
  "demo_sync_env level = host_env.extend
     \<lparr>fresh_uuid = ''0123456789abcdef'', now_iso = ''2026-03-01T00:00:00+00:00'', hostname = ''desk'', sysuser = ''u'', sha256_hex = (\<lambda>s. s)\<rparr>
     \<lparr>share_level = level, own_key = [], http_answer = (\<lambda>cs. Inr (JObj [])), s_err_text = (\<lambda>_. ''error''), s_arrow = ''->'', s_dash = ''-''\<rparr>"

definition memo :: "string \<Rightarrow> string \<Rightarrow> string \<Rightarrow> mem_row" where
  "memo i visibility created = \<lparr>row_id = i, row_type = ''note'', row_text = i, row_event = [], row_command = [], row_tag = [],
     row_source = ''user'', row_visibility = visibility, row_importance = 3, row_created = created, row_search = i, row_vector = sort_by fst (token_vector i)\<rparr>"

definition two_memories :: memdb where
  "two_memories = \<lparr>memories = [memo ''a'' ''public'' ''2026-01-01T00:00:00+00:00'', memo ''b'' ''private'' ''2026-01-02T00:00:00+00:00''], conns = []\<rparr>"

definition demo_peer :: "bool \<Rightarrow> obj" where
  "demo_peer trusted = new_peer (demo_sync_env ''public'') ''http://p'' [] trusted []"

definition demo_sync :: "bool \<Rightarrow> sync_world" where
  "demo_sync trusted = mem_store.extend \<lparr>store = two_memories, archives = []\<rparr>
     \<lparr>peers_file = Doc (JArr [JObj (demo_peer trusted)]), sync_state_file = Missing, http_calls = []\<rparr>"

theorem only_public_memories_leave_witness:
  "map hc_url (filter (\<lambda>c. hc_body c \<noteq> None) (http_calls (snd (run_sync_cycle (demo_sync_env ''public'') (demo_sync True)))))
      = [''http://p/api/sync/push-memories'']
   \<and> list_all shares_public (http_calls (snd (run_sync_cycle (demo_sync_env ''public'') (demo_sync True))))"
proof (rule conjI)
  have env: "share_level (demo_sync_env ''public'') \<in> {''public'', ''none''}" by code_simp
  have calls: "http_calls (demo_sync True) = []" by (simp add: demo_sync_def mem_store.defs)
  show "list_all shares_public (http_calls (snd (run_sync_cycle (demo_sync_env ''public'') (demo_sync True))))"
    by (rule only_public_memories_leave [OF env calls])
  have facts: "dicts_of (JArr [JObj (demo_peer True)]) = Inr [demo_peer True]" "truthy (dget_or (demo_peer True) ''trusted'' (JBool True))"
    "the_str (dget_or (demo_peer True) ''url'' (JStr [])) = Inr ''http://p''" "rstrip_slash ''http://p'' = ''http://p''"
    "peer_headers (demo_sync_env ''public'') (demo_peer True) = Inr [(''Accept'', ''application/json'')]"
    by code_simp+
  have dict: "dget_or ((k, v) # d) k' x = (if k = k' then v else dget_or d k' x)" "dget_or [] k x = x" for k k' x and v :: json and d
    by (simp_all add: dget_or_def)
  have parts: "share_level (demo_sync_env l) = l" "http_answer (demo_sync_env l) cs = Inr (JObj [])" for l cs
    by (simp_all add: demo_sync_env_def host_env.defs)
  have rows: "shareable_memories (demo_sync_env ''public'') JNull two_memories = [memo ''a'' ''public'' ''2026-01-01T00:00:00+00:00'']"
    by (simp add: shareable_memories_def list_memories_def visible_rows_def clamp_def two_memories_def memo_def sort_by_desc_def parts)
  show "map hc_url (filter (\<lambda>c. hc_body c \<noteq> None) (http_calls (snd (run_sync_cycle (demo_sync_env ''public'') (demo_sync True)))))
      = [''http://p/api/sync/push-memories'']"
    by (simp add: run_sync_cycle_def sync_all_peers_def load_peers_def save_peers_def sync_with_peer_def sync_body_def pull_from_def push_to_def
      on_world_def set_result_def http_get_def http_post_def http_send_def act_bind_app act_catch_def doc_or_def demo_sync_def mem_store.defs
      facts parts rows Let_def dict sync_report_def py_sum_def subscript_def mark_peer_def)
qed

theorem other_levels_share_private_witness:
  "memo ''b'' ''private'' ''2026-01-02T00:00:00+00:00'' \<in> set (shareable_memories (demo_sync_env ''shared'') JNull two_memories)"
proof -
  have "share_level (demo_sync_env ''shared'') \<notin> {''public'', ''none''}" by code_simp
  from other_levels_share_private [OF this, of two_memories] show ?thesis by (simp add: two_memories_def)
qed

theorem one_bad_time_shares_all_again_witness:
  "shareable_memories (demo_sync_env ''public'') (JStr ''2026-02-01T00:00:00+00:00'')
     (two_memories\<lparr>memories := memories two_memories @ [memo ''c'' ''public'' []]\<rparr>)
   = [memo ''a'' ''public'' ''2026-01-01T00:00:00+00:00'', memo ''c'' ''public'' []]"
proof -
  let ?db = "two_memories\<lparr>memories := memories two_memories @ [memo ''c'' ''public'' []]\<rparr>"
  have rows: "list_memories 500 (Some ''public'') ?db = [memo ''a'' ''public'' ''2026-01-01T00:00:00+00:00'', memo ''c'' ''public'' []]"
    by (simp add: list_memories_def visible_rows_def clamp_def two_memories_def memo_def sort_by_desc_def)
  have t: "fromisoformat (strip_zulu []) = None" "fromisoformat (strip_zulu ''2026-02-01T00:00:00+00:00'') \<noteq> None"
    by code_simp+
  then obtain d where "fromisoformat (strip_zulu ''2026-02-01T00:00:00+00:00'') = Some d" by blast
  from one_bad_time_shares_all_again [OF this, of "demo_sync_env ''public''" "memo ''c'' ''public'' []" ?db]
  show ?thesis using rows t(1) by (simp add: demo_sync_env_def host_env.defs memo_def shareable_memories_def)
qed

theorem sync_keeps_store_consistent_witness:
  "memdb_ok two_memories \<and> memdb_ok (store (snd (run_sync_cycle (demo_sync_env ''public'') (demo_sync True))))"
proof -
  have ok: "memdb_ok two_memories"
    by (auto simp: memdb_ok_def two_memories_def memo_def row_ok_def)
  then have "memdb_ok (store (demo_sync True))" by (simp add: demo_sync_def mem_store.defs)
  from sync_keeps_store_consistent [OF this, of "demo_sync_env ''public''"] ok show ?thesis by blast
qed

theorem no_trusted_peer_is_an_error_witness:
  "fst (run_sync_now (demo_sync_env ''public'') (demo_sync False)) = Inl (KeyError ''total_pulled'')"
proof -
  have "peers_file (demo_sync False) = Doc (JArr (map JObj [demo_peer False]))" by (simp add: demo_sync_def mem_store.defs)
  moreover have "list_all (\<lambda>p. \<not> truthy (dget_or p ''trusted'' (JBool True))) [demo_peer False]" by code_simp
  ultimately show ?thesis using no_trusted_peer_is_an_error [of "demo_sync False" "[demo_peer False]" "demo_sync_env ''public''"] by simp
qed

theorem peer_registry_is_a_map_witness:
  "registry_of (peers_file (demo_sync True)) [demo_peer True]
   \<and> (\<exists>q w' ps'. add_peer (demo_sync_env ''public'') '' http://q// '' [] True [] (demo_sync True) = (Inr q, w')
        \<and> registry_of (peers_file w') ps' \<and> peer_map ps' = (peer_map [demo_peer True])(JStr ''http://q'' \<mapsto> q))"
proof -
  have reg: "registry_of (peers_file (demo_sync True)) [demo_peer True]"
    by (simp add: demo_sync_def mem_store.defs registry_of_def)
  have url: "rstrip_slash (strip '' http://q// '') = ''http://q''" by code_simp
  from peer_registry_is_a_map [OF reg url, of "demo_sync_env ''public''" "[]" True "[]" "''x''"] reg show ?thesis by simp
qed

end
