(* ===== verification/PyRegex.thy ===== *)
theory PyRegex
  imports PyStr
begin

text \<open>
  The part of Python's \<open>re\<close> the code uses: literals without regard to case, classes of characters, \<open>\\b\<close>, alternatives,
  and greedy or lazy repetition of a class. \<open>runs\<close> gives the ways to match in the order the backtracking matcher tries
  them; a position is the character before it and the rest of the text.
\<close>

datatype rx =
    Nothing
  | One "char \<Rightarrow> bool"
  | Boundary
  | Cat rx rx
  | Or rx rx
  | Greedy "char \<Rightarrow> bool"
  | Lazy "char \<Rightarrow> bool"

type_synonym position = "char option \<times> string"

definition word_char :: "char \<Rightarrow> bool" where
  "word_char c = (is_alnum c \<or> code c = 95)"

definition word_at :: "char option \<Rightarrow> bool" where
  "word_at c = (case c of None \<Rightarrow> False | Some c \<Rightarrow> word_char c)"

fun skips :: "(char \<Rightarrow> bool) \<Rightarrow> char option \<Rightarrow> string \<Rightarrow> position list" where
  "skips p b [] = [(b, [])]"
| "skips p b (c # s) = (b, c # s) # (if p c then skips p (Some c) s else [])"

fun rx_runs :: "rx \<Rightarrow> position \<Rightarrow> position list" where
  "rx_runs Nothing st = [st]"
| "rx_runs (One p) (b, s) = (case s of [] \<Rightarrow> [] | c # t \<Rightarrow> if p c then [(Some c, t)] else [])"
| "rx_runs Boundary (b, s) = (if word_at b \<noteq> word_at (case s of [] \<Rightarrow> None | c # _ \<Rightarrow> Some c) then [(b, s)] else [])"
| "rx_runs (Cat r q) st = concat (map (rx_runs q) (rx_runs r st))"
| "rx_runs (Or r q) st = rx_runs r st @ rx_runs q st"
| "rx_runs (Greedy p) (b, s) = rev (skips p b s)"
| "rx_runs (Lazy p) (b, s) = skips p b s"

text \<open>\<open>re.search\<close> as a test, and \<open>re.sub\<close>; no pattern of the code matches the empty text.\<close>

fun rx_search :: "rx \<Rightarrow> char option \<Rightarrow> string \<Rightarrow> bool" where
  "rx_search r b [] = (rx_runs r (b, []) \<noteq> [])"
| "rx_search r b (c # s) = (rx_runs r (b, c # s) \<noteq> [] \<or> rx_search r (Some c) s)"

function rx_sub :: "rx \<Rightarrow> string \<Rightarrow> char option \<Rightarrow> string \<Rightarrow> string" where
  "rx_sub r new b [] = []"
| "rx_sub r new b (c # s) =
     (case rx_runs r (b, c # s) of
        (b', t) # _ \<Rightarrow> if length t \<le> length s then new @ rx_sub r new b' t else c # rx_sub r new (Some c) s
      | [] \<Rightarrow> c # rx_sub r new (Some c) s)"
  by pat_completeness auto
termination by (relation "measure (\<lambda>(r, new, b, s). length s)") auto

section \<open>Building patterns\<close>

definition same_letter :: "char \<Rightarrow> char \<Rightarrow> bool" where
  "same_letter c x = (lower_char x = lower_char c)"

fun lit :: "string \<Rightarrow> rx" where
  "lit [] = Nothing"
| "lit [c] = One (same_letter c)"
| "lit (c # s) = Cat (One (same_letter c)) (lit s)"

definition opt :: "rx \<Rightarrow> rx" where
  "opt r = Or r Nothing"

fun cats :: "rx list \<Rightarrow> rx" where
  "cats [] = Nothing"
| "cats [r] = r"
| "cats (r # rs) = Cat r (cats rs)"

fun ors :: "rx list \<Rightarrow> rx" where
  "ors [] = One (\<lambda>_. False)"
| "ors [r] = r"
| "ors (r # rs) = Or r (ors rs)"

text \<open>\<open>\\s+\<close>\<close>

definition spaces :: rx where
  "spaces = Cat (One is_space) (Greedy is_space)"

text \<open>A pattern matches a text it is searched in exactly when it can match at one of the positions of the text.\<close>

fun positions :: "char option \<Rightarrow> string \<Rightarrow> position list" where
  "positions b [] = [(b, [])]"
| "positions b (c # s) = (b, c # s) # positions (Some c) s"

lemma rx_search_iff: "rx_search r b s \<longleftrightarrow> (\<exists>st \<in> set (positions b s). rx_runs r st \<noteq> [])"
  by (induction r b s rule: rx_search.induct) auto

text \<open>A match never adds text: what is left is a suffix.\<close>

lemma skips_suffix: "(b', t) \<in> set (skips p b s) \<Longrightarrow> suffix t s"
  by (induction p b s rule: skips.induct) (auto split: if_splits intro: suffix_ConsI)

lemma runs_suffix: "st \<in> set (rx_runs r st0) \<Longrightarrow> suffix (snd st) (snd st0)"
proof (induction r st0 arbitrary: st rule: rx_runs.induct)
  case (4 r q st0)
  then obtain m where m: "m \<in> set (rx_runs r st0)" "st \<in> set (rx_runs q m)" by auto
  from "4.IH"(2) [OF m] "4.IH"(1) [OF m(1)] show ?case by (rule suffix_order.trans)
qed (auto split: list.splits if_splits simp: skips_suffix suffix_ConsI)

end
