(* ===== verification/Dashboard_State.thy ===== *)
theory Dashboard_State
  imports PyValue
begin

text \<open>
  Model of \<open>app/services/public_profile.py\<close>: the facts of the public website that stand in for missing parts of the HI
  state, both on the dashboard and in the public state of the web API. The time of the call is a parameter.
\<close>

section \<open>The facts of the website\<close>

definition public_relationship :: "obj" where
  "public_relationship =
     [(''jarvis_role'', JStr ''local execution, dashboard operations, automation, and private system control''),
      (''hi_layer_role'', JStr ''human identity layer for public profile, ventures, people, records, and decisions'')]"

definition public_profile :: "obj" where
  "public_profile =
     [(''display_name'', JStr ''Amit Ku Yadav''),
      (''full_name'', JStr ''Amit Ku Yadav''),
      (''name'', JStr ''Amit''),
      (''username'', JStr ''kingofyadav''),
      (''domain'', JStr ''Digital identity, business systems, AI workflows, and social impact''),
      (''website'', JStr ''https://kingofyadav.in''),
      (''brand'', JStr ''kingofyadav.in''),
      (''company'', JStr ''HI Life OS''),
      (''email'', JStr ''kingofyadav.in@gmail.com''),
      (''phone'', JStr ''+91 95235 28114''),
      (''location'', JStr ''Bhagalpur, Bihar, India''),
      (''language'', JStr ''en-IN''),
      (''auth_role'', JStr ''primary owner''),
      (''system_role'', JStr ''Founder, digital systems builder, and primary human operator''),
      (''owner_role'', JStr ''human owner and decision-maker behind HI Life OS and kingofyadav.in''),
      (''identity_summary'', JStr ''Amit Ku Yadav is a digital systems builder from Bhagalpur working across HI Life OS, public identity, business platforms, community coordination, and AI-assisted operations.''),
      (''relationship'', JObj public_relationship),
      (''ventures'', JArr [JStr ''HI Life OS'', JStr ''kingofyadav.in Platform'', JStr ''Royal Heritage Resort'', JStr ''National Youth Force'', JStr ''Jhon Aamit LLP'']),
      (''public_channels'', JObj [(''website'', JStr ''https://kingofyadav.in''), (''github'', JStr ''https://github.com/kingofyadav''), (''instagram'', JStr ''https://www.instagram.com/kingofyadav.in''), (''facebook'', JStr ''https://www.facebook.com/kingofyadav.in'')])]"

definition public_preferences :: "obj" where
  "public_preferences =
     [(''response_style'', JStr ''structured, direct, professional''),
      (''local_execution'', JStr ''preserve Jarvis local execution''),
      (''hi_routing'', JStr ''route identity, people, ventures, and public website context through HI Life OS''),
      (''response_mode'', JStr ''operator''),
      (''verbosity'', JStr ''medium''),
      (''language'', JStr ''English with India context''),
      (''privacy'', JStr ''private dashboard data stays local; public website data can be used as profile context'')]"

definition public_focus :: "obj" where
  "public_focus =
     [(''current_focus'', JStr ''restore HI Life OS dashboard data and keep kingofyadav.in public profile world-class''),
      (''status'', JStr ''active'')]"

definition public_actions :: "json" where
  "public_actions =
     JArr [JStr ''Verify identity, contact, ventures, and public profile facts on the dashboard.'',
      JStr ''Back up private dashboard state after every major update.'',
      JStr ''Keep website public pages aligned with current work and services.'',
      JStr ''Use Jarvis to review daily focus, risks, and follow-ups.'']"

definition seed_task :: "string \<Rightarrow> string \<Rightarrow> string \<Rightarrow> int \<Rightarrow> json" where
  "seed_task i title status minutes =
     JObj [(''id'', JStr i), (''title'', JStr title), (''status'', JStr status), (''due'', JStr []), (''estimate_minutes'', JInt minutes),
       (''blockers'', JArr []), (''created_at'', JStr ''2026-05-12T00:00:00+00:00''), (''updated_at'', JStr ''2026-05-12T00:00:00+00:00'')]"

definition public_tasks :: "json" where
  "public_tasks =
     JArr
       [seed_task ''restore-dashboard-profile'' ''Restore complete public identity profile in Jarvis dashboard'' ''doing'' 45,
        seed_task ''backup-hi-state'' ''Create a repeatable backup and restore habit for HI state'' ''todo'' 30,
        seed_task ''public-proof-update'' ''Keep ventures, services, and public proof updated on kingofyadav.in'' ''todo'' 60]"

definition seed_memory :: "string \<Rightarrow> string \<Rightarrow> string \<Rightarrow> string \<Rightarrow> string \<Rightarrow> json" where
  "seed_memory ty t tag source visibility =
     JObj [(''type'', JStr ty), (''text'', JStr t), (''tag'', JStr tag), (''source'', JStr source), (''visibility'', JStr visibility),
       (''importance'', JInt 5), (''created_at'', JStr ''2026-05-12T00:00:00+00:00'')]"

definition public_memory_seed :: "json list" where
  "public_memory_seed =
     [seed_memory ''note'' ''Amit Ku Yadav is based in Bhagalpur, Bihar, India and operates kingofyadav.in as a structured public identity platform.'' ''identity'' ''public-site'' ''public'',
      seed_memory ''note'' ''Core work areas: digital identity systems, business platforms, AI-assisted workflows, public communication, and community initiatives.'' ''work'' ''public-site'' ''public'',
      seed_memory ''note'' ''Active ventures include HI Life OS, kingofyadav.in Platform, Royal Heritage Resort, National Youth Force, and Jhon Aamit LLP.'' ''ventures'' ''public-site'' ''public'',
      seed_memory ''decision'' ''When dashboard data is missing, use public website facts as the baseline and preserve any private user-saved data.'' ''dashboard'' ''operator'' ''private'']"

section \<open>Filling in\<close>

definition missing :: "json \<Rightarrow> bool" where
  "missing v = (v \<in> {JNull, JStr [], JStr ''?'', JArr [], JObj []})"

definition named_like :: "json \<Rightarrow> string list \<Rightarrow> bool" where
  "named_like v names = (str_strip_lower (py_or v (JStr [])) \<in> set names)"

definition is_placeholder_profile :: "obj \<Rightarrow> bool" where
  "is_placeholder_profile p =
     (named_like (py_or (jget p ''display_name'') (py_or (jget p ''full_name'') (jget p ''name''))) [[], ''?'', ''king yadav'', ''kingofyadav'']
      \<or> named_like (jget p ''domain'') [[], ''?'', ''ai systems''])"

text \<open>The loops over the default values; \<open>force\<close> replaces what is there.\<close>

fun fill :: "bool \<Rightarrow> obj \<Rightarrow> obj \<Rightarrow> obj" where
  "fill force [] d = d"
| "fill force ((k, v) # ps) d = fill force ps (if force \<or> missing (jget d k) then dset k v d else d)"

text \<open>\<open>setdefault(k, {})\<close>, with anything but a dict replaced by an empty one.\<close>

definition sub_dict :: "string \<Rightarrow> obj \<Rightarrow> obj" where
  "sub_dict k d = (case dget d k of Some (JObj x) \<Rightarrow> x | _ \<Rightarrow> [])"

definition enrich_profile :: "obj \<Rightarrow> obj" where
  "enrich_profile p =
     (let force = is_placeholder_profile p; p1 = fill force public_profile p in
      dset ''relationship'' (JObj (fill force public_relationship (sub_dict ''relationship'' p1))) p1)"

definition set_falsy :: "string \<Rightarrow> json \<Rightarrow> obj \<Rightarrow> obj" where
  "set_falsy k v d = (if truthy (jget d k) then d else dset k v d)"

definition enrich_workflow :: "obj \<Rightarrow> obj" where
  "enrich_workflow flow = set_falsy ''tasks'' public_tasks (set_falsy ''next_actions'' public_actions (fill False public_focus flow))"

definition enrich_memory :: "obj \<Rightarrow> json list" where
  "enrich_memory s = (case dget_or s ''memory'' (JArr []) of JArr (m # ms) \<Rightarrow> m # ms | _ \<Rightarrow> public_memory_seed)"

definition on_dict :: "string \<Rightarrow> (obj \<Rightarrow> obj) \<Rightarrow> obj \<Rightarrow> obj" where
  "on_dict k f s = dset k (JObj (f (sub_dict k s))) s"

definition seed_mark :: "string \<Rightarrow> obj" where
  "seed_mark now = [(''source'', JStr ''kingofyadav.in public profile''), (''applied_at'', JStr now), (''mode'', JStr ''fallback_only'')]"

definition enrich_dashboard_state :: "string \<Rightarrow> json \<Rightarrow> obj outcome" where
  "enrich_dashboard_state now raw =
     and_then (if truthy raw then as_obj raw else Inr []) (\<lambda>s0.
       let s1 = on_dict ''workflow'' enrich_workflow (on_dict ''preferences'' (fill False public_preferences) (on_dict ''profile'' enrich_profile s0));
           s2 = dset ''memory'' (JArr (enrich_memory s1)) s1 in
       and_then (as_obj (dget_or s2 ''dashboard_seed'' (JObj []))) (\<lambda>m.
         Inr (dset ''dashboard_seed'' (JObj (dupdate m (seed_mark now))) s2)))"

section \<open>What filling in does\<close>

lemma fill_other: "k \<notin> set (dkeys ps) \<Longrightarrow> dget (fill force ps d) k = dget d k"
  by (induction force ps d rule: fill.induct) auto

lemma fill_keeps: "\<not> missing (jget d k) \<Longrightarrow> dget (fill False ps d) k = dget d k"
proof (induction ps arbitrary: d)
  case (Cons p ps)
  have "\<not> missing (jget (dset (fst p) (snd p) d) k)" "dget (dset (fst p) (snd p) d) k = dget d k" if "missing (jget d (fst p))"
    using that Cons.prems by auto
  with Cons show ?case by (cases p) simp
qed simp

lemma fill_forced: "distinct (dkeys ps) \<Longrightarrow> (k, v) \<in> set ps \<Longrightarrow> dget (fill True ps d) k = Some v"
  by (induction True ps d rule: fill.induct) (auto simp: fill_other)

lemma fill_present:
  "distinct (dkeys ps) \<Longrightarrow> (k, v) \<in> set ps \<Longrightarrow> \<not> missing v \<Longrightarrow> \<not> missing (jget (fill force ps d) k)"
  by (induction force ps d rule: fill.induct) (auto simp: dget_or_def fill_other)

lemma fill_nothing_aux: "list_all (\<lambda>(k, v). \<not> missing (jget d k)) ps \<Longrightarrow> fill False ps d = d"
  by (induction ps) auto

lemma fill_nothing: "(\<And>k v. (k, v) \<in> set ps \<Longrightarrow> \<not> missing (jget d k)) \<Longrightarrow> fill False ps d = d"
  by (rule fill_nothing_aux) (auto simp: list_all_iff)

lemma fill_again:
  assumes "distinct (dkeys ps)" "\<And>k v. (k, v) \<in> set ps \<Longrightarrow> \<not> missing v"
  shows "fill False ps (fill force ps d) = fill force ps d"
  by (rule fill_nothing) (use fill_present [OF assms(1)] assms(2) in blast)

lemma seeds_distinct: "distinct (dkeys public_profile)" "distinct (dkeys public_relationship)" "distinct (dkeys public_preferences)"
    "distinct (dkeys public_focus)"
  by code_simp+

lemma seeds_present: "list_all (\<lambda>(k, v). \<not> missing v) public_profile" "list_all (\<lambda>(k, v). \<not> missing v) public_relationship"
    "list_all (\<lambda>(k, v). \<not> missing v) public_preferences" "list_all (\<lambda>(k, v). \<not> missing v) public_focus"
  by code_simp+

lemma fill_seed_again:
  "fill False public_profile (fill b public_profile d) = fill b public_profile d"
  "fill False public_relationship (fill b public_relationship d) = fill b public_relationship d"
  "fill False public_preferences (fill b public_preferences d) = fill b public_preferences d"
  "fill False public_focus (fill b public_focus d) = fill b public_focus d"
  by (rule fill_again, rule seeds_distinct, use seeds_present in \<open>auto simp: list_all_iff\<close>)+

lemma fill_get:
  "distinct (dkeys ps) \<Longrightarrow> (k, v) \<in> set ps \<Longrightarrow> jget (fill False ps d) k = (if missing (jget d k) then v else jget d k)"
  by (induction ps arbitrary: d) (auto simp: dget_or_def fill_other rev_image_eqI)

lemma fill_forced_get: "distinct (dkeys ps) \<Longrightarrow> (k, v) \<in> set ps \<Longrightarrow> jget (fill True ps d) k = v"
  by (simp add: fill_forced dget_or_def)

text \<open>A profile is no placeholder any more once it has been filled in.\<close>

lemma seed_names: "named_like (JStr ''Amit Ku Yadav'') [[], ''?'', ''king yadav'', ''kingofyadav''] = False"
    "named_like (JStr ''Amit'') [[], ''?'', ''king yadav'', ''kingofyadav''] = False"
    "named_like (JStr ''Digital identity, business systems, AI workflows, and social impact'') [[], ''?'', ''ai systems''] = False"
  by code_simp+

lemma profile_keys: "(''display_name'', JStr ''Amit Ku Yadav'') \<in> set public_profile" "(''full_name'', JStr ''Amit Ku Yadav'') \<in> set public_profile"
    "(''name'', JStr ''Amit'') \<in> set public_profile"
    "(''domain'', JStr ''Digital identity, business systems, AI workflows, and social impact'') \<in> set public_profile"
  by code_simp+

lemma not_placeholder_forced: "\<not> is_placeholder_profile (fill True public_profile p)"
  by (simp add: is_placeholder_profile_def fill_forced_get [OF seeds_distinct(1) profile_keys(1)]
    fill_forced_get [OF seeds_distinct(1) profile_keys(4)] seed_names)

lemma missing_truthy: "missing v \<Longrightarrow> truthy v \<Longrightarrow> v = JStr ''?''"
  by (auto simp: missing_def)

lemma not_placeholder_filled:
  assumes "\<not> is_placeholder_profile p"
  shows "\<not> is_placeholder_profile (fill False public_profile p)"
proof -
  let ?names = "[[], ''?'', ''king yadav'', ''kingofyadav'']"
  note get = fill_get [OF seeds_distinct(1)]
  let ?d = "jget p ''display_name''" and ?f = "jget p ''full_name''" and ?n = "jget p ''name''" and ?o = "jget p ''domain''"
  have name: "\<not> named_like (py_or ?d (py_or ?f ?n)) ?names" and dom: "\<not> named_like ?o [[], ''?'', ''ai systems'']"
    using assms by (simp_all add: is_placeholder_profile_def)
  have "named_like (JStr ''?'') ?names" "named_like (JStr ''?'') [[], ''?'', ''ai systems'']" by code_simp+
  then have "\<not> named_like (py_or (if missing ?d then JStr ''Amit Ku Yadav'' else ?d) (py_or (if missing ?f then JStr ''Amit Ku Yadav'' else ?f)
      (if missing ?n then JStr ''Amit'' else ?n))) ?names"
    using name by (auto simp: py_or_def seed_names split: if_splits)
  moreover have "\<not> named_like (if missing ?o then JStr ''Digital identity, business systems, AI workflows, and social impact'' else ?o)
      [[], ''?'', ''ai systems'']"
    using dom by (auto simp: seed_names)
  ultimately show ?thesis
    by (simp add: is_placeholder_profile_def get [OF profile_keys(1)] get [OF profile_keys(2)] get [OF profile_keys(3)] get [OF profile_keys(4)])
qed

lemma placeholder_relationship: "is_placeholder_profile (dset ''relationship'' v p) = is_placeholder_profile p"
  by (simp add: is_placeholder_profile_def)

lemma fill_not_Nil: "ps \<noteq> [] \<Longrightarrow> distinct (dkeys ps) \<Longrightarrow> list_all (\<lambda>(k, v). \<not> missing v) ps \<Longrightarrow> fill b ps d \<noteq> []"
proof
  assume ps: "ps \<noteq> []" "distinct (dkeys ps)" "list_all (\<lambda>(k, v). \<not> missing v) ps" and Nil: "fill b ps d = []"
  obtain k v ps' where "ps = (k, v) # ps'" using ps(1) by (cases ps) auto
  with ps fill_present [OF ps(2), of k v b d] Nil show False by (simp add: missing_def dget_or_def)
qed

lemma enrich_profile_again: "enrich_profile (enrich_profile p) = enrich_profile p"
proof -
  define b where "b = is_placeholder_profile p"
  define p1 where "p1 = fill b public_profile p"
  define r where "r = fill b public_relationship (sub_dict ''relationship'' p1)"
  have q: "enrich_profile p = dset ''relationship'' (JObj r) p1"
    by (simp add: enrich_profile_def Let_def b_def [symmetric] p1_def [symmetric] r_def [symmetric])
  have "\<not> is_placeholder_profile p1"
    using not_placeholder_forced not_placeholder_filled by (cases b) (simp_all add: p1_def b_def)
  then have no: "\<not> is_placeholder_profile (dset ''relationship'' (JObj r) p1)" by (simp add: placeholder_relationship)
  have "public_relationship \<noteq> []" by (simp add: public_relationship_def)
  then have r: "r \<noteq> []" unfolding r_def by (rule fill_not_Nil [OF _ seeds_distinct(2) seeds_present(2)])
  have same: "fill False public_profile (dset ''relationship'' (JObj r) p1) = dset ''relationship'' (JObj r) p1"
  proof (rule fill_nothing)
    fix k v assume kv: "(k, v) \<in> set public_profile"
    then have "\<not> missing v" using seeds_present(1) by (auto simp: list_all_iff)
    with kv have "\<not> missing (jget p1 k)" unfolding p1_def by (rule fill_present [OF seeds_distinct(1)])
    then show "\<not> missing (jget (dset ''relationship'' (JObj r) p1) k)" using r by (simp add: missing_def)
  qed
  have "fill False public_relationship r = r" unfolding r_def by (rule fill_seed_again)
  then show ?thesis
    unfolding q by (simp add: enrich_profile_def [of "dset ''relationship'' (JObj r) p1"] no same sub_dict_def Let_def dset_same)
qed

lemma set_falsy_again: "truthy v \<Longrightarrow> set_falsy k v (set_falsy k v d) = set_falsy k v d"
  by (simp add: set_falsy_def)

lemma jget_set_falsy: "jget (set_falsy k v d) k' = (if k' = k \<and> \<not> truthy (jget d k) then v else jget d k')"
  by (simp add: set_falsy_def)

lemma enrich_workflow_again: "enrich_workflow (enrich_workflow flow) = enrich_workflow flow"
proof -
  have t: "truthy public_tasks" "truthy public_actions" by (simp_all add: public_tasks_def public_actions_def)
  have keys: "dkeys public_focus = [''current_focus'', ''status'']" by code_simp
  have "fill False public_focus (enrich_workflow flow) = enrich_workflow flow"
  proof (rule fill_nothing)
    fix k v assume kv: "(k, v) \<in> set public_focus"
    then have "\<not> missing v" using seeds_present(4) by (auto simp: list_all_iff)
    with kv have "\<not> missing (jget (fill False public_focus flow) k)" by (rule fill_present [OF seeds_distinct(4)])
    moreover from kv have "k \<in> set (dkeys public_focus)" by force
    then have "k \<in> {''current_focus'', ''status''}" by (simp only: keys list.set)
    ultimately show "\<not> missing (jget (enrich_workflow flow) k)" by (auto simp: enrich_workflow_def jget_set_falsy)
  qed
  moreover have "set_falsy ''next_actions'' public_actions (enrich_workflow flow) = enrich_workflow flow"
    using t by (simp add: set_falsy_def enrich_workflow_def)
  moreover have "set_falsy ''tasks'' public_tasks (enrich_workflow flow) = enrich_workflow flow"
    using t by (simp add: set_falsy_def enrich_workflow_def)
  ultimately show ?thesis by (simp add: enrich_workflow_def [of "enrich_workflow flow"])
qed

lemma on_dict_get: "dget (on_dict k f s) k' = (if k' = k then Some (JObj (f (sub_dict k s))) else dget s k')"
  by (simp add: on_dict_def)

lemma on_dict_same: "dget s k = Some (JObj d) \<Longrightarrow> f d = d \<Longrightarrow> on_dict k f s = s"
  by (simp add: on_dict_def sub_dict_def dset_same)

lemma dupdate_get: "distinct (dkeys e) \<Longrightarrow> dget (dupdate d e) k = (case dget e k of None \<Rightarrow> dget d k | v \<Rightarrow> v)"
  by (induction d e rule: dupdate.induct) (auto split: option.splits dest: map_of_SomeD simp: rev_image_eqI)

lemma dupdate_nothing: "(\<And>k v. (k, v) \<in> set e \<Longrightarrow> dget d k = Some v) \<Longrightarrow> dupdate d e = d"
  by (induction d e rule: dupdate.induct) (auto simp: dset_same)

lemma dupdate_again: "distinct (dkeys e) \<Longrightarrow> dupdate (dupdate d e) e = dupdate d e"
  by (rule dupdate_nothing) (simp add: dupdate_get)

lemma seed_mark_distinct: "distinct (dkeys (seed_mark now))"
  by (simp add: seed_mark_def)

lemma enrich_Inr:
  assumes "enrich_dashboard_state now (JObj s0) = Inr s"
  shows "\<exists>m. s = dset ''dashboard_seed'' (JObj (dupdate m (seed_mark now))) (dset ''memory'' (JArr (enrich_memory s0))
     (on_dict ''workflow'' enrich_workflow (on_dict ''preferences'' (fill False public_preferences) (on_dict ''profile'' enrich_profile s0))))"
proof -
  have "enrich_memory (on_dict b f t) = enrich_memory t" if "b \<noteq> ''memory''" for b f t
    using that by (simp add: enrich_memory_def dget_or_def on_dict_get)
  moreover have "(if truthy (JObj s0) then as_obj (JObj s0) else Inr []) = Inr s0" by simp
  ultimately show ?thesis using assms by (auto simp: enrich_dashboard_state_def Let_def)
qed

lemma sub_dict_on_dict: "a \<noteq> b \<Longrightarrow> sub_dict a (on_dict b f t) = sub_dict a t"
  by (simp add: sub_dict_def on_dict_get)

lemma enrich_get:
  assumes "enrich_dashboard_state now (JObj s0) = Inr s"
  shows "dget s ''profile'' = Some (JObj (enrich_profile (sub_dict ''profile'' s0)))"
    and "dget s ''preferences'' = Some (JObj (fill False public_preferences (sub_dict ''preferences'' s0)))"
    and "dget s ''workflow'' = Some (JObj (enrich_workflow (sub_dict ''workflow'' s0)))"
    and "dget s ''memory'' = Some (JArr (enrich_memory s0))"
    and "\<exists>m. dget s ''dashboard_seed'' = Some (JObj (dupdate m (seed_mark now)))"
    and "k \<notin> {''profile'', ''preferences'', ''workflow'', ''memory'', ''dashboard_seed''} \<Longrightarrow> dget s k = dget s0 k"
proof -
  obtain m where s: "s = dset ''dashboard_seed'' (JObj (dupdate m (seed_mark now))) (dset ''memory'' (JArr (enrich_memory s0))
     (on_dict ''workflow'' enrich_workflow (on_dict ''preferences'' (fill False public_preferences) (on_dict ''profile'' enrich_profile s0))))"
    using enrich_Inr [OF assms] by blast
  show "dget s ''profile'' = Some (JObj (enrich_profile (sub_dict ''profile'' s0)))"
    and "dget s ''preferences'' = Some (JObj (fill False public_preferences (sub_dict ''preferences'' s0)))"
    and "dget s ''workflow'' = Some (JObj (enrich_workflow (sub_dict ''workflow'' s0)))"
    and "dget s ''memory'' = Some (JArr (enrich_memory s0))"
    by (simp_all add: s on_dict_get sub_dict_on_dict)
  have "dget s ''dashboard_seed'' = Some (JObj (dupdate m (seed_mark now)))" by (simp add: s)
  then show "\<exists>m. dget s ''dashboard_seed'' = Some (JObj (dupdate m (seed_mark now)))" by blast
  show "dget s k = dget s0 k" if "k \<notin> {''profile'', ''preferences'', ''workflow'', ''memory'', ''dashboard_seed''}"
    using that by (simp add: s on_dict_get)
qed

text \<open>Filling in is done once: the filled state is filled in with nothing, at the same time of day it is returned as it is.\<close>

theorem enrich_idempotent:
  assumes "enrich_dashboard_state now raw = Inr s"
  shows "enrich_dashboard_state now (JObj s) = Inr s"
proof -
  obtain s0 where "enrich_dashboard_state now (JObj s0) = Inr s"
  proof (cases "truthy raw")
    case True
    then obtain s0 where "raw = JObj s0" using assms by (cases raw) (simp_all add: enrich_dashboard_state_def)
    with assms that show ?thesis by blast
  next
    case False
    then show ?thesis using assms that [of "[]"] by (simp add: enrich_dashboard_state_def)
  qed
  note get = enrich_get [OF this]
  obtain m where mark: "dget s ''dashboard_seed'' = Some (JObj (dupdate m (seed_mark now)))" using get(5) by blast
  have same: "on_dict ''profile'' enrich_profile s = s" "on_dict ''preferences'' (fill False public_preferences) s = s"
      "on_dict ''workflow'' enrich_workflow s = s"
    by (rule on_dict_same, rule get, rule enrich_profile_again enrich_workflow_again fill_seed_again)+
  have "enrich_memory s0 \<noteq> []" by (simp add: enrich_memory_def public_memory_seed_def split: json.split list.split)
  then have "enrich_memory s = enrich_memory s0"
    by (cases "enrich_memory s0") (simp_all add: enrich_memory_def [of s] dget_or_def get(4))
  with get(4) have memory: "dset ''memory'' (JArr (enrich_memory s)) s = s" by (simp add: dset_same)
  have "s \<noteq> []" using get(4) by auto
  then show ?thesis
    by (simp add: enrich_dashboard_state_def Let_def same memory dget_or_def mark dupdate_again seed_mark_distinct dset_same)
qed


text \<open>A profile whose domain is still the default one counts as a placeholder, and everything saved in it is shown as the website's.\<close>

theorem default_domain_hides_profile:
  assumes "enrich_dashboard_state now (JObj s0) = Inr s" "jget (sub_dict ''profile'' s0) ''domain'' = JStr ''AI systems''"
    and "(k, v) \<in> set public_profile" "k \<noteq> ''relationship''"
  shows "dget (sub_dict ''profile'' s) k = Some v"
proof -
  let ?p = "sub_dict ''profile'' s0"
  have "named_like (JStr ''AI systems'') [[], ''?'', ''ai systems'']" by code_simp
  then have force: "is_placeholder_profile ?p" by (simp add: is_placeholder_profile_def assms(2))
  have "sub_dict ''profile'' s = enrich_profile ?p" using enrich_get(1) [OF assms(1)] by (simp add: sub_dict_def)
  also have "\<dots> = dset ''relationship'' (JObj (fill True public_relationship (sub_dict ''relationship'' (fill True public_profile ?p))))
      (fill True public_profile ?p)"
    using force by (simp add: enrich_profile_def Let_def)
  finally have "dget (sub_dict ''profile'' s) k = dget (fill True public_profile ?p) k"
    by (simp only: map_of_dset if_not_P [OF assms(4)])
  then show ?thesis unfolding fill_forced [OF seeds_distinct(1) assms(3)] .
qed

section \<open>Witnesses\<close>

definition saved_state :: "string \<Rightarrow> obj" where
  "saved_state area = [(''profile'', JObj [(''name'', JStr ''Ann''), (''email'', JStr ''ann@home''), (''domain'', JStr area)]),
     (''memory'', JArr [JObj [(''text'', JStr ''m'')]]), (''notes'', JInt 1)]"

lemma saved_state_enriched: "\<exists>s. enrich_dashboard_state ''t'' (JObj (saved_state area)) = Inr s"
proof -
  have "dget_or (saved_state area) ''dashboard_seed'' (JObj []) = JObj []" by (simp add: saved_state_def dget_or_def)
  then show ?thesis
    by (simp add: enrich_dashboard_state_def Let_def dget_or_def on_dict_get saved_state_def [of area] split: option.split)
qed

theorem enrich_idempotent_witness:
  "\<exists>s. enrich_dashboard_state ''t'' (JObj (saved_state ''AI systems'')) = Inr s \<and> enrich_dashboard_state ''t'' (JObj s) = Inr s"
  using saved_state_enriched [of "''AI systems''"] enrich_idempotent by blast


theorem default_domain_hides_profile_witness:
  "\<exists>s. enrich_dashboard_state ''t'' (JObj (saved_state ''AI systems'')) = Inr s
     \<and> dget (sub_dict ''profile'' s) ''email'' = Some (JStr ''kingofyadav.in@gmail.com'')"
proof -
  obtain s where run: "enrich_dashboard_state ''t'' (JObj (saved_state ''AI systems'')) = Inr s" using saved_state_enriched by blast
  have "jget (sub_dict ''profile'' (saved_state ''AI systems'')) ''domain'' = JStr ''AI systems''"
    "(''email'', JStr ''kingofyadav.in@gmail.com'') \<in> set public_profile" "''email'' \<noteq> ''relationship''"
    by code_simp+
  from default_domain_hides_profile [OF run this] run show ?thesis by blast
qed

end
