(* ===== verification/Automation_Skill.thy ===== *)
theory Automation_Skill
  imports Automation Public_Records Confirmation
begin

text \<open>
  Model of \<open>Jarvis/skills/automation_skill.py\<close>, the commands with which the owner watches and controls the daemon. The skill
  works on the files of the daemon (the world of \<open>Scheduler\<close>) and on its process: the pid file, the signals sent to it
  and the daemons started. The answers of the operating system, paths and the long dash are of the environment; a file of
  pending approvals that cannot be read counts as missing.
\<close>

section \<open>World\<close>

record skill_world = auto_world +
  daemon_pid_file :: "string option"
  terminated :: "int list"
  spawned :: nat

record skill_env = auto_env +
  k_probe :: "int \<Rightarrow> probe"
  k_term :: "int \<Rightarrow> probe"
  k_spawn :: "string + int"
  k_log :: "(string + string) option"
  k_json_error :: string
  k_audit_path :: string
  k_dash :: string

section \<open>The process of the daemon\<close>

definition daemon_pid :: "'w skill_world_scheme \<Rightarrow> int option" where
  "daemon_pid w = (case daemon_pid_file w of None \<Rightarrow> None | Some s \<Rightarrow> int_of_str (strip s))"

text \<open>A process that may not be signalled counts as dead here, unlike in the monitor of the daemon.\<close>

definition daemon_alive :: "'e skill_env_scheme \<Rightarrow> 'w skill_world_scheme \<Rightarrow> bool" where
  "daemon_alive env w = (case daemon_pid w of None \<Rightarrow> False | Some p \<Rightarrow> k_probe env p = Alive)"

definition pid_text :: "'w skill_world_scheme \<Rightarrow> string" where
  "pid_text w = (case daemon_pid w of None \<Rightarrow> ''None'' | Some p \<Rightarrow> show_int p)"

definition send_term :: "'e skill_env_scheme \<Rightarrow> int \<Rightarrow> ('w skill_world_scheme, probe) act" where
  "send_term env p =
     (if k_term env p = Alive then act_bind (act_modify (\<lambda>w. w\<lparr>terminated := terminated w @ [p]\<rparr>)) (\<lambda>_. act_return Alive)
      else act_return (k_term env p))"

section \<open>Commands that read\<close>

text \<open>\<open>f"{v:<n}"\<close>: an int, a float or a bool (as a number) is padded, other values raise.\<close>

fun fmt_left :: "nat \<Rightarrow> json \<Rightarrow> string outcome" where
  "fmt_left n (JStr s) = Inr (padded n s)"
| "fmt_left n (JInt i) = Inr (padded n (show_int i))"
| "fmt_left n (JDec m e) = Inr (padded n (show_dec m e))"
| "fmt_left n (JBool b) = Inr (padded n (if b then ''1'' else ''0''))"
| "fmt_left n _ = Inl TypeError"

definition rule_counts :: "state_doc \<Rightarrow> (nat \<times> nat) outcome" where
  "rule_counts f =
     (case f of
        Doc v \<Rightarrow>
          and_then (py_len v) (\<lambda>n.
          and_then (py_iter v) (\<lambda>xs.
          and_then (traverse as_obj xs) (\<lambda>rs. Inr (n, length (filter (\<lambda>r. truthy (dget_or r ''enabled'' (JBool True))) rs)))))
      | _ \<Rightarrow> Inr (0, 0))"

definition skill_status :: "'e skill_env_scheme \<Rightarrow> ('w skill_world_scheme, string) act" where
  "skill_status env =
     act_bind (act_get (\<lambda>w. (daemon_alive env w, daemon_pid w, stop_file w, rule_counts (rules_file w), length (load_pending w))))
       (\<lambda>(alive, pid, stopped, counts, waiting).
     act_bind (act_of counts) (\<lambda>(total, enabled). act_return (join newline
       [''Daemon:       '' @ (if alive then if stopped then ''running (PAUSED '' @ k_dash env @ '' STOP file active)'' else ''running'' else ''stopped'')
          @ (case pid of Some p \<Rightarrow> if p = 0 then [] else '' (pid '' @ show_int p @ '')'' | None \<Rightarrow> []),
        ''Rules total:  '' @ show_nat total @ ''  (enabled: '' @ show_nat enabled @ '')'',
        ''STOP file:    '' @ (if stopped then ''yes '' @ k_dash env @ '' automation paused'' else ''no''),
        ''Dry-run:      '' @ (if dry_run_var env = Some ''1'' then ''yes'' else ''no''),
        ''Audit log:    '' @ k_audit_path env,
        ''Pending:      '' @ show_nat waiting @ '' awaiting approval''])))"

definition rule_row :: "obj \<Rightarrow> string outcome" where
  "rule_row r =
     and_then (as_obj (dget_or r ''trigger'' (JObj []))) (\<lambda>t.
     and_then (fmt_left 35 (dget_or r ''id'' (JStr []))) (\<lambda>i.
     and_then (fmt_left 8 (dget_or r ''risk_tier'' (JStr ''low''))) (\<lambda>tier.
       let trigger = py_str (dget_or t ''type'' (JStr ''?'')) @ ''/'' @ py_str (dget_or t ''seconds'' (dget_or t ''hour'' (JStr ''?''))) in
       Inr (i @ '' '' @ padded 4 (if truthy (dget_or r ''enabled'' (JBool True)) then ''yes'' else ''no'') @ '' '' @ tier @ '' ''
         @ padded 20 trigger @ '' '' @ py_str (dget_or r ''description'' (JStr []))))))"

definition list_rules :: "'e skill_env_scheme \<Rightarrow> state_doc \<Rightarrow> string outcome" where
  "list_rules env f =
     (case f of
        Missing \<Rightarrow> Inr ''rules.json not found. Start the daemon once to create defaults.''
      | Garbled \<Rightarrow> Inr (''rules.json parse error: '' @ k_json_error env)
      | Doc v \<Rightarrow>
          if \<not> truthy v then Inr ''No rules defined.''
          else and_then (py_iter v) (\<lambda>xs. and_then (traverse as_obj xs) (\<lambda>rs. and_then (traverse rule_row rs) (\<lambda>rows.
            Inr (join newline ([padded 35 ''ID'' @ '' '' @ padded 4 ''En'' @ '' '' @ padded 8 ''Tier'' @ '' '' @ padded 20 ''Trigger'' @ '' Description'',
              replicate 95 (CHR ''-'')] @ rows))))))"

definition skill_logs :: "'e skill_env_scheme \<Rightarrow> string" where
  "skill_logs env =
     (case k_log env of
        None \<Rightarrow> ''No automation log yet.''
      | Some (Inl e) \<Rightarrow> ''Cannot read log: '' @ e
      | Some (Inr t) \<Rightarrow> (let tail = lastn 20 (splitlines t) in if tail = [] then ''Log file is empty.'' else join newline tail))"

definition pending_row :: "pending_item \<Rightarrow> string outcome" where
  "pending_row p =
     and_then (as_obj (p_action p)) (\<lambda>a.
     and_then (fmt_left 35 (p_rule p)) (\<lambda>i.
     and_then (fmt_left 16 (dget_or a ''type'' (JStr ''?''))) (\<lambda>ty. Inr (i @ '' '' @ ty @ '' '' @ p_ts p))))"

definition skill_pending :: "pending_item list \<Rightarrow> string outcome" where
  "skill_pending items =
     (if items = [] then Inr ''No pending approvals.''
      else and_then (traverse pending_row items) (\<lambda>rows. Inr (join newline
        ([padded 35 ''Rule ID'' @ '' '' @ padded 16 ''Action'' @ '' Queued at'', replicate 70 (CHR ''-'')] @ rows
          @ [newline @ ''Use: automation approve <id>  or  automation deny <id>'']))))"

definition skill_validate :: "'e skill_env_scheme \<Rightarrow> state_doc \<Rightarrow> string outcome" where
  "skill_validate env f =
     (case f of
        Missing \<Rightarrow> Inr ''rules.json not found.''
      | Garbled \<Rightarrow> Inr (''rules.json is invalid JSON: '' @ k_json_error env)
      | Doc v \<Rightarrow>
          and_then (py_iter v) (\<lambda>xs.
          and_then (traverse as_obj xs) (\<lambda>rs.
          and_then (validate_rules rs) (\<lambda>errors.
            if errors = [] then Inr (''rules.json is valid '' @ k_dash env @ '' '' @ show_nat (length rs) @ '' rule(s) passed schema check.'')
            else Inr (join newline ((''Validation errors ('' @ show_nat (length (concat (map snd errors))) @ '' total):'')
              # map (\<lambda>e. ''  '' @ e) (concat (map snd errors))))))))"

section \<open>Commands that change something\<close>

definition skill_start :: "'e skill_env_scheme \<Rightarrow> ('w skill_world_scheme, string) act" where
  "skill_start env =
     act_bind (act_get (\<lambda>w. (daemon_alive env w, pid_text w))) (\<lambda>(alive, pid).
       if alive then act_return (''Automation daemon already running (pid '' @ pid @ '').'')
       else case k_spawn env of
              Inr p \<Rightarrow> act_bind (act_modify (\<lambda>w. w\<lparr>spawned := Suc (spawned w)\<rparr>)) (\<lambda>_.
                act_return (''Automation daemon started (pid '' @ show_int p @ '').''))
            | Inl e \<Rightarrow> act_return (''Failed to start automation daemon: '' @ e))"

definition skill_stop :: "'e skill_env_scheme \<Rightarrow> ('w skill_world_scheme, string) act" where
  "skill_stop env =
     act_bind (act_get (\<lambda>w. (daemon_alive env w, daemon_pid w))) (\<lambda>(alive, pid).
       case pid of
         Some p \<Rightarrow>
           if alive then act_bind (send_term env p) (\<lambda>r. act_return (case r of
               Alive \<Rightarrow> ''Sent SIGTERM to automation daemon (pid '' @ show_int p @ '').''
             | Gone \<Rightarrow> ''Process already gone.''
             | Denied \<Rightarrow> ''Permission denied killing pid '' @ show_int p @ ''.''))
           else act_return ''Automation daemon is not running.''
       | None \<Rightarrow> act_return ''Automation daemon is not running.'')"

definition skill_enable :: "'e skill_env_scheme \<Rightarrow> ('w skill_world_scheme, string) act" where
  "skill_enable env =
     act_bind (act_get stop_file) (\<lambda>stopped.
     act_bind (set_emergency_stop False) (\<lambda>_.
     act_bind (act_get (\<lambda>w. (daemon_alive env w, pid_text w))) (\<lambda>(alive, pid).
     act_bind (if alive then act_return (''Daemon already running (pid '' @ pid @ '').'') else skill_start env) (\<lambda>second.
       act_return (join newline [if stopped then ''STOP file removed '' @ k_dash env @ '' automation unpaused.'' else ''No STOP file was active.'', second])))))"

definition skill_disable :: "'e skill_env_scheme \<Rightarrow> ('w skill_world_scheme, string) act" where
  "skill_disable env =
     act_bind (set_emergency_stop True) (\<lambda>_.
     act_bind (act_get (\<lambda>w. (daemon_alive env w, pid_text w))) (\<lambda>(alive, pid).
       act_return (''STOP file created. Daemon is '' @ (if alive then ''running (pid '' @ pid @ '') but paused'' else ''not running'')
         @ ''. All rule executions suspended.'')))"

text \<open>The identifier of a rule, or how to use the command.\<close>

definition with_rule_id :: "string \<Rightarrow> json \<Rightarrow> (string \<Rightarrow> ('w, string) act) \<Rightarrow> ('w, string) act" where
  "with_rule_id usage payload k =
     (case payload of
        JStr s \<Rightarrow> if strip s = [] then act_return (''Usage: automation '' @ usage @ '' <rule_id>'') else k (strip s)
      | _ \<Rightarrow> act_raise AttributeError)"

definition on_rules :: "(state_doc, 'a) act \<Rightarrow> ('w auto_world_scheme, 'a) act" where
  "on_rules m = (\<lambda>w. let (r, f) = m (rules_file w) in (r, w\<lparr>rules_file := f\<rparr>))"

definition skill_rule :: "bool \<Rightarrow> json \<Rightarrow> ('w skill_world_scheme, string) act" where
  "skill_rule b payload =
     with_rule_id (if b then ''rule enable'' else ''rule disable'') payload (\<lambda>i. on_rules (set_rule_enabled (JStr i) b))"

definition skill_approve :: "'e skill_env_scheme \<Rightarrow> json \<Rightarrow> ('w skill_world_scheme, string) act" where
  "skill_approve env payload = with_rule_id ''approve'' payload (approve_pending env)"

definition skill_deny :: "'e skill_env_scheme \<Rightarrow> json \<Rightarrow> ('w skill_world_scheme, string) act" where
  "skill_deny env payload = with_rule_id ''deny'' payload (deny_pending env)"

definition emergency_stop :: "'e skill_env_scheme \<Rightarrow> ('w skill_world_scheme, string) act" where
  "emergency_stop env =
     act_bind (set_emergency_stop True) (\<lambda>_.
     act_bind (act_get (\<lambda>w. (daemon_alive env w, daemon_pid w, pid_text w))) (\<lambda>(alive, pid, shown).
     act_bind (case pid of
         Some p \<Rightarrow> if p \<noteq> 0 \<and> alive then act_bind (send_term env p) (\<lambda>r. act_return (r = Alive)) else act_return False
       | None \<Rightarrow> act_return False) (\<lambda>killed. act_return (join newline
       [''EMERGENCY STOP activated.'', ''STOP file created '' @ k_dash env @ '' all rule executions halted.'',
        ''Daemon pid '' @ shown @ '': '' @ (if killed then ''SIGTERM sent.'' else ''not running or already stopped.''), [],
        ''To resume: python3 Jarvis/bridge.py 'automation enable'' @ [char_of (39::nat)]]))))"

section \<open>The table of commands\<close>

text \<open>Action, phrases, description, tier of risk and handler.\<close>

definition skill_table :: "string \<Rightarrow> (string \<times> string list \<times> string \<times> string \<times> string) list" where
  "skill_table dash =
     [(''automation_status'', [''automation status'', ''automation health''], ''Show automation daemon status, stop state, and active rules.'',
        ''low'', ''status''),
      (''automation_rules'', [''automation rules'', ''show rules'', ''list rules''], ''List all rules with id, enabled, risk tier, trigger, and description.'',
        ''low'', ''list_rules''),
      (''automation_logs'', [''automation logs'', ''automation log''], ''Show the last 20 lines of automation.log.'',
        ''low'', ''logs''),
      (''automation_pending'', [''automation pending'', ''pending approvals'', ''show pending''], ''Show rules awaiting manual approval (high-risk).'',
        ''low'', ''pending''),
      (''automation_validate'', [''automation validate'', ''validate rules''], ''Validate rules.json and report schema errors.'',
        ''low'', ''validate''),
      (''automation_start'', [''start automation'', ''automation start''], ''Start the automation daemon.'',
        ''medium'', ''start''),
      (''automation_stop'', [''stop automation'', ''automation stop''], ''Gracefully stop the automation daemon (SIGTERM).'',
        ''medium'', ''stop''),
      (''automation_enable'', [''automation enable'', ''enable automation''], ''Remove STOP file and start daemon if not running.'',
        ''medium'', ''enable''),
      (''automation_disable'', [''automation disable'', ''disable automation''], (''Create STOP file '' @ dash @ '' daemon stays alive but no actions execute.''),
        ''medium'', ''disable''),
      (''automation_rule_enable'', [''automation rule enable''], ''Enable a specific rule: automation rule enable <id>'',
        ''medium'', ''rule_enable''),
      (''automation_rule_disable'', [''automation rule disable''], ''Disable a specific rule: automation rule disable <id>'',
        ''medium'', ''rule_disable''),
      (''automation_approve'', [''automation approve''], ''Approve and execute a pending high-risk rule: automation approve <id>'',
        ''medium'', ''approve''),
      (''automation_deny'', [''automation deny''], ''Deny and remove a pending approval: automation deny <id>'',
        ''medium'', ''deny''),
      (''automation_emergency_stop'', [''automation emergency stop'', ''emergency stop automation''], ''Immediately halt all automation: STOP file + SIGTERM to daemon.'',
        ''high'', ''emergency_stop'')]"

definition skill_handlers :: "'e skill_env_scheme \<Rightarrow> json \<Rightarrow> (string \<times> ('w skill_world_scheme, string) act) list" where
  "skill_handlers env payload =
     [(''status'', skill_status env), (''list_rules'', act_bind (act_get (\<lambda>w. list_rules env (rules_file w))) act_of),
      (''logs'', act_return (skill_logs env)), (''pending'', act_bind (act_get (\<lambda>w. skill_pending (load_pending w))) act_of),
      (''validate'', act_bind (act_get (\<lambda>w. skill_validate env (rules_file w))) act_of),
      (''start'', skill_start env), (''stop'', skill_stop env), (''enable'', skill_enable env), (''disable'', skill_disable env),
      (''rule_enable'', skill_rule True payload), (''rule_disable'', skill_rule False payload),
      (''approve'', skill_approve env payload), (''deny'', skill_deny env payload), (''emergency_stop'', emergency_stop env)]"

text \<open>A command of the skill carried out: the handler its entry names.\<close>

definition run_skill :: "'e skill_env_scheme \<Rightarrow> string \<Rightarrow> json \<Rightarrow> ('w skill_world_scheme, string) act option" where
  "run_skill env action payload =
     (case List.find (\<lambda>e. fst e = action) (skill_table (k_dash env)) of
        Some (_, _, _, _, h) \<Rightarrow> map_of (skill_handlers env payload) h
      | None \<Rightarrow> None)"

text \<open>The module as the loader of the skills sees it; \<open>run\<close> gives the texts its functions return.\<close>

definition automation_skill :: "string \<Rightarrow> (string \<Rightarrow> plugin_fn) \<Rightarrow> plugin_module" where
  "automation_skill dash run =
     \<lparr>callables = (\<lambda>n. Some (run n)),
      actions = map (\<lambda>(a, ps, d, t, h). Some \<lparr>raw_fields = [(''action'', JStr a), (''aliases'', JArr (map JStr ps)),
        (''description'', JStr d), (''risk_tier'', JStr t)], raw_handler = Named h\<rparr>) (skill_table dash)\<rparr>"

section \<open>Stopped means stopped\<close>

text \<open>
  The daemon and the commands of the owner take turns. A run of these steps under the STOP file: passes of the scheduler with
  any jobs, and every command but \<open>enable\<close>, which lifts the stop, and \<open>approve\<close>, which does not look at it.
\<close>

inductive control_step :: "skill_world \<Rightarrow> skill_world \<Rightarrow> bool" where
  pass: "tick (env :: auto_env) js w = (r, w') \<Longrightarrow> control_step w w'"
| command: "run_skill (env :: skill_env) a payload = Some m \<Longrightarrow> a \<notin> {''automation_enable'', ''automation_approve''} \<Longrightarrow> m w = (r, w') \<Longrightarrow> control_step w w'"

inductive_cases control_stepE: "control_step w w'"

definition halted :: "(json \<times> effect) list \<Rightarrow> 'w auto_world_scheme \<Rightarrow> bool" where
  "halted es w \<longleftrightarrow> stop_file w \<and> effects w = es"

lemma preserves_stop: "preserves (halted es) (set_emergency_stop True)"
  unfolding set_emergency_stop_def by (rule preserves_modify) (simp add: halted_def)

lemma preserves_halted: "keeps stop_file m \<Longrightarrow> keeps effects m \<Longrightarrow> preserves (halted es) m"
  by (simp add: preserves_def keeps_def halted_def)

lemma halted_update:
  "preserves (halted es) (act_modify (\<lambda>w. w\<lparr>terminated := f w\<rparr>))" "preserves (halted es) (act_modify (\<lambda>w. w\<lparr>spawned := g w\<rparr>))"
  "preserves (halted es) (on_rules q)" "preserves (halted es) (save_pending items)" "preserves (halted es) (write_audit e i ty st d)"
  by (simp_all add: preserves_def halted_def act_modify_def on_rules_def save_pending_def write_audit_def split: prod.split)

lemma preserves_term: "preserves (halted es) (send_term env p)"
  by (auto simp: send_term_def intro!: preserve_intros halted_update)

lemma preserves_start: "preserves (halted es) (skill_start env)"
  unfolding skill_start_def by (auto intro!: preserve_intros halted_update split: prod.split sum.split)

lemma preserves_rule_id: "(\<And>i. preserves I (k i)) \<Longrightarrow> preserves I (with_rule_id u payload k)"
  by (cases payload) (auto simp: with_rule_id_def intro!: preserve_intros)

lemma handlers_halted:
  assumes "(h, m) \<in> set (skill_handlers env payload)" "h \<noteq> ''enable''" "h \<noteq> ''approve''"
  shows "preserves (halted es) m"
proof -
  have reads: "preserves (halted es) (skill_status env)"
    unfolding skill_status_def by (auto intro!: preserve_intros split: prod.split)
  have stop: "preserves (halted es) (skill_stop env)"
    unfolding skill_stop_def by (auto intro!: preserve_intros preserves_term split: prod.split option.split)
  have disable: "preserves (halted es) (skill_disable env)"
    unfolding skill_disable_def by (auto intro!: preserve_intros preserves_stop split: prod.split)
  have rule: "preserves (halted es) (skill_rule b payload)" for b
    unfolding skill_rule_def by (intro preserves_rule_id halted_update)
  have deny: "preserves (halted es) (skill_deny env payload)"
    unfolding skill_deny_def deny_pending_def by (intro preserves_rule_id) (auto intro!: preserve_intros halted_update)
  have emergency: "preserves (halted es) (emergency_stop env)"
    unfolding emergency_stop_def by (auto intro!: preserve_intros preserves_stop preserves_term split: prod.split option.split)
  show ?thesis
    using assms unfolding skill_handlers_def
    by (auto simp del: act_simps intro!: preserve_intros reads stop disable rule deny emergency preserves_start)
qed

lemma table_handlers: "list_all (\<lambda>(a, _, _, _, h). (h = ''enable'' \<longrightarrow> a = ''automation_enable'') \<and> (h = ''approve'' \<longrightarrow> a = ''automation_approve''))
    (skill_table dash)"
  by code_simp

lemma find_Some_in: "List.find P xs = Some x \<Longrightarrow> x \<in> set xs \<and> P x"
  by (induction xs) (auto split: if_splits)

lemma run_skill_handler:
  assumes "run_skill env a payload = Some m"
  shows "\<exists>h. (h, m) \<in> set (skill_handlers env payload) \<and> (h = ''enable'' \<longrightarrow> a = ''automation_enable'') \<and> (h = ''approve'' \<longrightarrow> a = ''automation_approve'')"
proof -
  obtain e where found: "List.find (\<lambda>e. fst e = a) (skill_table (k_dash env)) = Some e"
    using assms by (auto simp: run_skill_def split: option.splits)
  obtain a' ps d t h where e: "e = (a', ps, d, t, h)" by (cases e) auto
  have m: "map_of (skill_handlers env payload) h = Some m" using assms by (simp add: run_skill_def found e)
  from find_Some_in [OF found] e have "a' = a" "(a', ps, d, t, h) \<in> set (skill_table (k_dash env))" by auto
  then have "(a, ps, d, t, h) \<in> set (skill_table (k_dash env))" by simp
  with table_handlers [of "k_dash env"] have "(h = ''enable'' \<longrightarrow> a = ''automation_enable'') \<and> (h = ''approve'' \<longrightarrow> a = ''automation_approve'')"
    unfolding list_all_iff by blast
  with map_of_SomeD [OF m] show ?thesis by blast
qed

lemma keeps_stop_tick: "keeps stop_file (tick env js)"
proof (induction js)
  case Nil
  then show ?case by (simp add: keeps_def)
next
  case (Cons j js)
  have "keeps stop_file (if is_due env j then fire env (mark_ran env j) else act_return j)" by (simp add: keeps_stop_fire)
  with Cons show ?case unfolding tick.simps by (intro frame_intros)
qed

lemma control_step_halted: "control_step w w' \<Longrightarrow> halted es w \<Longrightarrow> halted es w'"
proof (induction rule: control_step.induct)
  case (pass env js w r w')
  from tick_effects [OF pass(1)] obtain new where new: "effects w' = effects w @ new" "\<forall>e \<in> set new. \<not> stop_file w" by blast
  from new(2) pass(2) have "new = []" by (cases new) (auto simp: halted_def)
  with new(1) pass keepsD [OF keeps_stop_tick pass(1)] show ?case by (simp add: halted_def)
next
  case (command env a payload m w r w')
  from run_skill_handler [OF command(1)] obtain h where "(h, m) \<in> set (skill_handlers env payload)" "h \<noteq> ''enable''" "h \<noteq> ''approve''"
    using command(2) by blast
  then have "preserves (halted es) m" by (rule handlers_halted)
  with command(3,4) show ?case by (auto simp: preserves_def)
qed

lemma control_run_halted: "control_step\<^sup>*\<^sup>* w w' \<Longrightarrow> halted es w \<Longrightarrow> halted es w'"
  by (induction rule: rtranclp_induct) (auto intro: control_step_halted)

text \<open>C29: the emergency stop holds. Once its command has run, whatever the operating system answered, nothing that the daemon or the
  owner does causes an effect (a note, a post, a script, a command), until the owner enables the automation or approves a rule.\<close>

theorem stopped_means_stopped:
  assumes "run_skill env ''automation_emergency_stop'' payload = Some m" "m w = (r, w1)" "control_step\<^sup>*\<^sup>* w1 w2"
  shows "stop_file w2 \<and> effects w2 = effects w"
proof -
  have "run_skill env ''automation_emergency_stop'' payload = Some (emergency_stop env :: (skill_world, string) act)"
    by (simp add: run_skill_def skill_table_def skill_handlers_def)
  with assms(1) have m: "m = emergency_stop env" by simp
  have "emergency_stop env w = emergency_stop env (w\<lparr>stop_file := True\<rparr>)"
    by (simp add: emergency_stop_def act_bind_app set_emergency_stop_def)
  moreover have "preserves (halted (effects w)) (emergency_stop env)"
    by (rule handlers_halted [of "''emergency_stop''" _ env payload]) (simp_all add: skill_handlers_def)
  moreover have "halted (effects w) (w\<lparr>stop_file := True\<rparr>)" by (simp add: halted_def)
  ultimately have "halted (effects w) w1" using assms(2) m unfolding preserves_def by (metis snd_conv)
  from control_run_halted [OF assms(3) this] show ?thesis by (simp add: halted_def)
qed

section \<open>The emergency stop from a command\<close>

text \<open>The phrase of the emergency stop is in the table of the parser, with the risk the skill declares.\<close>

definition automation_skills :: "string \<Rightarrow> (string \<Rightarrow> plugin_fn) \<Rightarrow> skills" where
  "automation_skills dash run = [(''automation_skill.py'', Some (automation_skill dash run))]"

lemma emergency_phrase:
  "get_plugin_risk_tier (automation_skills dash run) ''automation_emergency_stop'' = Some ''high''"
  "dget (get_plugin_exact_table (automation_skills dash run)) ''automation emergency stop'' = Some ''automation_emergency_stop''"
  unfolding automation_skills_def by code_simp+

lemma keeps_note_session:
  "keeps activity_log (note_session env kvs)" "keeps ran (note_session env kvs)"
  unfolding note_session_def by (intro keeps_iter; clarify; simp add: keeps_def on_profiles_def split: prod.split)+

text \<open>The emergency stop is not immediate. Its command is of high risk, so the first time it is given, on the command line or through
  the web API, it is only kept for a confirmation: the answer is a failure, no action has been carried out and no program run.\<close>

theorem emergency_stop_waits:
  assumes "skills (j_parser env) = automation_skills dash run" "profiles_ok (profiles_file w)"
    and "bridge_process env steps ''automation emergency stop'' w = (Inr x, w')"
  shows "\<not> r_ok x \<and> r_action x = ''confirmation_required'' \<and> activity_log w' = activity_log w \<and> ran w' = ran w"
proof -
  let ?a = "''automation_emergency_stop''"
  note skill = emergency_phrase [of dash run, folded assms(1)]
  have "normalize_intent ''automation emergency stop'' = ''automation emergency stop''" by code_simp
  then have parsed: "interpret_intent (j_parser env) ''automation emergency stop'' = (?a, JStr [])"
    by (simp add: interpret_intent_def exact_table_get skill(2))
  from assms(3) have run: "process_intent env steps ''automation emergency stop'' ?a (JStr []) w = (Inr x, w')"
    by (simp add: bridge_process_def parsed)
  then obtain b w1 where b: "rules_now env ''automation emergency stop'' ?a w = (Inr b, w1)"
    unfolding process_intent_def Let_def act_bind_Inr by blast
  from rules_now_Inr [OF b assms(2)] have w1: "w1 = w" and "b_risk b = get_risk_profile (skills (j_parser env)) ?a" by blast+
  then have "confirm_first (b_risk b)" by (simp add: get_risk_profile_def skill(1) risk_def)
  with run b obtain kvs where "note_session env kvs w = (Inr (), w')" "\<not> r_ok x" "r_action x = ''confirmation_required''"
    by (auto simp: process_intent_def Let_def w1 act_bind_Inr routed_as_def)
  with keeps_note_session [of env kvs] show ?thesis by (metis keepsD)
qed

section \<open>Witnesses\<close>

definition skill_demo_env :: skill_env where
  "skill_demo_env = auto_env.extend (clock_env 1)
     \<lparr>k_probe = (\<lambda>_. Alive), k_term = (\<lambda>_. Denied), k_spawn = Inr 8, k_log = None, k_json_error = [], k_audit_path = [], k_dash = ''-''\<rparr>"

definition skill_demo_world :: skill_world where
  "skill_demo_world = auto_world.extend idle_world \<lparr>daemon_pid_file = Some ''7'', terminated = [], spawned = 0\<rparr>"

theorem stopped_means_stopped_witness:
  "\<exists>m r w1 js w2. run_skill skill_demo_env ''automation_emergency_stop'' JNull = Some m \<and> m skill_demo_world = (r, w1)
     \<and> tick (clock_env 1) [demo_job notify_rule] w1 = (js, w2) \<and> stop_file w2 \<and> effects w2 = []"
proof -
  obtain m :: "(skill_world, string) act" where m: "run_skill skill_demo_env ''automation_emergency_stop'' JNull = Some m"
    by (simp add: run_skill_def skill_table_def skill_handlers_def)
  obtain r w1 where run: "m skill_demo_world = (r, w1)" by fastforce
  obtain js w2 where tick: "tick (clock_env 1) [demo_job notify_rule] w1 = (js, w2)" by fastforce
  then have "control_step\<^sup>*\<^sup>* w1 w2" by (intro r_into_rtranclp control_step.pass)
  from stopped_means_stopped [OF m run this] have "stop_file w2" "effects w2 = effects skill_demo_world" by simp_all
  then show ?thesis using m run tick by (auto simp: skill_demo_world_def idle_world_def auto_world.defs)
qed

definition with_skill :: jarvis_env where
  "with_skill = demo_env\<lparr>j_parser := bare_env\<lparr>skills := automation_skills ''-'' (\<lambda>_ _. Inr ''done'')\<rparr>\<rparr>"

theorem emergency_stop_waits_witness:
  "\<exists>x w'. bridge_process with_skill [] ''automation emergency stop'' (demo_world []) = (Inr x, w')
     \<and> \<not> r_ok x \<and> r_action x = ''confirmation_required'' \<and> activity_log w' = []"
proof -
  let ?w = "demo_world []" and ?s = "''automation emergency stop''" and ?a = "''automation_emergency_stop''"
  let ?run = "bridge_process with_skill [] ?s ?w"
  have env: "skills (j_parser with_skill) = automation_skills ''-'' (\<lambda>_ _. Inr ''done'')" "j_host with_skill = test_host"
    by (simp_all add: with_skill_def demo_env_def)
  note skill = emergency_phrase [of "''-''" "\<lambda>_ _. Inr ''done''", folded env(1)]
  have n: "normalize_intent ?s = ?s" by code_simp
  have parsed: "interpret_intent (j_parser with_skill) ?s = (?a, JStr [])"
    by (simp add: interpret_intent_def exact_table_get skill(2) n)
  from Confirmation.demo_rules [OF demo_load(1), of "[]" with_skill ?s ?a] obtain b where b: "rules_now with_skill ?s ?a ?w = (Inr b, ?w)"
    by (auto simp: default_session_def session_fields_def dget_or_def env)
  from rules_now_Inr [OF b demo_ok(1)] have risk: "b_risk b = get_risk_profile (skills (j_parser with_skill)) ?a" by blast
  then have high: "confirm_first (b_risk b)" by (simp add: get_risk_profile_def skill(1) risk_def)
  let ?kvs = "[(''pending_action'', JStr ?a), (''pending_payload'', JStr []), (''pending_command'', JStr ?s),
     (''pending_since'', JStr (j_now_iso with_skill)), (''last_intent'', JStr ?s), (''last_command'', JStr ?s), (''last_risk_tier'', JStr (tier (b_risk b)))]"
  have "distinct (dkeys ?kvs)" by simp
  from note_session_ok [OF demo_ok(1) demo_ok(2) this, of with_skill] obtain f' where
    "note_session with_skill ?kvs ?w = (Inr (), ?w\<lparr>profiles_file := f'\<rparr>)" by blast
  then obtain x where run: "?run = (Inr x, ?w\<lparr>profiles_file := f'\<rparr>)"
    by (simp add: bridge_process_def parsed process_intent_def Let_def b high n)
  from emergency_stop_waits [OF env(1) demo_ok(1) run] run show ?thesis by (simp add: demo_world_def)
qed

end
