(* ===== verification/Recent_Log.thy ===== *)
theory Recent_Log
  imports Public_Records
begin

text \<open>
  Logs of recent entries: the interface that the histories of the program share (the last commands of \<open>web/api.py\<close>, the last
  exchanges of \<open>Jarvis/ai_connector.py\<close>, the inbox of \<open>app/services/public_intake.py\<close>), and its implementations as a deque with
  a maximal length and as a file that is cut to its last lines at each append.
\<close>

section \<open>The interface\<close>

text \<open>
  What the code asks of a place it notes entries in: an entry put there is the newest, and of the older ones as many are
  kept as fit in. \<open>good\<close> are the states the operations lead to, \<open>ok\<close> the entries that are read back as they were put.
\<close>

lemma lastn_lastn_append: "lastn n (lastn n xs @ ys) = lastn n (xs @ ys)"
  by (cases "length xs \<le> n") (auto simp: lastn_def drop_append add.commute)

lemma lastn_lastn: "lastn m (lastn n xs) = lastn (min m n) xs"
proof -
  have "length xs - (length xs - n + m) + (length xs - n) = length xs - m" if "m \<le> n" using that by linarith
  then show ?thesis by (auto simp: lastn_def min_def)
qed

locale recent_log =
  fixes put :: "'r \<Rightarrow> 's \<Rightarrow> 's" and contents :: "'s \<Rightarrow> 'v list" and view :: "'r \<Rightarrow> 'v"
    and ok :: "'r \<Rightarrow> bool" and good :: "'s \<Rightarrow> bool" and cap :: nat
  assumes put_good: "good s \<Longrightarrow> ok r \<Longrightarrow> good (put r s)"
    and contents_put: "good s \<Longrightarrow> ok r \<Longrightarrow> contents (put r s) = lastn cap (contents s @ [view r])"
begin

lemma good_run: "good s \<Longrightarrow> list_all ok rs \<Longrightarrow> good (fold put rs s)"
  by (induction rs arbitrary: s) (simp_all add: put_good)

lemma contents_run:
  "good s \<Longrightarrow> length (contents s) \<le> cap \<Longrightarrow> list_all ok rs \<Longrightarrow> contents (fold put rs s) = lastn cap (contents s @ map view rs)"
proof (induction rs arbitrary: s)
  case (Cons r rs)
  then have "contents (fold put rs (put r s)) = lastn cap (contents (put r s) @ map view rs)"
    by (intro Cons.IH) (simp_all add: put_good contents_put)
  then show ?case using Cons.prems by (simp add: contents_put lastn_lastn_append)
qed simp

lemma newest: "good s \<Longrightarrow> ok r \<Longrightarrow> 0 < cap \<Longrightarrow> last (contents (put r s)) = view r"
  by (simp add: contents_put last_lastn)

lemma never_more: "good s \<Longrightarrow> ok r \<Longrightarrow> length (contents (put r s)) \<le> cap"
  by (simp add: contents_put)

end

text \<open>A coarser reading of the same log: only its last entries.\<close>

locale short_view = recent_log +
  fixes shown :: nat
  assumes shown_cap: "shown \<le> cap"

sublocale short_view \<subseteq> short: recent_log put "\<lambda>s. lastn shown (contents s)" view ok good shown
  by unfold_locales (use shown_cap in \<open>simp_all add: put_good contents_put lastn_lastn lastn_lastn_append min_absorb1\<close>)

section \<open>A deque\<close>

text \<open>Appending to a deque with \<open>maxlen\<close>.\<close>

definition push_capped :: "nat \<Rightarrow> 'a \<Rightarrow> 'a list \<Rightarrow> 'a list" where
  "push_capped n v h = lastn n (h @ [v])"

interpretation deque: recent_log "\<lambda>r. push_capped n (view r)" "\<lambda>h. h" view "\<lambda>_. True" "\<lambda>_. True" n for n view
  by unfold_locales (simp_all add: push_capped_def)

section \<open>A file of lines\<close>

text \<open>A line is appended; a file with more lines than \<open>n\<close> is written again with its last \<open>n\<close>.\<close>

definition append_capped :: "nat \<Rightarrow> obj \<Rightarrow> log_file \<Rightarrow> log_file" where
  "append_capped n rec f =
     (let f' = append_record rec f; lines = splitlines (the f') in
      if length lines > n then Some (join [newline] (lastn n lines) @ [newline]) else f')"

definition recent_entries :: "nat \<Rightarrow> log_file \<Rightarrow> json list" where
  "recent_entries n f = (case f of None \<Rightarrow> [] | Some t \<Rightarrow> List.map_filter json_loads (lastn n (splitlines t)))"

definition capped_log :: "nat \<Rightarrow> log_file \<Rightarrow> bool" where
  "capped_log n f = (\<exists>rs. f = log_of rs \<and> list_all record_ok rs \<and> length rs \<le> n)"

lemma capped_log_empty [simp]: "capped_log n None"
  by (auto simp: capped_log_def log_of_def intro: exI [of _ "[]"])

lemma recent_entries_empty [simp]: "recent_entries n None = []"
  by (simp add: recent_entries_def)

lemma recent_entries_log:
  assumes "list_all record_ok rs" "0 < n"
  shows "recent_entries n (log_of rs) = map JObj (lastn n rs)"
proof -
  have n: "nat (max 1 (int n)) = n" using assms(2) by simp
  show ?thesis using log_items_log_of [OF assms(1), of "int n", unfolded log_items_def n] by (simp add: recent_entries_def)
qed

lemma join_lines: "ls \<noteq> [] \<Longrightarrow> join [c] ls @ [c] = concat (map (\<lambda>l. l @ [c]) ls)"
  by (induction "[c]" ls rule: join.induct) auto

lemma append_capped_log:
  assumes "list_all record_ok rs" "record_ok r" "length rs \<le> n" "0 < n"
  shows "append_capped n r (log_of rs) = log_of (lastn n (rs @ [r]))"
proof -
  let ?all = "rs @ [r]" and ?line = "\<lambda>r. json_dumps (JObj r)"
  have ok: "list_all record_ok ?all" using assms by simp
  have written: "append_record r (log_of rs) = Some (concat (map (\<lambda>r. ?line r @ [newline]) ?all))"
    unfolding log_of_snoc by (rule log_of_text) simp
  have lines: "splitlines (the (append_record r (log_of rs))) = map ?line ?all"
    by (simp only: written option.sel splitlines_log [OF ok])
  have ne: "lastn n ?all \<noteq> []" using assms(4) by simp
  have rewritten: "join [newline] (map ?line (lastn n ?all)) @ [newline] = concat (map (\<lambda>r. ?line r @ [newline]) (lastn n ?all))"
    using join_lines [of "map ?line (lastn n ?all)" newline] ne by (simp add: comp_def del: json_dumps.simps)
  show ?thesis
  proof (cases "length ?all \<le> n")
    case True
    then show ?thesis unfolding append_capped_def Let_def lines by (simp add: log_of_snoc)
  next
    case False
    then show ?thesis unfolding append_capped_def Let_def lines map_lastn [symmetric] rewritten log_of_text [OF ne] by simp
  qed
qed

lemma capped_file:
  assumes "0 < n"
  shows "recent_log (append_capped n) (recent_entries n) JObj record_ok (capped_log n) n"
proof unfold_locales
  fix f r assume good: "capped_log n f" and ok: "record_ok r"
  from good obtain rs where rs: "f = log_of rs" "list_all record_ok rs" "length rs \<le> n"
    by (auto simp: capped_log_def)
  let ?new = "lastn n (rs @ [r])"
  have saved: "append_capped n r f = log_of ?new" using append_capped_log [OF rs(2) ok rs(3) assms] rs(1) by simp
  have new: "list_all record_ok ?new" using rs(2) ok by (intro lastn_ok) simp
  then show "capped_log n (append_capped n r f)" unfolding capped_log_def saved by (intro exI [of _ ?new]) simp
  show "recent_entries n (append_capped n r f) = lastn n (recent_entries n f @ [JObj r])"
    unfolding saved recent_entries_log [OF new assms] using rs recent_entries_log [OF rs(2) assms] by (simp add: map_lastn)
qed

section \<open>The inbox and the registry\<close>

text \<open>The logs of \<open>Public_Records\<close> keep every line; a reader shows as many as its limit allows.\<close>

interpretation log_view: recent_log append_record "log_items limit" JObj record_ok "\<lambda>f. \<exists>rs. f = log_of rs \<and> list_all record_ok rs" "nat (max 1 limit)"
  for limit
proof unfold_locales
  fix f r assume good: "\<exists>rs. f = log_of rs \<and> list_all record_ok rs" and ok: "record_ok r"
  then obtain rs where rs: "f = log_of rs" "list_all record_ok rs" by blast
  have new: "list_all record_ok (rs @ [r])" using rs ok by simp
  then show "\<exists>rs. append_record r f = log_of rs \<and> list_all record_ok rs" using rs(1) log_of_snoc by blast
  show "log_items limit (append_record r f) = lastn (nat (max 1 limit)) (log_items limit f @ [JObj r])"
    unfolding rs(1) log_of_snoc log_items_log_of [OF new] log_items_log_of [OF rs(2)]
    by (simp add: map_lastn lastn_lastn_append)
qed

end
