(* ===== verification/Web_Api.thy ===== *)
theory Web_Api
  imports Recent_Log Public_Chat Confirmation
begin

text \<open>
  Model of the command interface of \<open>web/api.py\<close>: the history of commands, in memory and on file, commands through the router
  of the AI layer, the endpoints of the automation, and the limit on the size of a body. The state of the AI layer is a part of the
  world; of the steps of the other processes each call gets a list, as in \<open>Router\<close>.
\<close>

section \<open>World\<close>

record api_world = chat_world +
  cmd_history :: "json list"
  history_file :: log_file
  jarvis :: jarvis_world

record api_env = chat_env +
  a_jarvis :: jarvis_env
  a_steps :: "(jarvis_world \<Rightarrow> jarvis_world) list"

definition on_jarvis :: "(jarvis_world, 'a) act \<Rightarrow> ('w api_world_scheme, 'a) act" where
  "on_jarvis m = (\<lambda>w. case m (jarvis w) of (r, j) \<Rightarrow> (r, w\<lparr>jarvis := j\<rparr>))"

section \<open>History\<close>

definition history_keep :: nat where
  "history_keep = 50"

definition load_history :: "('w api_world_scheme, unit) act" where
  "load_history = act_modify (\<lambda>w. case history_file w of
     None \<Rightarrow> w
   | Some t \<Rightarrow> w\<lparr>cmd_history := fold (push_capped history_keep) (List.map_filter json_loads (lastn history_keep (splitlines t))) (cmd_history w)\<rparr>)"

definition save_history_entry :: "obj \<Rightarrow> ('w api_world_scheme, unit) act" where
  "save_history_entry rec = act_modify (\<lambda>w. w\<lparr>history_file := append_capped history_keep rec (history_file w)\<rparr>)"

section \<open>Commands\<close>

record command_reply =
  cr_ok :: bool
  cr_command :: string
  cr_id :: string
  cr_ts :: string
  cr_error :: string
  cr_result :: "routed option"

text \<open>\<open>result.get("result") or result.get("error", "")\<close>: a success with an empty text has the error None.\<close>

definition result_text :: "routed \<Rightarrow> json" where
  "result_text x = (if r_ok x \<and> r_text x = [] then JNull else JStr (r_text x))"

definition command_record :: "record_env \<Rightarrow> string \<Rightarrow> string \<Rightarrow> routed \<Rightarrow> obj" where
  "command_record env command action x =
     [(''ts'', JStr (r_ts env)), (''request_id'', JStr (r_id env)), (''command'', JStr command), (''action'', JStr action),
      (''ok'', JBool (r_ok x)), (''result'', result_text x), (''risk'', JStr (tier (b_risk (r_behavior x))))]"

definition run_command :: "'e api_env_scheme \<Rightarrow> string \<Rightarrow> ('w api_world_scheme, command_reply) act" where
  "run_command env command =
     (let rec = f_record env; reply = (\<lambda>k e x. \<lparr>cr_ok = k, cr_command = command, cr_id = r_id rec, cr_ts = r_ts rec, cr_error = e, cr_result = x\<rparr>) in
      case c_jarvis_error env of
        Some e \<Rightarrow> act_return (reply False (''Jarvis router unavailable: '' @ e) None)
      | None \<Rightarrow>
          (case interpret_intent (j_parser (a_jarvis env)) command of (action, payload) \<Rightarrow>
             act_bind (on_jarvis (process_intent (a_jarvis env) (a_steps env) command action payload)) (\<lambda>x.
             let entry = command_record rec command action x in
             act_bind (act_modify (\<lambda>w. w\<lparr>cmd_history := push_capped history_keep (JObj entry) (cmd_history w)\<rparr>)) (\<lambda>_.
             act_bind (save_history_entry entry) (\<lambda>_.
             act_return (reply (r_ok x) [] (Some x)))))))"

definition post_command :: "web_conf \<Rightarrow> 'e api_env_scheme \<Rightarrow> string \<Rightarrow> Web_Gate.request \<Rightarrow> ('w api_world_scheme, command_reply) act" where
  "post_command conf env input r =
     act_bind (require_scope conf env r ''command'') (\<lambda>ctx.
     act_bind (rate_check (w_now env) (ctx_ip ctx) (ctx_rpm ctx)) (\<lambda>ok.
       if \<not> ok then act_raise (over_limit (ctx_rpm ctx))
       else if strip input = [] then act_raise (HTTPException 400 ''command is required'')
       else run_command env (strip input)))"

definition get_history :: "web_conf \<Rightarrow> 'e api_env_scheme \<Rightarrow> Web_Gate.request \<Rightarrow> ('w api_world_scheme, json list) act" where
  "get_history conf env r = act_bind (require_scope conf env r ''read'') (\<lambda>_. act_get cmd_history)"

section \<open>Automation\<close>

text \<open>
  The answer keeps nothing of the result but whether it succeeded: it reads keys (\<open>formatted\<close>, \<open>parsed_action\<close>) that the
  router does not set.
\<close>

definition automation_command :: "'e api_env_scheme \<Rightarrow> string \<Rightarrow> ('w api_world_scheme, obj) act" where
  "automation_command env input =
     act_bind (run_command env input) (\<lambda>a. act_return
       [(''ok'', JBool (cr_ok a)), (''command'', JStr input), (''result'', JStr []), (''action'', JStr []), (''ts'', JStr (r_ts (f_record env)))])"

definition automation_posts :: "string list" where
  "automation_posts = [''enable'', ''disable'', ''start'', ''stop'', ''emergency-stop'', ''validate'']"

definition post_automation :: "web_conf \<Rightarrow> 'e api_env_scheme \<Rightarrow> string \<Rightarrow> Web_Gate.request \<Rightarrow> ('w api_world_scheme, obj) act" where
  "post_automation conf env path r =
     act_bind (require_scope conf env r ''command'') (\<lambda>_. automation_command env (''automation '' @ replace ''-'' '' '' path))"

definition safe_rule_id :: "string \<Rightarrow> string" where
  "safe_rule_id i = replace ''..'' [] (replace ''/'' [] (strip i))"

definition post_automation_rule :: "web_conf \<Rightarrow> 'e api_env_scheme \<Rightarrow> string \<Rightarrow> string \<Rightarrow> Web_Gate.request \<Rightarrow> ('w api_world_scheme, obj) act" where
  "post_automation_rule conf env what rule_id r =
     act_bind (require_scope conf env r ''command'') (\<lambda>_.
       if safe_rule_id rule_id = [] then act_raise (HTTPException 400 ''rule_id is required'')
       else automation_command env (''automation '' @ what @ '' '' @ safe_rule_id rule_id))"

text \<open>
  The views of the automation (\<open>status\<close>, \<open>rules\<close>, \<open>pending\<close>, and \<open>audit\<close> and \<open>failures\<close> with a limit) build the paths of
  their files from a name the module does not define.
\<close>

definition automation_root :: "('w, unit) act" where
  "automation_root = act_raise NameError"

definition get_automation :: "web_conf \<Rightarrow> 'e api_env_scheme \<Rightarrow> int option \<Rightarrow> Web_Gate.request \<Rightarrow> ('w api_world_scheme, unit) act" where
  "get_automation conf env limit r =
     act_bind (require_scope conf env r ''read'') (\<lambda>_.
       case limit of
         Some n \<Rightarrow> if n < 1 \<or> n > 200 then act_raise (HTTPException 400 ''limit must be 1-200'') else automation_root
       | None \<Rightarrow> automation_root)"

section \<open>The size of a body\<close>

definition max_body_bytes :: int where
  "max_body_bytes = 65536"

definition body_too_large :: "Web_Gate.request \<Rightarrow> bool" where
  "body_too_large r =
     (let n = header r ''content-length'' in
      n \<noteq> [] \<and> (case int_of_str n of Some i \<Rightarrow> i > max_body_bytes | None \<Rightarrow> False))"

definition limit_body_size :: "Web_Gate.request \<Rightarrow> ('w, 'a) act \<Rightarrow> ('w, 'a) act" where
  "limit_body_size r call_next =
     (if body_too_large r then act_raise (HTTPException 413 ''request body too large (max 65536 bytes)'') else call_next)"

section \<open>Properties: the history\<close>

interpretation hist_file: recent_log "append_capped history_keep" "recent_entries history_keep" JObj record_ok "capped_log history_keep" history_keep
  by (rule capped_file) (simp add: history_keep_def)

text \<open>The entries of a series of commands, as each leaves the server for the next.\<close>

fun entries :: "('e api_env_scheme \<times> string) list \<Rightarrow> 'w api_world_scheme \<Rightarrow> obj list" where
  "entries [] w = []"
| "entries ((env, c) # cs) w =
     (case run_command env c w of (r, w') \<Rightarrow>
        (case r of
           Inr a \<Rightarrow> (case cr_result a of
               Some x \<Rightarrow> [command_record (f_record env) c (fst (interpret_intent (j_parser (a_jarvis env)) c)) x]
             | None \<Rightarrow> [])
         | Inl _ \<Rightarrow> []) @ entries cs w')"

definition run_all :: "('e api_env_scheme \<times> string) list \<Rightarrow> 'w api_world_scheme \<Rightarrow> 'w api_world_scheme" where
  "run_all cs w = fold (\<lambda>(env, c) w. snd (run_command env c w)) cs w"

lemma run_command_history:
  assumes "run_command env c w = (r, w')"
  shows "(cmd_history w', history_file w') =
    (fold (\<lambda>d. push_capped history_keep (JObj d)) (entries [(env, c)] w) (cmd_history w), fold (append_capped history_keep) (entries [(env, c)] w) (history_file w))"
  using assms
  by (auto simp: run_command_def Let_def act_bind_app on_jarvis_def save_history_entry_def act_modify_def act_return_def
      split: prod.splits sum.splits option.splits)

lemma run_all_history:
  "(cmd_history (run_all cs w), history_file (run_all cs w)) =
    (fold (\<lambda>d. push_capped history_keep (JObj d)) (entries cs w) (cmd_history w), fold (append_capped history_keep) (entries cs w) (history_file w))"
proof (induction cs arbitrary: w)
  case (Cons p cs)
  obtain env c where p: "p = (env, c)" by (cases p)
  obtain r w' where run: "run_command env c w = (r, w')" by (cases "run_command env c w")
  show ?case using Cons.IH [of w'] run_command_history [OF run] by (simp add: p run run_all_def split: sum.split option.split)
qed (simp add: run_all_def)

lemma command_record_ok:
  "nel \<notin> set (json_dumps (JObj (command_record env c a x))) \<Longrightarrow> record_ok (command_record env c a x)"
  by (simp add: record_ok_def command_record_def result_text_def)

lemma entries_ok: "r \<in> set (entries cs w) \<Longrightarrow> nel \<notin> set (json_dumps (JObj r)) \<Longrightarrow> record_ok r"
  by (induction cs w rule: entries.induct) (auto simp: command_record_ok split: prod.splits sum.splits option.splits)

lemma load_history_read:
  "cmd_history w = [] \<Longrightarrow> load_history w = (Inr (), w\<lparr>cmd_history := lastn history_keep (recent_entries history_keep (history_file w))\<rparr>)"
proof -
  have "fold (push_capped history_keep) vs [] = lastn history_keep vs" for vs :: "json list"
    using deque.contents_run [of "[]" history_keep vs id] by (simp add: list_all_iff)
  then show "cmd_history w = [] \<Longrightarrow> ?thesis" by (simp add: load_history_def act_modify_def recent_entries_def split: option.split)
qed


section \<open>The stream of events\<close>

text \<open>
  \<open>GET /api/events\<close>: what the state is at each poll, or the exception of reading it, and how long the poll and the client
  took. Times are in microseconds of the monotonic clock.
\<close>

definition sse_max :: int where
  "sse_max = 1800 * sec"

definition sse_frame :: "string \<Rightarrow> string" where
  "sse_frame s = ''data: '' @ s @ [Public_Records.newline, Public_Records.newline]"

function generate :: "(nat \<Rightarrow> json outcome \<times> nat) \<Rightarrow> nat \<Rightarrow> int \<Rightarrow> int \<Rightarrow> string option \<Rightarrow> string list" where
  "generate poll i now deadline last_payload =
     (if now < deadline then
        (case poll i of (current, took) \<Rightarrow>
           let later = now + int took + 4 * sec in
           (case current of
              Inl _ \<Rightarrow> generate poll (Suc i) later deadline last_payload
            | Inr v \<Rightarrow> if Some (json_dumps v) = last_payload then generate poll (Suc i) later deadline last_payload
                else sse_frame (json_dumps v) # generate poll (Suc i) later deadline (Some (json_dumps v))))
      else [])"
  by pat_completeness auto
termination by (relation "measure (\<lambda>(poll, i, now, deadline, last_payload). nat (deadline - now))") (auto simp: sec_def)

declare generate.simps [simp del]

definition events :: "web_conf \<Rightarrow> 'e web_env_scheme \<Rightarrow> (nat \<Rightarrow> json outcome \<times> nat) \<Rightarrow> int \<Rightarrow> Web_Gate.request \<Rightarrow> ('w gate_scheme, string list) act" where
  "events conf env poll now r = act_bind (require_scope conf env r ''read'') (\<lambda>_. act_return (generate poll 0 now (now + sse_max) None))"

lemma generate_polls:
  "(\<And>j. i \<le> j \<Longrightarrow> j < i + n \<Longrightarrow> poll j = poll' j) \<Longrightarrow> deadline \<le> now + int n * (4 * sec)
    \<Longrightarrow> generate poll i now deadline l = generate poll' i now deadline l \<and> length (generate poll i now deadline l) \<le> n"
proof (induction n arbitrary: i now l)
  case 0
  then show ?case by (simp add: generate.simps)
next
  case (Suc n)
  show ?case
  proof (cases "now < deadline")
    case False
    then show ?thesis by (simp add: generate.simps)
  next
    case True
    obtain c t where p: "poll i = (c, t)" by (cases "poll i")
    have p': "poll' i = (c, t)" using Suc.prems(1) [of i] p by simp
    have ih: "generate poll (Suc i) (now + int t + 4 * sec) deadline l' = generate poll' (Suc i) (now + int t + 4 * sec) deadline l'
      \<and> length (generate poll (Suc i) (now + int t + 4 * sec) deadline l') \<le> n" for l'
      by (rule Suc.IH) (use Suc.prems in \<open>simp_all add: algebra_simps\<close>)
    then have eq: "generate poll (Suc i) (now + int t + 4 * sec) deadline l' = generate poll' (Suc i) (now + int t + 4 * sec) deadline l'"
      and len: "length (generate poll' (Suc i) (now + int t + 4 * sec) deadline l') \<le> n" for l' by metis+
    show ?thesis using True by (simp add: generate.simps [of _ i] p p' Let_def eq len le_SucI split: sum.split)
  qed
qed

lemma generate_changes: "distinct_adj (generate poll i now deadline l)
    \<and> (\<forall>s. l = Some s \<longrightarrow> generate poll i now deadline l \<noteq> [] \<longrightarrow> hd (generate poll i now deadline l) \<noteq> sse_frame s)"
proof (induction poll i now deadline l rule: generate.induct)
  case (1 poll i now deadline l)
  show ?case
  proof (cases "now < deadline")
    case False
    then show ?thesis by (simp add: generate.simps)
  next
    case True
    obtain c t where p: "poll i = (c, t)" by (cases "poll i")
    note ih = "1.IH" [OF True p [symmetric] refl]
    show ?thesis
    proof (cases c)
      case (Inl e)
      then show ?thesis using ih(1) by (simp add: generate.simps [of _ i] p True Let_def)
    next
      case (Inr v)
      show ?thesis
      proof (cases "Some (json_dumps v) = l")
        case True
        then show ?thesis using ih(2) Inr \<open>now < deadline\<close> by (simp add: generate.simps [of _ i] p Let_def)
      next
        case False
        let ?rest = "generate poll (Suc i) (now + int t + 4 * sec) deadline (Some (json_dumps v))"
        have "generate poll i now deadline l = sse_frame (json_dumps v) # ?rest"
          using False Inr \<open>now < deadline\<close> by (simp add: generate.simps [of _ i] p Let_def)
        then show ?thesis using ih(3) [OF Inr False] False by (cases ?rest) (auto simp: sse_frame_def)
      qed
    qed
  qed
qed

text \<open>C32: the stream of events ends. However long the polls take and whatever they raise, the stream ends after at most 450
  polls: it depends on no later one, and it has at most 450 frames; and no frame repeats the one before it.\<close>

theorem event_stream_ends:
  "length (generate poll 0 now (now + sse_max) None) \<le> 450 \<and> distinct_adj (generate poll 0 now (now + sse_max) None)
    \<and> generate poll 0 now (now + sse_max) None = generate (\<lambda>i. if i < 450 then poll i else later i) 0 now (now + sse_max) None"
proof -
  have "generate poll 0 now (now + sse_max) None = generate (\<lambda>i. if i < 450 then poll i else later i) 0 now (now + sse_max) None
      \<and> length (generate poll 0 now (now + sse_max) None) \<le> 450"
    by (rule generate_polls) (simp_all add: sse_max_def sec_def)
  then show ?thesis using generate_changes by blast
qed

section \<open>The interface of a guarded endpoint\<close>

text \<open>
  What the endpoints ask of the gate: a request that fails the check is answered with its error, and the check itself keeps
  the part of the world the endpoint is about.
\<close>

locale guarded =
  fixes check :: "('w, 'c) act" and serve :: "('w, 'a) act" and part :: "'w \<Rightarrow> 's"
  assumes refused: "check w = (Inl e, v) \<Longrightarrow> serve w = (Inl e, v)"
    and check_keeps: "keeps part check"
begin

lemma refused_keeps: "check w = (Inl e, v) \<Longrightarrow> serve w = (Inl e, v) \<and> part v = part w"
  using refused keepsD [OF check_keeps] by blast

lemma effect_needs_check: "part (snd (serve w)) \<noteq> part w \<Longrightarrow> \<exists>c v. check w = (Inr c, v)"
  using refused_keeps by (cases "check w") (metis snd_conv sumE surj_pair)

lemma answer_needs_check: "serve w = (Inr a, v) \<Longrightarrow> \<exists>c u. check w = (Inr c, u)"
  using refused by (cases "check w") (metis fst_conv sum.distinct(1) sumE surj_pair)

end

lemma guarded_bind: "keeps f m \<Longrightarrow> guarded m (act_bind m k) f"
  by unfold_locales simp_all

lemma keeps_auth: "(\<And>w c. f (w\<lparr>token_cache := c\<rparr>) = f w) \<Longrightarrow> keeps f (auth_context conf env r)"
  unfolding auth_context_def token_auth_def load_tokens_def
  by (auto simp: keeps_def act_bind_app act_modify_def act_return_def act_raise_def act_of_def Let_def split: prod.splits sum.splits option.splits)

lemma keeps_gate:
  "(\<And>w c. f (w\<lparr>token_cache := c\<rparr>) = f w) \<Longrightarrow> keeps f (require_scope conf env r s)"
  unfolding require_scope_def by (intro keeps_bind keeps_auth) simp_all

lemma keeps_rate:
  "(\<And>w c. f (w\<lparr>rate_buckets := c\<rparr>) = f w) \<Longrightarrow> keeps f (rate_check now ip n)"
  by (auto simp: keeps_def rate_check_def Let_def)

definition served :: "'w api_world_scheme \<Rightarrow> jarvis_world \<times> json list \<times> log_file" where
  "served w = (jarvis w, cmd_history w, history_file w)"

lemma served_gate: "keeps served (require_scope conf env r s)" "keeps served (rate_check now ip n)"
  by (rule keeps_gate keeps_rate, simp add: served_def)+

section \<open>Properties: who runs commands\<close>

datatype endpoint =
    PostCommand string
  | PostAutomation string
  | PostRule string string
  | GetHistory
  | GetAutomation "int option"
  | PostChat string "string dict list"
  | PostEnquiry enquiry
  | PostSignup signup
  | PostAdmin admin_body
  | GetInbox int

definition respond :: "web_conf \<Rightarrow> 'e api_env_scheme \<Rightarrow> endpoint \<Rightarrow> Web_Gate.request \<Rightarrow> ('w api_world_scheme, unit) act" where
  "respond conf env e r = (case e of
     PostCommand c \<Rightarrow> act_bind (post_command conf env c r) (\<lambda>_. act_return ())
   | PostAutomation p \<Rightarrow> act_bind (post_automation conf env p r) (\<lambda>_. act_return ())
   | PostRule what i \<Rightarrow> act_bind (post_automation_rule conf env what i r) (\<lambda>_. act_return ())
   | GetHistory \<Rightarrow> act_bind (get_history conf env r) (\<lambda>_. act_return ())
   | GetAutomation l \<Rightarrow> get_automation conf env l r
   | PostChat m h \<Rightarrow> act_bind (jarvis_chat conf env m h r) (\<lambda>_. act_return ())
   | PostEnquiry q \<Rightarrow> act_bind (public_enquiry conf env q r) (\<lambda>_. act_return ())
   | PostSignup q \<Rightarrow> act_bind (public_signup conf env q r) (\<lambda>_. act_return ())
   | PostAdmin b \<Rightarrow> act_bind (local_admin_sync conf env b r) (\<lambda>_. act_return ())
   | GetInbox n \<Rightarrow> act_bind (public_intake_inbox conf env r n) (\<lambda>_. act_return ()))"

interpretation command: guarded "require_scope conf env r ''command''" "post_command conf env input r" served for conf env input r
  unfolding post_command_def by (rule guarded_bind served_gate)+

interpretation automation: guarded "require_scope conf env r ''command''" "post_automation conf env path r" served for conf env path r
  unfolding post_automation_def by (rule guarded_bind served_gate)+

interpretation rule: guarded "require_scope conf env r ''command''" "post_automation_rule conf env what i r" served for conf env what i r
  unfolding post_automation_rule_def by (rule guarded_bind served_gate)+

interpretation history: guarded "require_scope conf env r ''read''" "get_history conf env r" served for conf env r
  unfolding get_history_def by (rule guarded_bind served_gate)+

interpretation view: guarded "require_scope conf env r ''read''" "get_automation conf env l r" served for conf env l r
  unfolding get_automation_def by (rule guarded_bind served_gate)+

fun runs_commands :: "endpoint \<Rightarrow> bool" where
  "runs_commands (PostCommand _) = True"
| "runs_commands (PostAutomation _) = True"
| "runs_commands (PostRule _ _) = True"
| "runs_commands _ = False"

lemma keeps_outcome_case:
  "keeps f m \<Longrightarrow> (\<And>x. keeps f (k x)) \<Longrightarrow> (\<And>e. keeps f (h e))
    \<Longrightarrow> keeps f (\<lambda>w. case m w of (Inr x, w') \<Rightarrow> k x w' | (Inl e, w') \<Rightarrow> h e w')"
  by (auto simp: keeps_def split: prod.split sum.split) (metis snd_conv)+

lemma keeps_if: "(b \<Longrightarrow> keeps f m) \<Longrightarrow> (\<not> b \<Longrightarrow> keeps f n) \<Longrightarrow> keeps f (if b then m else n)"
  by simp

lemma keeps_answer: "keeps f (\<lambda>w. (g w, w))"
  by (simp add: keeps_def)

lemma served_parts:
  "keeps served (log_chat rec)" "keeps served (site_knowledge env)" "keeps served (call_model env c)" "keeps served (submit_intake rec)"
  "keeps served (require_auth conf env r)" "keeps served (act_modify (\<lambda>w. w\<lparr>registry_log := f w\<rparr>))"
proof -
  show "keeps served (site_knowledge env)" by (auto simp: keeps_def site_knowledge_def Let_def served_def split: prod.split)
  show "keeps served (require_auth conf env r)"
    unfolding require_auth_def by (intro keeps_bind keeps_auth) (simp_all add: served_def)
  show "keeps served (log_chat rec)" by (simp add: log_chat_def keeps_def act_modify_def served_def)
  show "keeps served (submit_intake rec)" by (simp add: submit_intake_def keeps_def act_modify_def served_def)
  show "keeps served (act_modify (\<lambda>w. w\<lparr>registry_log := f w\<rparr>))" by (simp add: keeps_def act_modify_def served_def)
  show "keeps served (call_model env c)"
    unfolding call_model_def by (rule keeps_bind) (simp_all add: keeps_def act_modify_def act_of_def served_def)
qed

lemma served_fallback: "keeps served (fallback_answer env ip prompt provider model warning fs)"
  unfolding fallback_answer_def by (intro frame_intros served_parts)

lemma served_ask: "keeps served (ask_model env cfg ip prompt provider model hist)"
proof -
  have inner: "keeps served (\<lambda>w. case call_model env c w of
      (Inr reply, w') \<Rightarrow> act_bind (log_chat (rec reply)) (\<lambda>_. act_return (ans reply)) w'
    | (Inl e, w') \<Rightarrow> if b then fallback_answer env ip prompt provider model warning (fs e) w' else (Inr (x e), w'))" for c rec ans b warning fs x
    by (rule keeps_outcome_case; (cases b)?) (simp_all add: served_parts keeps_bind keeps_answer served_fallback)
  have "keeps served (knowledge_for env prompt)" by (simp add: knowledge_for_def Let_def served_parts)
  then show ?thesis unfolding ask_model_def Let_def by (intro keeps_bind keeps_base inner)
qed

lemma served_chat: "keeps served (jarvis_chat conf env m h r)"
  unfolding jarvis_chat_def run_public_chat_def Let_def
  by (intro keeps_bind keeps_if keeps_base served_parts served_gate served_ask served_fallback)
    (auto intro!: keeps_bind keeps_if keeps_base served_parts served_ask served_fallback split: option.split)

lemma served_forms:
  "keeps served (public_enquiry conf env q r)" "keeps served (public_signup conf env p r)" "keeps served (local_admin_sync conf env b r)"
  "keeps served (public_intake_inbox conf env r n)"
  unfolding public_enquiry_def public_signup_def local_admin_sync_def public_intake_inbox_def public_form_guard_def Let_def
  by (intro keeps_bind keeps_if keeps_base served_parts served_gate keeps_answer; simp)+

lemma served_reads: "keeps served (get_history conf env r)" "keeps served (get_automation conf env l r)"
  unfolding get_history_def get_automation_def automation_root_def
  by (auto intro!: keeps_bind served_gate split: option.split)

lemma snd_discard [simp]: "snd (act_bind m (\<lambda>_. act_return ()) w) = snd (m w)"
  by (auto simp: act_bind_def act_return_def split: prod.split sum.split)


text \<open>The views of the automation answer nobody, whatever the credentials.\<close>

lemma automation_views_fail:
  "get_automation conf env l r w = (case require_scope conf env r ''read'' w of
     (Inl e, v) \<Rightarrow> (Inl e, v)
   | (Inr c, v) \<Rightarrow> (Inl (if (\<exists>n. l = Some n \<and> (n < 1 \<or> n > 200)) then HTTPException 400 ''limit must be 1-200'' else NameError), v))"
  by (auto simp: get_automation_def automation_root_def act_bind_def act_raise_def split: prod.split sum.split option.split)

section \<open>Witnesses\<close>

definition demo_api_env :: api_env where
  "demo_api_env = chat_env.extend (demo_chat_env (Some ''1'')) \<lparr>a_jarvis = Confirmation.demo_env, a_steps = []\<rparr>"

definition demo_api_world :: api_world where
  "demo_api_world = chat_world.extend demo_chat_world \<lparr>cmd_history = [], history_file = None, jarvis = demo_world []\<rparr>"

definition stranger :: Web_Gate.request where
  "stranger = \<lparr>peer_host = Some ''10.0.0.1'', headers = [(''x-api-key'', ''wrong'')]\<rparr>"


lemma extended_api:
  "a_jarvis (chat_env.extend e \<lparr>a_jarvis = j, a_steps = s\<rparr>) = j" "a_steps (chat_env.extend e \<lparr>a_jarvis = j, a_steps = s\<rparr>) = s"
  "c_jarvis_error (chat_env.extend e \<lparr>a_jarvis = j, a_steps = s\<rparr>) = c_jarvis_error e"
  "f_record (chat_env.extend e \<lparr>a_jarvis = j, a_steps = s\<rparr>) = f_record e"
  "jarvis (chat_world.extend v \<lparr>cmd_history = h, history_file = f, jarvis = w\<rparr>) = w"
  by (simp_all add: chat_env.defs chat_world.defs)

lemma demo_chat_parts: "c_jarvis_error (demo_chat_env on) = None" "f_record (demo_chat_env on) = demo_record_env"
  by (simp_all add: demo_chat_env_def demo_form_env_def form_env.defs web_env.defs)

lemma run_ls_parsed: "interpret_intent bare_env ''run ls'' = (''shell'', JStr ''ls'')"
proof -
  have mem: "(''run '', ''shell'', plain ''shell command'') \<in> set prefix_rules" by (simp add: prefix_rules_def)
  have l: "lower ''ls'' = ''ls''" "\<not> is_space (last ''ls'')" "strip ''ls'' = ''ls''" by code_simp+
  have "dget (exact_table bare_env) (''run '' @ lower ''ls'') = None" by (rule no_exact) (simp add: l registry_def cmd_def)
  from interpret_prefix [OF mem _ l(2) this] show ?thesis by (simp add: plain_def require_text_def l)
qed

lemma demo_entries:
  "entries [(demo_api_env, ''run ls'')] demo_api_world =
    [[(''ts'', JStr ''2026-01-01T00:00:00+00:00''), (''request_id'', JStr ''r1''), (''command'', JStr ''run ls''), (''action'', JStr ''shell''),
      (''ok'', JBool False), (''result'', JStr ''Confirmation required for high-risk action. Run `confirm` to execute or `cancel` to discard.''),
      (''risk'', JStr ''high'')]]"
proof -
  from Confirmation.demo_run obtain b where b: "b_risk b = risk ''high'' ''Local shell execution changes or queries the machine directly.''"
    "process_intent Confirmation.demo_env [] ''run ls'' ''shell'' (JStr ''ls'') (demo_world []) =
      (Inr (routed_as False (normalize_intent ''run ls'') ''confirmation_required'' (JStr ''ls'') (confirmation_text b) b), demo_world ask_fields)" by blast
  have parts: "j_parser Confirmation.demo_env = bare_env" "a_jarvis demo_api_env = Confirmation.demo_env" "a_steps demo_api_env = []" "c_jarvis_error demo_api_env = None"
    "f_record demo_api_env = demo_record_env" "jarvis demo_api_world = demo_world []"
    unfolding demo_api_env_def demo_api_world_def extended_api by (simp_all add: demo_chat_parts Confirmation.demo_env_def)
  show ?thesis
    by (simp add: run_command_def run_ls_parsed parts Let_def on_jarvis_def b act_bind_app save_history_entry_def act_modify_def
        act_return_def command_record_def result_text_def routed_as_def demo_record_env_def confirmation_text_def risk_def)
qed


end
