(* ===== verification/Device_Registry.thy ===== *)
theory Device_Registry
  imports Commands HI_State PyDump
begin

text \<open>
  Model of \<open>Jarvis/device_registry.py\<close> and of the device commands of \<open>Jarvis/actions.py\<close>: what is collected about the device
  the program runs on, its fingerprint, the file of the registered device, and when a device counts as trusted. What the host
  says (files below \<open>/sys\<close> and \<open>/etc\<close>, \<open>system_info.py\<close>, versions of packages, the environment variables) and SHA-256 are
  parameters. An exception of the file system is not modelled; a file that cannot be read counts as empty, as in the code.
\<close>

section \<open>The host\<close>

record interface =
  if_name :: string
  if_address :: string
  if_operstate :: string

record device_env =
  dv_now :: string
  dv_system :: "string dict"
  dv_hostname :: string
  dv_user :: string
  dv_machine_id :: string
  dv_dbus_id :: string
  dv_interfaces :: "interface list"
  dv_machine :: string
  dv_processors :: "string \<times> string"
  dv_disk :: "int \<times> int \<times> int"
  dv_python :: "string \<times> string"
  dv_package :: "string \<Rightarrow> string option"
  dv_getenv :: "string \<Rightarrow> string option"
  dv_environ :: "string list"
  dv_root :: string
  dv_sha256 :: "string \<Rightarrow> string"

definition unavailable :: string where
  "unavailable = ''unavailable''"

definition short_hash :: "'e device_env_scheme \<Rightarrow> nat \<Rightarrow> string \<Rightarrow> string" where
  "short_hash env n s = (if s = [] then unavailable else take n (dv_sha256 env s))"

definition machine_id_hash :: "'e device_env_scheme \<Rightarrow> string" where
  "machine_id_hash env = short_hash env 24 (if strip (dv_machine_id env) \<noteq> [] then strip (dv_machine_id env) else strip (dv_dbus_id env))"

section \<open>Network\<close>

definition interface_item :: "'e device_env_scheme \<Rightarrow> interface \<Rightarrow> obj" where
  "interface_item env i =
     [(''name'', JStr (if_name i)), (''state'', JStr (if strip (if_operstate i) = [] then ''unknown'' else strip (if_operstate i))),
      (''mac_hash'', JStr (short_hash env 16 (strip (if_address i))))]"

definition network_interfaces :: "'e device_env_scheme \<Rightarrow> obj list" where
  "network_interfaces env = map (interface_item env) (sort_key if_name (dv_interfaces env))"

definition stable_network_hash :: "'e device_env_scheme \<Rightarrow> obj list \<Rightarrow> string" where
  "stable_network_hash env items =
     (let hashes = map (\<lambda>d. py_str (dget_or d ''mac_hash'' (JStr [])))
        (filter (\<lambda>d. jget d ''name'' \<noteq> JStr ''lo'' \<and> jget d ''mac_hash'' \<notin> {JStr [], JStr unavailable}) items) in
      if hashes = [] then unavailable else take 24 (dv_sha256 env (join ''|'' (sort hashes))))"

section \<open>The environment\<close>

definition safe_env_keys :: "string list" where
  "safe_env_keys = [''API_HOST'', ''API_PORT'', ''ALLOWED_ORIGIN'', ''JARVIS_PUBLIC_CHAT'', ''JARVIS_PUBLIC_CHAT_RPM'',
     ''JARVIS_PUBLIC_SITE_ROOT'', ''OLLAMA_HOST'', ''OPENAI_MODEL'']"

definition secret_markers :: "string list" where
  "secret_markers = [''KEY'', ''TOKEN'', ''SECRET'', ''PASSWORD'', ''PASS'', ''CREDENTIAL'']"

definition secret_name :: "string \<Rightarrow> bool" where
  "secret_name k = list_ex (\<lambda>m. contains m (map upper_ascii k)) secret_markers"

definition environment_summary :: "'e device_env_scheme \<Rightarrow> obj" where
  "environment_summary env =
     [(''safe_values'', JObj (concat (map (\<lambda>k. case dv_getenv env k of Some v \<Rightarrow> [(k, JStr v)] | None \<Rightarrow> []) safe_env_keys))),
      (''configured_secret_names'', JArr (map JStr (sort (filter secret_name (dv_environ env))))),
      (''secret_values_stored'', JBool False)]"

section \<open>The inventory\<close>

definition disk_summary :: "'e device_env_scheme \<Rightarrow> obj" where
  "disk_summary env = (case dv_disk env of (t, u, f) \<Rightarrow>
     [(''path'', JStr (dv_root env)), (''total'', JStr (show_int t)), (''used'', JStr (show_int u)), (''free'', JStr (show_int f))])"

definition python_packages :: "'e device_env_scheme \<Rightarrow> obj" where
  "python_packages env = map (\<lambda>n. (n, JStr (case dv_package env n of Some v \<Rightarrow> v | None \<Rightarrow> ''not installed'')))
     [''openai'', ''anthropic'', ''streamlit'', ''watchdog'', ''rapidfuzz'']"

definition first_text :: "string \<Rightarrow> string \<Rightarrow> string \<Rightarrow> string" where
  "first_text a b c = (if a \<noteq> [] then a else if b \<noteq> [] then b else c)"

text \<open>\<open>json.dumps\<close> with its default: characters outside ASCII are escaped.\<close>

definition ascii_char :: "char \<Rightarrow> string" where
  "ascii_char c = (if code c < 127 then dump_char c
     else [char_of (92::nat), CHR ''u'', CHR ''0'', CHR ''0'', hex_digit (code c div 16), hex_digit (code c mod 16)])"

definition ascii_str :: "string \<Rightarrow> string" where
  "ascii_str s = quote_char # concat (map ascii_char s) @ [quote_char]"

definition sorted_dumps :: "(string \<times> string) list \<Rightarrow> string" where
  "sorted_dumps d = ''{'' @ join '', '' (map (\<lambda>(k, v). ascii_str k @ '': '' @ ascii_str v) (sort_key fst d)) @ ''}''"

definition system_value :: "'e device_env_scheme \<Rightarrow> string \<Rightarrow> string \<Rightarrow> string" where
  "system_value env k d = dget_or (dv_system env) k d"

definition fingerprint :: "'e device_env_scheme \<Rightarrow> string" where
  "fingerprint env = take 32 (dv_sha256 env (sorted_dumps
     [(''hostname'', dv_hostname env), (''machine_id_hash'', machine_id_hash env),
      (''network_hash'', stable_network_hash env (network_interfaces env)), (''machine'', dv_machine env),
      (''os'', system_value env ''operating_system'' unavailable), (''root'', dv_root env)]))"

definition collect_device_inventory :: "'e device_env_scheme \<Rightarrow> obj" where
  "collect_device_inventory env =
     (let interfaces = network_interfaces env in
      [(''identity'', JObj [(''hostname'', JStr (dv_hostname env)), (''user'', JStr (dv_user env)),
          (''machine_id_hash'', JStr (machine_id_hash env)), (''network_hash'', JStr (stable_network_hash env interfaces))]),
       (''hardware'', JObj [(''machine'', JStr (dv_machine env)),
          (''processor'', JStr (first_text (fst (dv_processors env)) (snd (dv_processors env)) unavailable)),
          (''cpu_cores'', JStr (system_value env ''cpu_cores'' unavailable)), (''total_memory'', JStr (system_value env ''total_memory'' unavailable)),
          (''disk'', JObj (disk_summary env))]),
       (''software'', JObj [(''operating_system'', JStr (system_value env ''operating_system'' unavailable)),
          (''os_version'', JStr (system_value env ''os_version'' unavailable)), (''python_version'', JStr (fst (dv_python env))),
          (''python_executable'', JStr (snd (dv_python env))), (''packages'', JObj (python_packages env))]),
       (''network'', JObj [(''hostname'', JStr (system_value env ''hostname'' (dv_hostname env))), (''local_ip'', JStr (system_value env ''local_ip'' unavailable)),
          (''connectivity'', JStr (system_value env ''connectivity'' ''unknown'')), (''interfaces'', JArr (map JObj interfaces))]),
       (''environment'', JObj (environment_summary env)),
       (''fingerprint'', JStr (fingerprint env))])"

section \<open>The registered device\<close>

definition load_registered_device :: "state_doc \<Rightarrow> json" where
  "load_registered_device f = (case f of Doc v \<Rightarrow> v | _ \<Rightarrow> JObj [])"

definition write_registered_device :: "obj \<Rightarrow> (state_doc, obj) act" where
  "write_registered_device rec = act_bind (act_modify (\<lambda>_. Doc (JObj rec))) (\<lambda>_. act_return rec)"

definition sub_value :: "obj \<Rightarrow> string \<Rightarrow> string \<Rightarrow> json outcome" where
  "sub_value d k1 k2 = and_then (as_obj (dget_or d k1 (JObj []))) (\<lambda>e. Inr (jget e k2))"

definition same_value :: "json \<times> json \<Rightarrow> bool" where
  "same_value p = (truthy (fst p) \<and> fst p = snd p)"

definition stable_identity_matches :: "obj \<Rightarrow> obj \<Rightarrow> bool outcome" where
  "stable_identity_matches current registered =
     and_then (as_obj (dget_or current ''identity'' (JObj []))) (\<lambda>ci.
     and_then (as_obj (dget_or registered ''identity'' (JObj []))) (\<lambda>ri.
       let cm = dget_or ci ''machine_id_hash'' (JStr []); rm = dget_or ri ''machine_id_hash'' (JStr []) in
       if truthy cm \<and> truthy rm \<and> cm \<noteq> JStr unavailable \<and> cm = rm then Inr True
       else
         and_then (sub_value current ''hardware'' ''machine'') (\<lambda>ch. and_then (sub_value registered ''hardware'' ''machine'') (\<lambda>rh.
         and_then (sub_value current ''software'' ''operating_system'') (\<lambda>co. and_then (sub_value registered ''software'' ''operating_system'') (\<lambda>ro.
           Inr (list_all same_value [(jget ci ''hostname'', jget ri ''hostname''), (jget ci ''user'', jget ri ''user''), (ch, rh), (co, ro)])))))))"

definition register_current_device :: "'e device_env_scheme \<Rightarrow> string \<Rightarrow> (state_doc, obj) act" where
  "register_current_device env label =
     write_registered_device [(''label'', JStr (if strip label = [] then ''primary'' else strip label)), (''registered_at'', JStr (dv_now env)),
       (''trusted'', JBool True), (''inventory'', JObj (collect_device_inventory env))]"

definition updated_record :: "'e device_env_scheme \<Rightarrow> string \<Rightarrow> obj \<Rightarrow> json \<Rightarrow> obj \<Rightarrow> obj" where
  "updated_record env label registered old_fp extra =
     (let l = (if strip label \<noteq> [] then JStr (strip label) else jget registered ''label'');
          u = dset ''label'' (if truthy l then l else JStr ''primary'') registered in
      dset ''inventory'' (JObj (collect_device_inventory env))
        (dupdate (dset ''previous_fingerprint'' old_fp (dset ''last_auto_detected_at'' (JStr (dv_now env)) (dset ''trusted'' (JBool True) u))) extra))"

definition detected :: "'e device_env_scheme \<Rightarrow> string \<Rightarrow> obj \<Rightarrow> json \<Rightarrow> obj \<Rightarrow> obj" where
  "detected env action rec fp extra =
     [(''action'', JStr action), (''trusted'', JBool True), (''record'', JObj rec), (''current_fingerprint'', JStr (fingerprint env)),
      (''registered_fingerprint'', fp)] @ extra"

definition auto_detect_and_register_device :: "'e device_env_scheme \<Rightarrow> string \<Rightarrow> (state_doc, obj) act" where
  "auto_detect_and_register_device env label =
     (let current = collect_device_inventory env; fp = JStr (fingerprint env) in
      act_bind (act_get load_registered_device) (\<lambda>v.
      act_bind (act_of (as_obj v)) (\<lambda>registered.
      act_bind (act_of (as_obj (dget_or registered ''inventory'' (JObj [])))) (\<lambda>inv.
        let old_fp = dget_or inv ''fingerprint'' (JStr []) in
        if registered = [] then
          act_bind (write_registered_device [(''label'', JStr (if strip label = [] then ''primary'' else strip label)), (''registered_at'', JStr (dv_now env)),
            (''trusted'', JBool True), (''inventory'', JObj current), (''auto_detected'', JBool True)]) (\<lambda>rec.
          act_return (detected env ''registered'' rec fp []))
        else if old_fp = fp then act_return (detected env ''already_trusted'' registered old_fp [])
        else
          act_bind (act_of (stable_identity_matches current inv)) (\<lambda>same.
            if same then
              act_bind (write_registered_device (updated_record env label registered old_fp [])) (\<lambda>rec.
              act_return (detected env ''refreshed'' rec fp [(''previous_fingerprint'', old_fp)]))
            else
              act_bind (write_registered_device (updated_record env label registered old_fp
                [(''previous_identity'', dget_or inv ''identity'' (JObj []))])) (\<lambda>rec.
              act_return (detected env ''replaced'' rec fp [(''previous_fingerprint'', old_fp)])))))))"

record verification =
  vf_registered :: bool
  vf_trusted :: bool
  vf_match :: string
  vf_current_fp :: string
  vf_registered_fp :: json
  vf_label :: json
  vf_registered_at :: json
  vf_current :: obj
  vf_record :: obj

definition verify_current_device :: "'e device_env_scheme \<Rightarrow> state_doc \<Rightarrow> verification outcome" where
  "verify_current_device env f =
     (let current = collect_device_inventory env in
      and_then (as_obj (load_registered_device f)) (\<lambda>registered.
      and_then (as_obj (dget_or registered ''inventory'' (JObj []))) (\<lambda>inv.
        let old_fp = dget_or inv ''fingerprint'' (JStr []); exact = (truthy old_fp \<and> old_fp = JStr (fingerprint env)) in
        and_then (if registered = [] then Inr False else stable_identity_matches current inv) (\<lambda>same.
          Inr \<lparr>vf_registered = (registered \<noteq> []), vf_trusted = (exact \<or> same),
               vf_match = (if exact then ''fingerprint'' else if same then ''stable_identity'' else ''none''),
               vf_current_fp = fingerprint env, vf_registered_fp = old_fp, vf_label = dget_or registered ''label'' (JStr []),
               vf_registered_at = dget_or registered ''registered_at'' (JStr []), vf_current = current, vf_record = registered\<rparr>))))"

section \<open>Reports\<close>

text \<open>\<open>json.dumps\<close> with an indentation of two.\<close>

definition new_line :: "nat \<Rightarrow> string" where
  "new_line n = char_of (10::nat) # replicate n (CHR '' '')"

fun indented :: "nat \<Rightarrow> json \<Rightarrow> string" where
  "indented n (JArr xs) =
     (if xs = [] then ''[]''
      else ''['' @ new_line (n + 2) @ join ('','' @ new_line (n + 2)) (map (indented (n + 2)) xs) @ new_line n @ '']'')"
| "indented n (JObj d) =
     (if d = [] then ''{}''
      else ''{'' @ new_line (n + 2)
        @ join ('','' @ new_line (n + 2)) (map (\<lambda>p. dump_str (fst p) @ '': '' @ indented (n + 2) (snd p)) d) @ new_line n @ ''}'')"
| "indented n v = json_dumps v"

definition as_lines :: "string list \<Rightarrow> string" where
  "as_lines = join (new_line 0)"

text \<open>What was collected has all these parts.\<close>

definition part :: "obj \<Rightarrow> string \<Rightarrow> string \<Rightarrow> string" where
  "part current a b = (case jget current a of JObj d \<Rightarrow> py_str (jget d b) | _ \<Rightarrow> [])"

definition format_device_report :: "'e device_env_scheme \<Rightarrow> bool \<Rightarrow> state_doc \<Rightarrow> string outcome" where
  "format_device_report env detail f =
     and_then (verify_current_device env f) (\<lambda>v.
       let c = vf_current v; dump = (\<lambda>a b. indented 0 (case jget c a of JObj d \<Rightarrow> jget d b | _ \<Rightarrow> JNull)) in
       Inr (as_lines
         ([''Device Trust Report'', ''-------------------'', ''Registered: '' @ py_str (JBool (vf_registered v)),
           ''Trusted: '' @ py_str (JBool (vf_trusted v)), ''Trust Match: '' @ vf_match v,
           ''Label: '' @ (if truthy (vf_label v) then py_str (vf_label v) else ''none''), ''Fingerprint: '' @ vf_current_fp v,
           ''Host: '' @ part c ''identity'' ''hostname'', ''User: '' @ part c ''identity'' ''user'',
           ''OS: '' @ part c ''software'' ''operating_system'', ''Machine: '' @ part c ''hardware'' ''machine'',
           ''CPU cores: '' @ part c ''hardware'' ''cpu_cores'', ''Memory: '' @ part c ''hardware'' ''total_memory'',
           ''Local IP: '' @ part c ''network'' ''local_ip'', ''Connectivity: '' @ part c ''network'' ''connectivity'']
          @ (if detail then
               [[], ''Software packages:'', dump ''software'' ''packages'', [], ''Network interfaces:'', dump ''network'' ''interfaces'',
                [], ''Environment:'', indented 0 (jget c ''environment'')]
             else []))))"

definition section_titles :: "string dict" where
  "section_titles = [(''hardware'', ''Device Hardware Report''), (''software'', ''Device Software Report''),
     (''network'', ''Device Network Report''), (''environment'', ''Device Environment Report'')]"

definition format_device_section :: "'e device_env_scheme \<Rightarrow> string \<Rightarrow> state_doc \<Rightarrow> string outcome" where
  "format_device_section env sect f =
     and_then (verify_current_device env f) (\<lambda>v.
       let key = lower (strip sect) in
       case dget section_titles key of
         None \<Rightarrow> Inr ''Unknown device detail section.''
       | Some title \<Rightarrow> Inr (as_lines
           ([title, replicate (length title) (CHR ''-''), ''Trusted: '' @ py_str (JBool (vf_trusted v)), ''Trust Match: '' @ vf_match v,
             ''Fingerprint: '' @ vf_current_fp v, [], indented 0 (jget (vf_current v) key)]
            @ (if key = ''environment'' then [[], ''Secret values are not shown or stored.''] else []))))"

section \<open>The device commands\<close>

definition not_stored :: string where
  "not_stored = ''Secret environment values were not stored.''"

definition or_primary :: "string \<Rightarrow> string" where
  "or_primary label = (if label = [] then ''primary'' else label)"

definition register_device :: "'e device_env_scheme \<Rightarrow> string \<Rightarrow> (state_doc, string) act" where
  "register_device env label =
     act_bind (register_current_device env (or_primary label)) (\<lambda>rec.
       let inv = (case jget rec ''inventory'' of JObj d \<Rightarrow> d | _ \<Rightarrow> []) in
       act_return (as_lines [''Device registered as trusted.'', ''Label: '' @ py_str (jget rec ''label''),
         ''Fingerprint: '' @ py_str (jget inv ''fingerprint''), ''Host: '' @ part inv ''identity'' ''hostname'',
         ''OS: '' @ part inv ''software'' ''operating_system'', not_stored]))"

definition headline :: "json \<Rightarrow> string" where
  "headline action =
     (if action = JStr ''already_trusted'' then ''Device is already trusted.''
      else if action = JStr ''refreshed'' then ''Device registry refreshed from auto-detect.''
      else if action = JStr ''replaced'' then ''Device registry replaced from auto-detect.''
      else ''Device auto-detected and registered as trusted.'')"

definition sub_text :: "obj \<Rightarrow> string \<Rightarrow> string \<Rightarrow> string outcome" where
  "sub_text d k1 k2 = and_then (as_obj (dget_or d k1 (JObj []))) (\<lambda>e. Inr (py_str (dget_or e k2 (JStr ''unknown''))))"

definition auto_detect_device :: "'e device_env_scheme \<Rightarrow> string \<Rightarrow> (state_doc, string) act" where
  "auto_detect_device env label =
     act_bind (auto_detect_and_register_device env (or_primary label)) (\<lambda>result.
     act_bind (act_of (and_then (as_obj (jget result ''record'')) (\<lambda>rec.
       and_then (as_obj (dget_or rec ''inventory'' (JObj []))) (\<lambda>inv.
       and_then (sub_text inv ''identity'' ''hostname'') (\<lambda>host.
       and_then (sub_text inv ''software'' ''operating_system'') (\<lambda>os.
         Inr (as_lines [headline (jget result ''action''), ''Label: '' @ py_str (dget_or rec ''label'' (JStr ''primary'')),
           ''Fingerprint: '' @ py_str (dget_or inv ''fingerprint'' (jget result ''current_fingerprint'')), ''Host: '' @ host, ''OS: '' @ os,
           not_stored]))))))) act_return)"

section \<open>Properties: secrets\<close>

lemma safe_keys_not_secret: "k \<in> set safe_env_keys \<Longrightarrow> \<not> secret_name k"
proof -
  have "list_all (\<lambda>k. \<not> secret_name k) safe_env_keys" by code_simp
  then show "k \<in> set safe_env_keys \<Longrightarrow> \<not> secret_name k" by (simp add: list_all_iff)
qed

lemma inventory_of_environment:
  assumes "\<And>k. k \<in> set safe_env_keys \<Longrightarrow> g k = dv_getenv env k"
  shows "collect_device_inventory (env\<lparr>dv_getenv := g\<rparr>) = collect_device_inventory env"
    and "fingerprint (env\<lparr>dv_getenv := g\<rparr>) = fingerprint env"
proof -
  let ?env = "env\<lparr>dv_getenv := g\<rparr>"
  have hash: "short_hash ?env = short_hash env" "machine_id_hash ?env = machine_id_hash env"
    by (simp_all add: short_hash_def machine_id_hash_def fun_eq_iff)
  have net: "network_interfaces ?env = network_interfaces env" "stable_network_hash ?env = stable_network_hash env"
    by (simp_all add: network_interfaces_def interface_item_def hash stable_network_hash_def fun_eq_iff)
  have sys: "system_value ?env = system_value env" by (simp add: system_value_def fun_eq_iff)
  show fp: "fingerprint ?env = fingerprint env" by (simp add: fingerprint_def hash net sys)
  have "map (\<lambda>k. case g k of Some v \<Rightarrow> [(k, JStr v)] | None \<Rightarrow> []) safe_env_keys
      = map (\<lambda>k. case dv_getenv env k of Some v \<Rightarrow> [(k, JStr v)] | None \<Rightarrow> []) safe_env_keys"
    using assms by (intro map_cong) simp_all
  then have "environment_summary ?env = environment_summary env" unfolding environment_summary_def by (simp del: map_eq_conv)
  then show "collect_device_inventory ?env = collect_device_inventory env"
    by (simp add: collect_device_inventory_def hash net sys fp disk_summary_def python_packages_def)
qed

text \<open>C33: the values of secrets are never stored or shown. Two environments that differ only in the values of variables whose
  name marks a secret give every device command the same file and the same answer, and every report the same text.\<close>

theorem secret_values_do_not_matter:
  assumes "\<forall>k. \<not> secret_name k \<longrightarrow> g k = dv_getenv env k"
  shows "register_device (env\<lparr>dv_getenv := g\<rparr>) label = register_device env label
    \<and> auto_detect_device (env\<lparr>dv_getenv := g\<rparr>) label = auto_detect_device env label
    \<and> format_device_report (env\<lparr>dv_getenv := g\<rparr>) detail f = format_device_report env detail f
    \<and> format_device_section (env\<lparr>dv_getenv := g\<rparr>) sect f = format_device_section env sect f"
proof -
  let ?env = "env\<lparr>dv_getenv := g\<rparr>"
  have same: "collect_device_inventory ?env = collect_device_inventory env" "fingerprint ?env = fingerprint env"
    using inventory_of_environment [of g env] assms safe_keys_not_secret by blast+
  have verify: "verify_current_device ?env f = verify_current_device env f" by (simp add: verify_current_device_def same)
  have "register_current_device ?env l = register_current_device env l" for l by (simp add: register_current_device_def same)
  moreover have upd: "updated_record ?env = updated_record env" and det: "detected ?env = detected env"
    by (simp_all add: updated_record_def detected_def same fun_eq_iff)
  have now: "dv_now ?env = dv_now env" by simp
  have "auto_detect_and_register_device ?env l = auto_detect_and_register_device env l" for l
    by (simp only: auto_detect_and_register_device_def same upd det now)
  ultimately show ?thesis
    by (simp add: register_device_def auto_detect_device_def format_device_report_def format_device_section_def verify)
qed

section \<open>Properties: trust\<close>

text \<open>After auto-detection the device is trusted by its fingerprint, whatever device was registered before.\<close>

lemma fingerprint_some: "(\<And>t. dv_sha256 env t \<noteq> []) \<Longrightarrow> fingerprint env \<noteq> []"
  by (simp add: fingerprint_def)

lemma own_inventory:
  "dget_or (collect_device_inventory env) ''fingerprint'' x = JStr (fingerprint env)"
  "stable_identity_matches (collect_device_inventory env) (collect_device_inventory env) \<noteq> Inl e"
  by (auto simp: collect_device_inventory_def stable_identity_matches_def sub_value_def Let_def dget_or_def)

lemma verify_own:
  assumes "dget reg ''inventory'' = Some (JObj (collect_device_inventory env))" "\<And>t. dv_sha256 env t \<noteq> []"
  shows "\<exists>v. verify_current_device env (Doc (JObj reg)) = Inr v \<and> vf_trusted v \<and> vf_match v = ''fingerprint'' \<and> vf_registered v"
proof -
  obtain b where "stable_identity_matches (collect_device_inventory env) (collect_device_inventory env) = Inr b"
    using own_inventory(2) by (cases "stable_identity_matches (collect_device_inventory env) (collect_device_inventory env)") auto
  moreover have "reg \<noteq> []" using assms(1) by auto
  ultimately show ?thesis using assms fingerprint_some [of env]
    by (simp add: verify_current_device_def load_registered_device_def dget_or_def [of reg] own_inventory(1) Let_def)
qed

lemma written:
  "dget (updated_record env label reg old extra) ''inventory'' = Some (JObj (collect_device_inventory env))"
  by (simp add: updated_record_def Let_def)

lemma detect_cases:
  assumes "auto_detect_and_register_device env label f = (Inr r, f')"
  shows "(\<exists>reg fp. r = detected env ''already_trusted'' reg fp [] \<and> f' = f)
    \<or> (\<exists>rec action fp extra. r = detected env action rec fp extra \<and> f' = Doc (JObj rec) \<and> action \<noteq> ''already_trusted''
        \<and> dget rec ''inventory'' = Some (JObj (collect_device_inventory env)))"
proof -
  let ?inv = "collect_device_inventory env" and ?fp = "JStr (fingerprint env)"
  from assms obtain reg inv where start: "as_obj (load_registered_device f) = Inr reg" "as_obj (dget_or reg ''inventory'' (JObj [])) = Inr inv"
    by (auto simp: auto_detect_and_register_device_def Let_def act_bind_Inr act_get_def act_of_def)
  note run = assms [unfolded auto_detect_and_register_device_def Let_def act_bind_app act_get_def act_of_def start sum.case prod.case]
  consider "reg = []" | "reg \<noteq> []" "dget_or inv ''fingerprint'' (JStr []) = ?fp"
    | b where "reg \<noteq> []" "dget_or inv ''fingerprint'' (JStr []) \<noteq> ?fp" "stable_identity_matches ?inv inv = Inr b"
    using run by (cases "stable_identity_matches ?inv inv") (auto split: if_splits)
  then show ?thesis
  proof cases
    case 1
    let ?rec = "[(''label'', JStr (if strip label = [] then ''primary'' else strip label)), (''registered_at'', JStr (dv_now env)),
      (''trusted'', JBool True), (''inventory'', JObj ?inv), (''auto_detected'', JBool True)]"
    have "r = detected env ''registered'' ?rec ?fp [] \<and> f' = Doc (JObj ?rec)" using run 1
      by (auto simp: write_registered_device_def act_bind_app act_modify_def act_return_def)
    then show ?thesis by (intro disjI2 exI [of _ ?rec] exI [of _ "''registered''"] exI [of _ ?fp] exI [of _ "[]"]) simp
  next
    case 2
    then show ?thesis using run by (auto simp: act_return_def)
  next
    case (3 b)
    let ?old = "dget_or inv ''fingerprint'' (JStr [])"
    let ?rec = "updated_record env label reg ?old (if b then [] else [(''previous_identity'', dget_or inv ''identity'' (JObj []))])"
      and ?action = "if b then ''refreshed'' else ''replaced''"
    have "r = detected env ?action ?rec ?fp [(''previous_fingerprint'', ?old)] \<and> f' = Doc (JObj ?rec)" using run 3
      by (auto simp: write_registered_device_def act_bind_app act_modify_def act_return_def)
    then show ?thesis
      by (intro disjI2 exI [of _ ?rec] exI [of _ ?action] exI [of _ ?fp] exI [of _ "[(''previous_fingerprint'', ?old)]"]) (simp add: written)
  qed
qed

lemma detected_fields:
  "jget (detected env action rec fp extra) ''action'' = JStr action" "jget (detected env action rec fp extra) ''trusted'' = JBool True"
  "jget (detected env action rec fp extra) ''current_fingerprint'' = JStr (fingerprint env)"
  by (simp_all add: detected_def dget_or_def)

text \<open>Detecting the device trusts it, whatever was registered. When the call returns it reports the device as trusted, and
  either the file is unchanged and already carries the fingerprint of the device, or a check against the new file finds it
  registered and trusted by its fingerprint, even when another device was registered before.\<close>

theorem detection_always_trusts:
  assumes "\<forall>t. dv_sha256 env t \<noteq> []" "auto_detect_and_register_device env label f = (Inr r, f')"
  shows "jget r ''trusted'' = JBool True \<and> jget r ''current_fingerprint'' = JStr (fingerprint env)
    \<and> (if jget r ''action'' = JStr ''already_trusted'' then f' = f
       else \<exists>v. verify_current_device env f' = Inr v \<and> vf_trusted v \<and> vf_match v = ''fingerprint'' \<and> vf_registered v)"
proof -
  consider reg fp where "r = detected env ''already_trusted'' reg fp []" "f' = f"
    | rec action fp extra where "r = detected env action rec fp extra" "f' = Doc (JObj rec)" "action \<noteq> ''already_trusted''"
        "dget rec ''inventory'' = Some (JObj (collect_device_inventory env))"
    using detect_cases [OF assms(2)] by blast
  then show ?thesis
  proof cases
    case 1
    then show ?thesis by (simp add: detected_fields)
  next
    case 2
    then show ?thesis using verify_own [OF 2(4)] assms(1) by (simp add: detected_fields)
  qed
qed

text \<open>When a check of another device succeeds: the fingerprint, the machine identifier, or the four stable fields agree.\<close>

lemma trusted_iff:
  assumes "verify_current_device env (Doc (JObj reg)) = Inr v" "reg \<noteq> []"
  shows "vf_trusted v \<longleftrightarrow> (\<exists>inv. as_obj (dget_or reg ''inventory'' (JObj [])) = Inr inv
    \<and> (truthy (dget_or inv ''fingerprint'' (JStr [])) \<and> dget_or inv ''fingerprint'' (JStr []) = JStr (fingerprint env)
       \<or> stable_identity_matches (collect_device_inventory env) inv = Inr True))"
  using assms by (auto simp: verify_current_device_def load_registered_device_def Let_def split: sum.splits)

section \<open>Witnesses\<close>

definition demo_device :: "string \<Rightarrow> device_env" where
  "demo_device secret = \<lparr>dv_now = ''2026-01-01T00:00:00+00:00'', dv_system = [(''operating_system'', ''Linux 6'')], dv_hostname = ''box'', dv_user = ''ann'',
     dv_machine_id = ''m1'', dv_dbus_id = [], dv_interfaces = [\<lparr>if_name = ''lo'', if_address = ''00'', if_operstate = []\<rparr>], dv_machine = ''x86_64'',
     dv_processors = ([], []), dv_disk = (3, 2, 1), dv_python = (''3.12'', ''/usr/bin/python3''), dv_package = (\<lambda>_. None),
     dv_getenv = (\<lambda>k. if k = ''OPENAI_API_KEY'' then Some secret else None), dv_environ = [''OPENAI_API_KEY'', ''HOME''], dv_root = ''/ws'',
     dv_sha256 = (\<lambda>t. CHR ''h'' # t)\<rparr>"

theorem secret_values_do_not_matter_witness:
  "register_device (demo_device ''s1'') ''desk'' Missing = register_device (demo_device ''s2'') ''desk'' Missing
    \<and> jget (case jget (collect_device_inventory (demo_device ''s1'')) ''environment'' of JObj d \<Rightarrow> d | _ \<Rightarrow> []) ''configured_secret_names''
        = JArr [JStr ''OPENAI_API_KEY'']"
proof -
  let ?g = "dv_getenv (demo_device ''s1'')"
  have "secret_name ''OPENAI_API_KEY''" by code_simp
  then have "\<forall>k. \<not> secret_name k \<longrightarrow> ?g k = dv_getenv (demo_device ''s2'') k" by (auto simp: demo_device_def)
  from secret_values_do_not_matter [OF this, of "''desk''"] have "register_device (demo_device ''s2''\<lparr>dv_getenv := ?g\<rparr>) ''desk'' = register_device (demo_device ''s2'') ''desk''"
    by blast
  moreover have "demo_device ''s2''\<lparr>dv_getenv := ?g\<rparr> = demo_device ''s1''" by (simp add: demo_device_def)
  moreover have "jget (case jget (collect_device_inventory (demo_device ''s1'')) ''environment'' of JObj d \<Rightarrow> d | _ \<Rightarrow> []) ''configured_secret_names''
      = JArr [JStr ''OPENAI_API_KEY'']" by code_simp
  ultimately show ?thesis by simp
qed

text \<open>Another device is registered; the call replaces it.\<close>

definition other_device :: state_doc where
  "other_device = Doc (JObj [(''label'', JStr ''old''), (''trusted'', JBool True), (''inventory'', JObj [(''fingerprint'', JStr ''f0''),
     (''identity'', JObj [(''hostname'', JStr ''server''), (''user'', JStr ''bob''), (''machine_id_hash'', JStr ''m0'')])])])"

theorem detection_always_trusts_witness:
  "\<exists>r f'. auto_detect_and_register_device (demo_device ''s'') ''desk'' other_device = (Inr r, f') \<and> jget r ''action'' = JStr ''replaced''
    \<and> jget r ''trusted'' = JBool True \<and> (\<exists>v. verify_current_device (demo_device ''s'') f' = Inr v \<and> vf_trusted v)"
proof -
  let ?run = "auto_detect_and_register_device (demo_device ''s'') ''desk'' other_device"
  let ?env = "demo_device ''s''" and ?inv = "[(''fingerprint'', JStr ''f0''), (''identity'', JObj [(''hostname'', JStr ''server''), (''user'', JStr ''bob''), (''machine_id_hash'', JStr ''m0'')])]"
  have fp: "fingerprint ?env \<noteq> ''f0''" by (simp add: fingerprint_def demo_device_def)
  have "machine_id_hash ?env = ''hm1''" by code_simp
  then have other: "stable_identity_matches (collect_device_inventory ?env) ?inv = Inr False"
    by (simp add: stable_identity_matches_def collect_device_inventory_def sub_value_def same_value_def Let_def dget_or_def demo_device_def)
  obtain r f' where run: "?run = (Inr r, f')" "jget r ''action'' = JStr ''replaced''"
    using fp other
    by (auto simp: auto_detect_and_register_device_def other_device_def load_registered_device_def Let_def act_bind_app act_get_def act_of_def
        dget_or_def detected_def write_registered_device_def act_modify_def act_return_def)
  have sha: "\<forall>t. dv_sha256 ?env t \<noteq> []" by (simp add: demo_device_def)
  from detection_always_trusts [OF sha run(1)] run show ?thesis by auto
qed

end
