(* ===== verification/Ai_Connector.thy ===== *)
theory Ai_Connector
  imports Recent_Log Confirmation
begin

text \<open>
  Model of \<open>Jarvis/ai_connector.py\<close>: the configuration of the model, the status of the providers, the history of exchanges in
  memory and on file, the prompts, and questions to the model, at once or as a stream. The services (replies, streams, the list
  of models of a local Ollama), installed packages, the environment and the text of the activity log are parameters; what is sent
  to a service is recorded in the world. Dashes outside Latin-1 in messages are written as hyphens.
\<close>

section \<open>World and environment\<close>

record service_call =
  sv_provider :: string
  sv_model :: json
  sv_system :: "json option"
  sv_messages :: "(string \<times> json) list"
  sv_stream :: bool

record ai_world = jarvis_world +
  ai_history :: "(json \<times> json) list"
  ai_history_file :: log_file
  model_config :: state_doc
  prompt_cache :: "string option"
  service_calls :: "service_call list"

record ai_env = jarvis_env +
  ai_mem :: mem_env
  ai_getenv :: "string \<Rightarrow> string option"
  ai_sdk :: "string \<Rightarrow> bool"
  ai_tags :: "json outcome"
  ai_user_profile :: "unit outcome"
  ai_recent_logs :: string
  ai_reply :: "service_call \<Rightarrow> string outcome"
  ai_deltas :: "service_call \<Rightarrow> string list \<times> exn option"

section \<open>Providers and their configuration\<close>

definition ollama_default :: "'e ai_env_scheme \<Rightarrow> string" where
  "ollama_default env = (case ai_getenv env ''OLLAMA_MODEL'' of Some m \<Rightarrow> m | None \<Rightarrow> ''llama3.2:3b'')"

definition ollama_base :: "'e ai_env_scheme \<Rightarrow> string" where
  "ollama_base env = (case ai_getenv env ''OLLAMA_HOST'' of Some m \<Rightarrow> m | None \<Rightarrow> ''http://localhost:11434'')"

definition provider_default :: "'e ai_env_scheme \<Rightarrow> string dict" where
  "provider_default env = [(''openai'', ''gpt-4o-mini''), (''anthropic'', ''claude-sonnet-4-6''), (''ollama'', ollama_default env)]"

definition get_model_config :: "'e ai_env_scheme \<Rightarrow> state_doc \<Rightarrow> json" where
  "get_model_config env f =
     (case f of Doc v \<Rightarrow> v | _ \<Rightarrow> JObj [(''provider'', JStr ''ollama''), (''model'', JStr (ollama_default env))])"

definition set_model_config :: "string \<Rightarrow> string \<Rightarrow> ('w ai_world_scheme, unit) act" where
  "set_model_config provider model =
     act_modify (\<lambda>w. w\<lparr>model_config := Doc (JObj [(''provider'', JStr provider), (''model'', JStr model)])\<rparr>)"

definition get_active_provider :: "'e ai_env_scheme \<Rightarrow> state_doc \<Rightarrow> json outcome" where
  "get_active_provider env f =
     and_then (as_obj (get_model_config env f)) (\<lambda>cfg. Inr (dget_or cfg ''provider'' (JStr ''openai'')))"

definition default_model :: "'e ai_env_scheme \<Rightarrow> json \<Rightarrow> json outcome" where
  "default_model env p =
     (if hashable p then Inr (JStr (case p of JStr s \<Rightarrow> dget_or (provider_default env) s ''gpt-4o-mini'' | _ \<Rightarrow> ''gpt-4o-mini''))
      else Inl TypeError)"

definition get_active_model :: "'e ai_env_scheme \<Rightarrow> state_doc \<Rightarrow> json outcome" where
  "get_active_model env f =
     and_then (as_obj (get_model_config env f)) (\<lambda>cfg.
       if truthy (jget cfg ''model'') then Inr (jget cfg ''model'')
       else default_model env (dget_or cfg ''provider'' (JStr ''openai'')))"

section \<open>Local models\<close>

definition model_name :: "json \<Rightarrow> json outcome" where
  "model_name v = (case v of JObj d \<Rightarrow> (case dget d ''name'' of Some n \<Rightarrow> Inr n | None \<Rightarrow> Inl (KeyError ''name'')) | _ \<Rightarrow> Inl TypeError)"

definition get_ollama_models :: "'e ai_env_scheme \<Rightarrow> json list" where
  "get_ollama_models env =
     (case and_then (ai_tags env) (\<lambda>v. and_then (as_obj v) (\<lambda>d. and_then (py_iter (dget_or d ''models'' (JArr []))) (traverse model_name))) of
        Inr ms \<Rightarrow> ms
      | Inl _ \<Rightarrow> [])"

text \<open>The first number before a \<open>b\<close>: digits, possibly a point and digits, as the regular expression finds them.\<close>

definition size_here :: "string \<Rightarrow> rat option" where
  "size_here s =
     (let ds = takeWhile is_digit s; r = dropWhile is_digit s in
      if ds = [] then None
      else if r \<noteq> [] \<and> hd r = CHR ''b'' then Some (of_nat (nat (dec_value ds)))
      else if r \<noteq> [] \<and> hd r = CHR ''.'' then
        (let fs = takeWhile is_digit (tl r); q = dropWhile is_digit (tl r) in
         if fs \<noteq> [] \<and> q \<noteq> [] \<and> hd q = CHR ''b''
         then Some (of_int (dec_value (ds @ fs)) / 10 ^ length fs) else None)
      else None)"

fun size_in :: "string \<Rightarrow> rat option" where
  "size_in [] = None"
| "size_in (c # s) = (case size_here (c # s) of Some x \<Rightarrow> Some x | None \<Rightarrow> size_in s)"

definition model_score :: "string \<Rightarrow> rat \<times> nat \<times> nat \<times> string" where
  "model_score name =
     (let l = lower name in
      (case size_in l of Some x \<Rightarrow> x | None \<Rightarrow> 999,
       if list_ex (\<lambda>t. contains t l) [''mini'', ''small'', ''tiny'', ''compact''] then 0 else 1, length name, l))"

definition sort_ollama_models :: "string list \<Rightarrow> string list" where
  "sort_ollama_models ms = sort_key model_score (rev (remdups (rev ms)))"

section \<open>Status of the providers\<close>

record provider_state =
  ps_status :: string
  ps_message :: string

definition mid_dot :: string where
  "mid_dot = [CHR '' '', char_of (183::nat), CHR '' '']"

definition env_set :: "'e ai_env_scheme \<Rightarrow> string \<Rightarrow> bool" where
  "env_set env k = (case ai_getenv env k of Some (_ # _) \<Rightarrow> True | _ \<Rightarrow> False)"

text \<open>The model shown: the active one for the active provider, else the default of the provider.\<close>

definition shown_model :: "'e ai_env_scheme \<Rightarrow> state_doc \<Rightarrow> string \<Rightarrow> string \<Rightarrow> json outcome" where
  "shown_model env f p d =
     and_then (get_active_provider env f) (\<lambda>active. if active = JStr p then get_active_model env f else Inr (JStr d))"

definition hosted_status :: "'e ai_env_scheme \<Rightarrow> state_doc \<Rightarrow> string \<Rightarrow> string \<Rightarrow> string \<Rightarrow> provider_state outcome" where
  "hosted_status env f p key label =
     (if \<not> ai_sdk env p then Inr \<lparr>ps_status = ''unavailable'', ps_message = p @ '' SDK not installed - pip install '' @ p\<rparr>
      else if \<not> env_set env key then Inr \<lparr>ps_status = ''unconfigured'', ps_message = key @ '' not set in .env''\<rparr>
      else and_then (shown_model env f p (dget_or (provider_default env) p [])) (\<lambda>m.
        Inr \<lparr>ps_status = ''ready'', ps_message = label @ mid_dot @ py_str m\<rparr>))"

fun names_of :: "json list \<Rightarrow> string list outcome" where
  "names_of [] = Inr []"
| "names_of (JStr s # vs) = and_then (names_of vs) (\<lambda>ns. Inr (s # ns))"
| "names_of (_ # vs) = Inl AttributeError"

definition provider_status :: "'e ai_env_scheme \<Rightarrow> state_doc \<Rightarrow> json \<Rightarrow> provider_state outcome" where
  "provider_status env f provider =
     and_then (if truthy provider then Inr provider else get_active_provider env f) (\<lambda>p.
       if p = JStr ''openai'' then
         hosted_status env f ''openai'' ''OPENAI_API_KEY''
           (if contains ''groq.com'' (strip (case ai_getenv env ''OPENAI_BASE_URL'' of Some u \<Rightarrow> u | None \<Rightarrow> [])) then ''Groq'' else ''OpenAI'')
       else if p = JStr ''anthropic'' then hosted_status env f ''anthropic'' ''ANTHROPIC_API_KEY'' ''Claude''
       else if p = JStr ''ollama'' then
         and_then (names_of (get_ollama_models env)) (\<lambda>ns.
           if ns = [] then Inr \<lparr>ps_status = ''unavailable'',
             ps_message = ''Ollama not reachable at '' @ ollama_base env @ ''  - run: ollama serve''\<rparr>
           else
             (let models = sort_ollama_models ns in
              and_then (shown_model env f ''ollama'' (hd models)) (\<lambda>m.
                Inr \<lparr>ps_status = ''ready'', ps_message = ''Ollama'' @ mid_dot @ py_str m @ ''  ('' @ show_nat (length models) @ '' models)''\<rparr>)))
       else Inr \<lparr>ps_status = ''unknown'', ps_message = ''Unknown provider: '' @ py_str p\<rparr>)"

definition ai_status :: "'e ai_env_scheme \<Rightarrow> state_doc \<Rightarrow> provider_state outcome" where
  "ai_status env f = and_then (get_active_provider env f) (provider_status env f)"

section \<open>History\<close>

definition max_history :: nat where
  "max_history = 6"

definition exchange_entry :: "json \<times> json \<Rightarrow> obj" where
  "exchange_entry p = [(''user'', fst p), (''assistant'', snd p)]"

definition exchange_of :: "json \<Rightarrow> (json \<times> json) option" where
  "exchange_of v = (case v of
     JObj d \<Rightarrow> (case (dget d ''user'', dget d ''assistant'') of (Some u, Some a) \<Rightarrow> Some (u, a) | _ \<Rightarrow> None)
   | _ \<Rightarrow> None)"

definition load_history_from_disk :: "('w ai_world_scheme, unit) act" where
  "load_history_from_disk = act_modify (\<lambda>w.
     w\<lparr>ai_history := fold (push_capped max_history)
       (lastn max_history (List.map_filter exchange_of (recent_entries (max_history * 2) (ai_history_file w)))) (ai_history w)\<rparr>)"

definition append_history_to_disk :: "json \<times> json \<Rightarrow> ('w ai_world_scheme, unit) act" where
  "append_history_to_disk p =
     act_modify (\<lambda>w. w\<lparr>ai_history_file := append_capped (max_history * 2) (exchange_entry p) (ai_history_file w)\<rparr>)"

definition note_exchange :: "string \<Rightarrow> string \<Rightarrow> ('w ai_world_scheme, unit) act" where
  "note_exchange prompt reply =
     act_bind (act_modify (\<lambda>w. w\<lparr>ai_history := push_capped max_history (JStr prompt, JStr reply) (ai_history w)\<rparr>)) (\<lambda>_.
     append_history_to_disk (JStr prompt, JStr reply))"

section \<open>Prompts\<close>

definition max_prompt_chars :: nat where
  "max_prompt_chars = 4000"

definition cap_prompt :: "string \<Rightarrow> string" where
  "cap_prompt prompt = (if length prompt > max_prompt_chars then take max_prompt_chars prompt @ '' [truncated]'' else prompt)"

definition prompt_key :: "behavior \<Rightarrow> string" where
  "prompt_key b = ''__key:'' @ response_mode b @ '':'' @ py_str (b_command_style b) @ ''__''"

definition fresh_prompt :: "behavior \<Rightarrow> string" where
  "fresh_prompt b =
     ''You are Jarvis, a Human Interface bridge. '' @
     ''Human decides. Jarvis interprets. CLI executes. System responds. Human confirms. '' @
     ''Provide detailed, well-structured responses with clear sections, explanations, and examples when relevant. '' @
     ''Be thorough - cover context, rationale, steps, and edge cases. Use markdown formatting. '' @
     ''Current response mode is '' @ response_mode b @ ''. '' @
     ''Preferred command style is '' @ py_str (b_command_style b) @ ''.''"

definition build_system_prompt :: "behavior \<Rightarrow> ('w ai_world_scheme, string) act" where
  "build_system_prompt b = (\<lambda>w.
     case prompt_cache w of
       Some c \<Rightarrow> if c \<noteq> [] \<and> startswith c (prompt_key b) then (Inr (drop (length (prompt_key b)) c), w)
         else (Inr (fresh_prompt b), w\<lparr>prompt_cache := Some (prompt_key b @ fresh_prompt b)\<rparr>)
     | None \<Rightarrow> (Inr (fresh_prompt b), w\<lparr>prompt_cache := Some (prompt_key b @ fresh_prompt b)\<rparr>))"

text \<open>\<open>[m.get("text", "") for m in memory[-5:]] if memory else []\<close> and the length of the memory.\<close>

definition memory_texts :: "json \<Rightarrow> (nat \<times> json list) outcome" where
  "memory_texts mems = (case mems of
     JArr xs \<Rightarrow> and_then (traverse as_obj (lastn 5 xs)) (\<lambda>ds. Inr (length xs, map (\<lambda>d. dget_or d ''text'' (JStr [])) ds))
   | v \<Rightarrow> if v = JStr [] \<or> v = JObj [] then Inr (0, []) else Inl TypeError)"

text \<open>The entries up to the first that is no dict are stored; then the attempt is given up.\<close>

fun dicts_before :: "json list \<Rightarrow> obj list \<times> bool" where
  "dicts_before [] = ([], True)"
| "dicts_before (JObj d # vs) = (case dicts_before vs of (ds, ok) \<Rightarrow> (d # ds, ok))"
| "dicts_before (_ # vs) = ([], False)"

definition row_line :: "mem_row \<Rightarrow> string" where
  "row_line r = (if row_text r \<noteq> [] then row_text r else if row_event r \<noteq> [] then row_event r else row_command r)"

definition relevant_memories :: "'e ai_env_scheme \<Rightarrow> string \<Rightarrow> json \<Rightarrow> ('w ai_world_scheme, string list) act" where
  "relevant_memories env prompt mems =
     (case dicts_before (case mems of JArr xs \<Rightarrow> xs | _ \<Rightarrow> []) of (ds, ok) \<Rightarrow>
        act_bind (act_modify (\<lambda>w. w\<lparr>store := snd (sync_from_state (ai_mem env) ds (store w))\<rparr>)) (\<lambda>_.
        if ok then act_get (\<lambda>w. filter (\<lambda>t. t \<noteq> []) (map (\<lambda>p. row_line (snd p)) (search_memories (ai_mem env) prompt 5 (store w))))
        else act_return []))"

definition shown_list :: "json list \<Rightarrow> string" where
  "shown_list vs = (if vs = [] then ''none'' else py_str (JArr vs))"

definition context_text :: "string \<Rightarrow> string \<Rightarrow> string \<Rightarrow> obj \<Rightarrow> obj \<Rightarrow> obj \<Rightarrow> obj \<Rightarrow> nat \<times> json list \<Rightarrow> string list \<Rightarrow> string" where
  "context_text pre prompt logs hi ai flow prefs mem relevant =
     pre @ newline @
     ''Human: '' @ py_str (jget hi ''name'') @ '' | role: '' @ py_str (jget hi ''role'') @ '' | domain: '' @ py_str (jget hi ''domain'')
       @ '' | lang: '' @ py_str (jget hi ''language'') @ newline @
     ''AI: '' @ py_str (jget ai ''name'') @ '' | mode: '' @ py_str (jget ai ''mode'') @ newline @
     ''Response mode: '' @ py_str (dget_or hi ''preferred_response_mode'' (JStr ''adaptive'')) @ newline @
     ''Focus: '' @ (if truthy (jget flow ''current_focus'') then py_str (jget flow ''current_focus'') else ''none'') @ newline @
     ''Memory ('' @ show_nat (fst mem) @ '' total, last 5): '' @ shown_list (snd mem) @ newline @
     ''Relevant memory for this request: '' @ shown_list (map JStr relevant) @ newline @
     ''Preferences: response_mode='' @ py_str (dget_or prefs ''response_mode'' (JStr ''adaptive''))
       @ '', verbosity='' @ py_str (dget_or prefs ''verbosity'' (JStr ''medium'')) @ newline @
     ''Recent logs:'' @ newline @ logs @ newline @ newline @
     ''User request: '' @ cap_prompt prompt"

definition user_context_message :: "'e ai_env_scheme \<Rightarrow> string \<Rightarrow> string \<Rightarrow> ('w ai_world_scheme, string) act" where
  "user_context_message env pre prompt =
     act_bind (act_of (ai_user_profile env)) (\<lambda>_.
     act_bind (on_profiles (load_profiles (j_host env))) (\<lambda>p.
     act_bind (act_get (\<lambda>w. case state_file w of Doc v \<Rightarrow> v | _ \<Rightarrow> JObj [])) (\<lambda>v.
     act_bind (act_of (as_obj v)) (\<lambda>s.
     let mems = dget_or s ''memory'' (JArr []) in
     act_bind (act_of (memory_texts mems)) (\<lambda>texts.
     act_bind (relevant_memories env prompt mems) (\<lambda>relevant.
     act_bind (act_of (as_obj (dget_or p ''HI'' (JObj [])))) (\<lambda>hi.
     act_bind (act_of (as_obj (dget_or p ''AI'' (JObj [])))) (\<lambda>ai.
     act_bind (act_of (as_obj (dget_or s ''workflow'' (JObj [])))) (\<lambda>flow.
     act_bind (act_of (as_obj (dget_or s ''preferences'' (JObj [])))) (\<lambda>prefs.
     act_return (context_text pre prompt (ai_recent_logs env) hi ai flow prefs texts relevant)))))))))))"

definition build_messages :: "string \<Rightarrow> string \<Rightarrow> (json \<times> json) list \<Rightarrow> (string \<times> json) list" where
  "build_messages sys user hist =
     (''system'', JStr sys) # concat (map (\<lambda>(u, a). [(''user'', u), (''assistant'', a)]) hist) @ [(''user'', JStr user)]"

section \<open>Questions\<close>

definition service_call_of :: "bool \<Rightarrow> string \<Rightarrow> (string \<times> json) list \<Rightarrow> json \<Rightarrow> json \<Rightarrow> service_call outcome" where
  "service_call_of stream sys messages provider model =
     (if provider = JStr ''openai'' then Inr \<lparr>sv_provider = ''openai'', sv_model = model, sv_system = None, sv_messages = messages, sv_stream = stream\<rparr>
      else if provider = JStr ''anthropic'' then
        Inr \<lparr>sv_provider = ''anthropic'', sv_model = model,
          sv_system = Some (case List.find (\<lambda>m. fst m = ''system'') messages of Some m \<Rightarrow> snd m | None \<Rightarrow> JStr sys),
          sv_messages = filter (\<lambda>m. fst m \<noteq> ''system'') messages, sv_stream = stream\<rparr>
      else if provider = JStr ''ollama'' then Inr \<lparr>sv_provider = ''ollama'', sv_model = model, sv_system = None, sv_messages = messages, sv_stream = stream\<rparr>
      else Inl (ValueError (''Unknown provider: '' @ py_str provider)))"

definition record_call :: "service_call \<Rightarrow> ('w ai_world_scheme, unit) act" where
  "record_call c = act_modify (\<lambda>w. w\<lparr>service_calls := service_calls w @ [c]\<rparr>)"

definition call_model :: "'e ai_env_scheme \<Rightarrow> string \<Rightarrow> (string \<times> json) list \<Rightarrow> json \<Rightarrow> json \<Rightarrow> ('w ai_world_scheme, string) act" where
  "call_model env sys messages provider model =
     act_bind (act_of (service_call_of False sys messages provider model)) (\<lambda>c.
     act_bind (record_call c) (\<lambda>_. act_of (ai_reply env c)))"

text \<open>What \<open>ask_ai\<close> and \<open>ask_ai_stream\<close> share: the messages, or the text with which the question is refused.\<close>

record prepared =
  pr_system :: string
  pr_messages :: "(string \<times> json) list"
  pr_provider :: json
  pr_model :: json

definition on_config :: "(state_doc \<Rightarrow> 'a outcome) \<Rightarrow> ('w ai_world_scheme, 'a) act" where
  "on_config g = (\<lambda>w. (g (model_config w), w))"

definition not_ready :: "'e ai_env_scheme \<Rightarrow> string \<Rightarrow> string \<Rightarrow> ('w ai_world_scheme, behavior \<times> provider_state) act" where
  "not_ready env action prompt =
     act_bind (act_of (ai_user_profile env)) (\<lambda>_.
     act_bind (rules_now env prompt action) (\<lambda>b.
     act_bind (on_config (ai_status env)) (\<lambda>st. act_return (b, st))))"

definition prepare :: "'e ai_env_scheme \<Rightarrow> string \<Rightarrow> ('w ai_world_scheme, string + prepared) act" where
  "prepare env prompt =
     (if strip prompt = [] then act_return (Inl ''Refused: empty AI prompt.'')
      else
        act_bind (not_ready env ''ai'' prompt) (\<lambda>(b, st).
          if ps_status st \<noteq> ''ready'' then act_return (Inl (ps_message st))
          else
            act_bind (on_config (get_active_provider env)) (\<lambda>provider.
            act_bind (on_config (get_active_model env)) (\<lambda>model.
            act_bind (build_system_prompt b) (\<lambda>sys.
            act_bind (user_context_message env ''Conversation mode.'' prompt) (\<lambda>user.
            act_bind (act_get ai_history) (\<lambda>hist.
            act_return (Inr \<lparr>pr_system = sys, pr_messages = build_messages sys user hist, pr_provider = provider, pr_model = model\<rparr>))))))))"

definition ask_ai :: "'e ai_env_scheme \<Rightarrow> string \<Rightarrow> ('w ai_world_scheme, string) act" where
  "ask_ai env prompt =
     act_bind (prepare env prompt) (\<lambda>p. case p of
       Inl refusal \<Rightarrow> act_return refusal
     | Inr q \<Rightarrow>
         act_bind (call_model env (pr_system q) (pr_messages q) (pr_provider q) (pr_model q)) (\<lambda>reply.
         act_bind (note_exchange prompt reply) (\<lambda>_. act_return reply)))"

text \<open>Empty deltas are passed on from one provider only.\<close>

definition shown_deltas :: "service_call \<Rightarrow> string list \<Rightarrow> string list" where
  "shown_deltas c ds = (if sv_provider c = ''anthropic'' then ds else filter (\<lambda>d. d \<noteq> []) ds)"

text \<open>The stream: the deltas the consumer gets, and the exception that ends it. The exchange is noted when the stream is complete.\<close>

definition ask_ai_stream :: "'e ai_env_scheme \<Rightarrow> string \<Rightarrow> ('w ai_world_scheme, string list \<times> exn option) act" where
  "ask_ai_stream env prompt =
     act_bind (prepare env prompt) (\<lambda>p. case p of
       Inl refusal \<Rightarrow> act_return ([refusal], None)
     | Inr q \<Rightarrow>
         act_bind (act_of (service_call_of True (pr_system q) (pr_messages q) (pr_provider q) (pr_model q))) (\<lambda>c.
         act_bind (record_call c) (\<lambda>_.
         let chunks = shown_deltas c (fst (ai_deltas env c)) in
         case snd (ai_deltas env c) of
           Some e \<Rightarrow> act_return (chunks, Some e)
         | None \<Rightarrow> act_bind (note_exchange prompt (concat chunks)) (\<lambda>_. act_return (chunks, None)))))"

definition plan_prompt :: "behavior \<Rightarrow> string" where
  "plan_prompt b =
     ''You are Jarvis in planning mode. '' @
     ''Return a concise numbered plan. '' @
     ''Separate human decisions from AI execution clearly. '' @
     ''Do not claim actions already happened. '' @
     ''Current response mode is '' @ response_mode b @ ''.''"

definition plan_with_ai :: "'e ai_env_scheme \<Rightarrow> string \<Rightarrow> ('w ai_world_scheme, string) act" where
  "plan_with_ai env prompt =
     (if strip prompt = [] then act_return ''Refused: empty planning prompt.''
      else
        act_bind (not_ready env ''plan'' prompt) (\<lambda>(b, st).
          if ps_status st \<noteq> ''ready'' then act_return (ps_message st)
          else
            act_bind (on_config (get_active_provider env)) (\<lambda>provider.
            act_bind (on_config (get_active_model env)) (\<lambda>model.
            act_bind (user_context_message env ''Planning mode.'' prompt) (\<lambda>user.
            call_model env (plan_prompt b) [(''system'', JStr (plan_prompt b)), (''user'', JStr user)] provider model)))))"

section \<open>Properties: the history\<close>

definition good_file :: "log_file \<Rightarrow> bool" where
  "good_file f = (\<exists>ps. f = log_of (map exchange_entry ps) \<and> list_all (\<lambda>p. record_ok (exchange_entry p)) ps \<and> length ps \<le> max_history * 2)"

definition exchanges_on :: "log_file \<Rightarrow> (json \<times> json) list" where
  "exchanges_on f = List.map_filter exchange_of (recent_entries (max_history * 2) f)"

lemma exchange_read: "List.map_filter exchange_of (map JObj (map exchange_entry ps)) = ps"
proof -
  have "exchange_of (JObj (exchange_entry p)) = Some p" for p by (simp add: exchange_of_def exchange_entry_def)
  then show ?thesis by (induction ps) (simp_all add: map_filter_simps)
qed

interpretation ai_file: short_view "\<lambda>p. append_capped (max_history * 2) (exchange_entry p)" exchanges_on id
    "\<lambda>p. record_ok (exchange_entry p)" good_file "max_history * 2" max_history
proof unfold_locales
  fix f p assume good: "good_file f" and ok: "record_ok (exchange_entry p)"
  then obtain ps where f: "f = log_of (map exchange_entry ps)" "list_all record_ok (map exchange_entry ps)" "length ps \<le> max_history * 2"
    by (auto simp: good_file_def list_all_iff)
  let ?n = "max_history * 2" and ?new = "lastn (max_history * 2) (ps @ [p])"
  have pos: "0 < ?n" by (simp add: max_history_def)
  have put: "append_capped ?n (exchange_entry p) f = log_of (map exchange_entry ?new)"
    using append_capped_log [OF f(2) ok _ pos] f(1,3) by (simp add: map_lastn)
  have new: "list_all record_ok (map exchange_entry ?new)"
    using f(2) ok lastn_ok [of record_ok "map exchange_entry (ps @ [p])" ?n] by (simp add: map_lastn)
  have len: "length ?new \<le> ?n" by simp
  show "good_file (append_capped ?n (exchange_entry p) f)"
    unfolding good_file_def put using new len by (intro exI [of _ ?new]) (simp add: list_all_iff)
  show "exchanges_on (append_capped ?n (exchange_entry p) f) = lastn ?n (exchanges_on f @ [id p])"
    unfolding put unfolding exchanges_on_def f(1) recent_entries_log [OF new pos] recent_entries_log [OF f(2) pos]
    by (simp only: map_lastn [symmetric] exchange_read lastn_lastn lastn_lastn_append id_apply) simp
qed (simp add: max_history_def)

text \<open>The exchanges of a series of questions: those that were answered.\<close>

fun exchanges :: "('e ai_env_scheme \<times> string) list \<Rightarrow> 'w ai_world_scheme \<Rightarrow> (json \<times> json) list" where
  "exchanges [] w = []"
| "exchanges ((env, prompt) # qs) w =
     (case prepare env prompt w of
        (Inr (Inr q), w1) \<Rightarrow>
          (case fst (call_model env (pr_system q) (pr_messages q) (pr_provider q) (pr_model q) w1) of
             Inr reply \<Rightarrow> [(JStr prompt, JStr reply)]
           | Inl _ \<Rightarrow> [])
      | _ \<Rightarrow> []) @ exchanges qs (snd (ask_ai env prompt w))"

definition ask_all :: "('e ai_env_scheme \<times> string) list \<Rightarrow> 'w ai_world_scheme \<Rightarrow> 'w ai_world_scheme" where
  "ask_all qs w = fold (\<lambda>(env, p) w. snd (ask_ai env p w)) qs w"

definition convo :: "'w ai_world_scheme \<Rightarrow> (json \<times> json) list \<times> log_file" where
  "convo w = (ai_history w, ai_history_file w)"

text \<open>The parts of the world that preparing a question leaves alone.\<close>

definition beside :: "('w ai_world_scheme \<Rightarrow> 'b) \<Rightarrow> bool" where
  "beside f = ((\<forall>w x. f (w\<lparr>profiles_file := x\<rparr>) = f w) \<and> (\<forall>w x. f (w\<lparr>store := x\<rparr>) = f w) \<and> (\<forall>w x. f (w\<lparr>prompt_cache := x\<rparr>) = f w))"

lemma keeps_profiles: "beside f \<Longrightarrow> keeps f (on_profiles m)"
  by (simp add: keeps_def on_profiles_def beside_def Let_def split: prod.split)

lemma keeps_rules: "beside f \<Longrightarrow> keeps f (rules_now env i a)"
  unfolding rules_now_def with_profiles_def by (intro frame_intros keeps_profiles)

lemma keeps_prompt: "beside f \<Longrightarrow> keeps f (build_system_prompt b)"
  by (auto simp: keeps_def build_system_prompt_def beside_def split: option.split)

lemma keeps_config: "keeps f (on_config g)"
  by (simp add: keeps_def on_config_def)

lemma keeps_relevant: "beside f \<Longrightarrow> keeps f (relevant_memories env prompt v)"
  unfolding relevant_memories_def by (auto intro!: keeps_bind keeps_modify simp: beside_def split: prod.split)

lemma keeps_context: "beside f \<Longrightarrow> keeps f (user_context_message env pre prompt)"
  unfolding user_context_message_def Let_def by (intro keeps_bind keeps_base keeps_profiles keeps_relevant)

lemma keeps_prepare: "beside f \<Longrightarrow> keeps f (prepare env prompt)"
  unfolding prepare_def not_ready_def
  by (auto intro!: keeps_bind keeps_base keeps_rules keeps_prompt keeps_config keeps_context split: prod.split)

lemma beside_parts: "beside convo" "beside service_calls" "beside ai_history"
  by (simp_all add: beside_def convo_def)

lemma convo_prepare: "keeps convo (prepare env prompt)"
  by (intro keeps_prepare beside_parts)

lemma convo_record: "keeps convo (record_call c)"
  unfolding record_call_def by (rule keeps_modify) (simp add: convo_def)

lemma convo_call: "keeps convo (call_model env sys ms p m)"
  unfolding call_model_def by (intro keeps_bind keeps_base convo_record)

lemma ask_ai_convo:
  "convo (snd (ask_ai env prompt w)) =
    (fold (push_capped max_history) (exchanges [(env, prompt)] w) (ai_history w),
     fold (\<lambda>p. append_capped (max_history * 2) (exchange_entry p)) (exchanges [(env, prompt)] w) (ai_history_file w))"
proof -
  obtain p w1 where prep: "prepare env prompt w = (p, w1)" by (cases "prepare env prompt w")
  then have w1: "convo w1 = convo w" by (rule keepsD [OF convo_prepare])
  show ?thesis
  proof (cases p)
    case (Inl e)
    then show ?thesis using w1 by (simp add: ask_ai_def prep convo_def)
  next
    case (Inr x)
    show ?thesis
    proof (cases x)
      case (Inl refusal)
      then show ?thesis using w1 \<open>p = Inr x\<close> by (simp add: ask_ai_def prep convo_def act_return_def)
    next
      case (Inr q)
      obtain r w2 where call: "call_model env (pr_system q) (pr_messages q) (pr_provider q) (pr_model q) w1 = (r, w2)" by fastforce
      then have "convo w2 = convo w" using keepsD [OF convo_call] w1 by metis
      then show ?thesis using Inr \<open>p = Inr x\<close>
        by (cases r) (simp_all add: ask_ai_def prep call note_exchange_def append_history_to_disk_def act_bind_app act_modify_def act_return_def convo_def)
    qed
  qed
qed

lemma ask_all_convo:
  "convo (ask_all qs w) =
    (fold (push_capped max_history) (exchanges qs w) (ai_history w),
     fold (\<lambda>p. append_capped (max_history * 2) (exchange_entry p)) (exchanges qs w) (ai_history_file w))"
proof (induction qs arbitrary: w)
  case (Cons x qs)
  obtain env p where x: "x = (env, p)" by (cases x)
  let ?w = "snd (ask_ai env p w)"
  have "exchanges (x # qs) w = exchanges [(env, p)] w @ exchanges qs ?w" by (simp add: x)
  moreover have "ask_all (x # qs) w = ask_all qs ?w" by (simp add: x ask_all_def)
  ultimately show ?case using Cons.IH [of ?w] ask_ai_convo [of env p w] by (simp only: fold_append comp_def convo_def prod.inject)
qed (simp add: ask_all_def convo_def)

lemma exchange_ok: "nel \<notin> set (json_dumps (JObj (exchange_entry (JStr u, JStr a)))) \<Longrightarrow> record_ok (exchange_entry (JStr u, JStr a))"
  by (simp add: record_ok_def exchange_entry_def)

lemma exchanges_texts: "p \<in> set (exchanges qs w) \<Longrightarrow> \<exists>u a. p = (JStr u, JStr a)"
  by (induction qs w rule: exchanges.induct) (auto split: prod.splits sum.splits)


section \<open>Properties: the cached prompt\<close>

definition plain_style :: "behavior \<Rightarrow> bool" where
  "plain_style b = (CHR '':'' \<notin> set (response_mode b) \<and> CHR ''_'' \<notin> set (response_mode b) \<and> CHR ''_'' \<notin> set (py_str (b_command_style b)))"

definition cache_ok :: "'w ai_world_scheme \<Rightarrow> bool" where
  "cache_ok w = (\<forall>c. prompt_cache w = Some c \<longrightarrow> (\<exists>b. plain_style b \<and> c = prompt_key b @ fresh_prompt b))"

fun prompts :: "behavior list \<Rightarrow> ('w ai_world_scheme, string list) act" where
  "prompts [] = act_return []"
| "prompts (b # bs) = act_bind (build_system_prompt b) (\<lambda>p. act_bind (prompts bs) (\<lambda>ps. act_return (p # ps)))"

lemma until_char: "x \<notin> set k \<Longrightarrow> takeWhile (\<lambda>c. c \<noteq> x) (k @ x # r) = k"
  by (simp add: takeWhile_append2 takeWhile_append)

lemma same_until: "x \<notin> set k \<Longrightarrow> x \<notin> set k' \<Longrightarrow> k @ x # r = k' @ x # r' \<Longrightarrow> k = k'"
  using until_char [of x k r] until_char [of x k' r'] by simp

lemma startswith_key:
  assumes "plain_style b" "plain_style b'" "startswith (prompt_key b @ fresh_prompt b) (prompt_key b')"
  shows "response_mode b = response_mode b' \<and> py_str (b_command_style b) = py_str (b_command_style b')"
proof -
  let ?k = "\<lambda>b. response_mode b @ '':'' @ py_str (b_command_style b)"
  from assms(3) obtain r where "prompt_key b @ fresh_prompt b = prompt_key b' @ r" by (metis append_take_drop_id startswith_def)
  then have "?k b @ CHR ''_'' # (CHR ''_'' # fresh_prompt b) = ?k b' @ CHR ''_'' # (CHR ''_'' # r)"
    by (simp add: prompt_key_def)
  then have "?k b = ?k b'" by (rule same_until [rotated 2]) (use assms(1,2) in \<open>auto simp: plain_style_def\<close>)
  then have keys: "response_mode b @ CHR '':'' # py_str (b_command_style b) = response_mode b' @ CHR '':'' # py_str (b_command_style b')" by simp
  then have "response_mode b = response_mode b'" by (rule same_until [rotated 2]) (use assms(1,2) in \<open>auto simp: plain_style_def\<close>)
  then show ?thesis using keys by simp
qed

lemma build_fresh:
  assumes "plain_style b" "cache_ok w"
  shows "\<exists>w'. build_system_prompt b w = (Inr (fresh_prompt b), w') \<and> cache_ok w'"
proof (cases "\<exists>c. prompt_cache w = Some c \<and> c \<noteq> [] \<and> startswith c (prompt_key b)")
  case True
  then obtain c where c: "prompt_cache w = Some c" "c \<noteq> []" "startswith c (prompt_key b)" by blast
  with assms(2) obtain b0 where b0: "plain_style b0" "c = prompt_key b0 @ fresh_prompt b0" by (auto simp: cache_ok_def)
  from startswith_key [OF b0(1) assms(1)] c(3) b0(2) have "prompt_key b0 = prompt_key b" "fresh_prompt b0 = fresh_prompt b"
    by (simp_all add: prompt_key_def fresh_prompt_def)
  then show ?thesis using c assms(2) b0(2) by (simp add: build_system_prompt_def)
next
  case False
  then show ?thesis using assms(1) by (auto simp: build_system_prompt_def cache_ok_def split: option.split)
qed

text \<open>C35: the cache of the system prompt is transparent. Starting without a cache, any series of calls, with response modes and
  command styles that have no underscore (and modes without a colon), gives every behaviour its own prompt.\<close>

theorem cached_prompts_are_fresh:
  assumes "prompt_cache w = None" "\<forall>b \<in> set bs. plain_style b"
  shows "fst (prompts bs w) = Inr (map fresh_prompt bs)"
proof -
  have "cache_ok w \<Longrightarrow> list_all plain_style bs \<Longrightarrow> fst (prompts bs w) = Inr (map fresh_prompt bs)" for w :: "'a ai_world_scheme"
  proof (induction bs arbitrary: w)
    case (Cons b bs)
    then obtain w' where "build_system_prompt b w = (Inr (fresh_prompt b), w')" "cache_ok w'" using build_fresh [of b w] by auto
    moreover from this Cons have "fst (prompts bs w') = Inr (map fresh_prompt bs)" by simp
    ultimately show ?case by (cases "prompts bs w'") (simp add: act_bind_app act_return_def)
  qed (simp add: act_return_def)
  then show ?thesis using assms by (simp add: cache_ok_def list_all_iff)
qed

section \<open>Properties: what is sent\<close>

lemma cap_prompt_length: "length (cap_prompt prompt) \<le> max_prompt_chars + 12"
  by (simp add: cap_prompt_def max_prompt_chars_def)

lemma context_text_ends: "\<exists>t. context_text pre prompt logs hi ai flow prefs mem relevant = t @ cap_prompt prompt"
  unfolding context_text_def by (intro exI) (simp only: append_assoc [symmetric])

lemma context_ends:
  assumes "user_context_message env pre prompt w = (Inr t, w')"
  shows "\<exists>u. t = u @ cap_prompt prompt"
  using assms context_text_ends unfolding user_context_message_def Let_def
  by (auto simp: act_bind_Inr act_return_def)

lemma not_ready_status:
  assumes "not_ready env action prompt w = (Inr (b, st), w')"
  shows "ai_status env (model_config w) = Inr st" "beside f \<Longrightarrow> f w' = f w"
proof -
  from assms obtain w1 where w1: "rules_now env prompt action w = (Inr b, w1)" "ai_status env (model_config w1) = Inr st" "w' = w1"
    by (auto simp: not_ready_def act_bind_Inr act_of_def on_config_def act_return_def)
  have "beside model_config" by (simp add: beside_def)
  from keepsD [OF keeps_rules [OF this] w1(1)] w1(2) show "ai_status env (model_config w) = Inr st" by simp
  show "beside f \<Longrightarrow> f w' = f w" using keepsD [OF keeps_rules w1(1)] w1(3) by blast
qed

lemma prepared_messages:
  assumes "prepare env prompt w = (Inr (Inr q), w1)"
  shows "\<exists>sys u. pr_messages q = build_messages sys (u @ cap_prompt prompt) (ai_history w)"
    and "strip prompt \<noteq> []" "\<exists>st. ai_status env (model_config w) = Inr st \<and> ps_status st = ''ready''"
proof -
  from assms obtain b st w2 sys w3 user where
    q: "strip prompt \<noteq> []" "not_ready env ''ai'' prompt w = (Inr (b, st), w2)" "ps_status st = ''ready''"
      "build_system_prompt b w2 = (Inr sys, w3)" "user_context_message env ''Conversation mode.'' prompt w3 = (Inr user, w1)"
      "pr_messages q = build_messages sys user (ai_history w1)"
    by (auto simp: prepare_def act_bind_Inr on_config_def act_get_def act_return_def split: if_splits prod.splits)
  have "ai_history w1 = ai_history w"
    using keepsD [OF keeps_context q(5), of ai_history] keepsD [OF keeps_prompt q(4), of ai_history] not_ready_status(2) [OF q(2), of ai_history]
    by (simp add: beside_parts)
  moreover obtain u where "user = u @ cap_prompt prompt" using context_ends [OF q(5)] by blast
  ultimately show "\<exists>sys u. pr_messages q = build_messages sys (u @ cap_prompt prompt) (ai_history w)" using q(6) by auto
  show "strip prompt \<noteq> []" by (rule q(1))
  show "\<exists>st. ai_status env (model_config w) = Inr st \<and> ps_status st = ''ready''" using not_ready_status(1) [OF q(2)] q(3) by blast
qed

lemma length_build: "length (build_messages sys u hist) = 2 + 2 * length hist"
  by (induction hist) (auto simp: build_messages_def)

lemma last_build: "last (build_messages sys u hist) = (''user'', JStr u)"
  by (simp add: build_messages_def)

lemma messages_of_call:
  "service_call_of stream sys ms p m = Inr c \<Longrightarrow> ms \<noteq> [] \<Longrightarrow> fst (last ms) \<noteq> ''system''
    \<Longrightarrow> length (sv_messages c) \<le> length ms \<and> last (sv_messages c) = last ms"
proof -
  have "fst (last ms) \<noteq> ''system'' \<Longrightarrow> ms \<noteq> [] \<Longrightarrow> last (filter (\<lambda>m. fst m \<noteq> ''system'') ms) = last ms"
    by (cases ms rule: rev_cases) auto
  then show "service_call_of stream sys ms p m = Inr c \<Longrightarrow> ms \<noteq> [] \<Longrightarrow> fst (last ms) \<noteq> ''system'' \<Longrightarrow> ?thesis"
    by (auto simp: service_call_of_def split: if_splits)
qed


section \<open>Witnesses\<close>

definition demo_ai_env :: ai_env where
  "demo_ai_env = jarvis_env.extend Confirmation.demo_env \<lparr>ai_mem = demo_menv, ai_getenv = (\<lambda>_. None), ai_sdk = (\<lambda>_. False),
     ai_tags = Inr (JObj [(''models'', JArr [JObj [(''name'', JStr ''llama3.2:3b'')]])]), ai_user_profile = Inr (), ai_recent_logs = ''No logs yet.'',
     ai_reply = (\<lambda>_. Inr ''hello''), ai_deltas = (\<lambda>_. ([], None))\<rparr>"

definition demo_ai_world :: ai_world where
  "demo_ai_world = jarvis_world.extend (demo_world []) \<lparr>ai_history = [], ai_history_file = None, model_config = Missing, prompt_cache = None,
     service_calls = []\<rparr>"

lemma demo_ai_parts:
  "state_file demo_ai_world = Missing" "profiles_file demo_ai_world = Doc (JObj (profile_obj []))" "memories (store demo_ai_world) = []"
  "model_config demo_ai_world = Missing" "prompt_cache demo_ai_world = None" "ai_history demo_ai_world = []" "ai_history_file demo_ai_world = None"
  "j_host demo_ai_env = test_host" "ai_user_profile demo_ai_env = Inr ()" "ai_reply demo_ai_env c = Inr ''hello''"
  by (simp_all add: demo_ai_world_def demo_ai_env_def jarvis_world.defs jarvis_env.defs demo_world_def empty_db_def Confirmation.demo_env_def)

lemma demo_profiles: "on_profiles (load_profiles test_host) demo_ai_world = (Inr (profile_obj []), demo_ai_world)"
  by (simp add: on_profiles_app demo_ai_parts demo_load(1))

lemma demo_ai_rules: "\<exists>b. rules_now demo_ai_env i a demo_ai_world = (Inr b, demo_ai_world)"
proof -
  have "on_profiles (get_session test_host) demo_ai_world = (Inr (JObj default_session), demo_ai_world)"
    by (simp add: on_profiles_app demo_ai_parts get_session_def get_section_def act_bind_app demo_load(1) demo_hi(2) act_of_def act_return_def)
  moreover have "dget_or default_session ''last_intent'' (JStr []) = JStr []" by (simp add: default_session_def session_fields_def dget_or_def)
  ultimately show ?thesis
    by (simp add: rules_now_def with_profiles_def demo_profiles demo_ai_parts act_bind_app demo_hi demo_mode build_behavior_rules_def stripped_def Let_def act_of_def)
qed

lemma demo_status:
  "case ai_status demo_ai_env Missing of Inr st \<Rightarrow> ps_status st = ''ready'' | Inl e \<Rightarrow> False"
  "get_active_provider demo_ai_env Missing = Inr (JStr ''ollama'')" "get_active_model demo_ai_env Missing = Inr (JStr ''llama3.2:3b'')"
  by code_simp+

lemma demo_prepared:
  "\<exists>q w1. prepare demo_ai_env ''hi'' demo_ai_world = (Inr (Inr q), w1) \<and> pr_provider q = JStr ''ollama''"
proof -
  from demo_ai_rules obtain b where b: "rules_now demo_ai_env ''hi'' ''ai'' demo_ai_world = (Inr b, demo_ai_world)" by blast
  from demo_status(1) obtain st where st: "ai_status demo_ai_env Missing = Inr st" "ps_status st = ''ready''" by (auto split: sum.splits)
  have blank: "strip ''hi'' \<noteq> []" by code_simp
  let ?w = "demo_ai_world\<lparr>prompt_cache := Some (prompt_key b @ fresh_prompt b)\<rparr>"
  have sys: "build_system_prompt b demo_ai_world = (Inr (fresh_prompt b), ?w)" by (simp add: build_system_prompt_def demo_ai_parts)
  have profiles: "on_profiles (load_profiles test_host) ?w = (Inr (profile_obj []), ?w)"
    by (simp add: on_profiles_app demo_ai_parts demo_load(1))
  have ai: "\<exists>ai. dget_or (profile_obj []) ''AI'' (JObj []) = JObj ai" by (simp add: profile_obj_def dget_or_def)
  have "search_memories env q n (store demo_ai_world) = []" for env :: mem_env and q n by (simp add: search_memories_def demo_ai_parts sort_by_desc_def)
  moreover have none: "dget_or [] k d = d" for k and d :: json by (simp add: dget_or_def)
  ultimately have "\<exists>t w1. user_context_message demo_ai_env pre p ?w = (Inr t, w1)" for pre p
    using ai by (auto simp: user_context_message_def relevant_memories_def demo_ai_parts profiles memory_texts_def demo_hi act_bind_app none Let_def)
  then obtain t w1 where user: "user_context_message demo_ai_env ''Conversation mode.'' ''hi'' ?w = (Inr t, w1)" by blast
  show ?thesis
    by (simp add: prepare_def blank not_ready_def demo_ai_parts b on_config_def st demo_status(2,3) sys user act_bind_app)
qed

lemma demo_exchange: "exchanges [(demo_ai_env, ''hi'')] demo_ai_world = [(JStr ''hi'', JStr ''hello'')]"
proof -
  obtain q w1 where "prepare demo_ai_env ''hi'' demo_ai_world = (Inr (Inr q), w1)" "pr_provider q = JStr ''ollama''" using demo_prepared by blast
  then show ?thesis
    by (simp add: call_model_def service_call_of_def act_bind_app act_of_def record_call_def act_modify_def demo_ai_parts)
qed



definition demo_behavior :: "string \<Rightarrow> behavior" where
  "demo_behavior style = \<lparr>response_mode = ''adaptive'', b_command_style = JStr style, b_intro_mode = JNull, b_risk = risk ''low'' [],
     repeated_status = False, repeated_unknown = False, repeated_greeting = False, same_intent_repeat = False, prefer_short = False, prefer_detailed = False\<rparr>"

theorem cached_prompts_are_fresh_witness:
  "fst (prompts [demo_behavior ''natural'', demo_behavior ''terse'', demo_behavior ''natural''] demo_ai_world)
    = Inr (map fresh_prompt [demo_behavior ''natural'', demo_behavior ''terse'', demo_behavior ''natural''])"
proof -
  have "\<forall>b \<in> set [demo_behavior ''natural'', demo_behavior ''terse'', demo_behavior ''natural'']. plain_style b" by code_simp
  from cached_prompts_are_fresh [OF demo_ai_parts(5) this] show ?thesis .
qed

text \<open>With an underscore in a style the cache gives another prompt.\<close>

lemma cached_prompt_confused:
  "fst (prompts [demo_behavior ''a_'', demo_behavior ''a''] demo_ai_world)
    = Inr [fresh_prompt (demo_behavior ''a_''), CHR ''_'' # fresh_prompt (demo_behavior ''a_'')]"
proof -
  have key: "startswith (prompt_key (demo_behavior ''a_'') @ fresh_prompt (demo_behavior ''a_'')) (prompt_key (demo_behavior ''a''))"
    "drop (length (prompt_key (demo_behavior ''a''))) (prompt_key (demo_behavior ''a_'') @ fresh_prompt (demo_behavior ''a_''))
      = CHR ''_'' # fresh_prompt (demo_behavior ''a_'')"
    "prompt_key (demo_behavior ''a_'') @ fresh_prompt (demo_behavior ''a_'') \<noteq> []" by code_simp+
  show ?thesis by (simp only: prompts.simps act_bind_app build_system_prompt_def demo_ai_parts(5)) (simp add: key act_return_def del: drop_append append_is_Nil_conv)
qed

end
