(* ===== verification/Live_Socket.thy ===== *)
theory Live_Socket
  imports Web_Gate PyDump
begin

text \<open>
  Model of the websockets of \<open>web/api.py\<close>. A live view polls what it shows and sends what changed; the socket of the live class
  has a queue of its own, into which every broadcast is put without waiting, and sends what arrives, or a ping. The socket of
  one viewer is a state machine: the broadcasts, the deliveries and the pings come in any order.
\<close>

section \<open>Live views\<close>

text \<open>Each round: what the builder returns or raises, and whether the client is still there when something is sent.\<close>

fun live_rounds :: "(json outcome \<times> bool) list \<Rightarrow> string \<Rightarrow> json list \<times> exn option" where
  "live_rounds [] last_payload = ([], None)"
| "live_rounds ((current, there) # rounds) last_payload =
     (case current of
        Inl e \<Rightarrow> ([], Some e)
      | Inr v \<Rightarrow>
          if json_dumps v = last_payload then live_rounds rounds last_payload
          else if \<not> there then ([], None)
          else (case live_rounds rounds (json_dumps v) of (vs, e) \<Rightarrow> (v # vs, e)))"

text \<open>\<open>/api/ws/live\<close>: closed with code 1008 without a credential; \<open>/api/ws/public\<close> is open to everybody.\<close>

definition ws_live ::
  "web_conf \<Rightarrow> 'e web_env_scheme \<Rightarrow> string \<Rightarrow> (json outcome \<times> bool) list \<Rightarrow> request \<Rightarrow> ('g gate_scheme, json list \<times> exn option + nat) act" where
  "ws_live conf env query rounds r =
     act_bind (websocket_auth conf env query r ''read'') (\<lambda>c.
       act_return (case c of None \<Rightarrow> Inr 1008 | Some _ \<Rightarrow> Inl (live_rounds rounds [])))"

definition ws_public :: "(json outcome \<times> bool) list \<Rightarrow> json list \<times> exn option" where
  "ws_public rounds = live_rounds rounds []"

section \<open>The socket of the live class\<close>

definition queue_size :: nat where
  "queue_size = 32"

datatype frame = Board string | Ping

record viewer_socket =
  subscribed :: bool
  connected :: bool
  vs_queue :: "string list"
  sent :: "frame list"

definition open_socket :: "string \<Rightarrow> viewer_socket" where
  "open_socket current = \<lparr>subscribed = True, connected = True, vs_queue = [], sent = [Board current]\<rparr>"

text \<open>\<open>put_nowait\<close> on a full queue raises; the broadcast then drops the subscriber.\<close>

definition put_nowait :: "string \<Rightarrow> viewer_socket \<Rightarrow> viewer_socket" where
  "put_nowait payload s =
     (if \<not> subscribed s then s
      else if length (vs_queue s) < queue_size then s\<lparr>vs_queue := vs_queue s @ [payload]\<rparr>
      else s\<lparr>subscribed := False\<rparr>)"

definition deliver :: "viewer_socket \<Rightarrow> viewer_socket" where
  "deliver s = (case vs_queue s of [] \<Rightarrow> s | p # q \<Rightarrow> s\<lparr>vs_queue := q, sent := sent s @ [Board p]\<rparr>)"

definition keepalive :: "viewer_socket \<Rightarrow> viewer_socket" where
  "keepalive s = s\<lparr>sent := sent s @ [Ping]\<rparr>"

definition disconnect :: "viewer_socket \<Rightarrow> viewer_socket" where
  "disconnect s = s\<lparr>subscribed := False, connected := False\<rparr>"

datatype socket_event = Broadcast string | Delivered | TimedOut | Closed

inductive socket_step :: "viewer_socket \<Rightarrow> socket_event \<Rightarrow> viewer_socket \<Rightarrow> bool" where
  broadcast: "socket_step s (Broadcast p) (put_nowait p s)"
| delivered: "connected s \<Longrightarrow> vs_queue s \<noteq> [] \<Longrightarrow> socket_step s Delivered (deliver s)"
| timed_out: "connected s \<Longrightarrow> vs_queue s = [] \<Longrightarrow> socket_step s TimedOut (keepalive s)"
| closed: "connected s \<Longrightarrow> socket_step s Closed (disconnect s)"

code_pred (modes: i \<Rightarrow> i \<Rightarrow> o \<Rightarrow> bool) socket_step .

inductive_cases broadcastE: "socket_step s (Broadcast p) t"
inductive_cases deliveredE: "socket_step s Delivered t"
inductive_cases timed_outE: "socket_step s TimedOut t"
inductive_cases closedE: "socket_step s Closed t"
inductive_simps broadcast_step [simp]: "socket_step s (Broadcast p) t"

text \<open>A socket, the events since it was opened and what has been broadcast since then.\<close>

inductive socket_run :: "string \<Rightarrow> socket_event list \<Rightarrow> viewer_socket \<Rightarrow> bool" for current where
  opened: "socket_run current [] (open_socket current)"
| stepped: "socket_run current es s \<Longrightarrow> socket_step s e t \<Longrightarrow> socket_run current (es @ [e]) t"

fun payloads :: "socket_event list \<Rightarrow> string list" where
  "payloads [] = []"
| "payloads (Broadcast p # es) = p # payloads es"
| "payloads (_ # es) = payloads es"

fun boards :: "frame list \<Rightarrow> string list" where
  "boards [] = []"
| "boards (Board p # fs) = p # boards fs"
| "boards (Ping # fs) = boards fs"

lemma payloads_append [simp]: "payloads (es @ es') = payloads es @ payloads es'"
  by (induction es rule: payloads.induct) simp_all

lemma boards_append [simp]: "boards (fs @ gs) = boards fs @ boards gs"
  by (induction fs rule: boards.induct) simp_all

section \<open>Properties: the socket of the live class\<close>

definition in_order :: "string \<Rightarrow> socket_event list \<Rightarrow> viewer_socket \<Rightarrow> bool" where
  "in_order current es s \<longleftrightarrow> length (vs_queue s) \<le> queue_size \<and> (subscribed s \<longrightarrow> connected s)
     \<and> (\<exists>missed. current # payloads es = boards (sent s) @ vs_queue s @ missed \<and> (subscribed s \<longrightarrow> missed = []))"

lemma in_order_step: "socket_step s e t \<Longrightarrow> in_order current es s \<Longrightarrow> in_order current (es @ [e]) t"
proof (induction rule: socket_step.induct)
  case (broadcast s p)
  then obtain missed where m: "length (vs_queue s) \<le> queue_size" "subscribed s \<longrightarrow> connected s"
    "current # payloads es = boards (sent s) @ vs_queue s @ missed" "subscribed s \<longrightarrow> missed = []" by (auto simp: in_order_def)
  consider "\<not> subscribed s" | "subscribed s" "length (vs_queue s) < queue_size" | "subscribed s" "\<not> length (vs_queue s) < queue_size" by blast
  then show ?case
  proof cases
    case 1
    then show ?thesis using m unfolding in_order_def by (intro conjI exI [of _ "missed @ [p]"]) (simp_all add: put_nowait_def)
  next
    case 2
    then show ?thesis using m unfolding in_order_def by (intro conjI exI [of _ "[]"]) (simp_all add: put_nowait_def)
  next
    case 3
    then show ?thesis using m unfolding in_order_def by (intro conjI exI [of _ "[p]"]) (simp_all add: put_nowait_def)
  qed
next
  case (delivered s)
  then show ?case by (cases "vs_queue s") (auto simp: in_order_def deliver_def)
next
  case (timed_out s)
  then show ?case by (auto simp: in_order_def keepalive_def)
next
  case (closed s)
  then show ?case by (auto simp: in_order_def disconnect_def)
qed

lemma run_in_order: "socket_run current es s \<Longrightarrow> in_order current es s"
proof (induction rule: socket_run.induct)
  case opened
  then show ?case by (simp add: in_order_def open_socket_def)
next
  case (stepped es s e t)
  then show ?case by (blast intro: in_order_step)
qed

text \<open>C37: a viewer sees the class in order. Whatever the order of broadcasts, deliveries and time-outs, the boards sent to a
  viewer, followed by those in its queue of at most 32, are a prefix of the board at the time it connected and the boards
  broadcast since then; while it is subscribed nothing is missing, and once the queue is empty it has seen them all.\<close>

theorem viewer_sees_class_in_order:
  assumes "socket_run current es s"
  shows "length (vs_queue s) \<le> 32 \<and> prefix (boards (sent s) @ vs_queue s) (current # payloads es)
    \<and> (subscribed s \<longrightarrow> boards (sent s) @ vs_queue s = current # payloads es)
    \<and> (subscribed s \<longrightarrow> vs_queue s = [] \<longrightarrow> boards (sent s) = current # payloads es)"
  using run_in_order [OF assms] by (auto simp: in_order_def queue_size_def prefix_def)

text \<open>A viewer that was dropped stays connected and gets no more than what was in its queue, whatever is broadcast.\<close>

lemma dropped_gets_no_more:
  "socket_step s e t \<Longrightarrow> \<not> subscribed s \<Longrightarrow> \<not> subscribed t \<and> boards (sent t) @ vs_queue t = boards (sent s) @ vs_queue s"
  by (induction rule: socket_step.induct) (auto simp: put_nowait_def deliver_def keepalive_def disconnect_def split: list.split)

section \<open>Properties: live views\<close>

lemma live_rounds_change:
  "fst (live_rounds rounds l) = v # vs \<Longrightarrow> json_dumps v \<noteq> l"
  by (induction rounds l arbitrary: v vs rule: live_rounds.induct) (auto split: sum.splits if_splits prod.splits)

lemma live_rounds_adjacent: "distinct_adj (map json_dumps (fst (live_rounds rounds l)))"
proof (induction rounds l rule: live_rounds.induct)
  case (2 current there rounds l)
  show ?case
  proof (cases current)
    case (Inr v)
    have ne: "hd (fst (live_rounds rounds (json_dumps v))) = u \<Longrightarrow> fst (live_rounds rounds (json_dumps v)) \<noteq> [] \<Longrightarrow> json_dumps u \<noteq> json_dumps v" for u
      using live_rounds_change [of rounds "json_dumps v"] by (cases "fst (live_rounds rounds (json_dumps v))") auto
    show ?thesis using 2 Inr ne by (auto simp: distinct_adj_Cons hd_map split: prod.splits) 
  qed simp
qed simp

section \<open>Witness\<close>

definition demo_events :: "socket_event list" where
  "demo_events = [Broadcast ''b1'', Broadcast ''b2'', Delivered]"

theorem viewer_sees_class_in_order_witness:
  "\<exists>s. socket_run ''b0'' demo_events s \<and> subscribed s \<and> boards (sent s) @ vs_queue s = [''b0'', ''b1'', ''b2''] \<and> vs_queue s = [''b2'']"
proof -
  let ?s = "deliver (put_nowait ''b2'' (put_nowait ''b1'' (open_socket ''b0'')))"
  have s: "put_nowait ''b2'' (put_nowait ''b1'' (open_socket ''b0'')) = \<lparr>subscribed = True, connected = True, vs_queue = [''b1'', ''b2''], sent = [Board ''b0'']\<rparr>"
    by (simp add: put_nowait_def open_socket_def queue_size_def)
  have "socket_run ''b0'' ([] @ [Broadcast ''b1'']) (put_nowait ''b1'' (open_socket ''b0''))" by (rule socket_run.stepped [OF socket_run.opened broadcast])
  from socket_run.stepped [OF this broadcast] have "socket_run ''b0'' ([Broadcast ''b1'', Broadcast ''b2''])
    (put_nowait ''b2'' (put_nowait ''b1'' (open_socket ''b0'')))" by simp
  from socket_run.stepped [OF this delivered] have run: "socket_run ''b0'' demo_events ?s" by (simp add: s demo_events_def)
  have "subscribed ?s" "vs_queue ?s = [''b2'']" by (simp_all add: s deliver_def)
  with viewer_sees_class_in_order [OF run] run show ?thesis by (auto simp: demo_events_def)
qed

end
