(* ===== verification/Web_State.thy ===== *)
theory Web_State
  imports Web_Api Dashboard_State Device_Registry
begin

text \<open>
  Model of the views of \<open>web/api.py\<close>: liveness, the report of the doctor, the status and the state for the owner, the state for
  visitors, the session, the journal of events, and the configuration and the sources of the public chat. The
  files are those of the other processes; the listener's pid, the network and the clock are parameters. The dash in the message of
  the missing report of the doctor, which is no 8-bit character, is written as a hyphen.
\<close>

section \<open>World\<close>

record site_world = api_world +
  device_file :: state_doc
  event_cache :: journal

record site_env = api_env +
  st_listener :: bool
  st_doctor :: state_doc
  st_device :: device_env
  st_host :: string
  st_os :: string
  st_clock :: string
  st_connected :: bool
  st_hours_ago :: "int \<Rightarrow> string"
  st_site_root :: string
  st_chat_log :: string

text \<open>The last elements of a value.\<close>

fun py_last :: "nat \<Rightarrow> json \<Rightarrow> json outcome" where
  "py_last n (JArr xs) = Inr (JArr (lastn n xs))"
| "py_last n (JStr s) = Inr (JStr (lastn n s))"
| "py_last n _ = Inl TypeError"

definition dict_of :: "obj \<Rightarrow> string \<Rightarrow> obj outcome" where
  "dict_of d k = as_obj (dget_or d k (JObj []))"

definition state_json :: "'w site_world_scheme \<Rightarrow> json" where
  "state_json w = read_json (state_file (jarvis w))"

definition profiles_json :: "'w site_world_scheme \<Rightarrow> json" where
  "profiles_json w = read_json (profiles_file (jarvis w))"

definition stamp_field :: "'e api_env_scheme \<Rightarrow> string \<times> json" where
  "stamp_field env = (''ts'', JStr (r_ts (f_record env)))"

section \<open>Liveness\<close>

definition jarvis_ok :: "'e api_env_scheme \<Rightarrow> bool" where
  "jarvis_ok env = (c_jarvis_error env = None)"

definition get_health :: "'e site_env_scheme \<Rightarrow> obj" where
  "get_health env = [(''ok'', JBool True), stamp_field env, (''listener_online'', JBool (st_listener env)), (''jarvis_ok'', JBool (jarvis_ok env))]"

definition with_status :: "string \<Rightarrow> json \<Rightarrow> json list outcome" where
  "with_status s v = and_then (py_iter v) (filter_out (\<lambda>c. and_then (as_obj c) (\<lambda>d. Inr (jget d ''status'' = JStr s))))"

definition get_health_detail :: "'e site_env_scheme \<Rightarrow> obj outcome" where
  "get_health_detail env =
     (let v = read_json (st_doctor env) in
      if \<not> truthy v then Inr [(''ok'', JBool True), (''available'', JBool False), (''message'', JStr ''No doctor report found - run: bash scripts/doctor.sh'')]
      else
        and_then (as_obj v) (\<lambda>d.
        and_then (with_status ''FAIL'' (dget_or d ''checks'' (JArr []))) (\<lambda>critical.
        and_then (with_status ''WARN'' (dget_or d ''checks'' (JArr []))) (\<lambda>warnings.
          Inr [(''ok'', JBool True), (''available'', JBool True), (''timestamp_utc'', dget_or d ''timestamp_utc'' (JStr [])),
               (''summary'', dget_or d ''summary'' (JObj [])), (''critical'', JArr critical), (''warnings'', JArr (take 20 warnings)),
               (''warning_count'', JInt (int (length warnings))), stamp_field env]))))"

section \<open>Status and state\<close>

text \<open>\<open>verify_current_device\<close>, or an empty dict where it raises or could not be imported.\<close>

definition device_check :: "'e site_env_scheme \<Rightarrow> 'w site_world_scheme \<Rightarrow> verification option" where
  "device_check env w =
     (if jarvis_ok env then (case verify_current_device (st_device env) (device_file w) of Inr v \<Rightarrow> Some v | Inl _ \<Rightarrow> None) else None)"

definition dev :: "verification option \<Rightarrow> (verification \<Rightarrow> json) \<Rightarrow> json \<Rightarrow> json" where
  "dev v f d = (case v of Some x \<Rightarrow> f x | None \<Rightarrow> d)"

definition get_status :: "'e site_env_scheme \<Rightarrow> 'w site_world_scheme \<Rightarrow> obj outcome" where
  "get_status env w =
     and_then (as_obj (profiles_json w)) (\<lambda>profiles.
     let ses = dget_or profiles ''session'' (JObj []); v = device_check env w in
     and_then (as_obj (state_json w)) (\<lambda>s.
     and_then (dict_of s ''workflow'') (\<lambda>flow.
     and_then (py_len (dget_or s ''memory'' (JArr []))) (\<lambda>n.
     and_then (as_obj ses) (\<lambda>sd. Inr
       [(''hostname'', JStr (st_host env)), (''os'', JStr (st_os env)), (''time'', JStr (st_clock env)),
        (''connectivity'', JStr (if st_connected env then ''Connected'' else ''Offline'')), (''listener_online'', JBool (st_listener env)),
        (''jarvis_online'', JBool (jarvis_ok env)),
        (''current_focus'', py_or (jget flow ''current_focus'') (JStr ''none'')), (''memory_count'', JInt (int n)),
        (''last_command'', dget_or sd ''last_command'' (JStr ''none'')), (''last_action'', dget_or sd ''last_action'' (JStr ''none'')),
        (''last_risk_tier'', dget_or sd ''last_risk_tier'' (JStr ''none'')),
        (''device_registered'', dev v (\<lambda>x. JBool (vf_registered x)) (JBool False)),
        (''device_trusted'', dev v (\<lambda>x. JBool (vf_trusted x)) (JBool False)),
        (''device_fingerprint'', dev v (\<lambda>x. JStr (vf_current_fp x)) (JStr [])),
        (''device_trust_match'', dev v (\<lambda>x. JStr (vf_match x)) (JStr ''none''))])))))"

definition text_fields :: "obj \<Rightarrow> string list \<Rightarrow> obj" where
  "text_fields d ks = map (\<lambda>k. (k, dget_or d k (JStr []))) ks"

definition get_state :: "'e site_env_scheme \<Rightarrow> 'w site_world_scheme \<Rightarrow> obj outcome" where
  "get_state env w =
     and_then (as_obj (profiles_json w)) (\<lambda>profiles.
     and_then (as_obj (state_json w)) (\<lambda>s.
     let v = device_check env w; mems = dget_or s ''memory'' (JArr []) in
     and_then (dict_of s ''profile'') (\<lambda>hi.
     and_then (dict_of profiles ''HI'') (\<lambda>hp.
     and_then (dict_of profiles ''AI'') (\<lambda>ai.
     and_then (py_last 5 mems) (\<lambda>recent.
     and_then (py_len mems) (\<lambda>n. Inr
       [(''hi'', JObj (text_fields hi [''display_name'', ''name'', ''domain'', ''website'', ''email'', ''brand'', ''company'', ''language'']
            @ [(''role'', dget_or hp ''role'' (JStr ''owner''))])),
        (''ai'', JObj [(''name'', dget_or ai ''name'' (JStr ''Jarvis'')), (''type'', dget_or ai ''type'' (JStr [])),
            (''role'', dget_or ai ''role'' (JStr [])), (''mode'', dget_or ai ''mode'' (JStr ''assistant'')),
            (''capabilities'', dget_or ai ''capabilities'' (JArr []))]),
        (''preferences'', dget_or s ''preferences'' (JObj [])), (''workflow'', dget_or s ''workflow'' (JObj [])),
        (''memory'', recent), (''memory_count'', JInt (int n)),
        (''device'', JObj [(''registered'', dev v (\<lambda>x. JBool (vf_registered x)) (JBool False)),
            (''trusted'', dev v (\<lambda>x. JBool (vf_trusted x)) (JBool False)), (''label'', dev v vf_label (JStr [])),
            (''registered_at'', dev v vf_registered_at (JStr [])), (''fingerprint'', dev v (\<lambda>x. JStr (vf_current_fp x)) (JStr [])),
            (''trust_match'', dev v (\<lambda>x. JStr (vf_match x)) (JStr ''none''))])])))))))"

definition get_session_view :: "'w site_world_scheme \<Rightarrow> json outcome" where
  "get_session_view w = and_then (as_obj (profiles_json w)) (\<lambda>d. Inr (dget_or d ''session'' (JObj [])))"

definition get_live :: "'e site_env_scheme \<Rightarrow> 'w site_world_scheme \<Rightarrow> obj outcome" where
  "get_live env w =
     and_then (get_status env w) (\<lambda>a. and_then (get_state env w) (\<lambda>b. Inr [(''status'', JObj a), (''state'', JObj b)]))"

section \<open>The public chat: configuration and sources\<close>

definition get_public_chat_config :: "'e site_env_scheme \<Rightarrow> obj outcome" where
  "get_public_chat_config env =
     and_then (public_chat_config (c_base env) (c_config env)) (\<lambda>c. Inr
       [(''enabled'', JBool (cc_enabled c)), (''fallback'', JBool (cc_fallback c)), (''rpm'', JInt (cc_rpm c)),
        (''provider'', JStr (cc_provider c)), (''model'', JStr (cc_model c)), (''prompt'', JStr (cc_prompt c)),
        (''active_provider'', JStr (if cc_provider c \<noteq> [] then cc_provider c else fst (c_active env))),
        (''active_model'', JStr (if cc_model c \<noteq> [] then cc_model c else snd (c_active env))),
        (''site_root'', JStr (st_site_root env)), (''log_path'', JStr (st_chat_log env))])"

record knowledge_page =
  kp_name :: string
  kp_path :: string
  kp_available :: bool
  kp_chars :: nat

definition knowledge_status :: "'e chat_env_scheme \<Rightarrow> knowledge_page list" where
  "knowledge_status env = map (\<lambda>(label, path, n).
     \<lparr>kp_name = label, kp_path = path, kp_available = (c_site env path \<noteq> None), kp_chars = length (site_text (c_site env) path n)\<rparr>) knowledge_pages"

definition total_chars :: "knowledge_page list \<Rightarrow> nat" where
  "total_chars ps = sum_list (map kp_chars ps)"

definition loaded_pages :: "knowledge_page list \<Rightarrow> nat" where
  "loaded_pages ps = length (filter kp_available ps)"

section \<open>The state for visitors\<close>

definition shown_memory :: "obj \<Rightarrow> json" where
  "shown_memory m = JObj
     [(''type'', dget_or m ''type'' (JStr ''note'')), (''text'', py_or (dget_or m ''text'' (JStr [])) (dget_or m ''event'' (JStr []))),
      (''tag'', dget_or m ''tag'' (JStr [])), (''importance'', dget_or m ''importance'' (JInt 3)), (''created_at'', dget_or m ''created_at'' (JStr []))]"

definition shown_task :: "obj \<Rightarrow> json" where
  "shown_task t = JObj (text_fields t [''title'', ''status'', ''due''])"

definition status_line :: "bool \<Rightarrow> string \<Rightarrow> nat \<Rightarrow> nat \<Rightarrow> nat \<Rightarrow> nat \<Rightarrow> string" where
  "status_line enabled model_bits n_loaded n_all mems requests =
     join [CHR '' '', char_of (183::nat), CHR '' '']
       ([''Public chat '' @ (if enabled then ''on'' else ''off'')] @ (if model_bits = [] then [] else [model_bits])
        @ [''Knowledge '' @ show_nat n_loaded @ ''/'' @ show_nat n_all @ '' pages'', show_nat mems @ '' public memories'',
           show_nat requests @ '' public requests''])"

definition get_public_state :: "'e site_env_scheme \<Rightarrow> 'w site_world_scheme \<Rightarrow> obj outcome" where
  "get_public_state env w =
     and_then (enrich_dashboard_state (r_ts (f_record env)) (state_json w)) (\<lambda>s.
     and_then (public_chat_config (c_base env) (c_config env)) (\<lambda>c.
     and_then (get_public_intake_summary 100 (intake_log w)) (\<lambda>intake.
     and_then (py_iter (dget_or s ''memory'' (JArr []))) (\<lambda>mems.
     and_then (dict_of s ''workflow'') (\<lambda>flow.
     and_then (py_iter (dget_or flow ''tasks'' (JArr []))) (\<lambda>tasks.
     and_then (filter_out open_task tasks) (\<lambda>active.
     and_then (dict_of s ''profile'') (\<lambda>p.
       let pages = knowledge_status env;
           public = lastn 12 (map (\<lambda>m. shown_memory (fields_of m)) (filter public_item mems));
           open = take 8 (map (\<lambda>t. shown_task (fields_of t)) active);
           provider = (if cc_provider c \<noteq> [] then cc_provider c else fst (c_active env));
           model = (if cc_model c \<noteq> [] then cc_model c else snd (c_active env));
           model_bits = join '' / '' (filter (\<lambda>t. t \<noteq> []) [provider, model]) in
       Inr
         [(''profile'', JObj [(''display_name'', dget_or p ''display_name'' (JStr [])),
             (''public_name'', dget_or p ''public_name'' (dget_or p ''name'' (JStr []))), (''domain'', dget_or p ''domain'' (JStr [])),
             (''website'', dget_or p ''website'' (JStr ''https://kingofyadav.in'')), (''brand'', dget_or p ''brand'' (JStr [])),
             (''company'', dget_or p ''company'' (JStr [])), (''language'', dget_or p ''language'' (JStr []))]),
          (''workflow'', JObj [(''current_focus'', dget_or flow ''current_focus'' (JStr [])), (''status'', dget_or flow ''status'' (JStr [])),
             (''open_tasks'', JArr open)]),
          (''web'', JObj [(''public_chat_enabled'', JBool (cc_enabled c)), (''fallback_enabled'', JBool (cc_fallback c)),
             (''rate_limit_rpm'', JInt (cc_rpm c)), (''provider'', JStr provider), (''model'', JStr model),
             (''knowledge_loaded'', JInt (int (loaded_pages pages))), (''knowledge_total'', JInt (int (length pages))),
             (''knowledge_chars'', JInt (int (total_chars pages))), (''intake_count'', JInt (int (i_count intake))),
             (''enquiry_count'', JInt (int (i_enquiries intake))), (''signup_count'', JInt (int (i_signups intake))),
             (''status_line'', JStr (status_line (cc_enabled c) model_bits (loaded_pages pages) (length pages) (length public) (i_count intake)))]),
          (''public_memories'', JArr public), (''public_memory_count'', JInt (int (length public))), stamp_field env]))))))))"

section \<open>The views as endpoints\<close>

definition read_view :: "web_conf \<Rightarrow> 'e api_env_scheme \<Rightarrow> Web_Gate.request \<Rightarrow> ('w site_world_scheme \<Rightarrow> 'a outcome) \<Rightarrow> ('w site_world_scheme, 'a) act" where
  "read_view conf env r g = act_bind (require_scope conf env r ''read'') (\<lambda>_. \<lambda>w. (g w, w))"

definition status_view :: "web_conf \<Rightarrow> 'e site_env_scheme \<Rightarrow> Web_Gate.request \<Rightarrow> ('w site_world_scheme, obj) act" where
  "status_view conf env r = read_view conf env r (get_status env)"

definition state_view :: "web_conf \<Rightarrow> 'e site_env_scheme \<Rightarrow> Web_Gate.request \<Rightarrow> ('w site_world_scheme, obj) act" where
  "state_view conf env r = read_view conf env r (get_state env)"

definition session_view :: "web_conf \<Rightarrow> 'e site_env_scheme \<Rightarrow> Web_Gate.request \<Rightarrow> ('w site_world_scheme, json) act" where
  "session_view conf env r = read_view conf env r get_session_view"

definition live_view :: "web_conf \<Rightarrow> 'e site_env_scheme \<Rightarrow> Web_Gate.request \<Rightarrow> ('w site_world_scheme, obj) act" where
  "live_view conf env r = read_view conf env r (get_live env)"

definition health_detail_view :: "web_conf \<Rightarrow> 'e site_env_scheme \<Rightarrow> Web_Gate.request \<Rightarrow> ('w site_world_scheme, obj) act" where
  "health_detail_view conf env r = read_view conf env r (\<lambda>_. get_health_detail env)"

definition chat_config_view :: "web_conf \<Rightarrow> 'e site_env_scheme \<Rightarrow> Web_Gate.request \<Rightarrow> ('w site_world_scheme, obj) act" where
  "chat_config_view conf env r = read_view conf env r (\<lambda>_. get_public_chat_config env)"

definition chat_history_view :: "web_conf \<Rightarrow> 'e site_env_scheme \<Rightarrow> Web_Gate.request \<Rightarrow> ('w site_world_scheme, json list) act" where
  "chat_history_view conf env r = read_view conf env r (\<lambda>w. Inr (chat_history (chat_log w)))"

section \<open>The journal\<close>

record journal_query =
  jq_hours :: int
  jq_from :: "string option"
  jq_to :: "string option"
  jq_source :: "string option"
  jq_type :: "string option"
  jq_limit :: int

record journal_answer =
  ja_events :: "event_row list"
  ja_sources :: "string list"
  ja_types :: "string list"
  ja_from :: string

definition on_journal :: "(journal \<Rightarrow> 'a outcome \<times> journal) \<Rightarrow> ('w site_world_scheme, 'a) act" where
  "on_journal g = (\<lambda>w. case g (event_cache w) of (r, j) \<Rightarrow> (r, w\<lparr>event_cache := j\<rparr>))"

definition resolved_from :: "'e site_env_scheme \<Rightarrow> journal_query \<Rightarrow> string" where
  "resolved_from env q = (case jq_from q of Some (c # t) \<Rightarrow> c # t | _ \<Rightarrow> st_hours_ago env (max 1 (jq_hours q)))"

definition journal_view :: "web_conf \<Rightarrow> 'e site_env_scheme \<Rightarrow> journal_query \<Rightarrow> Web_Gate.request \<Rightarrow> ('w site_world_scheme, journal_answer) act" where
  "journal_view conf env q r =
     act_bind (require_scope conf env r ''read'') (\<lambda>_.
       if jq_limit q < 1 \<or> jq_limit q > 500 then act_raise (HTTPException 400 ''limit must be between 1 and 500'')
       else
         act_bind (on_journal (query_events \<lparr>q_from = Some (resolved_from env q), q_to = jq_to q, q_source = jq_source q, q_type = jq_type q,
           q_limit = jq_limit q\<rparr>)) (\<lambda>es.
         act_bind (on_journal event_sources) (\<lambda>ss.
         act_bind (on_journal event_types) (\<lambda>ts.
         act_return \<lparr>ja_events = es, ja_sources = ss, ja_types = ts, ja_from = resolved_from env q\<rparr>))))"

section \<open>What visitors see\<close>

lemma sub_dict_dset: "k \<noteq> k' \<Longrightarrow> sub_dict k (dset k' v s) = sub_dict k s"
  by (simp add: sub_dict_def)

lemma enrich_memory_of: "dget s ''memory'' = Some (JArr ms) \<Longrightarrow> enrich_memory s = (if ms = [] then public_memory_seed else ms)"
  by (cases ms) (auto simp: enrich_memory_def dget_or_def)

lemma enrich_ok: "(\<exists>t. enrich_dashboard_state now (JObj s) = Inr t) \<longleftrightarrow> (\<exists>m. as_obj (dget_or s ''dashboard_seed'' (JObj [])) = Inr m)"
  by (auto simp: enrich_dashboard_state_def Let_def dget_or_def on_dict_get)

lemma enrich_fails: "enrich_dashboard_state now (JObj s) = Inl e \<longleftrightarrow> as_obj (dget_or s ''dashboard_seed'' (JObj [])) = Inl e"
  by (auto simp: enrich_dashboard_state_def Let_def dget_or_def on_dict_get and_then_def split: sum.splits)


definition demo_view_env :: site_env where
  "demo_view_env = api_env.extend demo_api_env \<lparr>st_listener = True, st_doctor = Missing, st_device = demo_device ''s'', st_host = ''box'',
     st_os = ''Linux'', st_clock = ''12:00:00'', st_connected = True, st_hours_ago = (\<lambda>_. []), st_site_root = ''/site'', st_chat_log = ''/log''\<rparr>"

definition demo_view_world :: "json list \<Rightarrow> site_world" where
  "demo_view_world ms = api_world.extend (demo_api_world\<lparr>jarvis := (demo_world [])\<lparr>state_file := Doc (JObj (demo_public_state ms))\<rparr>\<rparr>)
     \<lparr>device_file = Missing, event_cache = \<lparr>j_files = [], j_mtimes = [], j_cache = None\<rparr>\<rparr>"


end
