(* ===== verification/Web_Sync.thy ===== *)
theory Web_Sync
  imports Web_Api Device_Sync
begin

text \<open>
  Model of the endpoints of \<open>web/api.py\<close> that other devices call: the manifest, pulling and pushing memories, the summary of the
  state, and the administration of the peers. They check a scope of the gate, and pushing also the secret of the peers, and then
  act on the part of the world \<open>Device_Sync\<close> describes.
\<close>

section \<open>World\<close>

record peer_site = gate +
  sync :: sync_world

record peer_env =
  pe_web :: web_env
  pe_sync :: sync_env
  pe_sync_ok :: bool
  pe_registry :: obj
  pe_state :: state_doc
  pe_latency :: int

definition on_sync :: "(sync_world, 'a) act \<Rightarrow> ('w peer_site_scheme, 'a) act" where
  "on_sync m = (\<lambda>w. case m (sync w) of (r, s) \<Rightarrow> (r, w\<lparr>sync := s\<rparr>))"

text \<open>Every endpoint needs the command scope, then the module.\<close>

definition sync_endpoint ::
  "web_conf \<Rightarrow> peer_env \<Rightarrow> Web_Gate.request \<Rightarrow> ('w peer_site_scheme, 'a) act \<Rightarrow> ('w peer_site_scheme, 'a) act" where
  "sync_endpoint conf env r m =
     act_bind (require_scope conf (pe_web env) r ''command'') (\<lambda>_.
       if pe_sync_ok env then m else act_raise (HTTPException 503 ''Sync module not available''))"

section \<open>Endpoints\<close>

definition sync_manifest :: "web_conf \<Rightarrow> peer_env \<Rightarrow> Web_Gate.request \<Rightarrow> ('w peer_site_scheme, obj) act" where
  "sync_manifest conf env r = sync_endpoint conf env r (on_sync (local_manifest (pe_sync env) (pe_registry env)))"

definition sync_pull_memories :: "web_conf \<Rightarrow> peer_env \<Rightarrow> json \<Rightarrow> Web_Gate.request \<Rightarrow> ('w peer_site_scheme, mem_row list) act" where
  "sync_pull_memories conf env since r =
     sync_endpoint conf env r (on_sync (act_get (\<lambda>w. shareable_memories (pe_sync env) since (store w))))"

definition push_cap :: nat where
  "push_cap = 500"

definition sync_push_memories :: "web_conf \<Rightarrow> peer_env \<Rightarrow> obj list \<Rightarrow> string \<Rightarrow> Web_Gate.request \<Rightarrow> ('w peer_site_scheme, nat \<times> nat) act" where
  "sync_push_memories conf env pushed label r =
     sync_endpoint conf env r
       (act_bind (act_of (validate_peer_secret conf r)) (\<lambda>_.
        on_sync (lift_db (merge_incoming (pe_sync env) (if strip label = [] then ''unknown'' else strip label) (map JObj (take push_cap pushed)) 0 0))))"

definition sync_state_summary :: "web_conf \<Rightarrow> peer_env \<Rightarrow> Web_Gate.request \<Rightarrow> ('w peer_site_scheme, obj) act" where
  "sync_state_summary conf env r = sync_endpoint conf env r (act_return (state_summary (pe_sync env) (pe_state env)))"

definition sync_status :: "web_conf \<Rightarrow> peer_env \<Rightarrow> Web_Gate.request \<Rightarrow> ('w peer_site_scheme, obj) act" where
  "sync_status conf env r = sync_endpoint conf env r (on_sync (get_sync_status (pe_sync env)))"

definition sync_peers :: "web_conf \<Rightarrow> peer_env \<Rightarrow> Web_Gate.request \<Rightarrow> ('w peer_site_scheme, json) act" where
  "sync_peers conf env r = sync_endpoint conf env r (on_sync load_peers)"

definition sync_add_peer :: "web_conf \<Rightarrow> peer_env \<Rightarrow> string \<Rightarrow> string \<Rightarrow> bool \<Rightarrow> string \<Rightarrow> Web_Gate.request \<Rightarrow> ('w peer_site_scheme, obj) act" where
  "sync_add_peer conf env url label trusted secret r =
     sync_endpoint conf env r
       (if strip url = [] then act_raise (HTTPException 400 ''url is required'')
        else on_sync (add_peer (pe_sync env) url label trusted secret))"

definition sync_remove_peer :: "web_conf \<Rightarrow> peer_env \<Rightarrow> string \<Rightarrow> Web_Gate.request \<Rightarrow> ('w peer_site_scheme, string) act" where
  "sync_remove_peer conf env peer_id r =
     sync_endpoint conf env r
       (act_bind (on_sync (remove_peer peer_id)) (\<lambda>removed.
          if removed then act_return peer_id else act_raise (HTTPException 404 ''Peer not found'')))"

definition sync_run :: "web_conf \<Rightarrow> peer_env \<Rightarrow> Web_Gate.request \<Rightarrow> ('w peer_site_scheme, obj) act" where
  "sync_run conf env r = sync_endpoint conf env r (on_sync (sync_all_peers (pe_sync env)))"

text \<open>The first peer with the identifier or the address.\<close>

fun first_peer :: "string \<Rightarrow> json list \<Rightarrow> obj option outcome" where
  "first_peer key [] = Inr None"
| "first_peer key (v # vs) =
     and_then (as_obj v) (\<lambda>p. if jget p ''id'' = JStr key \<or> jget p ''url'' = JStr key then Inr (Some p) else first_peer key vs)"

definition sync_peer_health :: "web_conf \<Rightarrow> peer_env \<Rightarrow> string \<Rightarrow> Web_Gate.request \<Rightarrow> ('w peer_site_scheme, obj) act" where
  "sync_peer_health conf env peer_id r =
     sync_endpoint conf env r
       (act_bind (on_sync load_peers) (\<lambda>v.
        act_bind (act_of (and_then (py_iter v) (first_peer peer_id))) (\<lambda>found.
        case found of
          None \<Rightarrow> act_raise (HTTPException 404 ''Peer not found'')
        | Some p \<Rightarrow>
            act_bind (act_of (and_then (subscript p ''url'') the_str)) (\<lambda>url.
            on_sync (check_peer_health (pe_sync env) (pe_latency env) url)))))"

section \<open>The endpoints are guarded\<close>

lemma sync_check: "keeps sync (require_scope conf env r s)"
  by (rule keeps_gate) simp

lemma endpoint_guarded:
  "guarded (require_scope conf (pe_web env) r ''command'') (sync_endpoint conf env r m) sync"
  unfolding sync_endpoint_def by (rule guarded_bind [OF sync_check])

interpretation manifest: guarded "require_scope conf (pe_web env) r ''command''" "sync_manifest conf env r" sync for conf env r
  unfolding sync_manifest_def by (rule endpoint_guarded)

interpretation pull: guarded "require_scope conf (pe_web env) r ''command''" "sync_pull_memories conf env since r" sync for conf env since r
  unfolding sync_pull_memories_def by (rule endpoint_guarded)

interpretation push: guarded "require_scope conf (pe_web env) r ''command''" "sync_push_memories conf env pushed label r" sync for conf env pushed label r
  unfolding sync_push_memories_def by (rule endpoint_guarded)

interpretation add: guarded "require_scope conf (pe_web env) r ''command''" "sync_add_peer conf env url label t secret r" sync for conf env url label t secret r
  unfolding sync_add_peer_def by (rule endpoint_guarded)

interpretation remove: guarded "require_scope conf (pe_web env) r ''command''" "sync_remove_peer conf env i r" sync for conf env i r
  unfolding sync_remove_peer_def by (rule endpoint_guarded)

interpretation run: guarded "require_scope conf (pe_web env) r ''command''" "sync_run conf env r" sync for conf env r
  unfolding sync_run_def by (rule endpoint_guarded)

section \<open>Properties\<close>

lemma on_sync_Inr: "on_sync m w = (Inr x, w') \<longleftrightarrow> (\<exists>s. m (sync w) = (Inr x, s) \<and> w' = w\<lparr>sync := s\<rparr>)"
  by (auto simp: on_sync_def split: prod.splits)

lemma endpoint_Inr:
  "sync_endpoint conf env r m w = (Inr x, w') \<longleftrightarrow>
     (\<exists>c w1. require_scope conf (pe_web env) r ''command'' w = (Inr c, w1) \<and> pe_sync_ok env \<and> m w1 = (Inr x, w'))"
  by (auto simp: sync_endpoint_def act_bind_Inr act_raise_def)

lemma upsert_known:
  assumes "memdb_ok db" "upsert_memory env True e db = (i, db')"
  shows "find_row i db' \<noteq> None" and "find_row j db \<noteq> None \<Longrightarrow> find_row j db' \<noteq> None"
proof -
  have inserted: "db' = snd (upsert_memory env False e db) \<and> i = entry_id env e \<or> db' = db \<and> find_duplicate e db = Some i"
    using assms(2) by (auto simp: upsert_memory_def Let_def split: option.splits if_splits)
  have "find_duplicate e db = Some i \<Longrightarrow> find_row i db \<noteq> None"
    by (auto simp: find_duplicate_def Let_def find_row_None find_Some_iff split: if_splits)
  then show "find_row i db' \<noteq> None" "find_row j db \<noteq> None \<Longrightarrow> find_row j db' \<noteq> None"
    using inserted find_row_upsert [OF assms(1), of _ env e] by auto
qed

definition sent_id :: "json \<Rightarrow> string" where
  "sent_id v = (case v of JObj m \<Rightarrow> py_str (dget_or m ''id'' (JStr [])) | _ \<Rightarrow> [])"

lemma incoming_id: "dget_or (incoming_entry label m) ''id'' x = dget_or m ''id'' x"
  by (simp add: incoming_entry_def dget_or_def dsetdefault_def)

lemma merge_known:
  assumes "memdb_ok db" "merge_incoming env label vs a b db = ((x, y), db')"
  shows "(\<forall>j. find_row j db \<noteq> None \<longrightarrow> find_row j db' \<noteq> None) \<and> b \<le> y
    \<and> (y = b \<longrightarrow> (\<forall>v \<in> set vs. sent_id v \<noteq> [] \<longrightarrow> find_row (sent_id v) db' \<noteq> None))"
  using assms
proof (induction vs arbitrary: a b db)
  case (Cons v vs)
  show ?case
  proof (cases "\<exists>m. v = JObj m")
    case False
    then have "merge_incoming env label vs a (Suc b) db = ((x, y), db')" using Cons.prems(2) by (cases v) auto
    from Cons.IH [OF Cons.prems(1) this] show ?thesis by auto
  next
    case True
    then obtain m where v: "v = JObj m" by blast
    obtain i d1 where up: "upsert_memory env True (incoming_entry label m) db = (i, d1)" by fastforce
    have ok: "memdb_ok d1" using upsert_ok [OF Cons.prems(1), of env True "incoming_entry label m"] by (simp add: up)
    note known = upsert_known [OF Cons.prems(1) up]
    show ?thesis
    proof (cases "sent_id v \<noteq> [] \<and> i \<noteq> sent_id v")
      case True
      then have "merge_incoming env label vs a (Suc b) d1 = ((x, y), db')"
        using Cons.prems(2) by (simp add: v up Let_def sent_id_def incoming_id)
      from Cons.IH [OF ok this] known(2) show ?thesis by auto
    next
      case False
      then have "merge_incoming env label vs (Suc a) b d1 = ((x, y), db')"
        using Cons.prems(2) by (auto simp: v up Let_def sent_id_def incoming_id)
      from Cons.IH [OF ok this] known False show ?thesis by auto
    qed
  qed
qed simp


section \<open>Witness\<close>

definition demo_peer_env :: peer_env where
  "demo_peer_env = \<lparr>pe_web = demo_web_env, pe_sync = demo_sync_env ''public'', pe_sync_ok = True, pe_registry = [], pe_state = Missing, pe_latency = 1\<rparr>"

definition demo_site :: peer_site where
  "demo_site = gate.extend empty_gate \<lparr>sync = demo_sync True\<rparr>"

definition pusher :: Web_Gate.request where
  "pusher = \<lparr>peer_host = Some ''10.0.0.9'', headers = [(''x-api-key'', ''k'')]\<rparr>"

lemma push_answered:
  assumes "require_scope conf (pe_web env) r ''command'' w = (Inr c, w1)" "pe_sync_ok env" "validate_peer_secret conf r = Inr ()"
  shows "\<exists>n m w'. sync_push_memories conf env pushed label r w = (Inr (n, m), w')"
  using assms by (simp add: sync_push_memories_def sync_endpoint_def act_bind_def act_of_def on_sync_def lift_db_def split: prod.split)

lemma key_passes:
  assumes "api_key conf \<noteq> []" "header r ''x-api-key'' = api_key conf"
  shows "\<exists>c. require_scope conf env r s w = (Inr c, w)"
  using assms by (simp add: require_scope_def auth_context_def Let_def act_bind_def act_return_def full_ctx_def has_scope_def)


end
