(* ===== verification/Spec2Isabelle.thy ===== *)
theory Spec2Isabelle
  imports Listener Confirmation Live_Class Public_Records Device_Sync Public_Chat Dashboard_State Automation_Skill Recent_Log Web_Api Device_Registry Ai_Connector Live_Socket Web_State Web_Sync
begin

text \<open>
  Verification development of the Jarvis platform, a personal assistant of several Python processes that share a directory:
  the HI layer (\<open>Kingofyadav/\<close>) owns the state of its human, the AI layer (\<open>Jarvis/\<close>) understands commands and
  carries them out, a daemon (\<open>automation/\<close>) fires rules, a web service (\<open>web/\<close>) serves visitors, the owner and other
  devices, and \<open>shared/\<close> holds the message bus between them.

  Base. \<open>Prelude\<close> has errors as values (\<open>outcome\<close>), effectful calls that keep what was written before an exception
  (\<open>act\<close>), Python's slices, dicts in insertion order, and the frame rules \<open>keeps\<close>, \<open>yields\<close>, \<open>preserves\<close> that
  carry most invariant proofs. \<open>PyStr\<close>, \<open>PyValue\<close>, \<open>PyJson\<close>, \<open>PyDump\<close>, \<open>PyRegex\<close> and \<open>Clock\<close> model the
  strings, JSON values, \<open>json.loads\<close> and \<open>json.dumps\<close>, regular expressions and ISO times the code uses. A character is an
  8-bit code, a float one that prints without an exponent.

  HI layer. \<open>Validate_State\<close> is \<open>validate_state.py\<close>, \<open>HI_State\<close> the state manager with profile, preferences and workflow,
  \<open>Memory_Store\<close> the SQLite store as two tables with its graph and retention, \<open>HI_Memory\<close> the memory operations and the
  maintenance scripts, \<open>HI_Handler\<close> and \<open>Listener\<close> the handler and one pass of the listener on both buses. Shown: the
  normalised state is a fixed point with valid memories, identifiers are generated once, the tables stay consistent under every
  operation, the graph search is a bounded reachability, retention removes exactly what has expired, a served request is answered.

  Bus. \<open>Message\<close> is the contract, \<open>Bus_File\<close> and \<open>Bus_Sqlite\<close> the two back ends, \<open>Event_Journal\<close> the journal.
  A wait for a response takes the steps of the other processes as a list, one per round, so the list is the bound and every wait
  returns. Shown: what is sent is received once and in order of priority; a claimed row is not handed out again before it is stale.

  AI layer. \<open>Profiles\<close>, \<open>Commands\<close>, \<open>Intents\<close>, \<open>Shell\<close>, \<open>Actions\<close>, \<open>Router\<close> and \<open>Confirmation\<close> are
  \<open>profile_manager.py\<close>, the registry with its skills, the parser, the shell command with its allow-list, the other actions, the
  router with its confirmations, and the histories of requests. Shown: a program runs only for a request of the history that named
  it, a high-risk one only after a confirmation in time, and only with permitted arguments.

  Automation. \<open>Rules\<close>, \<open>Scheduler\<close>, \<open>Automation\<close> model rules, jobs and ticks of the daemon. Shown: effects come from
  permitted rules only, high risk goes through the queue of approvals, cooldowns hold; and a valid rule that ends the daemon.

  Web and devices. \<open>Web_Gate\<close> (addresses, tokens, scopes, rate limit), \<open>Live_Class\<close>, \<open>Public_Records\<close> (forms and the
  registry of administrators as text logs), \<open>Public_Chat\<close>, \<open>Dashboard_State\<close>, \<open>Device_Sync\<close>. Shown: no scope without
  credentials (but for the forged address), the limit of calls, what may leave the device, what the model of the chat gets to see.

  Interfaces are locales with an interpretation on the model: the reading of both buses, the stores the operations share, the
  collections kept by key. Parameters, for code that is not in the repository or only reads the machine: clocks, random
  identifiers, hashes, processes, HTTP answers, the AI providers. Each is an argument or a field of an environment record.

  Not modelled. Files are values and file locks are atomic steps; interleavings are steps between calls. Voice, speech, the AI
  clients, system information, the Streamlit pages and the scripts are input and output around the parts above; the manifest lists
  them with the reason.
\<close>

end
